(* ===== verification/Prelude.thy ===== *)
theory Prelude
  imports Main "HOL-Library.Word"
begin

unbundle bit_operations_syntax

text \<open>
  Shared vocabulary of the development.

  Part 1 is the vocabulary of the EVM contracts: machine types, the errors of
  \<^verbatim>\<open>contracts/interfaces/IErrorsRegistries.sol\<close>, the result type \<open>'a res\<close> (a revert is an
  \<open>Inl\<close>), checked arithmetic, and the finite sums the accounting invariants are made of.
  Part 2 is a handful of facts about lists, maps and strings used by several components.

  Amounts and counters (\<^verbatim>\<open>uint96\<close>, \<^verbatim>\<open>uint32\<close>) are \<^typ>\<open>nat\<close> with Solidity 0.8's overflow
  check written out by \<open>chk_add\<close> and \<open>chk_sub\<close>; identifiers, addresses and map keys, which are
  compared, shifted and packed but never added up, are machine words of their width.
\<close>

section \<open>Machine types and errors\<close>

type_synonym address = "160 word"
type_synonym uint256 = "256 word"
type_synonym bytes32 = "256 word"
type_synonym uint32 = "32 word"

named_theorems res_simps \<open>how the result type computes\<close>
named_theorems reg_defs \<open>unfolding of registry operations\<close>

text \<open>
  \<open>AlreadyInitialized\<close> and the two after it are errors of \<^verbatim>\<open>contracts/ServiceManager.sol\<close> and
  \<^verbatim>\<open>contracts/ServiceRegistryTokenUtility.sol\<close>.
  \<open>Panic\<close> is the revert of a failed arithmetic or array-bounds check, \<open>Require\<close> the revert of a
  \<^verbatim>\<open>require\<close> with a reason string (ERC721), \<open>CallReverted\<close> a revert bubbling up from a callee.
\<close>

datatype error =
    ManagerOnly address address
  | OwnerOnly address address
  | HashExists
  | ZeroAddress
  | WrongAgentId nat
  | WrongArrayLength nat nat
  | AgentNotFound uint256
  | ComponentNotFound uint256
  | WrongThreshold nat nat nat
  | AgentInstanceRegistered address
  | WrongOperator uint256
  | OperatorHasNoInstances address uint256
  | AgentNotInService nat uint256
  | Paused
  | ZeroValue
  | Overflow nat nat
  | ServiceMustBeInactive uint256
  | AgentInstancesSlotsFilled uint256
  | WrongServiceState nat uint256
  | OnlyOwnServiceMultisig address address uint256
  | UnauthorizedMultisig address
  | IncorrectRegistrationDepositValue nat nat uint256
  | IncorrectAgentBondingValue nat nat uint256
  | TransferFailed address address address nat
  | ReentrancyGuard
  | AlreadyInitialized
  | MultisigAlreadyBound address uint256 uint256
  | TokenRejected address
  | Panic
  | Require string
  | CallReverted

type_synonym 'a res = "error + 'a"

definition rbind :: "('e + 'a) \<Rightarrow> ('a \<Rightarrow> 'e + 'b) \<Rightarrow> 'e + 'b" where
  "rbind m f = (case m of Inl e \<Rightarrow> Inl e | Inr x \<Rightarrow> f x)"

lemma rbind_simps [simp, res_simps]:
  "rbind (Inl e) f = Inl e"
  "rbind (Inr x) f = f x"
  by (simp_all add: rbind_def)

lemma rbind_Inr_iff: "rbind m f = Inr y \<longleftrightarrow> (\<exists>x. m = Inr x \<and> f x = Inr y)"
  by (cases m) simp_all

lemma rbind_Inr_elim [elim!]:
  assumes "rbind m f = Inr y"
  obtains x where "m = Inr x" and "f x = Inr y"
  using assms by (auto simp: rbind_Inr_iff)

lemma rbind_assoc: "rbind (rbind m f) g = rbind m (\<lambda>x. rbind (f x) g)"
  by (cases m) simp_all

text \<open>Checked addition and subtraction on \<open>w\<close>-bit unsigned values.\<close>

definition chk_add :: "nat \<Rightarrow> nat \<Rightarrow> nat \<Rightarrow> nat res" where
  "chk_add w a b = (if a + b < 2 ^ w then Inr (a + b) else Inl Panic)"

definition chk_sub :: "nat \<Rightarrow> nat \<Rightarrow> nat res" where
  "chk_sub a b = (if b \<le> a then Inr (a - b) else Inl Panic)"

lemma chk_add_Inr_iff [simp]: "chk_add w a b = Inr c \<longleftrightarrow> c = a + b \<and> a + b < 2 ^ w"
  by (auto simp: chk_add_def)

lemma chk_sub_Inr_iff [simp]: "chk_sub a b = Inr c \<longleftrightarrow> b \<le> a \<and> c = a - b"
  by (auto simp: chk_sub_def)

lemma unat_of_nat_uint256: "n < 2 ^ 256 \<Longrightarrow> unat (of_nat n :: uint256) = n"
  by (simp add: unat_of_nat)

section \<open>Sums over finite domains\<close>

text \<open>
  A Solidity mapping is total with default zero; its key type is finite, so \<open>\<Sum>k\<in>UNIV\<close> adds all
  of its entries up. One update changes the total by the difference at that key.
\<close>

lemma sum_fun_upd:
  fixes f :: "'k::finite \<Rightarrow> nat"
  shows "(\<Sum>k\<in>UNIV. (f(i := v)) k) + f i = (\<Sum>k\<in>UNIV. f k) + v"
proof -
  have "(\<Sum>k\<in>UNIV. (f(i := v)) k) = v + (\<Sum>k\<in>UNIV - {i}. (f(i := v)) k)"
    by (subst sum.remove [of UNIV i]) auto
  also have "(\<Sum>k\<in>UNIV - {i}. (f(i := v)) k) = (\<Sum>k\<in>UNIV - {i}. f k)"
    by (rule sum.cong) auto
  finally have upd: "(\<Sum>k\<in>UNIV. (f(i := v)) k) = v + (\<Sum>k\<in>UNIV - {i}. f k)" .
  have "(\<Sum>k\<in>UNIV. f k) = f i + (\<Sum>k\<in>UNIV - {i}. f k)"
    by (subst sum.remove [of UNIV i]) auto
  with upd show ?thesis by simp
qed

lemma sum_fun_upd_comp:
  fixes g :: "'v \<Rightarrow> nat" and f :: "'k::finite \<Rightarrow> 'v"
  shows "(\<Sum>k\<in>UNIV. g ((f(i := v)) k)) + g (f i) = (\<Sum>k\<in>UNIV. g (f k)) + g v"
proof -
  have "(\<lambda>k. g ((f(i := v)) k)) = (\<lambda>k. g (f k))(i := g v)"
    by auto
  then have "(\<Sum>k\<in>UNIV. g ((f(i := v)) k)) = (\<Sum>k\<in>UNIV. ((\<lambda>k. g (f k))(i := g v)) k)"
    by (rule arg_cong)
  then show ?thesis
    using sum_fun_upd [of "\<lambda>k. g (f k)" i "g v"] by (simp only:)
qed

text \<open>A word below a power of two has no higher bits.\<close>

lemma take_bit_small: "unat w < 2 ^ n \<Longrightarrow> take_bit n (w :: 'a::len word) = w"
  by (rule word_unat_eq_iff [THEN iffD2]) (simp add: unsigned_take_bit_eq take_bit_nat_eq_self)

lemma not_bit_small: "unat w < 2 ^ n \<Longrightarrow> n \<le> m \<Longrightarrow> \<not> bit (w :: 'a::len word) m"
  by (metis bit_take_bit_iff not_le take_bit_small)

end
