(* ===== verification/Generic_Registry.thy ===== *)
theory Generic_Registry
  imports Prelude
begin

text \<open>
  The abstract contract \<^verbatim>\<open>contracts/GenericRegistry.sol\<close> and the parts of the ERC721 base it
  inherits (the solmate contract, read from the flattened source
  \<^verbatim>\<open>audits/internal/analysis/contracts/GenericRegistry-flatten.sol\<close>).

  The storage is the record \<open>generic_registry\<close>; the concrete registries extend it, as the Solidity
  contracts inherit it, and the operations here are stated for every extension. Emitted events
  are appended to the field \<open>events\<close>. An external call is a predicate of the environment
  \<open>env\<close>: it says whether the callee accepts; the callee does not call back.
\<close>

section \<open>Storage, events and environment\<close>

datatype event =
    OwnerUpdated address
  | ManagerUpdated address
  | BaseURIChanged string
  | Transfer address address uint256
  | Approval address address uint256
  | ApprovalForAll address address bool
  | DrainerUpdated address
  | Deposit address nat
  | Refund address nat
  | CreateService uint256 bytes32
  | UpdateService uint256 bytes32
  | RegisterInstance address uint256 address uint32
  | CreateMultisigWithAgents uint256 address
  | ActivateRegistration uint256
  | TerminateService uint256
  | OperatorSlashed nat address uint256
  | OperatorUnbond address uint256
  | DeployService uint256
  | Drain address nat
  | CreateUnit uint256 nat bytes32
  | UpdateUnitHash uint256 nat bytes32

record generic_registry =
  owner :: address
  manager :: address
  baseURI :: string
  totalSupply :: uint256
  locked :: nat
  ownerOf_map :: "uint256 \<Rightarrow> address"
  balanceOf_map :: "address \<Rightarrow> uint256"
  getApproved :: "uint256 \<Rightarrow> address"
  isApprovedForAll :: "address \<Rightarrow> address \<Rightarrow> bool"
  events :: "event list"

text \<open>
  What the code outside the registry decides: whether an address is a contract whose
  \<^verbatim>\<open>onERC721Received\<close> refuses the token, whether a receiver accepts ether, and what a multisig
  implementation's \<^verbatim>\<open>create\<close> returns (\<open>None\<close> when it reverts).
\<close>

record env =
  nft_accepts :: "address \<Rightarrow> address \<Rightarrow> uint256 \<Rightarrow> bool"
  eth_accepts :: "address \<Rightarrow> nat \<Rightarrow> bool"
  multisig_create :: "address \<Rightarrow> address list \<Rightarrow> nat \<Rightarrow> nat list \<Rightarrow> address option"

definition emit :: "event \<Rightarrow> 'a generic_registry_scheme \<Rightarrow> 'a generic_registry_scheme" where
  [simp, reg_defs]: "emit e s = s\<lparr>events := events s @ [e]\<rparr>"

section \<open>ERC721\<close>

definition ownerOf :: "uint256 \<Rightarrow> 'a generic_registry_scheme \<Rightarrow> address res" where
  "ownerOf tid s = (if ownerOf_map s tid = 0 then Inl (Require ''NOT_MINTED'') else Inr (ownerOf_map s tid))"

definition balanceOf :: "address \<Rightarrow> 'a generic_registry_scheme \<Rightarrow> uint256 res" where
  "balanceOf a s = (if a = 0 then Inl (Require ''ZERO_ADDRESS'') else Inr (balanceOf_map s a))"

definition approve ::
    "address \<Rightarrow> address \<Rightarrow> uint256 \<Rightarrow> 'a generic_registry_scheme \<Rightarrow> 'a generic_registry_scheme res" where
  "approve sender spender tid s =
     (let own = ownerOf_map s tid in
      if \<not> (sender = own \<or> isApprovedForAll s own sender) then Inl (Require ''NOT_AUTHORIZED'')
      else Inr (emit (Approval own spender tid) (s\<lparr>getApproved := (getApproved s)(tid := spender)\<rparr>)))"

definition setApprovalForAll ::
    "address \<Rightarrow> address \<Rightarrow> bool \<Rightarrow> 'a generic_registry_scheme \<Rightarrow> 'a generic_registry_scheme" where
  "setApprovalForAll sender operator approved s =
     emit (ApprovalForAll sender operator approved)
       (s\<lparr>isApprovedForAll := (isApprovedForAll s)
            (sender := (isApprovedForAll s sender)(operator := approved))\<rparr>)"

text \<open>The two balance updates are \<^verbatim>\<open>unchecked\<close> in the source: word arithmetic wraps.\<close>

definition transferFrom ::
    "address \<Rightarrow> address \<Rightarrow> address \<Rightarrow> uint256 \<Rightarrow> 'a generic_registry_scheme
       \<Rightarrow> 'a generic_registry_scheme res" where
  "transferFrom sender from to tid s =
     (if from \<noteq> ownerOf_map s tid then Inl (Require ''WRONG_FROM'')
      else if to = 0 then Inl (Require ''INVALID_RECIPIENT'')
      else if \<not> (sender = from \<or> isApprovedForAll s from sender \<or> sender = getApproved s tid)
        then Inl (Require ''NOT_AUTHORIZED'')
      else
        (let b = (balanceOf_map s)(from := balanceOf_map s from - 1);
             b' = b(to := b to + 1) in
         Inr (emit (Transfer from to tid)
           (s\<lparr>balanceOf_map := b', ownerOf_map := (ownerOf_map s)(tid := to),
              getApproved := (getApproved s)(tid := 0)\<rparr>))))"

definition safeTransferFrom ::
    "env \<Rightarrow> address \<Rightarrow> address \<Rightarrow> address \<Rightarrow> uint256 \<Rightarrow> 'a generic_registry_scheme
       \<Rightarrow> 'a generic_registry_scheme res" where
  "safeTransferFrom E sender from to tid s =
     rbind (transferFrom sender from to tid s) (\<lambda>s'.
       if nft_accepts E from to tid then Inr s' else Inl (Require ''UNSAFE_RECIPIENT''))"

definition mint ::
    "address \<Rightarrow> uint256 \<Rightarrow> 'a generic_registry_scheme \<Rightarrow> 'a generic_registry_scheme res" where
  "mint to tid s =
     (if to = 0 then Inl (Require ''INVALID_RECIPIENT'')
      else if ownerOf_map s tid \<noteq> 0 then Inl (Require ''ALREADY_MINTED'')
      else Inr (emit (Transfer 0 to tid)
        (s\<lparr>balanceOf_map := (balanceOf_map s)(to := balanceOf_map s to + 1),
           ownerOf_map := (ownerOf_map s)(tid := to)\<rparr>)))"

definition safeMint ::
    "env \<Rightarrow> address \<Rightarrow> uint256 \<Rightarrow> 'a generic_registry_scheme \<Rightarrow> 'a generic_registry_scheme res" where
  "safeMint E to tid s =
     rbind (mint to tid s) (\<lambda>s'.
       if nft_accepts E 0 to tid then Inr s' else Inl (Require ''UNSAFE_RECIPIENT''))"

section \<open>The registry's own operations\<close>

definition changeOwner ::
    "address \<Rightarrow> address \<Rightarrow> 'a generic_registry_scheme \<Rightarrow> 'a generic_registry_scheme res" where
  "changeOwner sender newOwner s =
     (if sender \<noteq> owner s then Inl (OwnerOnly sender (owner s))
      else if newOwner = 0 then Inl ZeroAddress
      else Inr (emit (OwnerUpdated newOwner) (s\<lparr>owner := newOwner\<rparr>)))"

definition changeManager ::
    "address \<Rightarrow> address \<Rightarrow> 'a generic_registry_scheme \<Rightarrow> 'a generic_registry_scheme res" where
  "changeManager sender newManager s =
     (if sender \<noteq> owner s then Inl (OwnerOnly sender (owner s))
      else if newManager = 0 then Inl ZeroAddress
      else Inr (emit (ManagerUpdated newManager) (s\<lparr>manager := newManager\<rparr>)))"

text \<open>\<^verbatim>\<open>totalSupply + 1\<close> is checked: the last token id would make \<open>exists\<close> revert.\<close>

definition exists_unit :: "uint256 \<Rightarrow> 'a generic_registry_scheme \<Rightarrow> bool res" where
  "exists_unit unitId s =
     (if unitId > 0 then rbind (chk_add 256 (unat (totalSupply s)) 1) (\<lambda>n. Inr (unat unitId < n))
      else Inr False)"

definition setBaseURI ::
    "address \<Rightarrow> string \<Rightarrow> 'a generic_registry_scheme \<Rightarrow> 'a generic_registry_scheme res" where
  "setBaseURI sender bURI s =
     (if sender \<noteq> owner s then Inl (OwnerOnly sender (owner s))
      else if bURI = [] then Inl ZeroValue
      else Inr (emit (BaseURIChanged bURI) (s\<lparr>baseURI := bURI\<rparr>)))"

definition tokenByIndex :: "uint256 \<Rightarrow> 'a generic_registry_scheme \<Rightarrow> nat res" where
  "tokenByIndex tid s =
     rbind (chk_add 256 (unat tid) 1) (\<lambda>unitId.
       if unitId > unat (totalSupply s) then Inl (Overflow unitId (unat (totalSupply s)))
       else Inr unitId)"

end
