(* ===== verification/Service_Registry_L2.thy ===== *)
theory Service_Registry_L2
  imports Generic_Registry
begin

text \<open>
  The contract \<^verbatim>\<open>contracts/ServiceRegistryL2.sol\<close>: services, their registration, bonding,
  deployment, slashing, termination and unbonding. This theory holds the data model and one
  definition per function, in the order of the source; the invariants are in
  \<^verbatim>\<open>Service_Registry_Invariants\<close>.

  A Solidity mapping is a total function with default value; the packed keys are computed on
  256-bit words exactly as the source packs them. A function that reverts returns \<open>Inl\<close> and leaves no
  state behind. The payable functions take the value sent with the call; the contract's ether
  balance is the field \<open>ethBalance\<close>, credited at the entry of a payable function and debited by
  \<open>send_eth\<close>.
\<close>

section \<open>Data\<close>

record AgentParams =
  slots :: nat
  bond :: nat

record AgentInstance =
  inst_addr :: address
  inst_agentId :: uint32

datatype ServiceState =
  NonExistent | PreRegistration | ActiveRegistration | FinishedRegistration | Deployed | TerminatedBonded

primrec state_code :: "ServiceState \<Rightarrow> nat" where
  "state_code NonExistent = 0"
| "state_code PreRegistration = 1"
| "state_code ActiveRegistration = 2"
| "state_code FinishedRegistration = 3"
| "state_code Deployed = 4"
| "state_code TerminatedBonded = 5"

record Service =
  securityDeposit :: nat
  multisig :: address
  configHash :: bytes32
  threshold :: nat
  maxNumAgentInstances :: nat
  numAgentInstances :: nat
  state :: ServiceState
  agentIds :: "uint32 list"

definition empty_service :: Service where
  "empty_service = \<lparr>securityDeposit = 0, multisig = 0, configHash = 0, threshold = 0,
     maxNumAgentInstances = 0, numAgentInstances = 0, state = NonExistent, agentIds = []\<rparr>"

definition no_params :: AgentParams where
  "no_params = \<lparr>slots = 0, bond = 0\<rparr>"

record service_registry = generic_registry +
  slashedFunds :: nat
  drainer :: address
  mapConfigHashes :: "uint256 \<Rightarrow> bytes32 list"
  mapOperatorAndServiceIdAgentInstances :: "uint256 \<Rightarrow> AgentInstance list"
  mapServiceAndAgentIdAgentParams :: "uint256 \<Rightarrow> AgentParams"
  mapServiceAndAgentIdAgentInstances :: "uint256 \<Rightarrow> address list"
  mapOperatorAndServiceIdOperatorBalances :: "uint256 \<Rightarrow> nat"
  mapAgentInstanceOperators :: "address \<Rightarrow> address"
  mapMultisigs :: "address \<Rightarrow> bool"
  mapServices :: "uint256 \<Rightarrow> Service"
  ethBalance :: nat

text \<open>The two packed keys: \<^verbatim>\<open>serviceId | agentId << 32\<close> and \<^verbatim>\<open>operator | serviceId << 160\<close>.\<close>

definition serviceAgent :: "uint256 \<Rightarrow> uint32 \<Rightarrow> uint256" where
  "serviceAgent serviceId agentId = serviceId OR push_bit 32 (ucast agentId)"

definition operatorService :: "address \<Rightarrow> uint256 \<Rightarrow> uint256" where
  "operatorService operator serviceId = ucast operator OR push_bit 160 serviceId"

definition new_registry :: "address \<Rightarrow> string \<Rightarrow> service_registry" where
  "new_registry deployer uri =
     \<lparr>owner = deployer, manager = 0, baseURI = uri, totalSupply = 0, locked = 1,
      ownerOf_map = (\<lambda>_. 0), balanceOf_map = (\<lambda>_. 0), getApproved = (\<lambda>_. 0),
      isApprovedForAll = (\<lambda>_ _. False), events = [],
      slashedFunds = 0, drainer = 0, mapConfigHashes = (\<lambda>_. []),
      mapOperatorAndServiceIdAgentInstances = (\<lambda>_. []),
      mapServiceAndAgentIdAgentParams = (\<lambda>_. no_params),
      mapServiceAndAgentIdAgentInstances = (\<lambda>_. []),
      mapOperatorAndServiceIdOperatorBalances = (\<lambda>_. 0),
      mapAgentInstanceOperators = (\<lambda>_. 0), mapMultisigs = (\<lambda>_. False),
      mapServices = (\<lambda>_. empty_service), ethBalance = 0\<rparr>"

text \<open>\<^verbatim>\<open>(bool result, ) = to.call{value: amount}("")\<close>: fails on a short balance or a refusing callee.\<close>

definition send_eth :: "env \<Rightarrow> address \<Rightarrow> nat \<Rightarrow> service_registry \<Rightarrow> service_registry option" where
  "send_eth E to amount s =
     (if amount \<le> ethBalance s \<and> eth_accepts E to amount
      then Some (s\<lparr>ethBalance := ethBalance s - amount\<rparr>) else None)"

section \<open>Owner functions and service creation\<close>

definition changeDrainer :: "address \<Rightarrow> address \<Rightarrow> service_registry \<Rightarrow> service_registry res" where
  "changeDrainer sender newDrainer s =
     (if sender \<noteq> owner s then Inl (OwnerOnly sender (owner s))
      else if newDrainer = 0 then Inl ZeroAddress
      else Inr (emit (DrainerUpdated newDrainer) (s\<lparr>drainer := newDrainer\<rparr>)))"

fun check_agentIds :: "nat \<Rightarrow> uint32 list \<Rightarrow> unit res" where
  "check_agentIds lastId [] = Inr ()"
| "check_agentIds lastId (a # as) =
     (if unat a < lastId + 1 then Inl (WrongAgentId (unat a)) else check_agentIds (unat a) as)"

definition initialChecks :: "bytes32 \<Rightarrow> uint32 list \<Rightarrow> AgentParams list \<Rightarrow> unit res" where
  "initialChecks hash ids params =
     (if hash = 0 then Inl ZeroValue
      else if ids = [] \<or> length ids \<noteq> length params
        then Inl (WrongArrayLength (length ids) (length params))
      else check_agentIds 0 ids)"

text \<open>
  \<^verbatim>\<open>_setServiceData\<close>: the loop over the canonical agent ids fills the slots map and accumulates the
  number of instances (checked at 32 bits) and the largest bond; then the threshold check,
  whose bound \<open>\<lceil>(2 n + 1) / 3\<rceil>\<close> is computed in 32-bit checked arithmetic.
\<close>

fun setServiceData_loop ::
    "uint256 \<Rightarrow> (uint32 \<times> AgentParams) list \<Rightarrow> nat \<Rightarrow> nat \<Rightarrow> (uint256 \<Rightarrow> AgentParams)
       \<Rightarrow> (nat \<times> nat \<times> (uint256 \<Rightarrow> AgentParams)) res" where
  "setServiceData_loop serviceId [] maxNum deposit m = Inr (maxNum, deposit, m)"
| "setServiceData_loop serviceId ((a, p) # rest) maxNum deposit m =
     rbind (chk_add 32 maxNum (slots p)) (\<lambda>maxNum'.
       setServiceData_loop serviceId rest maxNum'
         (if bond p > deposit then bond p else deposit) (m(serviceAgent serviceId a := p)))"

definition minThreshold :: "nat \<Rightarrow> nat" where
  "minThreshold n = (let c = 2 * n + 1 in if c mod 3 = 0 then c div 3 else c div 3 + 1)"

definition setServiceData ::
    "Service \<Rightarrow> uint32 list \<Rightarrow> AgentParams list \<Rightarrow> uint256 \<Rightarrow> (uint256 \<Rightarrow> AgentParams)
       \<Rightarrow> (Service \<times> (uint256 \<Rightarrow> AgentParams)) res" where
  "setServiceData service ids params serviceId m =
     rbind (setServiceData_loop serviceId (zip ids params) (maxNumAgentInstances service) 0 m)
       (\<lambda>(maxNum, deposit, m').
         rbind (chk_add 32 maxNum maxNum) (\<lambda>twice. rbind (chk_add 32 twice 1) (\<lambda>_.
           if threshold service < minThreshold maxNum \<or> threshold service > maxNum
           then Inl (WrongThreshold (threshold service) (minThreshold maxNum) maxNum)
           else Inr (service\<lparr>agentIds := ids, maxNumAgentInstances := maxNum,
                             securityDeposit := deposit\<rparr>, m'))))"

definition create ::
    "env \<Rightarrow> address \<Rightarrow> address \<Rightarrow> bytes32 \<Rightarrow> uint32 list \<Rightarrow> AgentParams list \<Rightarrow> nat
       \<Rightarrow> service_registry \<Rightarrow> (uint256 \<times> service_registry) res" where
  "create E sender serviceOwner hash ids params thr s =
     (if locked s > 1 then Inl ReentrancyGuard
      else if manager s \<noteq> sender then Inl (ManagerOnly sender (manager s))
      else if serviceOwner = 0 then Inl ZeroAddress
      else rbind (initialChecks hash ids params) (\<lambda>_.
        if list_ex (\<lambda>p. slots p = 0 \<or> bond p = 0) params then Inl ZeroValue
        else rbind (chk_add 256 (unat (totalSupply s)) 1) (\<lambda>n.
          let serviceId = of_nat n;
              service = empty_service\<lparr>threshold := thr, configHash := hash, state := PreRegistration\<rparr>
          in rbind (setServiceData service ids params serviceId (mapServiceAndAgentIdAgentParams s))
            (\<lambda>(service', m).
              rbind (safeMint E serviceOwner serviceId
                  (s\<lparr>locked := 2, mapServiceAndAgentIdAgentParams := m,
                     mapServices := (mapServices s)(serviceId := service'),
                     totalSupply := serviceId\<rparr>))
                (\<lambda>s'. Inr (serviceId,
                  (emit (CreateService serviceId hash) s')\<lparr>locked := 1\<rparr>))))))"

text \<open>
  \<^verbatim>\<open>update\<close> removes the parameters of the ids passed with zero slots and keeps the rest; ids of the
  previous setup that the call does not mention keep their parameters.
\<close>

fun update_delete_loop ::
    "uint256 \<Rightarrow> (uint32 \<times> AgentParams) list \<Rightarrow> (uint256 \<Rightarrow> AgentParams) \<Rightarrow> (uint256 \<Rightarrow> AgentParams)" where
  "update_delete_loop serviceId [] m = m"
| "update_delete_loop serviceId ((a, p) # rest) m =
     update_delete_loop serviceId rest
       (if slots p = 0 then m(serviceAgent serviceId a := no_params) else m)"

definition kept :: "(uint32 \<times> AgentParams) list \<Rightarrow> (uint32 \<times> AgentParams) list" where
  "kept = filter (\<lambda>(a, p). slots p \<noteq> 0)"

definition update ::
    "address \<Rightarrow> address \<Rightarrow> bytes32 \<Rightarrow> uint32 list \<Rightarrow> AgentParams list \<Rightarrow> nat \<Rightarrow> uint256
       \<Rightarrow> service_registry \<Rightarrow> (bool \<times> service_registry) res" where
  "update sender serviceOwner hash ids params thr serviceId s =
     (if manager s \<noteq> sender then Inl (ManagerOnly sender (manager s))
      else rbind (ownerOf serviceId s) (\<lambda>actualOwner.
        if actualOwner \<noteq> serviceOwner then Inl (OwnerOnly serviceOwner actualOwner)
        else let service = mapServices s serviceId in
        if state service \<noteq> PreRegistration
          then Inl (WrongServiceState (state_code (state service)) serviceId)
        else rbind (initialChecks hash ids params) (\<lambda>_.
          let service1 = service\<lparr>threshold := thr, maxNumAgentInstances := 0\<rparr>;
              m = update_delete_loop serviceId (zip ids params) (mapServiceAndAgentIdAgentParams s);
              new = kept (zip ids params);
              lastHash = configHash service1;
              hashes = (if lastHash \<noteq> hash
                then (mapConfigHashes s)(serviceId := mapConfigHashes s serviceId @ [lastHash])
                else mapConfigHashes s);
              service2 = (if lastHash \<noteq> hash then service1\<lparr>configHash := hash\<rparr> else service1)
          in rbind (setServiceData service2 (map fst new) (map snd new) serviceId m)
            (\<lambda>(service', m').
              Inr (True, emit (UpdateService serviceId hash)
                (s\<lparr>mapConfigHashes := hashes, mapServiceAndAgentIdAgentParams := m',
                   mapServices := (mapServices s)(serviceId := service')\<rparr>))))))"

section \<open>Registration and deployment\<close>

definition activateRegistration ::
    "address \<Rightarrow> nat \<Rightarrow> address \<Rightarrow> uint256 \<Rightarrow> service_registry \<Rightarrow> (bool \<times> service_registry) res" where
  "activateRegistration sender val serviceOwner serviceId s =
     (if manager s \<noteq> sender then Inl (ManagerOnly sender (manager s))
      else rbind (ownerOf serviceId s) (\<lambda>actualOwner.
        if actualOwner \<noteq> serviceOwner then Inl (OwnerOnly serviceOwner actualOwner)
        else let service = mapServices s serviceId in
        if state service \<noteq> PreRegistration then Inl (ServiceMustBeInactive serviceId)
        else if val \<noteq> securityDeposit service
          then Inl (IncorrectRegistrationDepositValue val (securityDeposit service) serviceId)
        else Inr (True, emit (ActivateRegistration serviceId)
          (s\<lparr>ethBalance := ethBalance s + val,
             mapServices := (mapServices s)(serviceId := service\<lparr>state := ActiveRegistration\<rparr>)\<rparr>))))"

fun totalBond_loop :: "service_registry \<Rightarrow> uint256 \<Rightarrow> uint32 list \<Rightarrow> nat \<Rightarrow> nat res" where
  "totalBond_loop s serviceId [] tot = Inr tot"
| "totalBond_loop s serviceId (a # as) tot =
     (let p = mapServiceAndAgentIdAgentParams s (serviceAgent serviceId a) in
      if slots p = 0 then Inl (AgentNotInService (unat a) serviceId)
      else rbind (chk_add 256 tot (bond p)) (\<lambda>tot'. totalBond_loop s serviceId as tot'))"

fun register_loop ::
    "address \<Rightarrow> uint256 \<Rightarrow> (address \<times> uint32) list \<Rightarrow> service_registry \<Rightarrow> service_registry res" where
  "register_loop operator serviceId [] s = Inr s"
| "register_loop operator serviceId ((agentInstance, agentId) # rest) s =
     (if operator = agentInstance then Inl (WrongOperator serviceId)
      else if mapAgentInstanceOperators s agentInstance \<noteq> 0
        then Inl (AgentInstanceRegistered (mapAgentInstanceOperators s agentInstance))
      else let k = serviceAgent serviceId agentId; ok = operatorService operator serviceId in
      if length (mapServiceAndAgentIdAgentInstances s k) = slots (mapServiceAndAgentIdAgentParams s k)
        then Inl (AgentInstancesSlotsFilled serviceId)
      else rbind (chk_add 32 (numAgentInstances (mapServices s serviceId)) 1) (\<lambda>n.
        register_loop operator serviceId rest
          (emit (RegisterInstance operator serviceId agentInstance agentId)
            (s\<lparr>mapServiceAndAgentIdAgentInstances := (mapServiceAndAgentIdAgentInstances s)
                 (k := mapServiceAndAgentIdAgentInstances s k @ [agentInstance]),
               mapOperatorAndServiceIdAgentInstances := (mapOperatorAndServiceIdAgentInstances s)
                 (ok := mapOperatorAndServiceIdAgentInstances s ok
                    @ [\<lparr>inst_addr = agentInstance, inst_agentId = agentId\<rparr>]),
               mapServices := (mapServices s)
                 (serviceId := (mapServices s serviceId)\<lparr>numAgentInstances := n\<rparr>),
               mapAgentInstanceOperators := (mapAgentInstanceOperators s)
                 (agentInstance := operator)\<rparr>))))"

text \<open>
  The end of \<^verbatim>\<open>registerAgents\<close>: a full service becomes finished-registration, and the operator's
  bonding balance grows by the value sent, truncated to 96 bits by the cast.
\<close>

definition registerAgents_finish ::
    "address \<Rightarrow> uint256 \<Rightarrow> nat \<Rightarrow> service_registry \<Rightarrow> (bool \<times> service_registry) res" where
  "registerAgents_finish operator serviceId val s =
     (let service = mapServices s serviceId;
          service' = (if numAgentInstances service = maxNumAgentInstances service
            then service\<lparr>state := FinishedRegistration\<rparr> else service);
          k = operatorService operator serviceId
      in rbind (chk_add 96 (mapOperatorAndServiceIdOperatorBalances s k) (val mod 2 ^ 96)) (\<lambda>bal.
        Inr (True, emit (Deposit operator val)
          (s\<lparr>mapServices := (mapServices s)(serviceId := service'),
             mapOperatorAndServiceIdOperatorBalances :=
               (mapOperatorAndServiceIdOperatorBalances s)(k := bal)\<rparr>))))"

definition registerAgents ::
    "address \<Rightarrow> nat \<Rightarrow> address \<Rightarrow> uint256 \<Rightarrow> address list \<Rightarrow> uint32 list
       \<Rightarrow> service_registry \<Rightarrow> (bool \<times> service_registry) res" where
  "registerAgents sender val operator serviceId instances ids s =
     (if manager s \<noteq> sender then Inl (ManagerOnly sender (manager s))
      else if length instances \<noteq> length ids
        then Inl (WrongArrayLength (length instances) (length ids))
      else if state (mapServices s serviceId) \<noteq> ActiveRegistration
        then Inl (WrongServiceState (state_code (state (mapServices s serviceId))) serviceId)
      else rbind (totalBond_loop s serviceId ids 0) (\<lambda>totalBond.
        if val \<noteq> totalBond then Inl (IncorrectAgentBondingValue val totalBond serviceId)
        else if mapAgentInstanceOperators s operator \<noteq> 0 then Inl (WrongOperator serviceId)
        else rbind (register_loop operator serviceId (zip instances ids)
            (s\<lparr>ethBalance := ethBalance s + val\<rparr>))
          (registerAgents_finish operator serviceId val)))"

text \<open>
  \<^verbatim>\<open>_getAgentInstances\<close> fills an array of length \<open>numAgentInstances\<close>: writing past its end panics,
  and entries never written stay the zero address.
\<close>

definition listed_instances :: "Service \<Rightarrow> uint256 \<Rightarrow> service_registry \<Rightarrow> address list" where
  "listed_instances service serviceId s =
     concat (map (\<lambda>a. mapServiceAndAgentIdAgentInstances s (serviceAgent serviceId a)) (agentIds service))"

definition getAgentInstances :: "Service \<Rightarrow> uint256 \<Rightarrow> service_registry \<Rightarrow> address list res" where
  "getAgentInstances service serviceId s =
     (let l = listed_instances service serviceId s in
      if length l > numAgentInstances service then Inl Panic
      else Inr (l @ replicate (numAgentInstances service - length l) 0))"

definition deploy ::
    "env \<Rightarrow> address \<Rightarrow> address \<Rightarrow> uint256 \<Rightarrow> address \<Rightarrow> nat list
       \<Rightarrow> service_registry \<Rightarrow> (address \<times> service_registry) res" where
  "deploy E sender serviceOwner serviceId impl data s =
     (if locked s > 1 then Inl ReentrancyGuard
      else if manager s \<noteq> sender then Inl (ManagerOnly sender (manager s))
      else rbind (ownerOf serviceId s) (\<lambda>actualOwner.
        if actualOwner \<noteq> serviceOwner then Inl (OwnerOnly serviceOwner actualOwner)
        else if \<not> mapMultisigs s impl then Inl (UnauthorizedMultisig impl)
        else let service = mapServices s serviceId in
        if state service \<noteq> FinishedRegistration
          then Inl (WrongServiceState (state_code (state service)) serviceId)
        else rbind (getAgentInstances service serviceId s) (\<lambda>instances.
          case multisig_create E impl instances (threshold service) data of
            None \<Rightarrow> Inl CallReverted
          | Some msig \<Rightarrow> Inr (msig,
              (emit (DeployService serviceId) (emit (CreateMultisigWithAgents serviceId msig)
                (s\<lparr>locked := 2, mapServices := (mapServices s)
                     (serviceId := service\<lparr>multisig := msig, state := Deployed\<rparr>)\<rparr>)))
                \<lparr>locked := 1\<rparr>))))"

section \<open>Slashing, termination, unbonding, draining\<close>

text \<open>One round of the slashing loop: \<^verbatim>\<open>amounts[i] + 1\<close> is checked at 96 bits.\<close>

definition slash_one :: "uint256 \<Rightarrow> address \<Rightarrow> nat \<Rightarrow> service_registry \<Rightarrow> service_registry res" where
  "slash_one serviceId agentInstance amount s =
     (let operator = mapAgentInstanceOperators s agentInstance;
          k = operatorService operator serviceId;
          bal = mapOperatorAndServiceIdOperatorBalances s k
      in rbind (chk_add 96 amount 1) (\<lambda>amount1.
        rbind (if amount1 > bal
          then rbind (chk_add 96 (slashedFunds s) bal) (\<lambda>f. Inr (f, 0))
          else rbind (chk_add 96 (slashedFunds s) amount) (\<lambda>f. Inr (f, bal - amount)))
        (\<lambda>(f, bal'). Inr (emit (OperatorSlashed amount operator serviceId)
          (s\<lparr>slashedFunds := f,
             mapOperatorAndServiceIdOperatorBalances :=
               (mapOperatorAndServiceIdOperatorBalances s)(k := bal')\<rparr>)))))"

fun slash_loop ::
    "uint256 \<Rightarrow> (address \<times> nat) list \<Rightarrow> service_registry \<Rightarrow> service_registry res" where
  "slash_loop serviceId [] s = Inr s"
| "slash_loop serviceId ((agentInstance, amount) # rest) s =
     rbind (slash_one serviceId agentInstance amount s) (slash_loop serviceId rest)"

definition slash ::
    "address \<Rightarrow> address list \<Rightarrow> nat list \<Rightarrow> uint256 \<Rightarrow> service_registry \<Rightarrow> (bool \<times> service_registry) res" where
  "slash sender instances amounts serviceId s =
     (let service = mapServices s serviceId in
      if state service \<noteq> Deployed
        then Inl (WrongServiceState (state_code (state service)) serviceId)
      else if length instances \<noteq> length amounts
        then Inl (WrongArrayLength (length instances) (length amounts))
      else if sender \<noteq> multisig service
        then Inl (OnlyOwnServiceMultisig sender (multisig service) serviceId)
      else rbind (slash_loop serviceId (zip instances amounts) s) (\<lambda>s'. Inr (True, s')))"

text \<open>The contract's own address \<open>this\<close> appears in the \<open>TransferFailed\<close> errors only.\<close>

definition terminate ::
    "env \<Rightarrow> address \<Rightarrow> address \<Rightarrow> address \<Rightarrow> uint256 \<Rightarrow> service_registry
       \<Rightarrow> ((bool \<times> nat) \<times> service_registry) res" where
  "terminate E this sender serviceOwner serviceId s =
     (if locked s > 1 then Inl ReentrancyGuard
      else if manager s \<noteq> sender then Inl (ManagerOnly sender (manager s))
      else rbind (ownerOf serviceId s) (\<lambda>actualOwner.
        if actualOwner \<noteq> serviceOwner then Inl (OwnerOnly serviceOwner actualOwner)
        else let service = mapServices s serviceId in
        if state service = PreRegistration \<or> state service = TerminatedBonded
          then Inl (WrongServiceState (state_code (state service)) serviceId)
        else
          let st = (if numAgentInstances service > 0 then TerminatedBonded else PreRegistration);
              del = fold (\<lambda>a m. m(serviceAgent serviceId a := [])) (agentIds service)
                      (mapServiceAndAgentIdAgentInstances s);
              refund = securityDeposit service;
              s1 = s\<lparr>locked := 2, mapServices := (mapServices s)(serviceId := service\<lparr>state := st\<rparr>),
                     mapServiceAndAgentIdAgentInstances := del\<rparr>
          in case send_eth E serviceOwner refund s1 of
               None \<Rightarrow> Inl (TransferFailed 0 this serviceOwner refund)
             | Some s2 \<Rightarrow> Inr ((True, refund),
                 (emit (TerminateService serviceId) (emit (Refund serviceOwner refund) s2))
                   \<lparr>locked := 1\<rparr>)))"

fun unbond_loop ::
    "uint256 \<Rightarrow> AgentInstance list \<Rightarrow> nat \<Rightarrow> service_registry \<Rightarrow> (nat \<times> service_registry) res" where
  "unbond_loop serviceId [] refund s = Inr (refund, s)"
| "unbond_loop serviceId (ai # rest) refund s =
     rbind (chk_add 256 refund
        (bond (mapServiceAndAgentIdAgentParams s (serviceAgent serviceId (inst_agentId ai)))))
       (\<lambda>refund'. unbond_loop serviceId rest refund'
         (s\<lparr>mapAgentInstanceOperators := (mapAgentInstanceOperators s)(inst_addr ai := 0)\<rparr>))"

text \<open>The service once \<open>n\<close> instances are left: with none left it goes back to pre-registration.\<close>

definition unbonded_service :: "Service \<Rightarrow> nat \<Rightarrow> Service" where
  "unbonded_service v n =
     (let v1 = v\<lparr>numAgentInstances := n\<rparr> in if n = 0 then v1\<lparr>state := PreRegistration\<rparr> else v1)"

text \<open>The refund of \<^verbatim>\<open>unbond\<close>: the bonds, or what slashing left of them.\<close>

definition unbond_refund ::
    "env \<Rightarrow> address \<Rightarrow> address \<Rightarrow> uint256 \<Rightarrow> nat \<Rightarrow> service_registry \<Rightarrow> (nat \<times> service_registry) res" where
  "unbond_refund E this operator serviceId bonds s =
     (let k = operatorService operator serviceId;
          bal = mapOperatorAndServiceIdOperatorBalances s k;
          refund = (if bonds > bal then bal else bonds)
      in if refund > 0 then
           (case send_eth E operator refund
               (s\<lparr>mapOperatorAndServiceIdOperatorBalances :=
                  (mapOperatorAndServiceIdOperatorBalances s)(k := 0)\<rparr>) of
              None \<Rightarrow> Inl (TransferFailed 0 this operator refund)
            | Some s1 \<Rightarrow> Inr (refund, emit (Refund operator refund) s1))
         else Inr (refund, s))"

definition unbond ::
    "env \<Rightarrow> address \<Rightarrow> address \<Rightarrow> address \<Rightarrow> uint256 \<Rightarrow> service_registry
       \<Rightarrow> ((bool \<times> nat) \<times> service_registry) res" where
  "unbond E this sender operator serviceId s =
     (if locked s > 1 then Inl ReentrancyGuard
      else if manager s \<noteq> sender then Inl (ManagerOnly sender (manager s))
      else if operator = 0 then Inl ZeroAddress
      else let service = mapServices s serviceId in
      if state service \<noteq> TerminatedBonded
        then Inl (WrongServiceState (state_code (state service)) serviceId)
      else
        let k = operatorService operator serviceId;
            instances = mapOperatorAndServiceIdAgentInstances s k;
            numAgentsUnbond = length instances
        in if numAgentsUnbond = 0 then Inl (OperatorHasNoInstances operator serviceId)
        else rbind (chk_sub (numAgentInstances service) (numAgentsUnbond mod 2 ^ 32)) (\<lambda>n.
          rbind (unbond_loop serviceId instances 0
              (s\<lparr>locked := 2, mapServices := (mapServices s)
                 (serviceId := unbonded_service service n)\<rparr>))
            (\<lambda>(bonds, s1).
              rbind (unbond_refund E this operator serviceId bonds
                  (s1\<lparr>mapOperatorAndServiceIdAgentInstances :=
                     (mapOperatorAndServiceIdAgentInstances s1)(k := [])\<rparr>))
                (\<lambda>(refund, s2). Inr ((True, refund),
                   (emit (OperatorUnbond operator serviceId) s2)\<lparr>locked := 1\<rparr>)))))"

definition changeMultisigPermission ::
    "address \<Rightarrow> address \<Rightarrow> bool \<Rightarrow> service_registry \<Rightarrow> (bool \<times> service_registry) res" where
  "changeMultisigPermission sender msig permission s =
     (if sender \<noteq> owner s then Inl (OwnerOnly sender (owner s))
      else if msig = 0 then Inl ZeroAddress
      else Inr (True, s\<lparr>mapMultisigs := (mapMultisigs s)(msig := permission)\<rparr>))"

definition drain :: "env \<Rightarrow> address \<Rightarrow> address \<Rightarrow> service_registry \<Rightarrow> (nat \<times> service_registry) res" where
  "drain E this sender s =
     (if locked s > 1 then Inl ReentrancyGuard
      else if sender \<noteq> drainer s then Inl (ManagerOnly sender (drainer s))
      else
        let amount = slashedFunds s in
        if amount > 0 then
          (case send_eth E sender amount (s\<lparr>locked := 2, slashedFunds := 0\<rparr>) of
             None \<Rightarrow> Inl (TransferFailed 0 this sender amount)
           | Some s1 \<Rightarrow> Inr (amount, (emit (Drain sender amount) s1)\<lparr>locked := 1\<rparr>))
        else Inr (amount, s\<lparr>locked := 1\<rparr>))"

section \<open>Views\<close>

definition getAgentParams :: "uint256 \<Rightarrow> service_registry \<Rightarrow> nat \<times> AgentParams list" where
  "getAgentParams serviceId s =
     (let ids = agentIds (mapServices s serviceId) in
      (length ids, map (\<lambda>a. mapServiceAndAgentIdAgentParams s (serviceAgent serviceId a)) ids))"

text \<open>Here the agent id is a full \<^verbatim>\<open>uint256\<close>: the shift drops its upper bits.\<close>

definition getInstancesForAgentId :: "uint256 \<Rightarrow> uint256 \<Rightarrow> service_registry \<Rightarrow> nat \<times> address list" where
  "getInstancesForAgentId serviceId agentId s =
     (let l = mapServiceAndAgentIdAgentInstances s (serviceId OR push_bit 32 agentId) in (length l, l))"

definition getOperatorBalance :: "address \<Rightarrow> uint256 \<Rightarrow> service_registry \<Rightarrow> nat" where
  "getOperatorBalance operator serviceId s =
     mapOperatorAndServiceIdOperatorBalances s (operatorService operator serviceId)"

definition getPreviousHashes :: "uint256 \<Rightarrow> service_registry \<Rightarrow> nat \<times> bytes32 list" where
  "getPreviousHashes serviceId s = (length (mapConfigHashes s serviceId), mapConfigHashes s serviceId)"

end
