(* ===== verification/Service_Manager.thy ===== *)
theory Service_Manager
  imports Service_Registry_L2
begin

text \<open>
  The administrative functions, \<^verbatim>\<open>deploy\<close> and \<^verbatim>\<open>bindMultisig\<close> of
  \<^verbatim>\<open>contracts/ServiceManager.sol\<close> (and \<^verbatim>\<open>contracts/GenericManager.sol\<close>, which it inherits): the
  binding of multisigs to services. The manager calls the registry as its manager, so the
  state holds the registry it manages. The identity registry bridger is code of another contract:
  \<open>bridge\<close> says whether its \<^verbatim>\<open>updateAgentWallet\<close> goes through.
\<close>

section \<open>State and administration\<close>

datatype sm_event =
    SmOwnerUpdated address
  | Pause address
  | Unpause address
  | OperatorWhitelistUpdated address
  | IdentityRegistryBridgerUpdated address
  | ImplementationUpdated address
  | CreateMultisig address
  | MultisigBound address uint256
  | UnbondWithSignatureExecuted address uint256 nat
  | RegisterAgentsWithSignatureExecuted address uint256 "address list" "uint32 list"

record service_manager =
  sm_owner :: address
  sm_paused :: bool
  operatorWhitelist :: address
  identityRegistryBridger :: address
  implementation :: address
  sm_locked :: nat
  mapMultisigServiceIds :: "address \<Rightarrow> uint256"
  registry :: service_registry
  sm_events :: "sm_event list"

definition sm_emit :: "sm_event \<Rightarrow> service_manager \<Rightarrow> service_manager" where
  [simp]: "sm_emit e m = m\<lparr>sm_events := sm_events m @ [e]\<rparr>"

definition sm_initialize :: "address \<Rightarrow> service_manager \<Rightarrow> service_manager res" where
  "sm_initialize sender m =
     (if sm_owner m \<noteq> 0 then Inl AlreadyInitialized else Inr (m\<lparr>sm_owner := sender\<rparr>))"

definition sm_changeOwner :: "address \<Rightarrow> address \<Rightarrow> service_manager \<Rightarrow> service_manager res" where
  "sm_changeOwner sender newOwner m =
     (if sender \<noteq> sm_owner m then Inl (OwnerOnly sender (sm_owner m))
      else if newOwner = 0 then Inl ZeroAddress
      else Inr (sm_emit (SmOwnerUpdated newOwner) (m\<lparr>sm_owner := newOwner\<rparr>)))"

definition sm_pause :: "address \<Rightarrow> service_manager \<Rightarrow> service_manager res" where
  "sm_pause sender m =
     (if sender \<noteq> sm_owner m then Inl (OwnerOnly sender (sm_owner m))
      else Inr (sm_emit (Pause sender) (m\<lparr>sm_paused := True\<rparr>)))"

definition sm_unpause :: "address \<Rightarrow> service_manager \<Rightarrow> service_manager res" where
  "sm_unpause sender m =
     (if sender \<noteq> sm_owner m then Inl (OwnerOnly sender (sm_owner m))
      else Inr (sm_emit (Unpause sender) (m\<lparr>sm_paused := False\<rparr>)))"

definition setOperatorWhitelist :: "address \<Rightarrow> address \<Rightarrow> service_manager \<Rightarrow> service_manager res" where
  "setOperatorWhitelist sender a m =
     (if sender \<noteq> sm_owner m then Inl (OwnerOnly sender (sm_owner m))
      else Inr (sm_emit (OperatorWhitelistUpdated a) (m\<lparr>operatorWhitelist := a\<rparr>)))"

definition setIdentityRegistryBridger :: "address \<Rightarrow> address \<Rightarrow> service_manager \<Rightarrow> service_manager res" where
  "setIdentityRegistryBridger sender a m =
     (if sender \<noteq> sm_owner m then Inl (OwnerOnly sender (sm_owner m))
      else Inr (sm_emit (IdentityRegistryBridgerUpdated a) (m\<lparr>identityRegistryBridger := a\<rparr>)))"

definition changeImplementation :: "address \<Rightarrow> address \<Rightarrow> service_manager \<Rightarrow> service_manager res" where
  "changeImplementation sender impl m =
     (if sender \<noteq> sm_owner m then Inl (OwnerOnly sender (sm_owner m))
      else if impl = 0 then Inl ZeroAddress
      else Inr (sm_emit (ImplementationUpdated impl) (m\<lparr>implementation := impl\<rparr>)))"

section \<open>Deployment and binding\<close>

text \<open>The binding step of \<^verbatim>\<open>deploy\<close>: claim an unowned multisig, release the service's previous one.\<close>

definition claim :: "uint256 \<Rightarrow> address \<Rightarrow> address \<Rightarrow> service_manager \<Rightarrow> service_manager res" where
  "claim serviceId msig lastMultisig m =
     (let boundServiceId = mapMultisigServiceIds m msig in
      if boundServiceId \<noteq> serviceId then
        (if boundServiceId \<noteq> 0 then Inl (MultisigAlreadyBound msig boundServiceId serviceId)
         else
           let m1 = sm_emit (MultisigBound msig serviceId)
                 (m\<lparr>mapMultisigServiceIds := (mapMultisigServiceIds m)(msig := serviceId)\<rparr>)
           in Inr (if lastMultisig \<noteq> 0 \<and> lastMultisig \<noteq> msig
                      \<and> mapMultisigServiceIds m1 lastMultisig = serviceId
                   then sm_emit (MultisigBound lastMultisig 0)
                     (m1\<lparr>mapMultisigServiceIds := (mapMultisigServiceIds m1)(lastMultisig := 0)\<rparr>)
                   else m1))
      else Inr m)"

definition sm_deploy ::
    "env \<Rightarrow> (uint256 \<Rightarrow> address \<Rightarrow> address \<Rightarrow> bool) \<Rightarrow> address \<Rightarrow> address \<Rightarrow> uint256 \<Rightarrow> address \<Rightarrow> nat list
       \<Rightarrow> service_manager \<Rightarrow> (address \<times> service_manager) res" where
  "sm_deploy E bridge this sender serviceId impl data m =
     (if sm_locked m > 1 then Inl ReentrancyGuard
      else
        let lastMultisig = multisig (mapServices (registry m) serviceId) in
        rbind (deploy E this sender serviceId impl data (registry m)) (\<lambda>(msig, reg).
          if msig = 0 then Inl ZeroAddress
          else rbind (claim serviceId msig lastMultisig (m\<lparr>sm_locked := 2, registry := reg\<rparr>)) (\<lambda>m1.
            if identityRegistryBridger m1 \<noteq> 0 \<and> msig \<noteq> lastMultisig \<and> \<not> bridge serviceId lastMultisig msig
            then Inl CallReverted
            else Inr (msig, (sm_emit (CreateMultisig msig) m1)\<lparr>sm_locked := 1\<rparr>))))"

fun bind_loop :: "uint256 list \<Rightarrow> service_manager \<Rightarrow> service_manager" where
  "bind_loop [] m = m"
| "bind_loop (sid # sids) m =
     (let msig = multisig (mapServices (registry m) sid) in
      bind_loop sids
        (if msig \<noteq> 0 \<and> mapMultisigServiceIds m msig = 0
         then sm_emit (MultisigBound msig sid)
           (m\<lparr>mapMultisigServiceIds := (mapMultisigServiceIds m)(msig := sid)\<rparr>)
         else m))"

definition bindMultisig :: "uint256 list \<Rightarrow> service_manager \<Rightarrow> service_manager res" where
  "bindMultisig sids m =
     (if sm_locked m > 1 then Inl ReentrancyGuard
      else Inr ((bind_loop sids (m\<lparr>sm_locked := 2\<rparr>))\<lparr>sm_locked := 1\<rparr>))"

section \<open>The bindings as a function\<close>

text \<open>
  What \<open>bind_loop\<close> does to the bindings, given the services' multisigs: first come, first bound.
\<close>

definition bind_step :: "(uint256 \<Rightarrow> address) \<Rightarrow> uint256 \<Rightarrow> (address \<Rightarrow> uint256) \<Rightarrow> (address \<Rightarrow> uint256)" where
  "bind_step ms sid b = (if ms sid \<noteq> 0 \<and> b (ms sid) = 0 then b(ms sid := sid) else b)"

fun bind_map :: "(uint256 \<Rightarrow> address) \<Rightarrow> uint256 list \<Rightarrow> (address \<Rightarrow> uint256) \<Rightarrow> (address \<Rightarrow> uint256)" where
  "bind_map ms [] b = b"
| "bind_map ms (sid # sids) b = bind_map ms sids (bind_step ms sid b)"

definition multisigs :: "service_manager \<Rightarrow> uint256 \<Rightarrow> address" where
  "multisigs m i = multisig (mapServices (registry m) i)"

lemma bind_step_keeps: "b a \<noteq> 0 \<Longrightarrow> bind_step ms sid b a = b a"
  by (auto simp: bind_step_def)

lemma bind_step_bound: "ms sid \<noteq> 0 \<Longrightarrow> sid \<noteq> 0 \<Longrightarrow> bind_step ms sid b (ms sid) \<noteq> 0"
  by (auto simp: bind_step_def)

lemma bind_step_own: "bind_step ms sid b a = b a \<or> (ms sid = a \<and> bind_step ms sid b a = sid \<and> b a = 0)"
  by (auto simp: bind_step_def)

text \<open>All that \<open>bind_loop\<close> changes are the bindings and the events.\<close>

lemma bind_loop_effect:
  "\<exists>e. bind_loop sids m = m\<lparr>mapMultisigServiceIds := bind_map (multisigs m) sids (mapMultisigServiceIds m),
      sm_events := e\<rparr>"
proof (induction sids arbitrary: m)
  case (Cons sid sids)
  let ?m = "if multisigs m sid \<noteq> 0 \<and> mapMultisigServiceIds m (multisigs m sid) = 0
     then sm_emit (MultisigBound (multisigs m sid) sid)
       (m\<lparr>mapMultisigServiceIds := (mapMultisigServiceIds m)(multisigs m sid := sid)\<rparr>) else m"
  have "bind_loop (sid # sids) m = bind_loop sids ?m"
    by (simp add: Let_def multisigs_def)
  moreover have "multisigs ?m = multisigs m"
    by (simp add: multisigs_def fun_eq_iff)
  moreover have "mapMultisigServiceIds ?m = bind_step (multisigs m) sid (mapMultisigServiceIds m)"
    by (simp add: bind_step_def)
  moreover obtain e where "bind_loop sids ?m = ?m\<lparr>mapMultisigServiceIds :=
      bind_map (multisigs ?m) sids (mapMultisigServiceIds ?m), sm_events := e\<rparr>"
    using Cons.IH by blast
  ultimately show ?case
    by (intro exI [of _ e]) simp
next
  case Nil
  have "bind_loop [] m = m\<lparr>mapMultisigServiceIds := bind_map (multisigs m) [] (mapMultisigServiceIds m),
      sm_events := sm_events m\<rparr>"
    by simp
  then show ?case by (rule exI)
qed

lemma bindMultisig_Inr:
  assumes "bindMultisig sids m = Inr m'"
  shows "sm_locked m \<le> 1 \<and> (\<exists>e. m' = m\<lparr>mapMultisigServiceIds :=
      bind_map (multisigs m) sids (mapMultisigServiceIds m), sm_events := e, sm_locked := 1\<rparr>)"
proof -
  have "multisigs (m\<lparr>sm_locked := 2\<rparr>) = multisigs m"
    by (simp add: multisigs_def fun_eq_iff)
  with assms bind_loop_effect [of sids "m\<lparr>sm_locked := 2\<rparr>"] show ?thesis
    by (auto simp: bindMultisig_def split: if_splits)
qed

lemma bind_map_append: "bind_map ms (xs @ ys) b = bind_map ms ys (bind_map ms xs b)"
  by (induction xs arbitrary: b) auto

lemma bind_map_keeps: "b a \<noteq> 0 \<Longrightarrow> bind_map ms xs b a = b a"
  by (induction xs arbitrary: b) (auto simp: bind_step_keeps)

lemma bind_map_bound:
  "sid \<in> set xs \<Longrightarrow> sid \<noteq> 0 \<Longrightarrow> ms sid \<noteq> 0 \<Longrightarrow> bind_map ms xs b (ms sid) \<noteq> 0"
proof (induction xs arbitrary: b)
  case (Cons x xs)
  then show ?case
    using bind_map_keeps bind_step_bound by (cases "x = sid") (fastforce, simp)
qed simp

lemma bind_map_own:
  "bind_map ms xs b a = b a \<or> (\<exists>sid\<in>set xs. ms sid = a \<and> bind_map ms xs b a = sid \<and> b a = 0)"
proof (induction xs arbitrary: b)
  case (Cons x xs)
  from Cons [of "bind_step ms x b"] bind_step_own [of ms x b a] show ?case
    unfolding bind_map.simps by (metis list.set_intros)
qed simp

lemma bind_map_same: "\<forall>y\<in>set ys. ms y \<noteq> 0 \<longrightarrow> b (ms y) \<noteq> 0 \<Longrightarrow> bind_map ms ys b = b"
  by (induction ys) (auto simp: bind_step_def)

lemma bind_map_idem:
  assumes "0 \<notin> set xs" and "set ys \<subseteq> set xs"
  shows "bind_map ms ys (bind_map ms xs b) = bind_map ms xs b"
proof (rule bind_map_same, intro ballI impI)
  fix y assume "y \<in> set ys" and y: "ms y \<noteq> 0"
  with assms have "y \<in> set xs" "y \<noteq> 0" by auto
  then show "bind_map ms xs b (ms y) \<noteq> 0"
    using y by (rule bind_map_bound)
qed

section \<open>What a deployment does to the bindings\<close>

lemma deploy_multisigs:
  assumes "deploy E sender own sid impl data s = Inr (msig, s')"
  shows "(\<lambda>i. multisig (mapServices s' i)) = (\<lambda>i. multisig (mapServices s i))(sid := msig)"
  using assms by (auto simp: deploy_def Let_def fun_eq_iff split: if_splits option.splits)

lemma sm_deploy_InrD:
  assumes "sm_deploy E bridge this sender sid impl data m = Inr (msig, m')"
  shows "multisigs m' = (multisigs m)(sid := msig)" and "msig \<noteq> 0"
    and "mapMultisigServiceIds m msig = sid \<or> mapMultisigServiceIds m msig = 0"
    and "mapMultisigServiceIds m' = (let b = mapMultisigServiceIds m; old = multisigs m sid in
       if b msig = sid then b
       else if old \<noteq> 0 \<and> old \<noteq> msig \<and> b old = sid then b(msig := sid, old := 0) else b(msig := sid))"
proof -
  from assms obtain reg m1 where d: "deploy E this sender sid impl data (registry m) = Inr (msig, reg)"
    and nz: "msig \<noteq> 0"
    and c: "claim sid msig (multisigs m sid) (m\<lparr>sm_locked := 2, registry := reg\<rparr>) = Inr m1"
    and m': "m' = (sm_emit (CreateMultisig msig) m1)\<lparr>sm_locked := 1\<rparr>"
    by (auto simp: sm_deploy_def Let_def multisigs_def split: if_splits)
  from c have reg: "registry m1 = reg"
    by (auto simp: claim_def Let_def split: if_splits)
  show "msig \<noteq> 0" by (rule nz)
  show "multisigs m' = (multisigs m)(sid := msig)"
    using deploy_multisigs [OF d] reg by (simp add: multisigs_def [abs_def] m')
  show "mapMultisigServiceIds m msig = sid \<or> mapMultisigServiceIds m msig = 0"
    using c by (auto simp: claim_def Let_def split: if_splits)
  show "mapMultisigServiceIds m' = (let b = mapMultisigServiceIds m; old = multisigs m sid in
       if b msig = sid then b
       else if old \<noteq> 0 \<and> old \<noteq> msig \<and> b old = sid then b(msig := sid, old := 0) else b(msig := sid))"
    using c by (auto simp: claim_def Let_def m' split: if_splits)
qed

text \<open>A multisig that is bound is not taken over by the deployment of another service, and neither unbound nor bound again by a back-fill.\<close>

lemma sm_deploy_keeps:
  assumes "sm_deploy E bridge this sender sid2 impl data m = Inr (r, m')" and "sid \<noteq> 0" and "mapMultisigServiceIds m (multisigs m sid) = sid"
    and "multisigs m' sid = multisigs m sid"
  shows "mapMultisigServiceIds m' (multisigs m sid) = sid" and "sid2 \<noteq> sid \<Longrightarrow> r \<noteq> multisigs m sid"
proof -
  note d = sm_deploy_InrD [OF assms(1)]
  show r: "r \<noteq> multisigs m sid" if "sid2 \<noteq> sid" using d(3) assms(2,3) that by auto
  show "mapMultisigServiceIds m' (multisigs m sid) = sid"
  proof (cases "sid2 = sid")
    case True
    with d(1) assms(4) have "r = multisigs m sid" by auto
    with d(4) True assms(3) show ?thesis by simp
  next
    case False
    let ?b = "mapMultisigServiceIds m" and ?old = "multisigs m sid2" and ?a = "multisigs m sid"
    have "?old \<noteq> ?a \<or> ?b ?old \<noteq> sid2" using assms(3) False by metis
    then have "mapMultisigServiceIds m' ?a = ?b ?a" unfolding d(4) Let_def using r [OF False] by (simp add: fun_upd_apply) metis
    with assms(3) show ?thesis by (rule trans [rotated])
  qed
qed

lemma bindMultisig_keeps:
  assumes "bindMultisig sids m = Inr m'" and "mapMultisigServiceIds m a \<noteq> 0"
  shows "mapMultisigServiceIds m' a = mapMultisigServiceIds m a" and "multisigs m' = multisigs m"
proof -
  obtain e where m': "m' = m\<lparr>mapMultisigServiceIds := bind_map (multisigs m) sids (mapMultisigServiceIds m), sm_events := e, sm_locked := 1\<rparr>"
    using bindMultisig_Inr [OF assms(1)] by blast
  show "mapMultisigServiceIds m' a = mapMultisigServiceIds m a" using bind_map_keeps [of "mapMultisigServiceIds m" a] assms(2) by (simp add: m')
  show "multisigs m' = multisigs m" by (simp add: m' multisigs_def fun_eq_iff)
qed

text \<open>A small manager for the witnesses: three services, the third without a multisig.\<close>

definition small_manager :: service_manager where
  "small_manager = \<lparr>sm_owner = 1, sm_paused = False, operatorWhitelist = 0, identityRegistryBridger = 0,
     implementation = 9, sm_locked = 1, mapMultisigServiceIds = (\<lambda>_. 0),
     registry = (new_registry 1 [])\<lparr>mapServices := (\<lambda>i. empty_service
       \<lparr>multisig := (if i = 1 then 11 else if i = 2 then 12 else 0)\<rparr>)\<rparr>, sm_events = []\<rparr>"

text \<open>
  C18. Back-filling is idempotent and incremental: binding in batches is binding all at once, repeating any
  part of it changes no binding, it never overwrites an existing one, only ever binds a service's own
  multisig, and afterwards every listed service's multisig is bound.
\<close>

theorem bind_multisig_backfill:
  assumes "bindMultisig xs m = Inr m1" and "bindMultisig ys m1 = Inr m2" and "0 \<notin> set (xs @ ys)"
  shows "mapMultisigServiceIds m2 = bind_map (multisigs m) (xs @ ys) (mapMultisigServiceIds m) \<and>
    (set ys \<subseteq> set xs \<longrightarrow> mapMultisigServiceIds m2 = mapMultisigServiceIds m1) \<and>
    (\<forall>a. mapMultisigServiceIds m a \<noteq> 0 \<longrightarrow> mapMultisigServiceIds m2 a = mapMultisigServiceIds m a) \<and>
    (\<forall>a. mapMultisigServiceIds m a = 0 \<longrightarrow> mapMultisigServiceIds m2 a \<noteq> 0 \<longrightarrow>
       multisigs m (mapMultisigServiceIds m2 a) = a) \<and>
    (\<forall>sid\<in>set (xs @ ys). multisigs m sid \<noteq> 0 \<longrightarrow> mapMultisigServiceIds m2 (multisigs m sid) \<noteq> 0)"
proof -
  let ?b = "mapMultisigServiceIds m"
  have m1: "mapMultisigServiceIds m1 = bind_map (multisigs m) xs ?b" "multisigs m1 = multisigs m"
    using bindMultisig_Inr [OF assms(1)] by (auto simp: multisigs_def)
  have m2: "mapMultisigServiceIds m2 = bind_map (multisigs m) (xs @ ys) ?b"
    using bindMultisig_Inr [OF assms(2)] m1 by (auto simp: bind_map_append)
  have "set ys \<subseteq> set xs \<longrightarrow> mapMultisigServiceIds m2 = mapMultisigServiceIds m1"
    using assms(3) bind_map_idem [of xs ys] by (simp add: m1 m2 bind_map_append)
  moreover have "\<forall>a. ?b a \<noteq> 0 \<longrightarrow> mapMultisigServiceIds m2 a = ?b a"
    using bind_map_keeps [of ?b] by (simp add: m2)
  moreover have "\<forall>a. ?b a = 0 \<longrightarrow> mapMultisigServiceIds m2 a \<noteq> 0 \<longrightarrow>
       multisigs m (mapMultisigServiceIds m2 a) = a"
    using bind_map_own [of "multisigs m" "xs @ ys" ?b] unfolding m2 by metis
  moreover have "\<forall>sid\<in>set (xs @ ys). multisigs m sid \<noteq> 0 \<longrightarrow> mapMultisigServiceIds m2 (multisigs m sid) \<noteq> 0"
  proof (intro ballI impI)
    fix sid assume s: "sid \<in> set (xs @ ys)" "multisigs m sid \<noteq> 0"
    with assms(3) have "sid \<noteq> 0" by metis
    with s show "mapMultisigServiceIds m2 (multisigs m sid) \<noteq> 0"
      unfolding m2 by (intro bind_map_bound)
  qed
  ultimately show ?thesis using m2 by blast
qed

theorem bind_multisig_backfill_witness:
  "\<exists>m1 m2. bindMultisig [1] small_manager = Inr m1 \<and> bindMultisig [2, 3] m1 = Inr m2 \<and>
     mapMultisigServiceIds m2 = bind_map (multisigs small_manager) ([1] @ [2, 3]) (mapMultisigServiceIds small_manager)"
proof -
  obtain m1 m2 where m: "bindMultisig [1] small_manager = Inr m1" "bindMultisig [2, 3] m1 = Inr m2"
    by (simp add: bindMultisig_def small_manager_def)
  from bind_multisig_backfill [OF m] m show ?thesis by auto
qed

end
