(* ===== verification/Token_Utility.thy ===== *)
theory Token_Utility
  imports Service_Registry_L2
begin

text \<open>
  The contract \<^verbatim>\<open>contracts/ServiceRegistryTokenUtility.sol\<close>: security deposits and bonds in ERC20 tokens. The tokens are code outside
  the repository: \<open>'w\<close> is the state of the world they live in, and the record \<open>tokens\<close> holds their functions as seen
  from this contract, \<open>None\<close> when a call fails or does not answer as \<^verbatim>\<open>safeTransfer\<close> wants. Nothing is assumed of a token here.
  The functions return the new state of the contract and of the world, or the error they revert with. The service
  registry is only read. The map of the operators' balances has the name of the registry's in the source and another one here.
\<close>

section \<open>Data\<close>

record 'w tokens =
  has_balanceOf :: "'w \<Rightarrow> address \<Rightarrow> bool"
  tk_balanceOf :: "'w \<Rightarrow> address \<Rightarrow> address \<Rightarrow> nat option"
  tk_allowance :: "'w \<Rightarrow> address \<Rightarrow> address \<Rightarrow> address \<Rightarrow> nat option"
  tk_transferFrom :: "'w \<Rightarrow> address \<Rightarrow> address \<Rightarrow> address \<Rightarrow> nat \<Rightarrow> 'w option"
  tk_transfer :: "'w \<Rightarrow> address \<Rightarrow> address \<Rightarrow> nat \<Rightarrow> 'w option"

datatype tu_event =
    TuOwnerUpdated address
  | TuManagerUpdated address
  | TuDrainerUpdated address
  | TokenDeposit address address nat
  | TokenRefund address address nat
  | OperatorTokenSlashed nat address uint256
  | TokenDrain address address nat

record TokenSecurityDeposit =
  td_token :: address
  td_securityDeposit :: nat

definition no_deposit :: TokenSecurityDeposit where
  "no_deposit = \<lparr>td_token = 0, td_securityDeposit = 0\<rparr>"

record token_utility =
  tu_owner :: address
  tu_manager :: address
  tu_drainer :: address
  tu_locked :: nat
  mapServiceIdTokenDeposit :: "uint256 \<Rightarrow> TokenSecurityDeposit"
  mapServiceAndAgentIdAgentBond :: "uint256 \<Rightarrow> nat"
  mapOperatorAndServiceIdTokenBalances :: "uint256 \<Rightarrow> nat"
  mapSlashedFunds :: "address \<Rightarrow> nat"
  tu_events :: "tu_event list"

definition new_utility :: "address \<Rightarrow> token_utility" where
  "new_utility deployer = \<lparr>tu_owner = deployer, tu_manager = 0, tu_drainer = 0, tu_locked = 1,
     mapServiceIdTokenDeposit = (\<lambda>_. no_deposit), mapServiceAndAgentIdAgentBond = (\<lambda>_. 0),
     mapOperatorAndServiceIdTokenBalances = (\<lambda>_. 0), mapSlashedFunds = (\<lambda>_. 0), tu_events = []\<rparr>"

abbreviation tu_token :: "token_utility \<Rightarrow> uint256 \<Rightarrow> address" where
  "tu_token u serviceId \<equiv> td_token (mapServiceIdTokenDeposit u serviceId)"

definition tu_emit :: "tu_event \<Rightarrow> token_utility \<Rightarrow> token_utility" where
  [simp]: "tu_emit e u = u\<lparr>tu_events := tu_events u @ [e]\<rparr>"

section \<open>Calls of the tokens\<close>

definition asks :: "nat option \<Rightarrow> nat res" where
  "asks v = (case v of None \<Rightarrow> Inl CallReverted | Some n \<Rightarrow> Inr n)"

definition tu_safeTransferFrom :: "'w tokens \<Rightarrow> address \<Rightarrow> address \<Rightarrow> address \<Rightarrow> nat \<Rightarrow> 'w \<Rightarrow> 'w res" where
  "tu_safeTransferFrom T token src to amount w =
     (case tk_transferFrom T w token src to amount of None \<Rightarrow> Inl (TransferFailed token src to amount) | Some w' \<Rightarrow> Inr w')"

definition tu_safeTransfer :: "'w tokens \<Rightarrow> address \<Rightarrow> address \<Rightarrow> address \<Rightarrow> nat \<Rightarrow> 'w \<Rightarrow> 'w res" where
  "tu_safeTransfer T this token to amount w =
     (case tk_transfer T w token to amount of None \<Rightarrow> Inl (TransferFailed token this to amount) | Some w' \<Rightarrow> Inr w')"

text \<open>A transfer to this contract, checked against its balance before and after.\<close>

definition receive_tokens :: "'w tokens \<Rightarrow> address \<Rightarrow> address \<Rightarrow> address \<Rightarrow> nat \<Rightarrow> error \<Rightarrow> 'w \<Rightarrow> 'w res" where
  "receive_tokens T this token src amount err w =
     rbind (asks (tk_balanceOf T w token this)) (\<lambda>balanceBefore.
     rbind (tu_safeTransferFrom T token src this amount w) (\<lambda>w'.
     rbind (asks (tk_balanceOf T w' token this)) (\<lambda>balanceAfter.
     if balanceBefore > balanceAfter \<or> balanceAfter - balanceBefore \<noteq> amount then Inl err else Inr w')))"

section \<open>Administration\<close>

definition tu_changeOwner :: "address \<Rightarrow> address \<Rightarrow> token_utility \<Rightarrow> token_utility res" where
  "tu_changeOwner sender newOwner u =
     (if sender \<noteq> tu_owner u then Inl (OwnerOnly sender (tu_owner u))
      else if newOwner = 0 then Inl ZeroAddress
      else Inr (tu_emit (TuOwnerUpdated newOwner) (u\<lparr>tu_owner := newOwner\<rparr>)))"

definition tu_changeManager :: "address \<Rightarrow> address \<Rightarrow> token_utility \<Rightarrow> token_utility res" where
  "tu_changeManager sender newManager u =
     (if sender \<noteq> tu_owner u then Inl (OwnerOnly sender (tu_owner u))
      else if newManager = 0 then Inl ZeroAddress
      else Inr (tu_emit (TuManagerUpdated newManager) (u\<lparr>tu_manager := newManager\<rparr>)))"

definition tu_changeDrainer :: "address \<Rightarrow> address \<Rightarrow> token_utility \<Rightarrow> token_utility res" where
  "tu_changeDrainer sender newDrainer u =
     (if sender \<noteq> tu_owner u then Inl (OwnerOnly sender (tu_owner u))
      else if newDrainer = 0 then Inl ZeroAddress
      else Inr (tu_emit (TuDrainerUpdated newDrainer) (u\<lparr>tu_drainer := newDrainer\<rparr>)))"

section \<open>Token records of a service\<close>

text \<open>The loop over the agent ids: zero bonds are skipped, the largest bond is the security deposit.\<close>

fun createWithToken_loop ::
    "uint256 \<Rightarrow> uint32 list \<Rightarrow> nat list \<Rightarrow> (uint256 \<Rightarrow> nat) \<Rightarrow> nat \<Rightarrow> ((uint256 \<Rightarrow> nat) \<times> nat) res" where
  "createWithToken_loop serviceId [] bonds m dep = Inr (m, dep)"
| "createWithToken_loop serviceId (a # as) [] m dep = Inl Panic"
| "createWithToken_loop serviceId (a # as) (b # bs) m dep =
     (if b = 0 then createWithToken_loop serviceId as bs m dep
      else if b > 2 ^ 96 - 1 then Inl (Overflow b (2 ^ 96 - 1))
      else createWithToken_loop serviceId as bs (m(serviceAgent serviceId a := b)) (if b > dep then b else dep))"

definition createWithToken ::
    "'w tokens \<Rightarrow> address \<Rightarrow> uint256 \<Rightarrow> address \<Rightarrow> uint32 list \<Rightarrow> nat list \<Rightarrow> 'w \<Rightarrow> token_utility \<Rightarrow> token_utility res" where
  "createWithToken T sender serviceId token ids bonds w u =
     (if tu_manager u \<noteq> sender then Inl (ManagerOnly sender (tu_manager u))
      else if \<not> has_balanceOf T w token then Inl (TokenRejected token)
      else rbind (createWithToken_loop serviceId ids bonds (mapServiceAndAgentIdAgentBond u) 0) (\<lambda>(m, dep).
        Inr (u\<lparr>mapServiceAndAgentIdAgentBond := m, mapServiceIdTokenDeposit := (mapServiceIdTokenDeposit u)
               (serviceId := \<lparr>td_token = token, td_securityDeposit = dep mod 2 ^ 96\<rparr>)\<rparr>)))"

definition resetServiceToken :: "address \<Rightarrow> uint256 \<Rightarrow> token_utility \<Rightarrow> token_utility res" where
  "resetServiceToken sender serviceId u =
     (if tu_manager u \<noteq> sender then Inl (ManagerOnly sender (tu_manager u))
      else Inr (u\<lparr>mapServiceIdTokenDeposit := (mapServiceIdTokenDeposit u)(serviceId := no_deposit)\<rparr>))"

section \<open>Deposits and refunds\<close>

text \<open>The guards shared by the calls of the manager.\<close>

definition tu_enter :: "address \<Rightarrow> token_utility \<Rightarrow> token_utility res" where
  "tu_enter sender u =
     (if tu_locked u > 1 then Inl ReentrancyGuard
      else if tu_manager u \<noteq> sender then Inl (ManagerOnly sender (tu_manager u))
      else Inr (u\<lparr>tu_locked := 2\<rparr>))"

definition activateRegistrationTokenDeposit ::
    "'w tokens \<Rightarrow> address \<Rightarrow> address \<Rightarrow> uint256 \<Rightarrow> service_registry \<Rightarrow> 'w \<Rightarrow> token_utility
       \<Rightarrow> (bool \<times> 'w \<times> token_utility) res" where
  "activateRegistrationTokenDeposit T this sender serviceId r w u =
     rbind (tu_enter sender u) (\<lambda>u.
     let token = tu_token u serviceId; dep = td_securityDeposit (mapServiceIdTokenDeposit u serviceId) in
     if token = 0 then Inr (False, w, u\<lparr>tu_locked := 1\<rparr>)
     else rbind (ownerOf serviceId r) (\<lambda>serviceOwner.
       rbind (asks (tk_allowance T w token serviceOwner this)) (\<lambda>allowance.
       if allowance < dep then Inl (IncorrectRegistrationDepositValue allowance dep serviceId)
       else rbind (receive_tokens T this token serviceOwner dep (IncorrectRegistrationDepositValue 0 dep serviceId) w) (\<lambda>w'.
         Inr (True, w', (tu_emit (TokenDeposit serviceOwner token dep) u)\<lparr>tu_locked := 1\<rparr>)))))"

fun token_bond_loop :: "token_utility \<Rightarrow> uint256 \<Rightarrow> uint32 list \<Rightarrow> nat \<Rightarrow> nat res" where
  "token_bond_loop u serviceId [] tot = Inr tot"
| "token_bond_loop u serviceId (a # as) tot =
     rbind (chk_add 256 tot (mapServiceAndAgentIdAgentBond u (serviceAgent serviceId a))) (token_bond_loop u serviceId as)"

definition registerAgentsTokenDeposit ::
    "'w tokens \<Rightarrow> address \<Rightarrow> address \<Rightarrow> address \<Rightarrow> uint256 \<Rightarrow> uint32 list \<Rightarrow> 'w \<Rightarrow> token_utility
       \<Rightarrow> (bool \<times> 'w \<times> token_utility) res" where
  "registerAgentsTokenDeposit T this sender operator serviceId ids w u =
     rbind (tu_enter sender u) (\<lambda>u.
     let token = tu_token u serviceId; k = operatorService operator serviceId in
     if token = 0 then Inr (False, w, u\<lparr>tu_locked := 1\<rparr>)
     else rbind (token_bond_loop u serviceId ids 0) (\<lambda>totalBond.
       rbind (asks (tk_allowance T w token operator this)) (\<lambda>allowance.
       if allowance < totalBond then Inl (IncorrectAgentBondingValue allowance totalBond serviceId)
       else rbind (chk_add 256 (mapOperatorAndServiceIdTokenBalances u k) totalBond) (\<lambda>bal.
         rbind (receive_tokens T this token operator totalBond (IncorrectAgentBondingValue 0 totalBond serviceId) w) (\<lambda>w'.
           Inr (True, w', (tu_emit (TokenDeposit operator token totalBond)
             (u\<lparr>mapOperatorAndServiceIdTokenBalances := (mapOperatorAndServiceIdTokenBalances u)(k := bal)\<rparr>))\<lparr>tu_locked := 1\<rparr>))))))"

definition terminateTokenRefund ::
    "'w tokens \<Rightarrow> address \<Rightarrow> address \<Rightarrow> uint256 \<Rightarrow> service_registry \<Rightarrow> 'w \<Rightarrow> token_utility
       \<Rightarrow> (nat \<times> 'w \<times> token_utility) res" where
  "terminateTokenRefund T this sender serviceId r w u =
     rbind (tu_enter sender u) (\<lambda>u.
     let token = tu_token u serviceId; refund = td_securityDeposit (mapServiceIdTokenDeposit u serviceId) in
     if token = 0 then Inr (0, w, u\<lparr>tu_locked := 1\<rparr>)
     else rbind (ownerOf serviceId r) (\<lambda>serviceOwner.
       rbind (tu_safeTransfer T this token serviceOwner refund w) (\<lambda>w'.
         Inr (refund, w', (tu_emit (TokenRefund serviceOwner token refund) u)\<lparr>tu_locked := 1\<rparr>))))"

definition unbondTokenRefund ::
    "'w tokens \<Rightarrow> address \<Rightarrow> address \<Rightarrow> address \<Rightarrow> uint256 \<Rightarrow> 'w \<Rightarrow> token_utility
       \<Rightarrow> (nat \<times> 'w \<times> token_utility) res" where
  "unbondTokenRefund T this sender operator serviceId w u =
     rbind (tu_enter sender u) (\<lambda>u.
     let token = tu_token u serviceId; k = operatorService operator serviceId; refund = mapOperatorAndServiceIdTokenBalances u k in
     if token = 0 then Inr (0, w, u\<lparr>tu_locked := 1\<rparr>)
     else if refund = 0 then Inr (refund, w, u\<lparr>tu_locked := 1\<rparr>)
     else rbind (tu_safeTransfer T this token operator refund w) (\<lambda>w'.
       Inr (refund, w', (tu_emit (TokenRefund operator token refund)
         (u\<lparr>mapOperatorAndServiceIdTokenBalances := (mapOperatorAndServiceIdTokenBalances u)(k := 0)\<rparr>))\<lparr>tu_locked := 1\<rparr>)))"

section \<open>Slashing and draining\<close>

text \<open>One round of the loop; the sum of the slashed funds is checked at 256 bits.\<close>

definition tu_slash_one ::
    "service_registry \<Rightarrow> uint256 \<Rightarrow> address \<Rightarrow> nat \<Rightarrow> token_utility \<times> nat \<Rightarrow> (token_utility \<times> nat) res" where
  "tu_slash_one r serviceId agentInstance amount = (\<lambda>(u, slashed).
     let operator = mapAgentInstanceOperators r agentInstance; k = operatorService operator serviceId;
         bal = mapOperatorAndServiceIdTokenBalances u k; cut = (if amount \<ge> bal then bal else amount)
     in if bal = 0 then Inr (u, slashed)
        else rbind (chk_add 256 slashed cut) (\<lambda>slashed'.
          Inr (tu_emit (OperatorTokenSlashed amount operator serviceId)
            (u\<lparr>mapOperatorAndServiceIdTokenBalances := (mapOperatorAndServiceIdTokenBalances u)(k := bal - cut)\<rparr>), slashed')))"

fun tu_slash_loop ::
    "service_registry \<Rightarrow> uint256 \<Rightarrow> (address \<times> nat) list \<Rightarrow> token_utility \<times> nat \<Rightarrow> (token_utility \<times> nat) res" where
  "tu_slash_loop r serviceId [] st = Inr st"
| "tu_slash_loop r serviceId ((agentInstance, amount) # rest) st =
     rbind (tu_slash_one r serviceId agentInstance amount st) (tu_slash_loop r serviceId rest)"

definition tu_slash ::
    "address \<Rightarrow> address list \<Rightarrow> nat list \<Rightarrow> uint256 \<Rightarrow> service_registry \<Rightarrow> token_utility \<Rightarrow> (bool \<times> token_utility) res" where
  "tu_slash sender instances amounts serviceId r u =
     (let service = mapServices r serviceId; token = tu_token u serviceId in
      if state service \<noteq> Deployed then Inl (WrongServiceState (state_code (state service)) serviceId)
      else if instances = [] \<or> length instances \<noteq> length amounts
        then Inl (WrongArrayLength (length instances) (length amounts))
      else if sender \<noteq> multisig service then Inl (OnlyOwnServiceMultisig sender (multisig service) serviceId)
      else if token = 0 then Inl ZeroAddress
      else rbind (tu_slash_loop r serviceId (zip instances amounts) (u, 0)) (\<lambda>(u', slashed).
        rbind (chk_add 256 slashed (mapSlashedFunds u' token)) (\<lambda>f.
          Inr (True, u'\<lparr>mapSlashedFunds := (mapSlashedFunds u')(token := f)\<rparr>))))"

text \<open>The caller of \<^verbatim>\<open>drain\<close> has to be the owner; the drainer receives the tokens.\<close>

definition tu_drain ::
    "'w tokens \<Rightarrow> address \<Rightarrow> address \<Rightarrow> address \<Rightarrow> 'w \<Rightarrow> token_utility \<Rightarrow> (nat \<times> 'w \<times> token_utility) res" where
  "tu_drain T this sender token w u =
     (if tu_locked u > 1 then Inl ReentrancyGuard
      else if sender \<noteq> tu_owner u then Inl (OwnerOnly sender (tu_owner u))
      else if tu_drainer u = 0 then Inl ZeroAddress
      else
        let amount = mapSlashedFunds u token in
        if amount > 0 then
          rbind (tu_safeTransfer T this token (tu_drainer u) amount w) (\<lambda>w'.
            Inr (amount, w', (tu_emit (TokenDrain sender token amount)
              (u\<lparr>mapSlashedFunds := (mapSlashedFunds u)(token := 0)\<rparr>))\<lparr>tu_locked := 1\<rparr>))
        else Inr (amount, w, u\<lparr>tu_locked := 1\<rparr>))"

section \<open>Views\<close>

definition isTokenSecuredService :: "uint256 \<Rightarrow> token_utility \<Rightarrow> bool" where
  "isTokenSecuredService serviceId u \<longleftrightarrow> tu_token u serviceId \<noteq> 0"

definition getAgentBond :: "uint256 \<Rightarrow> uint256 \<Rightarrow> token_utility \<Rightarrow> nat" where
  "getAgentBond serviceId agentId u = mapServiceAndAgentIdAgentBond u (serviceId OR push_bit 32 agentId)"

definition tu_getOperatorBalance :: "address \<Rightarrow> uint256 \<Rightarrow> token_utility \<Rightarrow> nat" where
  "tu_getOperatorBalance operator serviceId u = mapOperatorAndServiceIdTokenBalances u (operatorService operator serviceId)"

end
