(* ===== verification/Service_Manager_Tokens.thy ===== *)
theory Service_Manager_Tokens
  imports Service_Manager Token_Utility
begin

text \<open>
  The life cycle of a service through \<^verbatim>\<open>contracts/ServiceManager.sol\<close>: creation, update, activation, registration, termination and
  unbonding, for services secured in ether or in a token. The state holds the manager with the registry, the token
  utility and the world of the tokens, and the manager's ether; a call that reverts anywhere reverts as a whole.

  The identity registry bridger, the operator whitelist and the signatures of operators are answers of the environment.
\<close>

section \<open>State\<close>

record 'w chain =
  evm :: env
  erc20 :: "'w tokens"
  bridger_register :: "uint256 \<Rightarrow> bool"
  bridger_update :: "uint256 \<Rightarrow> address \<Rightarrow> address \<Rightarrow> bool"
  isOperatorWhitelisted :: "uint256 \<Rightarrow> address \<Rightarrow> bool"
  signed_unbond :: "address \<Rightarrow> address \<Rightarrow> uint256 \<Rightarrow> nat \<Rightarrow> nat list \<Rightarrow> bool"
  signed_register :: "address \<Rightarrow> address \<Rightarrow> uint256 \<Rightarrow> address list \<Rightarrow> uint32 list \<Rightarrow> nat \<Rightarrow> nat list \<Rightarrow> bool"
  sm_address :: address
  sr_address :: address
  tu_address :: address

record 'w protocol =
  pm :: service_manager
  pu :: token_utility
  pw :: 'w
  pm_eth :: nat
  mapOperatorUnbondNonces :: "uint256 \<Rightarrow> nat"
  mapOperatorRegisterAgentsNonces :: "uint256 \<Rightarrow> nat"

abbreviation preg :: "'w protocol \<Rightarrow> service_registry" where
  "preg p \<equiv> registry (pm p)"

definition ETH_TOKEN_ADDRESS :: address where
  "ETH_TOKEN_ADDRESS = 0xEeeeeEeeeEeEeeEeEeEeeEEEeeeeEeeeeeeeEEeE"

definition BOND_WRAPPER :: nat where
  "BOND_WRAPPER = 1"

section \<open>Calls of the other contracts\<close>

definition sm_enter :: "'w protocol \<Rightarrow> 'w protocol res" where
  "sm_enter p = (if sm_locked (pm p) > 1 then Inl ReentrancyGuard else Inr (p\<lparr>pm := (pm p)\<lparr>sm_locked := 2\<rparr>\<rparr>))"

definition sm_leave :: "'w protocol \<Rightarrow> 'w protocol" where
  "sm_leave p = p\<lparr>pm := (pm p)\<lparr>sm_locked := 1\<rparr>\<rparr>"

definition sm_log :: "sm_event \<Rightarrow> 'w protocol \<Rightarrow> 'w protocol" where
  "sm_log e p = p\<lparr>pm := sm_emit e (pm p)\<rparr>"

definition call_registry :: "(service_registry \<Rightarrow> ('a \<times> service_registry) res) \<Rightarrow> 'w protocol \<Rightarrow> ('a \<times> 'w protocol) res" where
  "call_registry f p = rbind (f (preg p)) (\<lambda>(x, r). Inr (x, p\<lparr>pm := (pm p)\<lparr>registry := r\<rparr>\<rparr>))"

text \<open>A call that sends ether along fails when the manager has not got it.\<close>

definition call_with_value :: "nat \<Rightarrow> (service_registry \<Rightarrow> ('a \<times> service_registry) res) \<Rightarrow> 'w protocol \<Rightarrow> ('a \<times> 'w protocol) res" where
  "call_with_value v f p =
     (if pm_eth p < v then Inl CallReverted else call_registry f (p\<lparr>pm_eth := pm_eth p - v\<rparr>))"

definition call_utility :: "('w \<Rightarrow> token_utility \<Rightarrow> ('a \<times> 'w \<times> token_utility) res) \<Rightarrow> 'w protocol \<Rightarrow> ('a \<times> 'w protocol) res" where
  "call_utility f p = rbind (f (pw p) (pu p)) (\<lambda>(x, w, u). Inr (x, p\<lparr>pw := w, pu := u\<rparr>))"

section \<open>Creation and update\<close>

definition sm_create_with_token ::
    "'w chain \<Rightarrow> address \<Rightarrow> address \<Rightarrow> bytes32 \<Rightarrow> uint32 list \<Rightarrow> AgentParams list \<Rightarrow> nat \<Rightarrow> 'w protocol
       \<Rightarrow> (uint256 \<times> 'w protocol) res" where
  "sm_create_with_token C serviceOwner token hash ids params thr p =
     (if list_ex (\<lambda>q. bond q = 0) params then Inl ZeroValue
      else rbind (chk_add 256 (unat (totalSupply (preg p))) 1) (\<lambda>n.
        rbind (createWithToken (erc20 C) (sm_address C) (of_nat n) token ids (map bond params) (pw p) (pu p)) (\<lambda>u.
        rbind (call_registry (create (evm C) (sm_address C) serviceOwner hash ids (map (\<lambda>q. q\<lparr>bond := BOND_WRAPPER\<rparr>) params) thr)
            (p\<lparr>pu := u\<rparr>)) (\<lambda>(_, p'). Inr (of_nat n, p')))))"

definition sm_create ::
    "'w chain \<Rightarrow> address \<Rightarrow> address \<Rightarrow> bytes32 \<Rightarrow> uint32 list \<Rightarrow> AgentParams list \<Rightarrow> nat \<Rightarrow> 'w protocol
       \<Rightarrow> (uint256 \<times> 'w protocol) res" where
  "sm_create C serviceOwner token hash ids params thr p =
     rbind (sm_enter p) (\<lambda>p.
     if sm_paused (pm p) then Inl Paused
     else if token = 0 then Inl ZeroAddress
     else rbind (if token = ETH_TOKEN_ADDRESS
         then call_registry (create (evm C) (sm_address C) serviceOwner hash ids params thr) p
         else sm_create_with_token C serviceOwner token hash ids params thr p) (\<lambda>(serviceId, p').
       if identityRegistryBridger (pm p') \<noteq> 0 \<and> \<not> bridger_register C serviceId then Inl CallReverted
       else Inr (serviceId, sm_leave p')))"

definition wrap_bond :: "AgentParams \<Rightarrow> AgentParams" where
  "wrap_bond q = (if slots q > 0 then q\<lparr>bond := BOND_WRAPPER\<rparr> else q)"

definition sm_update ::
    "'w chain \<Rightarrow> address \<Rightarrow> address \<Rightarrow> bytes32 \<Rightarrow> uint32 list \<Rightarrow> AgentParams list \<Rightarrow> nat \<Rightarrow> uint256 \<Rightarrow> 'w protocol
       \<Rightarrow> (bool \<times> 'w protocol) res" where
  "sm_update C sender token hash ids params thr serviceId p =
     rbind (sm_enter p) (\<lambda>p.
     if token = 0 then Inl ZeroAddress
     else if list_ex (\<lambda>q. slots q > 0 \<and> bond q = 0) params then Inl ZeroValue
     else rbind (if token = ETH_TOKEN_ADDRESS
         then rbind (call_registry (update (sm_address C) sender hash ids params thr serviceId) p) (\<lambda>(success, p').
           rbind (resetServiceToken (sm_address C) serviceId (pu p')) (\<lambda>u. Inr (success, p'\<lparr>pu := u\<rparr>)))
         else rbind (createWithToken (erc20 C) (sm_address C) serviceId token ids
             (map (\<lambda>q. if slots q > 0 then bond q else 0) params) (pw p) (pu p)) (\<lambda>u.
           call_registry (update (sm_address C) sender hash ids (map wrap_bond params) thr serviceId) (p\<lparr>pu := u\<rparr>)))
       (\<lambda>(success, p'). Inr (success, sm_leave p')))"

section \<open>Activation and registration\<close>

definition sm_activateRegistration :: "'w chain \<Rightarrow> address \<Rightarrow> nat \<Rightarrow> uint256 \<Rightarrow> 'w protocol \<Rightarrow> (bool \<times> 'w protocol) res" where
  "sm_activateRegistration C sender val serviceId p =
     rbind (sm_enter (p\<lparr>pm_eth := pm_eth p + val\<rparr>)) (\<lambda>p.
     rbind (call_utility (activateRegistrationTokenDeposit (erc20 C) (tu_address C) (sm_address C) serviceId (preg p)) p)
       (\<lambda>(isTokenSecured, p1).
       rbind (if isTokenSecured
         then (if val \<noteq> BOND_WRAPPER then Inl (IncorrectRegistrationDepositValue val BOND_WRAPPER serviceId)
               else call_with_value BOND_WRAPPER (activateRegistration (sm_address C) BOND_WRAPPER sender serviceId) p1)
         else call_with_value val (activateRegistration (sm_address C) val sender serviceId) p1)
         (\<lambda>(success, p2). Inr (success, sm_leave p2))))"

definition sm_registerAgents ::
    "'w chain \<Rightarrow> address \<Rightarrow> nat \<Rightarrow> uint256 \<Rightarrow> address list \<Rightarrow> uint32 list \<Rightarrow> 'w protocol \<Rightarrow> (bool \<times> 'w protocol) res" where
  "sm_registerAgents C sender val serviceId instances ids p =
     rbind (sm_enter (p\<lparr>pm_eth := pm_eth p + val\<rparr>)) (\<lambda>p.
     if operatorWhitelist (pm p) \<noteq> 0 \<and> \<not> isOperatorWhitelisted C serviceId sender then Inl (WrongOperator serviceId)
     else rbind (call_utility (registerAgentsTokenDeposit (erc20 C) (tu_address C) (sm_address C) sender serviceId ids) p)
       (\<lambda>(isTokenSecured, p1).
       rbind (if isTokenSecured
         then (let totalBond = length instances * BOND_WRAPPER in
               if val \<noteq> totalBond then Inl (IncorrectAgentBondingValue val totalBond serviceId)
               else call_with_value totalBond (registerAgents (sm_address C) totalBond sender serviceId instances ids) p1)
         else call_with_value val (registerAgents (sm_address C) val sender serviceId instances ids) p1)
         (\<lambda>(success, p2). Inr (success, sm_leave p2))))"

section \<open>Termination and unbonding\<close>

definition sm_terminate :: "'w chain \<Rightarrow> address \<Rightarrow> uint256 \<Rightarrow> 'w protocol \<Rightarrow> ((bool \<times> nat) \<times> 'w protocol) res" where
  "sm_terminate C sender serviceId p =
     rbind (sm_enter p) (\<lambda>p.
     rbind (call_utility (terminateTokenRefund (erc20 C) (tu_address C) (sm_address C) serviceId (preg p)) p) (\<lambda>(tokenRefund, p1).
     rbind (call_registry (terminate (evm C) (sr_address C) (sm_address C) sender serviceId) p1) (\<lambda>((success, refund), p2).
     Inr ((success, if tokenRefund > 0 then tokenRefund else refund), sm_leave p2))))"

definition unbond_operator :: "'w chain \<Rightarrow> address \<Rightarrow> uint256 \<Rightarrow> 'w protocol \<Rightarrow> ((bool \<times> nat) \<times> 'w protocol) res" where
  "unbond_operator C operator serviceId p =
     rbind (call_utility (unbondTokenRefund (erc20 C) (tu_address C) (sm_address C) operator serviceId) p) (\<lambda>(tokenRefund, p1).
     rbind (call_registry (unbond (evm C) (sr_address C) (sm_address C) operator serviceId) p1) (\<lambda>((success, refund), p2).
     Inr ((success, if tokenRefund > 0 then tokenRefund else refund), p2)))"

definition sm_unbond :: "'w chain \<Rightarrow> address \<Rightarrow> uint256 \<Rightarrow> 'w protocol \<Rightarrow> ((bool \<times> nat) \<times> 'w protocol) res" where
  "sm_unbond C sender serviceId p =
     rbind (sm_enter p) (\<lambda>p. rbind (unbond_operator C sender serviceId p) (\<lambda>(res, p1). Inr (res, sm_leave p1)))"

section \<open>Calls on behalf of an operator\<close>

text \<open>Only the owner of the service can use the message an operator has signed, and only once.\<close>

definition sm_unbondWithSignature ::
    "'w chain \<Rightarrow> address \<Rightarrow> address \<Rightarrow> uint256 \<Rightarrow> nat list \<Rightarrow> 'w protocol \<Rightarrow> ((bool \<times> nat) \<times> 'w protocol) res" where
  "sm_unbondWithSignature C sender operator serviceId signature p =
     rbind (sm_enter p) (\<lambda>p.
     rbind (ownerOf serviceId (preg p)) (\<lambda>serviceOwner.
     if sender \<noteq> serviceOwner then Inl (OwnerOnly sender serviceOwner)
     else let k = operatorService operator serviceId; nonce = mapOperatorUnbondNonces p k in
     if \<not> signed_unbond C operator serviceOwner serviceId nonce signature then Inl CallReverted
     else rbind (chk_add 256 nonce 1) (\<lambda>nonce'.
       rbind (unbond_operator C operator serviceId
         (p\<lparr>mapOperatorUnbondNonces := (mapOperatorUnbondNonces p)(k := nonce')\<rparr>)) (\<lambda>((success, refund), p1).
       Inr ((success, refund), sm_leave (sm_log (UnbondWithSignatureExecuted operator serviceId refund) p1))))))"

text \<open>Here the value sent along is not compared with the bonds of a service secured in a token.\<close>

definition sm_registerAgentsWithSignature ::
    "'w chain \<Rightarrow> address \<Rightarrow> nat \<Rightarrow> address \<Rightarrow> uint256 \<Rightarrow> address list \<Rightarrow> uint32 list \<Rightarrow> nat list \<Rightarrow> 'w protocol
       \<Rightarrow> (bool \<times> 'w protocol) res" where
  "sm_registerAgentsWithSignature C sender val operator serviceId instances ids signature p =
     rbind (sm_enter (p\<lparr>pm_eth := pm_eth p + val\<rparr>)) (\<lambda>p.
     rbind (ownerOf serviceId (preg p)) (\<lambda>serviceOwner.
     if sender \<noteq> serviceOwner then Inl (OwnerOnly sender serviceOwner)
     else let k = operatorService operator serviceId; nonce = mapOperatorRegisterAgentsNonces p k in
     if \<not> signed_register C operator serviceOwner serviceId instances ids nonce signature then Inl CallReverted
     else rbind (chk_add 256 nonce 1) (\<lambda>nonce'.
       rbind (call_utility (registerAgentsTokenDeposit (erc20 C) (tu_address C) (sm_address C) operator serviceId ids)
         (p\<lparr>mapOperatorRegisterAgentsNonces := (mapOperatorRegisterAgentsNonces p)(k := nonce')\<rparr>)) (\<lambda>(isTokenSecured, p1).
       rbind (let v = (if isTokenSecured then length instances * BOND_WRAPPER else val) in
           call_with_value v (registerAgents (sm_address C) v operator serviceId instances ids) p1) (\<lambda>(success, p2).
       Inr (success, sm_leave (sm_log (RegisterAgentsWithSignatureExecuted operator serviceId instances ids) p2)))))))"

text \<open>Deployment and binding, as calls of the whole.\<close>

definition pm_deploy :: "'w chain \<Rightarrow> address \<Rightarrow> uint256 \<Rightarrow> address \<Rightarrow> nat list \<Rightarrow> 'w protocol \<Rightarrow> (address \<times> 'w protocol) res" where
  "pm_deploy C sender serviceId impl data p =
     rbind (sm_deploy (evm C) (bridger_update C) (sm_address C) sender serviceId impl data (pm p)) (\<lambda>(msig, m). Inr (msig, p\<lparr>pm := m\<rparr>))"

end
