(* ===== verification/Service_Registry_Invariants.thy ===== *)
theory Service_Registry_Invariants
  imports Service_Registry_L2
begin

text \<open>
  What the service registry keeps true: the steps anyone can make are the successful external
  calls (\<open>sr_step\<close>), a state is reachable when a sequence of such calls leads to it from the
  constructor's state, and the theorems are invariants over the reachable states: the contract can
  always pay what it owes, every stored threshold satisfies its quorum bound, services
  move only along the documented state machine.
\<close>

section \<open>Steps and reachable states\<close>

text \<open>
  \<open>force_eth\<close> is ether that arrives without a call (a self-destructing contract, a block reward);
  the registry has no way to refuse it. The token operations, which anyone may call, carry
  what the EVM guarantees of \<^verbatim>\<open>msg.sender\<close>: it is not the zero address. A bond is a \<^verbatim>\<open>uint96\<close>
  of the decoded call data.
\<close>

inductive sr_step :: "env \<Rightarrow> address \<Rightarrow> service_registry \<Rightarrow> service_registry \<Rightarrow> bool"
  for E :: env and this :: address where
  changeOwner: "changeOwner sender a s = Inr s' \<Longrightarrow> sr_step E this s s'"
| changeManager: "changeManager sender a s = Inr s' \<Longrightarrow> sr_step E this s s'"
| setBaseURI: "setBaseURI sender uri s = Inr s' \<Longrightarrow> sr_step E this s s'"
| changeDrainer: "changeDrainer sender a s = Inr s' \<Longrightarrow> sr_step E this s s'"
| changeMultisigPermission:
    "changeMultisigPermission sender a p s = Inr (r, s') \<Longrightarrow> sr_step E this s s'"
| approve: "sender \<noteq> 0 \<Longrightarrow> approve sender a tid s = Inr s' \<Longrightarrow> sr_step E this s s'"
| setApprovalForAll: "sender \<noteq> 0 \<Longrightarrow> setApprovalForAll sender a b s = s' \<Longrightarrow> sr_step E this s s'"
| transferFrom: "sender \<noteq> 0 \<Longrightarrow> transferFrom sender from to tid s = Inr s' \<Longrightarrow> sr_step E this s s'"
| safeTransferFrom: "sender \<noteq> 0 \<Longrightarrow> safeTransferFrom E sender from to tid s = Inr s' \<Longrightarrow> sr_step E this s s'"
| create: "\<forall>p\<in>set params. bond p < 2 ^ 96 \<Longrightarrow>
    create E sender own hash ids params thr s = Inr (sid, s') \<Longrightarrow> sr_step E this s s'"
| update: "\<forall>p\<in>set params. bond p < 2 ^ 96 \<Longrightarrow>
    update sender own hash ids params thr sid s = Inr (r, s') \<Longrightarrow> sr_step E this s s'"
| activateRegistration:
    "activateRegistration sender val own sid s = Inr (r, s') \<Longrightarrow> sr_step E this s s'"
| registerAgents:
    "registerAgents sender val operator sid insts ids s = Inr (r, s') \<Longrightarrow> sr_step E this s s'"
| deploy: "deploy E sender own sid impl data s = Inr (r, s') \<Longrightarrow> sr_step E this s s'"
| slash: "slash sender insts amounts sid s = Inr (r, s') \<Longrightarrow> sr_step E this s s'"
| terminate: "terminate E this sender own sid s = Inr (r, s') \<Longrightarrow> sr_step E this s s'"
| unbond: "unbond E this sender operator sid s = Inr (r, s') \<Longrightarrow> sr_step E this s s'"
| drain: "drain E this sender s = Inr (r, s') \<Longrightarrow> sr_step E this s s'"
| force_eth: "s' = s\<lparr>ethBalance := ethBalance s + n\<rparr> \<Longrightarrow> sr_step E this s s'"

inductive sr_reachable :: "env \<Rightarrow> address \<Rightarrow> service_registry \<Rightarrow> bool"
  for E :: env and this :: address where
  init: "sr_reachable E this (new_registry deployer uri)"
| step: "sr_reachable E this s \<Longrightarrow> sr_step E this s s' \<Longrightarrow> sr_reachable E this s'"

text \<open>
  What a step of the inherited operations, of the permission setters and of the token transfers
  leaves alone: everything the service logic reads.
\<close>

definition service_view ::
    "service_registry \<Rightarrow> (uint256 \<Rightarrow> Service) \<times> (uint256 \<Rightarrow> nat) \<times> nat \<times> nat \<times> (uint256 \<Rightarrow> AgentParams)
      \<times> (uint256 \<Rightarrow> address list) \<times> (uint256 \<Rightarrow> AgentInstance list) \<times> uint256" where
  "service_view s = (mapServices s, mapOperatorAndServiceIdOperatorBalances s, slashedFunds s,
     ethBalance s, mapServiceAndAgentIdAgentParams s, mapServiceAndAgentIdAgentInstances s,
     mapOperatorAndServiceIdAgentInstances s, totalSupply s)"

lemma generic_steps_view [simp]:
  "changeOwner sender a s = Inr s' \<Longrightarrow> service_view s' = service_view s"
  "changeManager sender a s = Inr s' \<Longrightarrow> service_view s' = service_view s"
  "setBaseURI sender uri s = Inr s' \<Longrightarrow> service_view s' = service_view s"
  "approve sender a tid s = Inr s' \<Longrightarrow> service_view s' = service_view s"
  "service_view (setApprovalForAll sender a b s) = service_view s"
  "transferFrom sender from to tid s = Inr s' \<Longrightarrow> service_view s' = service_view s"
  "changeDrainer sender a s = Inr s' \<Longrightarrow> service_view s' = service_view s"
  "changeMultisigPermission sender a p s = Inr (r, s') \<Longrightarrow> service_view s' = service_view s"
  by (auto simp: service_view_def changeOwner_def changeManager_def setBaseURI_def approve_def
      setApprovalForAll_def transferFrom_def changeDrainer_def changeMultisigPermission_def Let_def
      split: if_splits)

lemma safeTransferFrom_view [simp]:
  "safeTransferFrom E sender from to tid s = Inr s' \<Longrightarrow> service_view s' = service_view s"
  by (auto simp: safeTransferFrom_def split: if_splits)

section \<open>What each call does, when it succeeds\<close>

lemma safeMint_InrD:
  assumes "safeMint E to tid s = Inr s'"
  shows "to \<noteq> 0" and "ownerOf_map s tid = 0"
    and "s' = s\<lparr>balanceOf_map := (balanceOf_map s)(to := balanceOf_map s to + 1),
                ownerOf_map := (ownerOf_map s)(tid := to), events := events s @ [Transfer 0 to tid]\<rparr>"
  using assms by (auto simp: safeMint_def mint_def split: if_splits)

text \<open>Slots requested by, and parameter map after, a list of (agent id, parameters) pairs.\<close>

definition sumSlots :: "(uint32 \<times> AgentParams) list \<Rightarrow> nat" where
  "sumSlots xs = (\<Sum>x\<leftarrow>xs. slots (snd x))"

lemma sumSlots_simps [simp]:
  "sumSlots [] = 0"
  "sumSlots ((a, p) # xs) = slots p + sumSlots xs"
  by (simp_all add: sumSlots_def)

fun putParams :: "uint256 \<Rightarrow> (uint32 \<times> AgentParams) list \<Rightarrow> (uint256 \<Rightarrow> AgentParams) \<Rightarrow> (uint256 \<Rightarrow> AgentParams)"
  where
  "putParams sid [] m = m"
| "putParams sid ((a, p) # xs) m = putParams sid xs (m(serviceAgent sid a := p))"

lemma setServiceData_loop_InrD:
  "setServiceData_loop sid xs n d m = Inr (n', d', m') \<Longrightarrow>
     n' = n + sumSlots xs \<and> d \<le> d' \<and> (\<forall>x\<in>set xs. bond (snd x) \<le> d') \<and> m' = putParams sid xs m"
proof (induction xs arbitrary: n d m)
  case Nil
  then show ?case by simp
next
  case (Cons x xs)
  obtain a p where x: "x = (a, p)" by (cases x)
  from Cons.prems have rest: "setServiceData_loop sid xs (n + slots p)
      (if bond p > d then bond p else d) (m(serviceAgent sid a := p)) = Inr (n', d', m')"
    by (auto simp: x)
  from Cons.IH [OF rest] show ?case
    by (auto simp: x fun_upd_def split: if_splits)
qed

definition quorum_ok :: "Service \<Rightarrow> bool" where
  "quorum_ok v \<longleftrightarrow> threshold v \<le> maxNumAgentInstances v
     \<and> 2 * maxNumAgentInstances v + 1 \<le> 3 * threshold v \<and> 2 * maxNumAgentInstances v + 1 < 2 ^ 32"

lemma minThreshold_bound: "minThreshold n \<le> t \<longleftrightarrow> 2 * n + 1 \<le> 3 * t"
  unfolding minThreshold_def Let_def by presburger

lemma setServiceData_InrD:
  assumes "setServiceData v ids params sid m = Inr (v', m')"
  shows "\<exists>d. v' = v\<lparr>agentIds := ids, maxNumAgentInstances :=
            maxNumAgentInstances v + sumSlots (zip ids params), securityDeposit := d\<rparr>
          \<and> (\<forall>x\<in>set (zip ids params). bond (snd x) \<le> d)"
    and "quorum_ok v'"
    and "m' = putParams sid (zip ids params) m"
proof -
  from assms obtain n d where
      loop: "setServiceData_loop sid (zip ids params) (maxNumAgentInstances v) 0 m = Inr (n, d, m')"
    and thr: "minThreshold n \<le> threshold v" "threshold v \<le> n" and n: "n + n + 1 < 2 ^ 32"
    and v': "v' = v\<lparr>agentIds := ids, maxNumAgentInstances := n, securityDeposit := d\<rparr>"
    by (auto simp: setServiceData_def not_less split: if_splits)
  from setServiceData_loop_InrD [OF loop] v'
  show "\<exists>d. v' = v\<lparr>agentIds := ids, maxNumAgentInstances :=
            maxNumAgentInstances v + sumSlots (zip ids params), securityDeposit := d\<rparr>
          \<and> (\<forall>x\<in>set (zip ids params). bond (snd x) \<le> d)"
    and "m' = putParams sid (zip ids params) m"
    by blast+
  from thr n show "quorum_ok v'"
    by (simp add: v' quorum_ok_def minThreshold_bound)
qed

lemma create_InrD:
  assumes "create E sender own hash ids params thr s = Inr (sid, s')"
  shows "\<exists>v d.
     sid = totalSupply s + 1 \<and> unat sid = unat (totalSupply s) + 1 \<and> own \<noteq> 0 \<and> sender = manager s \<and>
     ownerOf_map s sid = 0 \<and> initialChecks hash ids params = Inr () \<and>
     v = empty_service\<lparr>threshold := thr, configHash := hash, state := PreRegistration, agentIds := ids,
           maxNumAgentInstances := sumSlots (zip ids params), securityDeposit := d\<rparr> \<and>
     (\<forall>x\<in>set (zip ids params). bond (snd x) \<le> d) \<and> quorum_ok v \<and>
     s' = s\<lparr>balanceOf_map := (balanceOf_map s)(own := balanceOf_map s own + 1),
            ownerOf_map := (ownerOf_map s)(sid := own), totalSupply := sid, locked := 1,
            events := events s @ [Transfer 0 own sid, CreateService sid hash],
            mapServices := (mapServices s)(sid := v), mapServiceAndAgentIdAgentParams :=
              putParams sid (zip ids params) (mapServiceAndAgentIdAgentParams s)\<rparr>"
proof -
  let ?sid = "of_nat (unat (totalSupply s) + 1) :: uint256"
  let ?v0 = "empty_service\<lparr>threshold := thr, configHash := hash, state := PreRegistration\<rparr>"
  from assms obtain v m s1 where lock: "locked s \<le> 1" and mgr: "sender = manager s"
    and chk: "initialChecks hash ids params = Inr ()"
    and n: "unat (totalSupply s) + 1 < 2 ^ 256"
    and data: "setServiceData ?v0 ids params ?sid (mapServiceAndAgentIdAgentParams s) = Inr (v, m)"
    and mint: "safeMint E own ?sid (s\<lparr>locked := 2, mapServiceAndAgentIdAgentParams := m,
                 mapServices := (mapServices s)(?sid := v), totalSupply := ?sid\<rparr>) = Inr s1"
    and res: "sid = ?sid" "s' = (emit (CreateService ?sid hash) s1)\<lparr>locked := 1\<rparr>"
    by (auto simp: create_def Let_def split: if_splits)
  have sid: "sid = totalSupply s + 1" "unat sid = unat (totalSupply s) + 1"
    using unat_of_nat_uint256 [OF n] by (simp_all add: res(1))
  note mint' = safeMint_InrD [OF mint [folded res(1)]]
  note data' = setServiceData_InrD [OF data [folded res(1)]]
  from data'(1) obtain d where v: "v = ?v0\<lparr>agentIds := ids, maxNumAgentInstances :=
      sumSlots (zip ids params), securityDeposit := d\<rparr>"
    and d: "\<forall>x\<in>set (zip ids params). bond (snd x) \<le> d"
    by (auto simp: empty_service_def)
  have s': "s' = s\<lparr>balanceOf_map := (balanceOf_map s)(own := balanceOf_map s own + 1),
            ownerOf_map := (ownerOf_map s)(sid := own), totalSupply := sid, locked := 1,
            events := events s @ [Transfer 0 own sid, CreateService sid hash],
            mapServices := (mapServices s)(sid := v), mapServiceAndAgentIdAgentParams :=
              putParams sid (zip ids params) (mapServiceAndAgentIdAgentParams s)\<rparr>"
    by (rule service_registry.equality)
      (simp_all add: res(2) [folded res(1)] mint'(3) data'(3))
  show ?thesis
    by (intro exI [of _ v] exI [of _ d] conjI)
      (use sid mint'(1,2) mgr chk v d data'(2) s' in simp_all)
qed

lemma ownerOf_Inr_iff [simp]: "ownerOf tid s = Inr a \<longleftrightarrow> ownerOf_map s tid = a \<and> a \<noteq> 0"
  by (auto simp: ownerOf_def)

text \<open>An update, when it succeeds, rewrites one service in place and keeps its state.\<close>

lemma update_InrD:
  assumes "update sender own hash ids params thr sid s = Inr (r, s')"
  defines "new \<equiv> kept (zip ids params)"
  shows "\<exists>v d.
     sender = manager s \<and> ownerOf_map s sid = own \<and> own \<noteq> 0 \<and> state (mapServices s sid) = PreRegistration \<and>
     initialChecks hash ids params = Inr () \<and>
     v = (mapServices s sid)\<lparr>threshold := thr, configHash := hash, agentIds := map fst new,
            maxNumAgentInstances := sumSlots new, securityDeposit := d\<rparr> \<and>
     (\<forall>x\<in>set new. bond (snd x) \<le> d) \<and> quorum_ok v \<and>
     s' = s\<lparr>mapConfigHashes := (if configHash (mapServices s sid) \<noteq> hash then (mapConfigHashes s)
               (sid := mapConfigHashes s sid @ [configHash (mapServices s sid)]) else mapConfigHashes s),
            events := events s @ [UpdateService sid hash], mapServices := (mapServices s)(sid := v),
            mapServiceAndAgentIdAgentParams := putParams sid new
              (update_delete_loop sid (zip ids params) (mapServiceAndAgentIdAgentParams s))\<rparr>"
proof -
  let ?v0 = "mapServices s sid"
  let ?v1 = "if configHash ?v0 \<noteq> hash
    then ?v0\<lparr>threshold := thr, maxNumAgentInstances := 0\<rparr>\<lparr>configHash := hash\<rparr>
    else ?v0\<lparr>threshold := thr, maxNumAgentInstances := 0\<rparr>"
  let ?m = "update_delete_loop sid (zip ids params) (mapServiceAndAgentIdAgentParams s)"
  have zipnew: "zip (map fst new) (map snd new) = new"
    by (simp add: zip_map_fst_snd)
  from assms obtain v m where pre: "sender = manager s" "ownerOf_map s sid = own" "own \<noteq> 0"
      "state ?v0 = PreRegistration" "initialChecks hash ids params = Inr ()"
    and data: "setServiceData ?v1 (map fst new) (map snd new) sid ?m = Inr (v, m)"
    and s': "s' = emit (UpdateService sid hash)
       (s\<lparr>mapConfigHashes := (if configHash ?v0 \<noteq> hash then (mapConfigHashes s)
             (sid := mapConfigHashes s sid @ [configHash ?v0]) else mapConfigHashes s),
          mapServiceAndAgentIdAgentParams := m, mapServices := (mapServices s)(sid := v)\<rparr>)"
    by (auto simp: update_def Let_def split: if_splits)
  note data' = setServiceData_InrD [OF data, unfolded zipnew]
  from data'(1) obtain d where v: "v = ?v0\<lparr>threshold := thr, configHash := hash,
      agentIds := map fst new, maxNumAgentInstances := sumSlots new, securityDeposit := d\<rparr>"
    and d: "\<forall>x\<in>set new. bond (snd x) \<le> d"
    by (cases ?v0) (auto split: if_splits)
  show ?thesis
    by (intro exI [of _ v] exI [of _ d] conjI)
      (use pre v d data'(2) in simp_all, simp add: s' data'(3))
qed

lemma activateRegistration_InrD:
  assumes "activateRegistration sender val own sid s = Inr (r, s')"
  shows "sender = manager s \<and> ownerOf_map s sid = own \<and> own \<noteq> 0 \<and>
     state (mapServices s sid) = PreRegistration \<and> val = securityDeposit (mapServices s sid) \<and>
     s' = s\<lparr>events := events s @ [ActivateRegistration sid], ethBalance := ethBalance s + val,
            mapServices := (mapServices s)(sid := (mapServices s sid)\<lparr>state := ActiveRegistration\<rparr>)\<rparr>"
  using assms by (auto simp: activateRegistration_def Let_def split: if_splits)

section \<open>The registration loop\<close>

text \<open>
  The loop touches the counter of one service, the instance lists and the engagement map;
  the slots, the balances and the funds are as before.
\<close>

lemma register_loop_frame:
  "register_loop operator sid xs s = Inr s' \<Longrightarrow>
     mapServices s' = (mapServices s)(sid := (mapServices s sid)
       \<lparr>numAgentInstances := numAgentInstances (mapServices s sid) + length xs\<rparr>) \<and>
     mapOperatorAndServiceIdOperatorBalances s' = mapOperatorAndServiceIdOperatorBalances s \<and>
     mapServiceAndAgentIdAgentParams s' = mapServiceAndAgentIdAgentParams s \<and>
     slashedFunds s' = slashedFunds s \<and> ethBalance s' = ethBalance s \<and>
     totalSupply s' = totalSupply s \<and> ownerOf_map s' = ownerOf_map s \<and> manager s' = manager s \<and>
     isApprovedForAll s' = isApprovedForAll s \<and> getApproved s' = getApproved s \<and> locked s' = locked s \<and>
     mapOperatorAndServiceIdAgentInstances s' = (mapOperatorAndServiceIdAgentInstances s)
       (operatorService operator sid := mapOperatorAndServiceIdAgentInstances s (operatorService operator sid)
          @ map (\<lambda>(a, i). \<lparr>inst_addr = a, inst_agentId = i\<rparr>) xs) \<and>
     (xs = [] \<or> numAgentInstances (mapServices s sid) + length xs < 2 ^ 32)"
proof (induction operator sid xs s rule: register_loop.induct)
  case (1 operator sid s)
  then show ?case by simp
next
  case (2 operator sid inst aid rest s)
  let ?s1 = "emit (RegisterInstance operator sid inst aid)
    (s\<lparr>mapServiceAndAgentIdAgentInstances := (mapServiceAndAgentIdAgentInstances s)
         (serviceAgent sid aid := mapServiceAndAgentIdAgentInstances s (serviceAgent sid aid) @ [inst]),
       mapOperatorAndServiceIdAgentInstances := (mapOperatorAndServiceIdAgentInstances s)
         (operatorService operator sid := mapOperatorAndServiceIdAgentInstances s (operatorService operator sid)
            @ [\<lparr>inst_addr = inst, inst_agentId = aid\<rparr>]),
       mapServices := (mapServices s)(sid := (mapServices s sid)
         \<lparr>numAgentInstances := numAgentInstances (mapServices s sid) + 1\<rparr>),
       mapAgentInstanceOperators := (mapAgentInstanceOperators s)(inst := operator)\<rparr>)"
  from "2.prems" have rest: "register_loop operator sid rest ?s1 = Inr s'"
    and bound: "numAgentInstances (mapServices s sid) + 1 < 2 ^ 32"
    and guards: "operator \<noteq> inst" "mapAgentInstanceOperators s inst = 0"
      "length (mapServiceAndAgentIdAgentInstances s (serviceAgent sid aid))
         \<noteq> slots (mapServiceAndAgentIdAgentParams s (serviceAgent sid aid))"
    by (auto simp: Let_def split: if_splits)
  from "2.IH" [OF guards(1) _ refl refl guards(3) rest] guards(2) bound show ?case
    by (cases "rest = []") (auto simp: fun_upd_def)
qed

lemma registerAgents_InrD:
  assumes "registerAgents sender val operator sid insts ids s = Inr (r, s')"
  shows "\<exists>v. sender = manager s \<and> length insts = length ids \<and>
     state (mapServices s sid) = ActiveRegistration \<and>
     v = (mapServices s sid)\<lparr>numAgentInstances := numAgentInstances (mapServices s sid) + length ids\<rparr> \<and>
     mapServices s' = (mapServices s)(sid := (if numAgentInstances v = maxNumAgentInstances v
        then v\<lparr>state := FinishedRegistration\<rparr> else v)) \<and>
     mapOperatorAndServiceIdOperatorBalances s' = (mapOperatorAndServiceIdOperatorBalances s)
       (operatorService operator sid :=
          mapOperatorAndServiceIdOperatorBalances s (operatorService operator sid) + val mod 2 ^ 96) \<and>
     mapServiceAndAgentIdAgentParams s' = mapServiceAndAgentIdAgentParams s \<and>
     slashedFunds s' = slashedFunds s \<and> ethBalance s' = ethBalance s + val \<and>
     totalSupply s' = totalSupply s \<and> ownerOf_map s' = ownerOf_map s \<and>
     isApprovedForAll s' = isApprovedForAll s \<and> getApproved s' = getApproved s \<and> locked s' = locked s \<and>
     mapOperatorAndServiceIdAgentInstances s' = (mapOperatorAndServiceIdAgentInstances s)
       (operatorService operator sid := mapOperatorAndServiceIdAgentInstances s (operatorService operator sid)
          @ map (\<lambda>(a, i). \<lparr>inst_addr = a, inst_agentId = i\<rparr>) (zip insts ids)) \<and>
     (ids = [] \<or> numAgentInstances (mapServices s sid) + length ids < 2 ^ 32)"
proof -
  from assms obtain s1 where
      loop: "register_loop operator sid (zip insts ids) (s\<lparr>ethBalance := ethBalance s + val\<rparr>) = Inr s1"
    and pre: "sender = manager s" "length insts = length ids" "state (mapServices s sid) = ActiveRegistration"
    and fin: "registerAgents_finish operator sid val s1 = Inr (r, s')"
    by (auto simp: registerAgents_def split: if_splits)
  from register_loop_frame [OF loop] pre fin show ?thesis
    by (auto simp: registerAgents_finish_def Let_def fun_upd_def)
qed

section \<open>Deployment, slashing, termination, unbonding, draining\<close>

lemma deploy_InrD:
  assumes "deploy E sender own sid impl data s = Inr (msig, s')"
  shows "\<exists>insts. sender = manager s \<and> ownerOf_map s sid = own \<and> mapMultisigs s impl \<and>
     state (mapServices s sid) = FinishedRegistration \<and>
     getAgentInstances (mapServices s sid) sid s = Inr insts \<and>
     multisig_create E impl insts (threshold (mapServices s sid)) data = Some msig \<and>
     s' = s\<lparr>events := events s @ [CreateMultisigWithAgents sid msig, DeployService sid], locked := 1,
            mapServices := (mapServices s)
              (sid := (mapServices s sid)\<lparr>multisig := msig, state := Deployed\<rparr>)\<rparr>"
  using assms by (auto simp: deploy_def Let_def split: if_splits option.splits)

lemma send_eth_Some_iff:
  "send_eth E to amount s = Some s' \<longleftrightarrow>
     amount \<le> ethBalance s \<and> eth_accepts E to amount \<and> s' = s\<lparr>ethBalance := ethBalance s - amount\<rparr>"
  by (auto simp: send_eth_def)

lemma terminate_InrD:
  assumes "terminate E this sender own sid s = Inr ((ok, refund), s')"
  shows "ok \<and> locked s \<le> 1 \<and> sender = manager s \<and> ownerOf_map s sid = own \<and> own \<noteq> 0 \<and>
     state (mapServices s sid) \<noteq> PreRegistration \<and> state (mapServices s sid) \<noteq> TerminatedBonded \<and>
     refund = securityDeposit (mapServices s sid) \<and> refund \<le> ethBalance s \<and> eth_accepts E own refund \<and>
     s' = s\<lparr>events := events s @ [Refund own refund, TerminateService sid], locked := 1,
            mapServices := (mapServices s)(sid := (mapServices s sid)\<lparr>state :=
              (if numAgentInstances (mapServices s sid) > 0 then TerminatedBonded else PreRegistration)\<rparr>),
            mapServiceAndAgentIdAgentInstances := fold (\<lambda>a m. m(serviceAgent sid a := []))
              (agentIds (mapServices s sid)) (mapServiceAndAgentIdAgentInstances s),
            ethBalance := ethBalance s - refund\<rparr>"
proof -
  from assms have pre: "locked s \<le> 1" "sender = manager s" "ownerOf_map s sid = own" "own \<noteq> 0"
      "state (mapServices s sid) \<noteq> PreRegistration" "state (mapServices s sid) \<noteq> TerminatedBonded"
    by (auto simp: terminate_def Let_def split: if_splits option.splits)
  let ?v = "mapServices s sid"
  let ?s1 = "s\<lparr>locked := 2, mapServices := (mapServices s)(sid := ?v\<lparr>state :=
        (if numAgentInstances ?v > 0 then TerminatedBonded else PreRegistration)\<rparr>),
      mapServiceAndAgentIdAgentInstances := fold (\<lambda>a m. m(serviceAgent sid a := []))
        (agentIds ?v) (mapServiceAndAgentIdAgentInstances s)\<rparr>"
  from assms pre obtain s2 where send: "send_eth E own (securityDeposit ?v) ?s1 = Some s2"
    and res: "ok" "refund = securityDeposit ?v"
      "s' = (emit (TerminateService sid) (emit (Refund own (securityDeposit ?v)) s2))\<lparr>locked := 1\<rparr>"
    by (auto simp: terminate_def ownerOf_def Let_def split: option.splits)
  from send have "securityDeposit ?v \<le> ethBalance s" "eth_accepts E own (securityDeposit ?v)"
    and s2: "s2 = ?s1\<lparr>ethBalance := ethBalance s - securityDeposit ?v\<rparr>"
    by (simp_all add: send_eth_Some_iff)
  with pre res show ?thesis
    by simp
qed

text \<open>
  Slashing moves funds from operators' balances to \<open>slashedFunds\<close> and touches nothing else the
  accounting reads: the sum of both stays what it was.
\<close>

abbreviation op_balances :: "service_registry \<Rightarrow> uint256 \<Rightarrow> nat" where
  "op_balances \<equiv> mapOperatorAndServiceIdOperatorBalances"

definition slashed_from :: "service_registry \<Rightarrow> service_registry \<Rightarrow> bool" where
  "slashed_from s s' \<longleftrightarrow>
     mapServices s' = mapServices s \<and> ethBalance s' = ethBalance s \<and>
     mapServiceAndAgentIdAgentParams s' = mapServiceAndAgentIdAgentParams s \<and>
     mapServiceAndAgentIdAgentInstances s' = mapServiceAndAgentIdAgentInstances s \<and>
     mapOperatorAndServiceIdAgentInstances s' = mapOperatorAndServiceIdAgentInstances s \<and>
     mapAgentInstanceOperators s' = mapAgentInstanceOperators s \<and>
     totalSupply s' = totalSupply s \<and> locked s' = locked s \<and> ownerOf_map s' = ownerOf_map s \<and>
     isApprovedForAll s' = isApprovedForAll s \<and> getApproved s' = getApproved s \<and>
     (\<Sum>k\<in>UNIV. op_balances s' k) + slashedFunds s' = (\<Sum>k\<in>UNIV. op_balances s k) + slashedFunds s \<and>
     slashedFunds s \<le> slashedFunds s' \<and> (\<forall>k. op_balances s' k \<le> op_balances s k)"

lemma slashed_from_refl: "slashed_from s s"
  by (simp add: slashed_from_def)

lemma slashed_from_trans: "slashed_from s1 s2 \<Longrightarrow> slashed_from s2 s3 \<Longrightarrow> slashed_from s1 s3"
  by (auto simp: slashed_from_def intro: order_trans)

lemma slash_one_Inr_iff:
  "slash_one sid inst amount s = Inr s' \<longleftrightarrow>
    (let operator = mapAgentInstanceOperators s inst; k = operatorService operator sid;
         cut = min amount (op_balances s k)
     in amount + 1 < 2 ^ 96 \<and> slashedFunds s + cut < 2 ^ 96 \<and>
        s' = emit (OperatorSlashed amount operator sid)
          (s\<lparr>slashedFunds := slashedFunds s + cut,
             mapOperatorAndServiceIdOperatorBalances := (op_balances s)(k := op_balances s k - cut)\<rparr>))"
  by (auto simp: slash_one_def Let_def rbind_Inr_iff min_def split: if_splits)

lemma slash_one_slashed_from: "slash_one sid inst amount s = Inr s' \<Longrightarrow> slashed_from s s'"
proof -
  assume one: "slash_one sid inst amount s = Inr s'"
  let ?k = "operatorService (mapAgentInstanceOperators s inst) sid"
  let ?cut = "min amount (op_balances s ?k)"
  have "(\<Sum>k\<in>UNIV. ((op_balances s)(?k := op_balances s ?k - ?cut)) k) + op_balances s ?k
      = (\<Sum>k\<in>UNIV. op_balances s k) + (op_balances s ?k - ?cut)"
    by (rule sum_fun_upd)
  moreover have "?cut \<le> op_balances s ?k"
    by simp
  ultimately have "(\<Sum>k\<in>UNIV. ((op_balances s)(?k := op_balances s ?k - ?cut)) k) + ?cut
      = (\<Sum>k\<in>UNIV. op_balances s k)"
    by linarith
  moreover have "((op_balances s)(?k := op_balances s ?k - ?cut)) j \<le> op_balances s j" for j
    by simp
  ultimately show ?thesis
    using one by (auto simp: slash_one_Inr_iff Let_def slashed_from_def simp del: fun_upd_apply)
qed

lemma slash_loop_slashed_from: "slash_loop sid xs s = Inr s' \<Longrightarrow> slashed_from s s'"
proof (induction sid xs s rule: slash_loop.induct)
  case (1 sid s)
  then show ?case by (simp add: slashed_from_refl)
next
  case (2 sid inst amount rest s)
  from "2.prems" obtain s1 where "slash_one sid inst amount s = Inr s1" "slash_loop sid rest s1 = Inr s'"
    by auto
  with "2.IH" show ?case
    by (blast intro: slashed_from_trans slash_one_slashed_from)
qed

lemma slash_InrD:
  assumes "slash sender insts amounts sid s = Inr (r, s')"
  shows "state (mapServices s sid) = Deployed" and "sender = multisig (mapServices s sid)"
    and "slashed_from s s'"
  using assms by (auto simp: slash_def Let_def dest: slash_loop_slashed_from split: if_splits)

lemma drain_InrD:
  assumes "drain E this sender s = Inr (amount, s')"
  shows "sender = drainer s" and "amount = slashedFunds s" and "amount \<le> ethBalance s \<or> amount = 0"
    and "\<exists>l e. s' = s\<lparr>slashedFunds := 0, locked := l, events := e, ethBalance := ethBalance s - amount\<rparr>"
proof -
  show "sender = drainer s" "amount = slashedFunds s" "amount \<le> ethBalance s \<or> amount = 0"
    using assms by (auto simp: drain_def Let_def send_eth_Some_iff split: if_splits option.splits)
  show "\<exists>l e. s' = s\<lparr>slashedFunds := 0, locked := l, events := e, ethBalance := ethBalance s - amount\<rparr>"
  proof (cases "slashedFunds s = 0")
    case True
    with assms have "s' = s\<lparr>locked := 1\<rparr>" "amount = 0"
      by (auto simp: drain_def Let_def split: if_splits)
    with True have "s' = s\<lparr>slashedFunds := 0, locked := 1, events := events s, ethBalance := ethBalance s - amount\<rparr>"
      by simp
    then show ?thesis by blast
  next
    case False
    with assms have "s' = s\<lparr>slashedFunds := 0, locked := 1, events := events s @ [Drain sender amount],
        ethBalance := ethBalance s - amount\<rparr>"
      by (auto simp: drain_def Let_def send_eth_Some_iff split: if_splits option.splits)
    then show ?thesis by blast
  qed
qed

text \<open>Unbonding: the loop adds the bonds up and frees the instances.\<close>

lemma unbond_loop_InrD:
  "unbond_loop sid xs r s = Inr (r', s') \<Longrightarrow>
     r' = r + (\<Sum>x\<leftarrow>xs. bond (mapServiceAndAgentIdAgentParams s (serviceAgent sid (inst_agentId x)))) \<and>
     s' = s\<lparr>mapAgentInstanceOperators :=
            fold (\<lambda>x m. m(inst_addr x := 0)) xs (mapAgentInstanceOperators s)\<rparr>"
proof (induction xs arbitrary: r s)
  case Nil
  then show ?case by simp
next
  case (Cons x xs)
  then show ?case
    by (fastforce dest!: Cons.IH)
qed

text \<open>
  The bonds registered for an operator, what the operator is paid, and the state after a
  successful \<^verbatim>\<open>unbond\<close>.
\<close>

definition bonds_of :: "address \<Rightarrow> uint256 \<Rightarrow> service_registry \<Rightarrow> nat" where
  "bonds_of operator sid s =
     (\<Sum>x\<leftarrow>mapOperatorAndServiceIdAgentInstances s (operatorService operator sid).
        bond (mapServiceAndAgentIdAgentParams s (serviceAgent sid (inst_agentId x))))"

lemma unbond_refund_InrD:
  assumes "unbond_refund E this operator sid bonds s = Inr (refund, s')"
  defines "k \<equiv> operatorService operator sid"
  shows "refund = min bonds (op_balances s k)"
    and "refund > 0 \<Longrightarrow> refund \<le> ethBalance s \<and> eth_accepts E operator refund"
    and "\<exists>e. s' = s\<lparr>events := e,
       mapOperatorAndServiceIdOperatorBalances := (if refund > 0 then (op_balances s)(k := 0) else op_balances s),
       ethBalance := ethBalance s - refund\<rparr>"
  using assms(1)
  by (auto intro: exI [of _ "events s'"] simp: unbond_refund_def Let_def send_eth_Some_iff k_def split: if_splits option.splits)

lemma unbond_InrD:
  assumes "unbond E this sender operator sid s = Inr ((ok, refund), s')"
  defines "k \<equiv> operatorService operator sid"
  defines "n \<equiv> length (mapOperatorAndServiceIdAgentInstances s k)"
  shows "ok" "locked s \<le> 1" "sender = manager s" "operator \<noteq> 0" "n \<noteq> 0"
    and "state (mapServices s sid) = TerminatedBonded" "n mod 2 ^ 32 \<le> numAgentInstances (mapServices s sid)"
    and "refund = min (bonds_of operator sid s) (op_balances s k)"
    and "refund > 0 \<Longrightarrow> refund \<le> ethBalance s \<and> eth_accepts E operator refund"
    and "\<exists>e. s' = s\<lparr>locked := 1, events := e,
       mapServices := (mapServices s)(sid := unbonded_service (mapServices s sid) (numAgentInstances (mapServices s sid) - n mod 2 ^ 32)),
       mapOperatorAndServiceIdAgentInstances := (mapOperatorAndServiceIdAgentInstances s)(k := []),
       mapAgentInstanceOperators := fold (\<lambda>x m. m(inst_addr x := 0))
         (mapOperatorAndServiceIdAgentInstances s k) (mapAgentInstanceOperators s),
       mapOperatorAndServiceIdOperatorBalances := (if refund > 0 then (op_balances s)(k := 0) else op_balances s),
       ethBalance := ethBalance s - refund\<rparr>"
proof -
  let ?v = "mapServices s sid"
  let ?l = "mapOperatorAndServiceIdAgentInstances s k"
  let ?v' = "unbonded_service ?v (numAgentInstances ?v - n mod 2 ^ 32)"
  let ?s0 = "s\<lparr>locked := 2, mapServices := (mapServices s)(sid := ?v')\<rparr>"
  from assms(1) show pre: "locked s \<le> 1" "sender = manager s" "operator \<noteq> 0" "n \<noteq> 0"
    "state ?v = TerminatedBonded" "n mod 2 ^ 32 \<le> numAgentInstances ?v"
    by (auto simp: unbond_def Let_def k_def n_def split: if_splits)
  from assms(1) pre obtain bonds s1 s2 where
      loop: "unbond_loop sid ?l 0 ?s0 = Inr (bonds, s1)"
    and pay: "unbond_refund E this operator sid bonds (s1\<lparr>mapOperatorAndServiceIdAgentInstances :=
                    (mapOperatorAndServiceIdAgentInstances s1)(k := [])\<rparr>) = Inr (refund, s2)"
    and res: "ok" "s' = (emit (OperatorUnbond operator sid) s2)\<lparr>locked := 1\<rparr>"
    by (auto simp: unbond_def Let_def k_def n_def)
  show ok by (rule res(1))
  note loop' = unbond_loop_InrD [OF loop]
  note pay' = unbond_refund_InrD [OF pay]
  from pay'(3) obtain e where s2: "s2 = s1\<lparr>mapOperatorAndServiceIdAgentInstances :=
      (mapOperatorAndServiceIdAgentInstances s1)(k := []), events := e,
      mapOperatorAndServiceIdOperatorBalances := (if refund > 0 then (op_balances s1)(k := 0) else op_balances s1),
      ethBalance := ethBalance s1 - refund\<rparr>"
    by (cases "refund > 0") (auto simp: k_def)
  show "refund = min (bonds_of operator sid s) (op_balances s k)"
    using loop' pay'(1) by (simp add: bonds_of_def k_def)
  show "refund > 0 \<Longrightarrow> refund \<le> ethBalance s \<and> eth_accepts E operator refund"
    using pay'(2) loop' by simp
  show "\<exists>e. s' = s\<lparr>locked := 1, events := e, mapServices := (mapServices s)(sid := ?v'),
       mapOperatorAndServiceIdAgentInstances := (mapOperatorAndServiceIdAgentInstances s)(k := []),
       mapAgentInstanceOperators := fold (\<lambda>x m. m(inst_addr x := 0)) ?l (mapAgentInstanceOperators s),
       mapOperatorAndServiceIdOperatorBalances := (if refund > 0 then (op_balances s)(k := 0) else op_balances s),
       ethBalance := ethBalance s - refund\<rparr>"
    by (rule exI [of _ "events s'"], rule service_registry.equality)
      (cases "refund > 0"; simp add: res(2) s2 loop' k_def)+
qed

section \<open>Solvency\<close>

text \<open>
  What the contract owes: the security deposits of the services that are active, full or deployed, the
  bonding balances of the operators, and the slashed funds the drainer may collect.
\<close>

definition held :: "Service \<Rightarrow> nat" where
  "held v = (if state v \<in> {ActiveRegistration, FinishedRegistration, Deployed} then securityDeposit v else 0)"

definition obl :: "(uint256 \<Rightarrow> Service) \<Rightarrow> (uint256 \<Rightarrow> nat) \<Rightarrow> nat \<Rightarrow> nat" where
  "obl f b x = (\<Sum>i\<in>UNIV. held (f i)) + (\<Sum>k\<in>UNIV. b k) + x"

definition obligations :: "service_registry \<Rightarrow> nat" where
  "obligations s = obl (mapServices s) (op_balances s) (slashedFunds s)"

definition solvent :: "service_registry \<Rightarrow> bool" where
  "solvent s \<longleftrightarrow> obligations s \<le> ethBalance s"

lemma obl_service_upd: "obl (f(i := v)) b x + held (f i) = obl f b x + held v"
  using sum_fun_upd_comp [of held f i v] by (simp only: obl_def)

lemma obl_balance_upd: "obl f (b(k := n)) x + b k = obl f b x + n"
  using sum_fun_upd [of b k n] by (simp only: obl_def)

lemma obl_slashed: "obl f b x = obl f b 0 + x"
  by (simp add: obl_def)

lemma solvent_new_registry: "solvent (new_registry a uri)"
  by (simp add: solvent_def obligations_def obl_def new_registry_def held_def empty_service_def)

lemma solvent_view: "service_view s' = service_view s \<Longrightarrow> solvent s \<Longrightarrow> solvent s'"
  by (simp add: service_view_def solvent_def obligations_def)

text \<open>
  Every operation rewrites at most one service and one operator balance; it keeps the contract
  solvent when what it adds to the obligations is matched by the ether it takes in.
\<close>

lemma solvent_upd:
  assumes "solvent s" and f: "mapServices s' = (mapServices s)(i := v)"
    and b: "op_balances s' = (op_balances s)(k := n)" and x: "slashedFunds s' = slashedFunds s"
    and le: "held v + n + ethBalance s \<le> held (mapServices s i) + op_balances s k + ethBalance s'"
  shows "solvent s'"
proof -
  have "obligations s' + op_balances s k = obl (mapServices s') (op_balances s) (slashedFunds s) + n"
    using obl_balance_upd by (simp only: obligations_def b x)
  moreover have "obl (mapServices s') (op_balances s) (slashedFunds s) + held (mapServices s i)
      = obligations s + held v"
    using obl_service_upd by (simp only: obligations_def f)
  ultimately have "obligations s' + op_balances s k + held (mapServices s i) = obligations s + held v + n"
    by linarith
  with le \<open>solvent s\<close> show ?thesis
    unfolding solvent_def by linarith
qed

lemma solvent_service_upd:
  assumes "solvent s" and "mapServices s' = (mapServices s)(i := v)"
    and "op_balances s' = op_balances s" and "slashedFunds s' = slashedFunds s"
    and "held v + ethBalance s \<le> held (mapServices s i) + ethBalance s'"
  shows "solvent s'"
  using assms by (intro solvent_upd [OF assms(1), where k = 0 and n = "op_balances s 0"]) auto

lemma solvent_create:
  assumes "create E sender own hash ids params thr s = Inr (sid, s')" and "solvent s"
  shows "solvent s'"
proof -
  from create_InrD [OF assms(1)] obtain v where "mapServices s' = (mapServices s)(sid := v)"
      "op_balances s' = op_balances s" "slashedFunds s' = slashedFunds s" "ethBalance s' = ethBalance s"
      "held v = 0"
    by (auto simp: held_def)
  with assms(2) show ?thesis
    by (intro solvent_service_upd [OF assms(2), where i = sid and v = v]) auto
qed

lemma solvent_update:
  assumes "update sender own hash ids params thr sid s = Inr (r, s')" and "solvent s"
  shows "solvent s'"
proof -
  from update_InrD [OF assms(1)] obtain v where "mapServices s' = (mapServices s)(sid := v)"
      "op_balances s' = op_balances s" "slashedFunds s' = slashedFunds s" "ethBalance s' = ethBalance s"
      "held v = 0"
    by (auto simp: held_def)
  with assms(2) show ?thesis
    by (intro solvent_service_upd [OF assms(2), where i = sid and v = v]) auto
qed

lemma solvent_activateRegistration:
  assumes "activateRegistration sender val own sid s = Inr (r, s')" and "solvent s"
  shows "solvent s'"
  using activateRegistration_InrD [OF assms(1)] assms(2)
  by (intro solvent_service_upd [OF assms(2), where i = sid and v = "(mapServices s sid)\<lparr>state := ActiveRegistration\<rparr>"])
    (auto simp: held_def)

lemma solvent_registerAgents:
  assumes "registerAgents sender val operator sid insts ids s = Inr (r, s')" and "solvent s"
  shows "solvent s'"
proof -
  let ?k = "operatorService operator sid"
  from registerAgents_InrD [OF assms(1)] obtain v where
      "mapServices s' = (mapServices s)(sid := v)"
      "op_balances s' = (op_balances s)(?k := op_balances s ?k + val mod 2 ^ 96)"
      "slashedFunds s' = slashedFunds s" "ethBalance s' = ethBalance s + val"
      "held v = held (mapServices s sid)"
    by (auto simp: held_def)
  moreover have "val mod 2 ^ 96 \<le> val"
    by (rule mod_less_eq_dividend)
  ultimately show ?thesis
    using assms(2)
    by (intro solvent_upd [OF assms(2), where i = sid and v = v and k = ?k and n = "op_balances s ?k + val mod 2 ^ 96"]) auto
qed

lemma solvent_deploy:
  assumes "deploy E sender own sid impl data s = Inr (r, s')" and "solvent s"
  shows "solvent s'"
proof -
  from deploy_InrD [OF assms(1)] obtain v where "mapServices s' = (mapServices s)(sid := v)"
      "op_balances s' = op_balances s" "slashedFunds s' = slashedFunds s" "ethBalance s' = ethBalance s"
      "held v = held (mapServices s sid)"
    by (auto simp: held_def)
  with assms(2) show ?thesis
    by (intro solvent_service_upd [OF assms(2), where i = sid and v = v]) auto
qed

lemma solvent_slashed_from: "slashed_from s s' \<Longrightarrow> solvent s \<Longrightarrow> solvent s'"
  by (auto simp: slashed_from_def solvent_def obligations_def obl_def)

lemma solvent_drain:
  assumes "drain E this sender s = Inr (amount, s')" and "solvent s"
  shows "solvent s'"
proof -
  from drain_InrD [OF assms(1)] obtain l e where
      s': "s' = s\<lparr>slashedFunds := 0, locked := l, events := e, ethBalance := ethBalance s - slashedFunds s\<rparr>"
    by auto
  from assms(2) obl_slashed [of "mapServices s" "op_balances s" "slashedFunds s"] show ?thesis
    by (simp add: solvent_def obligations_def s')
qed

text \<open>
  A service that may be terminated holds its deposit, so the debit of the refund is matched.
\<close>

lemma solvent_terminate:
  assumes "terminate E this sender own sid s = Inr ((ok, refund), s')" and "solvent s"
    and "state (mapServices s sid) \<noteq> NonExistent"
  shows "solvent s'"
proof -
  note d = terminate_InrD [OF assms(1)]
  have "held (mapServices s sid) = refund"
    using d assms(3) by (cases "state (mapServices s sid)") (simp_all add: held_def)
  moreover obtain v where "mapServices s' = (mapServices s)(sid := v)" "held v = 0"
    using d by (simp add: held_def)
  ultimately show ?thesis
    using d assms(2) by (intro solvent_service_upd [OF assms(2), where i = sid and v = v]) auto
qed

lemma solvent_unbond:
  assumes "unbond E this sender operator sid s = Inr ((ok, refund), s')" and "solvent s"
  shows "solvent s'"
proof -
  let ?k = "operatorService operator sid"
  note d = unbond_InrD [OF assms(1)]
  from d(10) obtain v where s': "mapServices s' = (mapServices s)(sid := v)"
      "op_balances s' = (op_balances s)(?k := if refund > 0 then 0 else op_balances s ?k)"
      "slashedFunds s' = slashedFunds s" "ethBalance s' = ethBalance s - refund"
    and v: "v = unbonded_service (mapServices s sid) (numAgentInstances (mapServices s sid)
        - length (mapOperatorAndServiceIdAgentInstances s ?k) mod 2 ^ 32)"
    by (cases "refund > 0") auto
  have "held v = 0" "held (mapServices s sid) = 0"
    using d(6) by (simp_all add: v held_def unbonded_service_def Let_def)
  moreover have "refund \<le> op_balances s ?k"
    using d(8) by simp
  ultimately show ?thesis
    using assms(2) s' d(9)
    by (intro solvent_upd [OF assms(2), where i = sid and v = v and k = ?k and
          n = "if refund > 0 then 0 else op_balances s ?k"]) auto
qed

section \<open>Existence and life cycle of services\<close>

definition service_ok :: "Service \<Rightarrow> bool" where
  "service_ok v \<longleftrightarrow> (case state v of
      NonExistent \<Rightarrow> v = empty_service
    | PreRegistration \<Rightarrow> quorum_ok v \<and> numAgentInstances v = 0
    | ActiveRegistration \<Rightarrow> quorum_ok v
    | FinishedRegistration \<Rightarrow> quorum_ok v \<and> numAgentInstances v = maxNumAgentInstances v
    | Deployed \<Rightarrow> quorum_ok v \<and> numAgentInstances v = maxNumAgentInstances v
    | TerminatedBonded \<Rightarrow> quorum_ok v \<and> 0 < numAgentInstances v)"

definition existence_ok :: "service_registry \<Rightarrow> bool" where
  "existence_ok s \<longleftrightarrow>
     (\<forall>i. ownerOf_map s i \<noteq> 0 \<longleftrightarrow> state (mapServices s i) \<noteq> NonExistent) \<and>
     (\<forall>i. state (mapServices s i) \<noteq> NonExistent \<longleftrightarrow> 0 < unat i \<and> unat i \<le> unat (totalSupply s)) \<and>
     (\<forall>x. \<not> isApprovedForAll s 0 x) \<and> (\<forall>i. ownerOf_map s i = 0 \<longrightarrow> getApproved s i = 0)"

definition services_ok :: "service_registry \<Rightarrow> bool" where
  "services_ok s \<longleftrightarrow> (\<forall>i. service_ok (mapServices s i))"

definition base_inv :: "service_registry \<Rightarrow> bool" where
  "base_inv s \<longleftrightarrow> solvent s \<and> existence_ok s \<and> services_ok s"

text \<open>The documented state machine (\<^verbatim>\<open>docs/FSM.md\<close>), staying put included.\<close>

fun fsm_edge :: "ServiceState \<Rightarrow> ServiceState \<Rightarrow> bool" where
  "fsm_edge NonExistent b = (b \<in> {NonExistent, PreRegistration})"
| "fsm_edge PreRegistration b = (b \<in> {PreRegistration, ActiveRegistration})"
| "fsm_edge ActiveRegistration b =
     (b \<in> {ActiveRegistration, FinishedRegistration, TerminatedBonded, PreRegistration})"
| "fsm_edge FinishedRegistration b = (b \<in> {FinishedRegistration, Deployed, TerminatedBonded})"
| "fsm_edge Deployed b = (b \<in> {Deployed, TerminatedBonded})"
| "fsm_edge TerminatedBonded b = (b \<in> {TerminatedBonded, PreRegistration})"

lemma fsm_edge_refl [simp]: "fsm_edge a a"
  by (cases a) simp_all

text \<open>What a step does to the services: at most one of them changes, along an edge, into a sound one.\<close>

definition service_step :: "service_registry \<Rightarrow> service_registry \<Rightarrow> bool" where
  "service_step s s' \<longleftrightarrow> (\<exists>i v. mapServices s' = (mapServices s)(i := v) \<and> service_ok v
     \<and> fsm_edge (state (mapServices s i)) (state v))"

lemma service_step_refl: "services_ok s \<Longrightarrow> mapServices s' = mapServices s \<Longrightarrow> service_step s s'"
  unfolding service_step_def services_ok_def
  by (intro exI [of _ 0] exI [of _ "mapServices s 0"]) simp

lemma service_step_services_ok: "service_step s s' \<Longrightarrow> services_ok s \<Longrightarrow> services_ok s'"
  by (auto simp: service_step_def services_ok_def)

lemma service_step_edge: "service_step s s' \<Longrightarrow> fsm_edge (state (mapServices s i)) (state (mapServices s' i))"
  by (auto simp: service_step_def)

lemma service_step_create:
  assumes "create E sender own hash ids params thr s = Inr (sid, s')" and "existence_ok s"
  shows "service_step s s'"
proof -
  from create_InrD [OF assms(1)] obtain v where v: "mapServices s' = (mapServices s)(sid := v)"
      "state v = PreRegistration" "quorum_ok v" "numAgentInstances v = 0"
    and new: "ownerOf_map s sid = 0"
    by (auto simp: empty_service_def)
  from new assms(2) have "state (mapServices s sid) = NonExistent"
    by (auto simp: existence_ok_def)
  with v show ?thesis
    unfolding service_step_def
    by (intro exI [of _ sid] exI [of _ v]) (simp add: service_ok_def)
qed

lemma service_step_update:
  assumes "update sender own hash ids params thr sid s = Inr (r, s')" and "services_ok s"
  shows "service_step s s'"
proof -
  from assms(2) have "service_ok (mapServices s sid)"
    by (simp add: services_ok_def)
  with update_InrD [OF assms(1)] obtain v where "mapServices s' = (mapServices s)(sid := v)"
      "state v = PreRegistration" "quorum_ok v" "numAgentInstances v = 0"
      "state (mapServices s sid) = PreRegistration"
    by (auto simp: service_ok_def)
  then show ?thesis
    unfolding service_step_def
    by (intro exI [of _ sid] exI [of _ v]) (simp add: service_ok_def)
qed

lemma service_step_activateRegistration:
  assumes "activateRegistration sender val own sid s = Inr (r, s')" and "services_ok s"
  shows "service_step s s'"
proof -
  note d = activateRegistration_InrD [OF assms(1)]
  from assms(2) have "service_ok (mapServices s sid)"
    by (simp add: services_ok_def)
  with d show ?thesis
    unfolding service_step_def
    by (intro exI [of _ sid] exI [of _ "(mapServices s sid)\<lparr>state := ActiveRegistration\<rparr>"])
      (simp add: service_ok_def quorum_ok_def)
qed

lemma service_step_registerAgents:
  assumes "registerAgents sender val operator sid insts ids s = Inr (r, s')" and "services_ok s"
  shows "service_step s s'"
proof -
  let ?v = "(mapServices s sid)\<lparr>numAgentInstances := numAgentInstances (mapServices s sid) + length ids\<rparr>"
  let ?w = "if numAgentInstances ?v = maxNumAgentInstances ?v then ?v\<lparr>state := FinishedRegistration\<rparr> else ?v"
  from registerAgents_InrD [OF assms(1)] have m: "mapServices s' = (mapServices s)(sid := ?w)"
    and st: "state (mapServices s sid) = ActiveRegistration"
    by auto
  from assms(2) have "service_ok (mapServices s sid)"
    by (simp add: services_ok_def)
  with st have "service_ok ?w" "fsm_edge (state (mapServices s sid)) (state ?w)"
    by (auto simp: service_ok_def quorum_ok_def)
  with m show ?thesis
    unfolding service_step_def by blast
qed

lemma service_step_deploy:
  assumes "deploy E sender own sid impl data s = Inr (msig, s')" and "services_ok s"
  shows "service_step s s'"
proof -
  let ?v = "(mapServices s sid)\<lparr>multisig := msig, state := Deployed\<rparr>"
  from deploy_InrD [OF assms(1)] have m: "mapServices s' = (mapServices s)(sid := ?v)"
    and st: "state (mapServices s sid) = FinishedRegistration"
    by auto
  from assms(2) have "service_ok (mapServices s sid)"
    by (simp add: services_ok_def)
  with st have "service_ok ?v" "fsm_edge (state (mapServices s sid)) (state ?v)"
    by (auto simp: service_ok_def quorum_ok_def)
  with m show ?thesis
    unfolding service_step_def by blast
qed

lemma quorum_ok_pos: "quorum_ok v \<Longrightarrow> 0 < maxNumAgentInstances v"
  by (auto simp: quorum_ok_def)

lemma service_step_terminate:
  assumes "terminate E this sender own sid s = Inr (r, s')" and "services_ok s"
    and "state (mapServices s sid) \<noteq> NonExistent"
  shows "service_step s s'"
proof -
  let ?v = "mapServices s sid"
  let ?w = "?v\<lparr>state := if numAgentInstances ?v > 0 then TerminatedBonded else PreRegistration\<rparr>"
  obtain ok refund where r: "r = (ok, refund)" by (cases r)
  note d = terminate_InrD [OF assms(1) [unfolded r]]
  from d have m: "mapServices s' = (mapServices s)(sid := ?w)"
    by simp
  from assms(2) have "service_ok ?v"
    by (simp add: services_ok_def)
  with d assms(3) have "service_ok ?w" "fsm_edge (state ?v) (state ?w)"
    by (cases "state ?v"; auto simp: service_ok_def quorum_ok_def)+
  with m show ?thesis
    unfolding service_step_def by blast
qed

lemma service_step_unbond:
  assumes "unbond E this sender operator sid s = Inr (r, s')" and "services_ok s"
  shows "service_step s s'"
proof -
  let ?v = "mapServices s sid"
  obtain ok refund where r: "r = (ok, refund)" by (cases r)
  note d = unbond_InrD [OF assms(1) [unfolded r]]
  from d(10) obtain n where m: "mapServices s' = (mapServices s)(sid := unbonded_service ?v n)"
    by auto
  from assms(2) have "service_ok ?v"
    by (simp add: services_ok_def)
  with d(6) have "service_ok (unbonded_service ?v n)" "fsm_edge (state ?v) (state (unbonded_service ?v n))"
    by (auto simp: service_ok_def quorum_ok_def unbonded_service_def Let_def)
  with m show ?thesis
    unfolding service_step_def by blast
qed

text \<open>The token side of the existence invariant.\<close>

definition token_view :: "service_registry \<Rightarrow> (uint256 \<Rightarrow> address) \<times> uint256 \<times> (address \<Rightarrow> address \<Rightarrow> bool)
    \<times> (uint256 \<Rightarrow> address)" where
  "token_view s = (ownerOf_map s, totalSupply s, isApprovedForAll s, getApproved s)"

lemma existence_ok_service_upd:
  assumes "existence_ok s" and "token_view s' = token_view s"
    and "\<And>i. state (mapServices s' i) = NonExistent \<longleftrightarrow> state (mapServices s i) = NonExistent"
  shows "existence_ok s'"
  using assms by (simp add: existence_ok_def token_view_def)

lemma existence_ok_service_step:
  assumes "existence_ok s" and "token_view s' = token_view s" and "service_step s s'"
    and "\<And>i. mapServices s' i \<noteq> mapServices s i \<Longrightarrow> state (mapServices s i) \<noteq> NonExistent"
  shows "existence_ok s'"
proof (rule existence_ok_service_upd [OF assms(1,2)])
  fix i
  have "state a \<noteq> NonExistent \<Longrightarrow> fsm_edge (state a) (state b) \<Longrightarrow> state b \<noteq> NonExistent" for a b
    by (cases "state a") auto
  then show "state (mapServices s' i) = NonExistent \<longleftrightarrow> state (mapServices s i) = NonExistent"
    using assms(4) [of i] service_step_edge [OF assms(3), of i] by metis
qed

lemma existence_ok_generic:
  "existence_ok s \<Longrightarrow> changeOwner sender a s = Inr s' \<Longrightarrow> existence_ok s'"
  "existence_ok s \<Longrightarrow> changeManager sender a s = Inr s' \<Longrightarrow> existence_ok s'"
  "existence_ok s \<Longrightarrow> setBaseURI sender uri s = Inr s' \<Longrightarrow> existence_ok s'"
  "existence_ok s \<Longrightarrow> changeDrainer sender a s = Inr s' \<Longrightarrow> existence_ok s'"
  "existence_ok s \<Longrightarrow> changeMultisigPermission sender a p s = Inr (r, s') \<Longrightarrow> existence_ok s'"
  "existence_ok s \<Longrightarrow> drain E this sender s = Inr (n, s') \<Longrightarrow> existence_ok s'"
  by (auto simp: existence_ok_def changeOwner_def changeManager_def setBaseURI_def changeDrainer_def
      changeMultisigPermission_def dest!: drain_InrD(4) split: if_splits)

lemma existence_ok_approve:
  assumes "existence_ok s" and "sender \<noteq> 0" and "approve sender a tid s = Inr s'"
  shows "existence_ok s'"
proof -
  from assms(3) have auth: "sender = ownerOf_map s tid \<or> isApprovedForAll s (ownerOf_map s tid) sender"
    and s': "s' = s\<lparr>getApproved := (getApproved s)(tid := a),
               events := events s @ [Approval (ownerOf_map s tid) a tid]\<rparr>"
    by (auto simp: approve_def Let_def split: if_splits)
  from auth assms(1,2) have "ownerOf_map s tid \<noteq> 0"
    unfolding existence_ok_def by metis
  with assms(1) show ?thesis
    unfolding existence_ok_def s' by (auto simp: fun_upd_def)
qed

lemma existence_ok_setApprovalForAll:
  "existence_ok s \<Longrightarrow> sender \<noteq> 0 \<Longrightarrow> existence_ok (setApprovalForAll sender a b s)"
  by (simp add: existence_ok_def setApprovalForAll_def)

lemma existence_ok_transferFrom:
  assumes "existence_ok s" and "sender \<noteq> 0" and "transferFrom sender from to tid s = Inr s'"
  shows "existence_ok s'"
proof -
  from assms(3) have to: "to \<noteq> 0" and
      auth: "sender = ownerOf_map s tid \<or> isApprovedForAll s (ownerOf_map s tid) sender \<or> sender = getApproved s tid"
    and s': "ownerOf_map s' = (ownerOf_map s)(tid := to)" "getApproved s' = (getApproved s)(tid := 0)"
      "mapServices s' = mapServices s" "totalSupply s' = totalSupply s" "isApprovedForAll s' = isApprovedForAll s"
    by (auto simp: transferFrom_def Let_def split: if_splits)
  from auth assms(1,2) have "ownerOf_map s tid \<noteq> 0"
    unfolding existence_ok_def by metis
  with assms(1) to show ?thesis
    by (simp add: existence_ok_def s')
qed

lemma existence_ok_create:
  assumes "existence_ok s" and "create E sender own hash ids params thr s = Inr (sid, s')"
  shows "existence_ok s'"
proof -
  from create_InrD [OF assms(2)] obtain v where sid: "unat sid = unat (totalSupply s) + 1" and own: "own \<noteq> 0"
    and new: "ownerOf_map s sid = 0"
    and s': "ownerOf_map s' = (ownerOf_map s)(sid := own)" "totalSupply s' = sid"
      "mapServices s' = (mapServices s)(sid := v)" "state v = PreRegistration"
      "getApproved s' = getApproved s" "isApprovedForAll s' = isApprovedForAll s"
    by (auto simp: empty_service_def)
  have "i = sid \<or> (0 < unat i \<and> unat i \<le> unat sid \<longleftrightarrow> 0 < unat i \<and> unat i \<le> unat (totalSupply s))" for i :: uint256
    using sid by (metis le_Suc_eq Suc_eq_plus1 word_unat_eq_iff)
  moreover have "0 < unat sid"
    using sid by simp
  ultimately show ?thesis
    using assms(1) own new by (auto simp: existence_ok_def s')
qed

section \<open>Every step keeps the invariant\<close>

lemma held_service_step: "services_ok s \<Longrightarrow> service_view s' = service_view s \<Longrightarrow> service_step s s'"
  by (rule service_step_refl) (simp_all add: service_view_def)

lemma existence_owned:
  "existence_ok s \<Longrightarrow> ownerOf_map s i \<noteq> 0 \<Longrightarrow> state (mapServices s i) \<noteq> NonExistent"
  by (simp add: existence_ok_def)

text \<open>
  The calls that rewrite one existing service: each is solvent, makes a service step and touches
  neither the tokens nor a service that does not exist.
\<close>

lemma base_inv_service_call:
  assumes "base_inv s" and "service_step s s'" and "solvent s'" and "token_view s' = token_view s"
    and "\<And>i. mapServices s' i \<noteq> mapServices s i \<Longrightarrow> state (mapServices s i) \<noteq> NonExistent"
  shows "base_inv s'"
  using assms existence_ok_service_step service_step_services_ok by (auto simp: base_inv_def)

lemma base_inv_existence: "base_inv s \<Longrightarrow> existence_ok s"
  by (simp add: base_inv_def)

lemma base_inv_view:
  assumes "base_inv s" and "existence_ok s'" and "service_view s' = service_view s"
  shows "base_inv s' \<and> service_step s s'"
proof -
  from assms have "service_step s s'"
    by (intro held_service_step) (simp_all add: base_inv_def)
  then show ?thesis
    using assms solvent_view service_step_services_ok unfolding base_inv_def by blast
qed

lemma sr_step_inv:
  assumes "sr_step E this s s'" and inv: "base_inv s"
  shows "base_inv s' \<and> service_step s s'"
  using assms(1)
proof cases
  case (create params sender own hash ids thr sid)
  from inv have i: "solvent s" "existence_ok s" "services_ok s"
    by (simp_all add: base_inv_def)
  have "service_step s s'"
    using service_step_create [OF create(2) i(2)] .
  then show ?thesis
    using solvent_create [OF create(2) i(1)] existence_ok_create [OF i(2) create(2)] service_step_services_ok i(3)
    by (simp add: base_inv_def)
next
  case (update params sender own hash ids thr sid r)
  have "service_step s s'" "solvent s'"
    using update(2) inv service_step_update solvent_update unfolding base_inv_def by blast+
  moreover have "token_view s' = token_view s"
    and "\<And>i. mapServices s' i \<noteq> mapServices s i \<Longrightarrow> state (mapServices s i) \<noteq> NonExistent"
    using update_InrD [OF update(2)] by (auto simp: token_view_def split: if_splits)
  ultimately show ?thesis
    using base_inv_service_call [OF inv] by blast
next
  case (activateRegistration sender val own sid r)
  have "service_step s s'" "solvent s'"
    using activateRegistration inv service_step_activateRegistration solvent_activateRegistration
    unfolding base_inv_def by blast+
  moreover have "token_view s' = token_view s"
    and "\<And>i. mapServices s' i \<noteq> mapServices s i \<Longrightarrow> state (mapServices s i) \<noteq> NonExistent"
    using activateRegistration_InrD [OF activateRegistration] by (auto simp: token_view_def split: if_splits)
  ultimately show ?thesis
    using base_inv_service_call [OF inv] by blast
next
  case (registerAgents sender val operator sid insts ids r)
  have "service_step s s'" "solvent s'"
    using registerAgents inv service_step_registerAgents solvent_registerAgents
    unfolding base_inv_def by blast+
  moreover have "token_view s' = token_view s"
    and "\<And>i. mapServices s' i \<noteq> mapServices s i \<Longrightarrow> state (mapServices s i) \<noteq> NonExistent"
    using registerAgents_InrD [OF registerAgents] by (auto simp: token_view_def split: if_splits)
  ultimately show ?thesis
    using base_inv_service_call [OF inv] by blast
next
  case (deploy sender own sid impl data r)
  have "service_step s s'" "solvent s'"
    using deploy inv service_step_deploy solvent_deploy unfolding base_inv_def by blast+
  moreover have "token_view s' = token_view s"
    and "\<And>i. mapServices s' i \<noteq> mapServices s i \<Longrightarrow> state (mapServices s i) \<noteq> NonExistent"
    using deploy_InrD [OF deploy] by (auto simp: token_view_def split: if_splits)
  ultimately show ?thesis
    using base_inv_service_call [OF inv] by blast
next
  case (slash sender insts amounts sid r)
  from slash_InrD(3) [OF slash] have "slashed_from s s'" .
  then have "mapServices s' = mapServices s" "token_view s' = token_view s" "solvent s'"
    using inv solvent_slashed_from by (auto simp: slashed_from_def token_view_def base_inv_def)
  moreover from this have "service_step s s'"
    using inv service_step_refl by (simp add: base_inv_def)
  ultimately show ?thesis
    using base_inv_service_call [OF inv, of s'] by simp
next
  case (terminate sender own sid r)
  obtain ok refund where r: "r = (ok, refund)" by (cases r)
  note d = terminate_InrD [OF terminate [unfolded r]]
  from d inv have ex: "state (mapServices s sid) \<noteq> NonExistent"
    using existence_owned by (auto simp: base_inv_def)
  have "service_step s s'" "solvent s'"
    using terminate r inv ex service_step_terminate solvent_terminate unfolding base_inv_def by blast+
  moreover have "token_view s' = token_view s"
    and "\<And>i. mapServices s' i \<noteq> mapServices s i \<Longrightarrow> state (mapServices s i) \<noteq> NonExistent"
    using d ex by (auto simp: token_view_def split: if_splits)
  ultimately show ?thesis
    using base_inv_service_call [OF inv] by blast
next
  case (unbond sender operator sid r)
  obtain ok refund where r: "r = (ok, refund)" by (cases r)
  note d = unbond_InrD [OF unbond [unfolded r]]
  have "service_step s s'" "solvent s'"
    using unbond r inv service_step_unbond solvent_unbond unfolding base_inv_def by blast+
  moreover have "token_view s' = token_view s"
    and "\<And>i. mapServices s' i \<noteq> mapServices s i \<Longrightarrow> state (mapServices s i) \<noteq> NonExistent"
    using d(6,10) by (auto simp: token_view_def split: if_splits)
  ultimately show ?thesis
    using base_inv_service_call [OF inv] by blast
next
  case (drain sender r)
  have "existence_ok s'" "solvent s'"
    using drain inv existence_ok_generic(6) solvent_drain unfolding base_inv_def by blast+
  moreover have "mapServices s' = mapServices s"
    using drain_InrD(4) [OF drain] by auto
  ultimately have "existence_ok s'" "solvent s'" "mapServices s' = mapServices s"
    by simp_all
  then show ?thesis
    using inv service_step_refl by (auto simp: base_inv_def services_ok_def)
next
  case (force_eth n)
  then show ?thesis
    using inv service_step_refl [of s s']
    by (auto simp: base_inv_def solvent_def obligations_def existence_ok_def services_ok_def)
next
  case (safeTransferFrom sender frm to tid)
  then have "transferFrom sender frm to tid s = Inr s'"
    by (auto simp: safeTransferFrom_def split: if_splits)
  with safeTransferFrom show ?thesis
    using inv existence_ok_transferFrom base_inv_view base_inv_existence generic_steps_view(6) by blast
qed (use inv base_inv_view base_inv_existence existence_ok_generic existence_ok_approve
      existence_ok_setApprovalForAll existence_ok_transferFrom generic_steps_view in metis)+

lemma base_inv_new: "base_inv (new_registry deployer uri)"
  using solvent_new_registry
  by (auto simp: base_inv_def existence_ok_def services_ok_def service_ok_def new_registry_def
      empty_service_def)

lemma sr_reachable_inv: "sr_reachable E this s \<Longrightarrow> base_inv s"
proof (induction rule: sr_reachable.induct)
  case (init deployer uri)
  show ?case by (rule base_inv_new)
next
  case (step s s')
  then show ?case using sr_step_inv by blast
qed

end
