(* ===== verification/Service_Registry_Accounting.thy ===== *)
theory Service_Registry_Accounting
  imports Service_Registry_Invariants
begin

text \<open>
  The bookkeeping of agent instances: the packed mapping keys do not collide while service ids
  stay below their documented width, the instances the operators hold in a service add up to its
  counter, and bonds stay within their width. With these \<^verbatim>\<open>unbond\<close> never fails for a reason internal
  to the contract.
\<close>

section \<open>The packed keys\<close>

lemma ucast_operatorService: "ucast (operatorService operator sid) = operator"
  by (rule bit_eqI) (auto simp: operatorService_def bit_simps)

lemma drop_operatorService:
  assumes "unat sid < 2 ^ 96"
  shows "drop_bit 160 (operatorService operator sid) = sid"
  using not_bit_small [OF assms]
  by (intro bit_eqI) (auto simp: operatorService_def bit_simps dest: bit_imp_le_length)

lemma operatorService_inj:
  assumes "unat i < 2 ^ 96" "unat j < 2 ^ 96"
  shows "operatorService a i = operatorService b j \<longleftrightarrow> a = b \<and> i = j"
  using assms drop_operatorService ucast_operatorService by metis

lemma serviceAgent_inj:
  assumes "unat i < 2 ^ 32" "unat j < 2 ^ 32"
  shows "serviceAgent i a = serviceAgent j b \<longleftrightarrow> i = j \<and> a = b"
proof -
  have low: "take_bit 32 (serviceAgent i a) = i" if "unat i < 2 ^ 32" for i a
    using take_bit_small [OF that] by (simp add: serviceAgent_def take_bit_or take_bit_push_bit)
  have high: "ucast (drop_bit 32 (serviceAgent i a)) = a" if "unat i < 2 ^ 32" for i a
    using not_bit_small [OF that] by (intro bit_eqI) (auto simp: serviceAgent_def bit_simps)
  from assms low high show ?thesis by metis
qed

section \<open>The invariant\<close>

definition engaged :: "service_registry \<Rightarrow> uint256 \<Rightarrow> nat" where
  "engaged s i = (\<Sum>a\<in>UNIV. length (mapOperatorAndServiceIdAgentInstances s (operatorService a i)))"

definition counted :: "service_registry \<Rightarrow> bool" where
  "counted s \<longleftrightarrow> (\<forall>i. unat i < 2 ^ 96 \<longrightarrow> engaged s i = numAgentInstances (mapServices s i))"

definition widths_ok :: "service_registry \<Rightarrow> bool" where
  "widths_ok s \<longleftrightarrow> (\<forall>k. bond (mapServiceAndAgentIdAgentParams s k) < 2 ^ 96) \<and>
     (\<forall>i. numAgentInstances (mapServices s i) < 2 ^ 32) \<and> locked s = 1"

text \<open>One key of the instance map and one counter change together, or neither does.\<close>

lemma engaged_upd_same:
  assumes "unat i < 2 ^ 96"
    and "mapOperatorAndServiceIdAgentInstances s' = (mapOperatorAndServiceIdAgentInstances s)
           (operatorService a i := l)"
  shows "engaged s' i + length (mapOperatorAndServiceIdAgentInstances s (operatorService a i))
           = engaged s i + length l"
proof -
  let ?f = "\<lambda>a. length (mapOperatorAndServiceIdAgentInstances s (operatorService a i))"
  have "(\<lambda>x. length (mapOperatorAndServiceIdAgentInstances s' (operatorService x i))) = ?f(a := length l)"
    using assms by (auto simp: operatorService_inj)
  then show ?thesis
    using sum_fun_upd [of ?f a "length l"] by (simp only: engaged_def)
qed

lemma engaged_upd_other:
  assumes "unat i < 2 ^ 96" "unat j < 2 ^ 96" "j \<noteq> i"
    and "mapOperatorAndServiceIdAgentInstances s' = (mapOperatorAndServiceIdAgentInstances s)
           (operatorService a i := l)"
  shows "engaged s' j = engaged s j"
  using assms by (simp add: engaged_def operatorService_inj)

lemma counted_upd:
  assumes "counted s" and "unat i < 2 ^ 96"
    and m: "mapOperatorAndServiceIdAgentInstances s' = (mapOperatorAndServiceIdAgentInstances s)
           (operatorService a i := l)"
    and v: "mapServices s' = (mapServices s)(i := v)"
    and "numAgentInstances v + length (mapOperatorAndServiceIdAgentInstances s (operatorService a i))
           = numAgentInstances (mapServices s i) + length l"
  shows "counted s'"
  unfolding counted_def
proof (intro allI impI)
  fix j :: uint256 assume j: "unat j < 2 ^ 96"
  show "engaged s' j = numAgentInstances (mapServices s' j)"
  proof (cases "j = i")
    case True
    with assms engaged_upd_same [OF assms(2) m] show ?thesis
      by (simp add: counted_def)
  next
    case False
    with assms j engaged_upd_other [OF assms(2) j False m] show ?thesis
      by (simp add: counted_def)
  qed
qed

lemma counted_keep:
  assumes "counted s" and "mapOperatorAndServiceIdAgentInstances s' = mapOperatorAndServiceIdAgentInstances s"
    and "\<And>i. numAgentInstances (mapServices s' i) = numAgentInstances (mapServices s i)"
  shows "counted s'"
  using assms by (simp add: counted_def engaged_def)

section \<open>Every step keeps it\<close>

lemma putParams_bond:
  "(\<forall>k. bond (m k) < b) \<Longrightarrow> (\<forall>x\<in>set xs. bond (snd x) < b) \<Longrightarrow> bond (putParams sid xs m k) < b"
  by (induction sid xs m rule: putParams.induct) auto

lemma update_delete_bond:
  "(\<forall>k. bond (m k) < b) \<Longrightarrow> bond (update_delete_loop sid xs m k) < b"
proof (induction sid xs m rule: update_delete_loop.induct)
  case (2 sid a p rest m)
  from "2.prems" [rule_format, of 0] have "bond no_params < b"
    by (simp add: no_params_def)
  with 2 show ?case by auto
qed simp

lemma kept_subset: "set (kept xs) \<subseteq> set xs"
  by (auto simp: kept_def)

text \<open>What a step owes to the invariant: the widths, a growing supply, and the counters.\<close>

definition acc_step :: "service_registry \<Rightarrow> service_registry \<Rightarrow> bool" where
  "acc_step s s' \<longleftrightarrow> widths_ok s' \<and> unat (totalSupply s) \<le> unat (totalSupply s') \<and>
     (unat (totalSupply s') < 2 ^ 96 \<longrightarrow> counted s \<longrightarrow> counted s')"

lemma acc_step_view:
  assumes "widths_ok s" and "service_view s' = service_view s" and "locked s' = locked s"
  shows "acc_step s s'"
  using assms counted_keep [of s s'] by (simp add: acc_step_def widths_ok_def service_view_def)

lemma acc_step_keep:
  assumes "widths_ok s" and "totalSupply s' = totalSupply s" and "locked s' = 1"
    and "mapServiceAndAgentIdAgentParams s' = mapServiceAndAgentIdAgentParams s"
    and "mapOperatorAndServiceIdAgentInstances s' = mapOperatorAndServiceIdAgentInstances s"
    and "\<And>i. numAgentInstances (mapServices s' i) = numAgentInstances (mapServices s i)"
  shows "acc_step s s'"
  using assms counted_keep [of s s'] by (simp add: acc_step_def widths_ok_def)

lemma existing_id:
  assumes "base_inv s" and "state (mapServices s i) \<noteq> NonExistent" and "unat (totalSupply s) < 2 ^ 96"
  shows "unat i < 2 ^ 96"
proof -
  from assms have "unat i \<le> unat (totalSupply s)"
    by (simp add: base_inv_def existence_ok_def)
  with assms(3) show ?thesis by linarith
qed

lemma acc_step_create:
  assumes "create E sender own hash ids params thr s = Inr (sid, s')" and "base_inv s" and "widths_ok s"
    and "\<forall>p\<in>set params. bond p < 2 ^ 96"
  shows "acc_step s s'"
proof -
  from create_InrD [OF assms(1)] obtain v where s': "unat sid = unat (totalSupply s) + 1" "locked s' = 1"
      "totalSupply s' = sid" "mapServices s' = (mapServices s)(sid := v)" "numAgentInstances v = 0"
      "mapOperatorAndServiceIdAgentInstances s' = mapOperatorAndServiceIdAgentInstances s"
      "mapServiceAndAgentIdAgentParams s' = putParams sid (zip ids params) (mapServiceAndAgentIdAgentParams s)"
    and new: "ownerOf_map s sid = 0"
    by (auto simp: empty_service_def)
  from assms(2) new have "mapServices s sid = empty_service"
    by (auto simp: base_inv_def existence_ok_def services_ok_def service_ok_def split: ServiceState.splits)
  then have "numAgentInstances (mapServices s' i) = numAgentInstances (mapServices s i)" for i
    by (simp add: s' empty_service_def)
  then have "counted s \<longrightarrow> counted s'" "\<forall>i. numAgentInstances (mapServices s' i) < 2 ^ 32"
    using counted_keep [of s s'] assms(3) s' by (auto simp: widths_ok_def)
  moreover have "bond (mapServiceAndAgentIdAgentParams s' k) < 2 ^ 96" for k
    unfolding s' using assms(3,4)
    by (intro putParams_bond) (auto simp: widths_ok_def dest: set_zip_rightD)
  ultimately show ?thesis
    using s' by (simp add: acc_step_def widths_ok_def)
qed

lemma acc_step_update:
  assumes "update sender own hash ids params thr sid s = Inr (r, s')" and "widths_ok s"
    and "\<forall>p\<in>set params. bond p < 2 ^ 96"
  shows "acc_step s s'"
proof -
  let ?m = "update_delete_loop sid (zip ids params) (mapServiceAndAgentIdAgentParams s)"
  from update_InrD [OF assms(1)] obtain v where s': "locked s' = locked s" "totalSupply s' = totalSupply s"
      "mapServices s' = (mapServices s)(sid := v)"
      "numAgentInstances v = numAgentInstances (mapServices s sid)"
      "mapOperatorAndServiceIdAgentInstances s' = mapOperatorAndServiceIdAgentInstances s"
      "mapServiceAndAgentIdAgentParams s' = putParams sid (kept (zip ids params)) ?m"
    by auto
  have "\<forall>x\<in>set (kept (zip ids params)). bond (snd x) < 2 ^ 96"
    using assms(3) kept_subset by (fastforce dest: set_zip_rightD)
  then have "bond (mapServiceAndAgentIdAgentParams s' k) < 2 ^ 96" for k
    unfolding s' using assms(2)
    by (intro putParams_bond allI update_delete_bond) (auto simp: widths_ok_def)
  then show ?thesis
    using s' assms(2) counted_keep [of s s'] by (simp add: acc_step_def widths_ok_def)
qed

lemma acc_step_registerAgents:
  assumes "registerAgents sender val operator sid insts ids s = Inr (r, s')" and "base_inv s" and "widths_ok s"
  shows "acc_step s s'"
proof -
  let ?l = "mapOperatorAndServiceIdAgentInstances s (operatorService operator sid)"
  let ?new = "map (\<lambda>(a, i). \<lparr>inst_addr = a, inst_agentId = i\<rparr>) (zip insts ids)"
  from registerAgents_InrD [OF assms(1)] obtain v where s': "locked s' = locked s" "totalSupply s' = totalSupply s"
      "mapServices s' = (mapServices s)(sid := v)"
      "numAgentInstances v = numAgentInstances (mapServices s sid) + length ids"
      "ids = [] \<or> numAgentInstances (mapServices s sid) + length ids < 2 ^ 32"
      "mapOperatorAndServiceIdAgentInstances s' = (mapOperatorAndServiceIdAgentInstances s)
         (operatorService operator sid := ?l @ ?new)"
      "mapServiceAndAgentIdAgentParams s' = mapServiceAndAgentIdAgentParams s"
    and st: "state (mapServices s sid) = ActiveRegistration" "length insts = length ids"
    by auto
  have "counted s'" if "counted s" "unat (totalSupply s') < 2 ^ 96"
    using counted_upd [OF that(1) _ s'(6,3)] s'(2,4) st that(2) existing_id [OF assms(2), of sid] by simp
  then show ?thesis
    using s' assms(3) by (auto simp: acc_step_def widths_ok_def)
qed

lemma acc_step_unbond:
  assumes "unbond E this sender operator sid s = Inr (r, s')" and "base_inv s" and "widths_ok s"
  shows "acc_step s s'"
proof -
  let ?k = "operatorService operator sid"
  let ?n = "length (mapOperatorAndServiceIdAgentInstances s ?k)"
  let ?v = "mapServices s sid"
  obtain ok refund where r: "r = (ok, refund)" by (cases r)
  note d = unbond_InrD [OF assms(1) [unfolded r]]
  from d(10) have s': "locked s' = 1" "totalSupply s' = totalSupply s"
      "mapServices s' = (mapServices s)(sid := unbonded_service ?v (numAgentInstances ?v - ?n mod 2 ^ 32))"
      "mapOperatorAndServiceIdAgentInstances s' = (mapOperatorAndServiceIdAgentInstances s)(?k := [])"
      "mapServiceAndAgentIdAgentParams s' = mapServiceAndAgentIdAgentParams s"
    by auto
  have num: "numAgentInstances (unbonded_service ?v n) = n" for n
    by (simp add: unbonded_service_def Let_def)
  have small: "numAgentInstances ?v < 2 ^ 32"
    using assms(3) by (simp add: widths_ok_def)
  have "counted s'" if c: "counted s" "unat (totalSupply s') < 2 ^ 96"
  proof -
    have id: "unat sid < 2 ^ 96"
      using existing_id [OF assms(2)] d(6) s'(2) c(2) by simp
    have "?n \<le> engaged s sid"
      unfolding engaged_def by (rule member_le_sum) auto
    with c(1) id have le: "?n \<le> numAgentInstances ?v"
      by (simp add: counted_def)
    with small have "?n mod 2 ^ 32 = ?n"
      by simp
    then show ?thesis
      using counted_upd [OF c(1) id s'(4,3)] num le by simp
  qed
  moreover have "numAgentInstances (mapServices s' i) < 2 ^ 32" for i
    using assms(3) small num by (cases "i = sid") (simp_all add: s'(3) widths_ok_def less_imp_diff_less)
  ultimately show ?thesis
    using s' assms(3) by (simp add: acc_step_def widths_ok_def)
qed

lemma generic_steps_locked:
  "changeOwner sender a s = Inr s' \<Longrightarrow> locked s' = locked s"
  "changeManager sender a s = Inr s' \<Longrightarrow> locked s' = locked s"
  "setBaseURI sender uri s = Inr s' \<Longrightarrow> locked s' = locked s"
  "approve sender a tid s = Inr s' \<Longrightarrow> locked s' = locked s"
  "locked (setApprovalForAll sender a b s) = locked s"
  "transferFrom sender from to tid s = Inr s' \<Longrightarrow> locked s' = locked s"
  "changeDrainer sender a s = Inr s' \<Longrightarrow> locked s' = locked s"
  "changeMultisigPermission sender a p s = Inr (r, s') \<Longrightarrow> locked s' = locked s"
  "safeTransferFrom E sender from to tid s = Inr s' \<Longrightarrow> locked s' = locked s"
  by (auto simp: changeOwner_def changeManager_def setBaseURI_def approve_def
      setApprovalForAll_def transferFrom_def changeDrainer_def changeMultisigPermission_def
      safeTransferFrom_def Let_def split: if_splits)

lemma drain_locked: "drain E this sender s = Inr (n, s') \<Longrightarrow> locked s' = 1"
  by (auto simp: drain_def Let_def split: if_splits option.splits)

lemma sr_step_acc:
  assumes "sr_step E this s s'" and inv: "base_inv s" and w: "widths_ok s"
  shows "acc_step s s'"
  using assms(1)
proof cases
  case (create params sender own hash ids thr sid)
  with inv w show ?thesis by (intro acc_step_create)
next
  case (update params sender own hash ids thr sid r)
  with w show ?thesis by (intro acc_step_update)
next
  case (activateRegistration sender val own sid r)
  with activateRegistration_InrD [OF this] w show ?thesis
    by (intro acc_step_keep [OF w]) (auto simp: widths_ok_def)
next
  case (registerAgents sender val operator sid insts ids r)
  with inv w show ?thesis by (intro acc_step_registerAgents)
next
  case (deploy sender own sid impl data r)
  from deploy_InrD [OF this] show ?thesis
    by (intro acc_step_keep [OF w]) auto
next
  case (slash sender insts amounts sid r)
  from slash_InrD(3) [OF slash] w show ?thesis
    by (intro acc_step_keep [OF w]) (auto simp: slashed_from_def widths_ok_def)
next
  case (terminate sender own sid r)
  obtain ok refund where r: "r = (ok, refund)" by (cases r)
  from terminate_InrD [OF terminate [unfolded r]] show ?thesis
    by (intro acc_step_keep [OF w]) auto
next
  case (unbond sender operator sid r)
  with inv w show ?thesis by (intro acc_step_unbond)
next
  case (drain sender r)
  from drain_InrD(4) [OF drain] drain_locked [OF drain] show ?thesis
    by (intro acc_step_keep [OF w]) auto
next
  case (force_eth n)
  with w show ?thesis by (intro acc_step_keep [OF w]) (auto simp: widths_ok_def)
qed (use w acc_step_view generic_steps_view generic_steps_locked safeTransferFrom_view in metis)+

lemma sr_reachable_acc:
  "sr_reachable E this s \<Longrightarrow> widths_ok s \<and> (unat (totalSupply s) < 2 ^ 96 \<longrightarrow> counted s)"
proof (induction rule: sr_reachable.induct)
  case (init deployer uri)
  show ?case
    by (simp add: widths_ok_def counted_def engaged_def new_registry_def no_params_def empty_service_def)
next
  case (step s s')
  from sr_step_acc [OF step.hyps(2) sr_reachable_inv [OF step.hyps(1)]] step.IH show ?case
    by (auto simp: acc_step_def)
qed

section \<open>Unbonding returns\<close>

lemma unbond_loop_returns:
  "r + (\<Sum>x\<leftarrow>xs. bond (mapServiceAndAgentIdAgentParams s (serviceAgent sid (inst_agentId x)))) < 2 ^ 256 \<Longrightarrow>
     \<exists>y. unbond_loop sid xs r s = Inr y"
proof (induction sid xs r s rule: unbond_loop.induct)
  case (2 sid ai rest refund s)
  let ?b = "bond (mapServiceAndAgentIdAgentParams s (serviceAgent sid (inst_agentId ai)))"
  from "2.prems" have "chk_add 256 refund ?b = Inr (refund + ?b)"
    by (simp add: chk_add_def)
  with "2.IH" [of "refund + ?b"] "2.prems" show ?case
    by (simp add: add.assoc chk_add_def)
qed simp

lemma sum_list_bound:
  "(\<And>x. x \<in> set xs \<Longrightarrow> f x < b) \<Longrightarrow> (\<Sum>x\<leftarrow>xs. f x) \<le> length xs * (b :: nat)"
  by (induction xs) (auto simp: add_mono less_imp_le)

lemma unbond_pays:
  assumes "base_inv s" and w: "widths_ok s" and c: "counted s" and small: "unat (totalSupply s) < 2 ^ 96"
    and "state (mapServices s sid) = TerminatedBonded" and "operator \<noteq> 0"
    and insts: "mapOperatorAndServiceIdAgentInstances s (operatorService operator sid) \<noteq> []"
    and acc: "\<forall>n. eth_accepts E operator n"
  shows "\<exists>s'. unbond E this (manager s) operator sid s
     = Inr ((True, min (bonds_of operator sid s) (op_balances s (operatorService operator sid))), s')"
proof -
  let ?v = "mapServices s sid" and ?k = "operatorService operator sid"
  let ?l = "mapOperatorAndServiceIdAgentInstances s ?k"
  from assms(1) have solv: "solvent s" by (simp add: base_inv_def)
  have id: "unat sid < 2 ^ 96"
    using existing_id [OF assms(1) _ small] assms(5) by simp
  have "length ?l \<le> engaged s sid"
    unfolding engaged_def by (rule member_le_sum) auto
  with c id have le: "length ?l \<le> numAgentInstances ?v" by (simp add: counted_def)
  with w have len: "length ?l < 2 ^ 32"
    unfolding widths_ok_def by (meson le_less_trans)
  have "bonds_of operator sid s \<le> length ?l * 2 ^ 96"
    unfolding bonds_of_def using w by (intro sum_list_bound) (simp add: widths_ok_def)
  also have "\<dots> < 2 ^ 256"
    using len by simp
  finally have bonds: "bonds_of operator sid s < 2 ^ 256" .
  let ?s0 = "s\<lparr>locked := 2, mapServices := (mapServices s)
    (sid := unbonded_service ?v (numAgentInstances ?v - length ?l))\<rparr>"
  obtain b s1 where loop: "unbond_loop sid ?l 0 ?s0 = Inr (b, s1)"
    using unbond_loop_returns [where r = 0 and xs = ?l and s = ?s0 and sid = sid] bonds by (auto simp: bonds_of_def)
  note loop' = unbond_loop_InrD [OF loop]
  have b: "b = bonds_of operator sid s"
    using loop' by (simp add: bonds_of_def)
  have "op_balances s ?k \<le> (\<Sum>k\<in>UNIV. op_balances s k)"
    by (rule member_le_sum) auto
  with solv have bal: "op_balances s ?k \<le> ethBalance s"
    by (simp add: solvent_def obligations_def obl_def)
  have "\<exists>s2. unbond_refund E this operator sid b
      (s1\<lparr>mapOperatorAndServiceIdAgentInstances := (mapOperatorAndServiceIdAgentInstances s1)(?k := [])\<rparr>)
      = Inr (min b (op_balances s ?k), s2)"
    using acc bal loop' by (auto simp: unbond_refund_def send_eth_def Let_def)
  then show ?thesis
    using assms(5,6) insts le len loop w b
    by (auto simp: unbond_def Let_def chk_sub_def widths_ok_def)
qed

end
