(* ===== verification/Token_Solvency.thy ===== *)
theory Token_Solvency
  imports Service_Manager_Tokens Service_Registry_Accounting
begin

text \<open>
  The tokens the utility contract owes, and that it has them: for a token that does not take tokens away by itself, the balance covers
  the security deposits of the running services, the balances of the operators and the slashed funds, in every state the
  manager, the registry, the utility and the token holders can reach together.
\<close>

section \<open>What is owed\<close>

definition running :: "ServiceState \<Rightarrow> bool" where
  "running st \<longleftrightarrow> st \<in> {ActiveRegistration, FinishedRegistration, Deployed}"

abbreviation service_state :: "service_registry \<Rightarrow> uint256 \<Rightarrow> ServiceState" where
  "service_state r i \<equiv> state (mapServices r i)"

abbreviation tu_balances :: "token_utility \<Rightarrow> uint256 \<Rightarrow> nat" where
  "tu_balances \<equiv> mapOperatorAndServiceIdTokenBalances"

definition held_in :: "service_registry \<Rightarrow> token_utility \<Rightarrow> address \<Rightarrow> uint256 \<Rightarrow> nat" where
  "held_in r u t i = (if tu_token u i = t \<and> running (service_state r i) then td_securityDeposit (mapServiceIdTokenDeposit u i) else 0)"

definition bonded_in :: "token_utility \<Rightarrow> address \<Rightarrow> uint256 \<Rightarrow> nat" where
  "bonded_in u t k = (if tu_token u (drop_bit 160 k) = t then tu_balances u k else 0)"

definition token_owed :: "service_registry \<Rightarrow> token_utility \<Rightarrow> address \<Rightarrow> nat" where
  "token_owed r u t = (\<Sum>i\<in>UNIV. held_in r u t i) + (\<Sum>k\<in>UNIV. bonded_in u t k) + mapSlashedFunds u t"

definition money :: "'w tokens \<Rightarrow> address \<Rightarrow> address \<Rightarrow> 'w \<Rightarrow> nat" where
  "money T this t w = (case tk_balanceOf T w t this of None \<Rightarrow> 0 | Some n \<Rightarrow> n)"

text \<open>
  A token that is safe for the holder \<open>this\<close>: no call of another token takes its tokens away, and a transfer of its tokens takes away
  at most the amount.
\<close>

definition safe_token :: "'w tokens \<Rightarrow> address \<Rightarrow> address \<Rightarrow> bool" where
  "safe_token T this t \<longleftrightarrow>
     (\<forall>w token src to n w'. tk_transferFrom T w token src to n = Some w' \<longrightarrow> token \<noteq> t \<longrightarrow> money T this t w \<le> money T this t w') \<and>
     (\<forall>w token to n w'. tk_transfer T w token to n = Some w' \<longrightarrow>
        money T this t w \<le> money T this t w' + (if token = t then n else 0))"

lemma receive_money:
  assumes "receive_tokens T this token src n err w = Inr w'" and "safe_token T this t"
  shows "money T this t w + (if token = t then n else 0) \<le> money T this t w'"
proof (cases "token = t")
  case True
  from assms(1) show ?thesis
    by (auto simp: receive_tokens_def tu_safeTransferFrom_def asks_def money_def True split: option.splits if_splits)
next
  case False
  from assms(1) obtain b where "tk_transferFrom T w token src this n = Some w'"
    by (auto simp: receive_tokens_def tu_safeTransferFrom_def asks_def split: option.splits if_splits)
  with False assms(2) show ?thesis by (auto simp: safe_token_def)
qed

lemma transfer_money:
  assumes "tu_safeTransfer T this token to n w = Inr w'" and "safe_token T this t"
  shows "money T this t w \<le> money T this t w' + (if token = t then n else 0)"
proof -
  have "tk_transfer T w token to n = Some w'" using assms(1) by (simp add: tu_safeTransfer_def split: option.splits)
  with assms(2) show ?thesis unfolding safe_token_def by blast
qed

section \<open>One change at a time\<close>

lemma owed_service:
  assumes "mapServices r' = (mapServices r)(i := v)"
  shows "token_owed r' u t + held_in r u t i = token_owed r u t + held_in r' u t i"
proof -
  have "held_in r' u t = (held_in r u t)(i := held_in r' u t i)"
    using assms by (auto simp: held_in_def)
  then have "(\<Sum>j\<in>UNIV. held_in r' u t j) + held_in r u t i = (\<Sum>j\<in>UNIV. held_in r u t j) + held_in r' u t i"
    using sum_fun_upd [of "held_in r u t" i "held_in r' u t i"] by simp
  then show ?thesis by (simp add: token_owed_def)
qed

lemma owed_balance:
  assumes "mapServiceIdTokenDeposit u' = mapServiceIdTokenDeposit u" and "tu_balances u' = (tu_balances u)(k := n)"
  shows "token_owed r u' t + bonded_in u t k + mapSlashedFunds u t = token_owed r u t + bonded_in u' t k + mapSlashedFunds u' t"
proof -
  have "bonded_in u' t = (bonded_in u t)(k := bonded_in u' t k)" "held_in r u' t = held_in r u t"
    using assms by (auto simp: bonded_in_def held_in_def)
  then show ?thesis
    using sum_fun_upd [of "bonded_in u t" k "bonded_in u' t k"] by (simp add: token_owed_def)
qed

lemma owed_same:
  assumes "mapServiceIdTokenDeposit u' = mapServiceIdTokenDeposit u" and "tu_balances u' = tu_balances u"
    and "mapSlashedFunds u' = mapSlashedFunds u" and "mapServices r' = mapServices r"
  shows "token_owed r' u' t = token_owed r u t"
proof -
  have "held_in r' u' t = held_in r u t" "bonded_in u' t = bonded_in u t"
    using assms by (auto simp: held_in_def bonded_in_def fun_eq_iff)
  with assms(3) show ?thesis by (simp add: token_owed_def)
qed

text \<open>The token record of a service that is not running and has no bonded operators.\<close>

lemma owed_record:
  assumes "mapServiceIdTokenDeposit u' = (mapServiceIdTokenDeposit u)(i := d)" and "tu_balances u' = tu_balances u"
    and "mapSlashedFunds u' = mapSlashedFunds u" and "\<not> running (service_state r i)" and "\<And>k. drop_bit 160 k = i \<Longrightarrow> tu_balances u k = 0"
  shows "token_owed r u' t = token_owed r u t"
proof -
  have "held_in r u' t = held_in r u t" "bonded_in u' t = bonded_in u t"
    using assms by (auto simp: held_in_def bonded_in_def fun_eq_iff)
  with assms(3) show ?thesis by (simp add: token_owed_def)
qed

section \<open>Operators without instances\<close>

text \<open>An operator has tokens bonded only with instances registered, and only for a service with a token.\<close>

abbreviation operator_instances :: "service_registry \<Rightarrow> uint256 \<Rightarrow> AgentInstance list" where
  "operator_instances \<equiv> mapOperatorAndServiceIdAgentInstances"

definition bonded_ok :: "service_registry \<Rightarrow> token_utility \<Rightarrow> bool" where
  "bonded_ok r u \<longleftrightarrow> (\<forall>k. operator_instances r k = [] \<or> tu_token u (drop_bit 160 k) = 0 \<longrightarrow> tu_balances u k = 0)"

lemma operatorService_split: "operatorService (ucast k) (drop_bit 160 k) = k"
proof (rule bit_word_eqI)
  fix n assume "n < LENGTH(256)"
  then show "bit (operatorService (ucast k) (drop_bit 160 k)) n = bit k n"
    by (cases "n < 160") (auto simp: operatorService_def bit_simps)
qed

lemma idle_balances:
  assumes "bonded_ok r u" and "counted r" and "unat i < 2 ^ 96" and "numAgentInstances (mapServices r i) = 0" and "drop_bit 160 k = i"
  shows "tu_balances u k = 0"
proof -
  have "engaged r i = 0" using assms(2-4) by (simp add: counted_def)
  then have "operator_instances r (operatorService (ucast k) i) = []" by (simp add: engaged_def)
  with assms(1,5) operatorService_split [of k] show ?thesis by (auto simp: bonded_ok_def)
qed

section \<open>Effects of the utility\<close>

text \<open>What the calls of the utility leave of its token records, balances and slashed funds, and what they move.\<close>

definition same_books :: "token_utility \<Rightarrow> token_utility \<Rightarrow> bool" where
  "same_books u u' \<longleftrightarrow> mapServiceIdTokenDeposit u' = mapServiceIdTokenDeposit u \<and> tu_balances u' = tu_balances u
     \<and> mapSlashedFunds u' = mapSlashedFunds u"

lemma tu_enter_InrD: "tu_enter sender u = Inr u' \<Longrightarrow> u' = u\<lparr>tu_locked := 2\<rparr>"
  by (auto simp: tu_enter_def split: if_splits)

lemma activate_effect:
  assumes "activateRegistrationTokenDeposit T this sender sid r w u = Inr (b, w', u')"
  shows "same_books u u'"
    and "safe_token T this t \<Longrightarrow> t \<noteq> 0 \<Longrightarrow>
      money T this t w + (if tu_token u sid = t then td_securityDeposit (mapServiceIdTokenDeposit u sid) else 0) \<le> money T this t w'"
  using assms receive_money
  by (fastforce simp: activateRegistrationTokenDeposit_def same_books_def Let_def split: if_splits dest!: tu_enter_InrD)+

lemma token_bond_loop_Nil: "token_bond_loop u sid ids 0 = Inr n \<Longrightarrow> ids = [] \<Longrightarrow> n = 0"
  by simp

lemma register_effect:
  assumes "registerAgentsTokenDeposit T this sender operator sid ids w u = Inr (b, w', u')"
  shows "\<exists>n. mapServiceIdTokenDeposit u' = mapServiceIdTokenDeposit u \<and> mapSlashedFunds u' = mapSlashedFunds u
    \<and> tu_balances u' = (tu_balances u)(operatorService operator sid := tu_balances u (operatorService operator sid) + n)
    \<and> (tu_token u sid = 0 \<or> ids = [] \<longrightarrow> n = 0)
    \<and> (\<forall>t. safe_token T this t \<longrightarrow> t \<noteq> 0 \<longrightarrow> money T this t w + (if tu_token u sid = t then n else 0) \<le> money T this t w')"
proof (cases "tu_token u sid = 0")
  case True
  with assms have "w' = w" "same_books u u'"
    by (auto simp: registerAgentsTokenDeposit_def same_books_def Let_def dest!: tu_enter_InrD)
  with True show ?thesis by (intro exI [of _ 0]) (auto simp: same_books_def)
next
  case False
  with assms obtain n err where n: "token_bond_loop (u\<lparr>tu_locked := 2\<rparr>) sid ids 0 = Inr n"
      "receive_tokens T this (tu_token u sid) operator n err w = Inr w'"
      "mapServiceIdTokenDeposit u' = mapServiceIdTokenDeposit u" "mapSlashedFunds u' = mapSlashedFunds u"
      "tu_balances u' = (tu_balances u)(operatorService operator sid := tu_balances u (operatorService operator sid) + n)"
    by (auto simp: registerAgentsTokenDeposit_def Let_def split: if_splits dest!: tu_enter_InrD)
  with False show ?thesis by (intro exI [of _ n]) (auto dest: token_bond_loop_Nil receive_money)
qed

lemma terminate_effect:
  assumes "terminateTokenRefund T this sender sid r w u = Inr (n, w', u')"
  shows "same_books u u'"
    and "safe_token T this t \<Longrightarrow> t \<noteq> 0 \<Longrightarrow>
      money T this t w \<le> money T this t w' + (if tu_token u sid = t then td_securityDeposit (mapServiceIdTokenDeposit u sid) else 0)"
  using assms transfer_money
  by (fastforce simp: terminateTokenRefund_def same_books_def Let_def split: if_splits dest!: tu_enter_InrD)+

lemma unbond_effect:
  fixes operator sid
  assumes "unbondTokenRefund T this sender operator sid w u = Inr (n, w', u')"
  defines "k \<equiv> operatorService operator sid"
  shows "mapServiceIdTokenDeposit u' = mapServiceIdTokenDeposit u" and "mapSlashedFunds u' = mapSlashedFunds u"
    and "tu_balances u' = (tu_balances u)(k := if tu_token u sid = 0 then tu_balances u k else 0)"
    and "safe_token T this t \<Longrightarrow> t \<noteq> 0 \<Longrightarrow> money T this t w \<le> money T this t w' + (if tu_token u sid = t then tu_balances u k else 0)"
  using assms transfer_money [of T this "tu_token u sid" operator "tu_balances u k" w w' t]
  by (auto simp: unbondTokenRefund_def Let_def k_def fun_upd_idem split: if_splits dest!: tu_enter_InrD)

lemma drain_effect:
  assumes "tu_drain T this sender token w u = Inr (n, w', u')"
  shows "mapServiceIdTokenDeposit u' = mapServiceIdTokenDeposit u" and "tu_balances u' = tu_balances u"
    and "mapSlashedFunds u' = (mapSlashedFunds u)(token := 0)"
    and "safe_token T this t \<Longrightarrow> money T this t w \<le> money T this t w' + (if token = t then mapSlashedFunds u token else 0)"
  using assms transfer_money [of T this token "tu_drainer u" "mapSlashedFunds u token" w w' t]
  by (auto simp: tu_drain_def Let_def split: if_splits)

text \<open>Slashing moves tokens from operators to the slashed funds of the same token.\<close>

lemma slash_one_effect:
  assumes "tu_slash_one r sid inst amount (u, s) = Inr (u', s')" and "unat sid < 2 ^ 96"
  shows "mapServiceIdTokenDeposit u' = mapServiceIdTokenDeposit u" "mapSlashedFunds u' = mapSlashedFunds u"
    "\<forall>k. tu_balances u' k \<le> tu_balances u k"
    "token_owed r0 u' t + (if tu_token u sid = t then s' else 0) = token_owed r0 u t + (if tu_token u sid = t then s else 0)"
proof -
  let ?k = "operatorService (mapAgentInstanceOperators r inst) sid"
  define n where "n = tu_balances u ?k - amount"
  have n: "n \<le> tu_balances u ?k" "s' = s + (tu_balances u ?k - n)" "mapServiceIdTokenDeposit u' = mapServiceIdTokenDeposit u"
    "tu_balances u' = (tu_balances u)(?k := n)" "mapSlashedFunds u' = mapSlashedFunds u"
    using assms(1) by (auto simp: tu_slash_one_def Let_def n_def fun_upd_idem split: if_splits)
  show "mapServiceIdTokenDeposit u' = mapServiceIdTokenDeposit u" "mapSlashedFunds u' = mapSlashedFunds u" by (fact n)+
  show "\<forall>k. tu_balances u' k \<le> tu_balances u k" using n by simp
  show "token_owed r0 u' t + (if tu_token u sid = t then s' else 0) = token_owed r0 u t + (if tu_token u sid = t then s else 0)"
    using owed_balance [OF n(3,4), of r0 t] n drop_operatorService [OF assms(2)] by (auto simp: bonded_in_def)
qed

lemma slash_loop_effect:
  assumes "tu_slash_loop r sid xs (u, s) = Inr (u', s')" and "unat sid < 2 ^ 96"
  shows "mapServiceIdTokenDeposit u' = mapServiceIdTokenDeposit u \<and> mapSlashedFunds u' = mapSlashedFunds u \<and>
    (\<forall>k. tu_balances u' k \<le> tu_balances u k) \<and>
    (\<forall>t. token_owed r0 u' t + (if tu_token u sid = t then s' else 0) = token_owed r0 u t + (if tu_token u sid = t then s else 0))"
  using assms(1)
proof (induction xs arbitrary: u s)
  case (Cons x xs)
  obtain inst amount where x: "x = (inst, amount)" by (cases x)
  obtain u1 s1 where 1: "tu_slash_one r sid inst amount (u, s) = Inr (u1, s1)" "tu_slash_loop r sid xs (u1, s1) = Inr (u', s')"
    using Cons.prems by (auto simp: x)
  note e = slash_one_effect [OF 1(1) assms(2)]
  show ?case using Cons.IH [OF 1(2)] e(1-3) e(4) [of r0] by (auto intro: order_trans)
qed simp

lemma slash_effect:
  assumes "tu_slash sender insts amounts sid r u = Inr (b, u')" and "unat sid < 2 ^ 96"
  shows "mapServiceIdTokenDeposit u' = mapServiceIdTokenDeposit u" and "\<forall>k. tu_balances u' k \<le> tu_balances u k"
    and "token_owed r0 u' t = token_owed r0 u t"
proof -
  obtain u1 s where 1: "tu_slash_loop r sid (zip insts amounts) (u, 0) = Inr (u1, s)"
    "u' = u1\<lparr>mapSlashedFunds := (mapSlashedFunds u1)(tu_token u sid := s + mapSlashedFunds u1 (tu_token u sid))\<rparr>"
    using assms(1) by (auto simp: tu_slash_def Let_def split: if_splits)
  note e = slash_loop_effect [OF 1(1) assms(2), of r0]
  show "mapServiceIdTokenDeposit u' = mapServiceIdTokenDeposit u" "\<forall>k. tu_balances u' k \<le> tu_balances u k" using e 1(2) by simp_all
  have "token_owed r0 u' t = token_owed r0 u1 t + (if tu_token u sid = t then s else 0)"
  proof -
    have "held_in r0 u' t = held_in r0 u1 t" "bonded_in u' t = bonded_in u1 t"
      by (auto simp: held_in_def bonded_in_def 1(2) fun_eq_iff)
    then show ?thesis by (simp add: token_owed_def 1(2))
  qed
  with e show "token_owed r0 u' t = token_owed r0 u t" by simp
qed

section \<open>Steps of the whole\<close>

text \<open>The calls anyone can make to the registry besides those reserved for the manager; the manager stays the same.\<close>

inductive user_step :: "env \<Rightarrow> address \<Rightarrow> service_registry \<Rightarrow> service_registry \<Rightarrow> bool"
  for E :: env and this :: address where
  changeOwner: "changeOwner sender a r = Inr r' \<Longrightarrow> user_step E this r r'"
| setBaseURI: "setBaseURI sender uri r = Inr r' \<Longrightarrow> user_step E this r r'"
| changeDrainer: "changeDrainer sender a r = Inr r' \<Longrightarrow> user_step E this r r'"
| changeMultisigPermission: "changeMultisigPermission sender a b r = Inr (x, r') \<Longrightarrow> user_step E this r r'"
| approve: "sender \<noteq> 0 \<Longrightarrow> approve sender a tid r = Inr r' \<Longrightarrow> user_step E this r r'"
| setApprovalForAll: "sender \<noteq> 0 \<Longrightarrow> setApprovalForAll sender a b r = r' \<Longrightarrow> user_step E this r r'"
| transferFrom: "sender \<noteq> 0 \<Longrightarrow> transferFrom sender src to tid r = Inr r' \<Longrightarrow> user_step E this r r'"
| safeTransferFrom: "sender \<noteq> 0 \<Longrightarrow> safeTransferFrom E sender src to tid r = Inr r' \<Longrightarrow> user_step E this r r'"
| slash: "slash sender insts amounts sid r = Inr (x, r') \<Longrightarrow> user_step E this r r'"
| drain: "drain E this sender r = Inr (x, r') \<Longrightarrow> user_step E this r r'"
| force_eth: "r' = r\<lparr>ethBalance := ethBalance r + n\<rparr> \<Longrightarrow> user_step E this r r'"

inductive sm_admin :: "service_manager \<Rightarrow> service_manager \<Rightarrow> bool" where
  changeOwner: "sm_changeOwner sender a m = Inr m' \<Longrightarrow> sm_admin m m'"
| pause: "sm_pause sender m = Inr m' \<Longrightarrow> sm_admin m m'"
| unpause: "sm_unpause sender m = Inr m' \<Longrightarrow> sm_admin m m'"
| setOperatorWhitelist: "setOperatorWhitelist sender a m = Inr m' \<Longrightarrow> sm_admin m m'"
| setIdentityRegistryBridger: "setIdentityRegistryBridger sender a m = Inr m' \<Longrightarrow> sm_admin m m'"
| bindMultisig: "bindMultisig sids m = Inr m' \<Longrightarrow> sm_admin m m'"

text \<open>
  One call of anyone to any of the three contracts, or anything the holders of tokens do by themselves: they do not take away from
  the utility the tokens of a safe token.
\<close>

inductive protocol_step :: "'w chain \<Rightarrow> 'w protocol \<Rightarrow> 'w protocol \<Rightarrow> bool"
  for C :: "'w chain" where
  create: "\<forall>q\<in>set params. bond q < 2 ^ 96 \<Longrightarrow> sm_create C own token hash ids params thr p = Inr (x, p') \<Longrightarrow> protocol_step C p p'"
| update: "\<forall>q\<in>set params. bond q < 2 ^ 96 \<Longrightarrow> sm_update C sender token hash ids params thr sid p = Inr (x, p') \<Longrightarrow> protocol_step C p p'"
| activateRegistration: "sm_activateRegistration C sender val sid p = Inr (x, p') \<Longrightarrow> protocol_step C p p'"
| registerAgents: "sm_registerAgents C sender val sid insts ids p = Inr (x, p') \<Longrightarrow> protocol_step C p p'"
| registerAgentsWithSignature:
    "sm_registerAgentsWithSignature C sender val operator sid insts ids sig p = Inr (x, p') \<Longrightarrow> protocol_step C p p'"
| deploy: "pm_deploy C sender sid impl data p = Inr (x, p') \<Longrightarrow> protocol_step C p p'"
| terminate: "sm_terminate C sender sid p = Inr (x, p') \<Longrightarrow> protocol_step C p p'"
| unbond: "sm_unbond C sender sid p = Inr (x, p') \<Longrightarrow> protocol_step C p p'"
| unbondWithSignature: "sm_unbondWithSignature C sender operator sid sig p = Inr (x, p') \<Longrightarrow> protocol_step C p p'"
| admin: "sm_admin (pm p) m \<Longrightarrow> p' = p\<lparr>pm := m\<rparr> \<Longrightarrow> protocol_step C p p'"
| registry_user: "user_step (evm C) (sr_address C) (preg p) r \<Longrightarrow> p' = p\<lparr>pm := (pm p)\<lparr>registry := r\<rparr>\<rparr> \<Longrightarrow> protocol_step C p p'"
| utility_owner: "tu_changeOwner sender a (pu p) = Inr u \<or> tu_changeDrainer sender a (pu p) = Inr u \<Longrightarrow> p' = p\<lparr>pu := u\<rparr> \<Longrightarrow> protocol_step C p p'"
| utility_slash: "tu_slash sender insts amounts sid (preg p) (pu p) = Inr (x, u) \<Longrightarrow> p' = p\<lparr>pu := u\<rparr> \<Longrightarrow> protocol_step C p p'"
| utility_drain: "tu_drain (erc20 C) (tu_address C) sender token (pw p) (pu p) = Inr (x, w, u) \<Longrightarrow> p' = p\<lparr>pw := w, pu := u\<rparr> \<Longrightarrow> protocol_step C p p'"
| holders: "\<forall>t. safe_token (erc20 C) (tu_address C) t \<longrightarrow> money (erc20 C) (tu_address C) t (pw p) \<le> money (erc20 C) (tu_address C) t w
    \<Longrightarrow> p' = p\<lparr>pw := w\<rparr> \<Longrightarrow> protocol_step C p p'"

inductive protocol_reachable :: "'w chain \<Rightarrow> 'w protocol \<Rightarrow> bool"
  for C :: "'w chain" where
  init: "preg p = (new_registry deployer uri)\<lparr>manager := sm_address C\<rparr> \<Longrightarrow>
    pu p = (new_utility deployer')\<lparr>tu_manager := sm_address C\<rparr> \<Longrightarrow> sm_locked (pm p) = 1 \<Longrightarrow> protocol_reachable C p"
| step: "protocol_reachable C p \<Longrightarrow> protocol_step C p p' \<Longrightarrow> protocol_reachable C p'"

section \<open>What a call of the manager does to the other contracts\<close>

lemmas manager_defs = sm_enter_def sm_leave_def sm_log_def call_registry_def call_with_value_def call_utility_def

lemma createWithToken_InrD:
  "createWithToken T sender sid token ids bonds w u = Inr u' \<Longrightarrow> \<exists>d. mapServiceIdTokenDeposit u' = (mapServiceIdTokenDeposit u)(sid := d)
     \<and> tu_balances u' = tu_balances u \<and> mapSlashedFunds u' = mapSlashedFunds u \<and> tu_locked u' = tu_locked u \<and> tu_manager u' = tu_manager u"
  by (auto simp: createWithToken_def split: if_splits)

lemma resetServiceToken_InrD:
  "resetServiceToken sender sid u = Inr u' \<Longrightarrow> mapServiceIdTokenDeposit u' = (mapServiceIdTokenDeposit u)(sid := no_deposit)
     \<and> tu_balances u' = tu_balances u \<and> mapSlashedFunds u' = mapSlashedFunds u \<and> tu_locked u' = tu_locked u \<and> tu_manager u' = tu_manager u"
  by (auto simp: resetServiceToken_def split: if_splits)

text \<open>Only the token record of one service may change.\<close>

definition rerecorded :: "uint256 \<Rightarrow> token_utility \<Rightarrow> token_utility \<Rightarrow> bool" where
  "rerecorded sid u u' \<longleftrightarrow> (\<exists>d. mapServiceIdTokenDeposit u' = (mapServiceIdTokenDeposit u)(sid := d))
     \<and> tu_balances u' = tu_balances u \<and> mapSlashedFunds u' = mapSlashedFunds u \<and> tu_locked u' = tu_locked u \<and> tu_manager u' = tu_manager u"

lemma rerecorded_refl: "rerecorded sid u u"
  unfolding rerecorded_def by (metis fun_upd_triv)

lemma sm_create_InrD:
  assumes "sm_create C own token hash ids params thr p = Inr (x, p')" and "\<forall>q\<in>set params. bond q < 2 ^ 96"
  shows "\<exists>sid ps. create (evm C) (sm_address C) own hash ids ps thr (preg p) = Inr (sid, preg p') \<and> (\<forall>q\<in>set ps. bond q < 2 ^ 96)
    \<and> rerecorded sid (pu p) (pu p') \<and> pw p' = pw p"
proof (cases "token = ETH_TOKEN_ADDRESS")
  case True
  with assms have "create (evm C) (sm_address C) own hash ids params thr (preg p) = Inr (x, preg p')" "pu p' = pu p" "pw p' = pw p"
    by (auto simp: sm_create_def manager_defs split: if_splits)
  with assms(2) rerecorded_refl show ?thesis by metis
next
  case False
  let ?ps = "map (\<lambda>q. q\<lparr>bond := BOND_WRAPPER\<rparr>) params"
  have bonds: "\<forall>q\<in>set ?ps. bond q < 2 ^ 96" by (auto simp: BOND_WRAPPER_def)
  from False assms(1) obtain sid u where c: "create (evm C) (sm_address C) own hash ids ?ps thr (preg p) = Inr (sid, preg p')"
      "createWithToken (erc20 C) (sm_address C) (of_nat (unat (totalSupply (preg p)) + 1)) token ids (map bond params) (pw p) (pu p) = Inr u"
      "pu p' = u" "pw p' = pw p" "unat (totalSupply (preg p)) + 1 < 2 ^ 256"
    by (auto simp: sm_create_def sm_create_with_token_def manager_defs split: if_splits)
  have "sid = of_nat (unat (totalSupply (preg p)) + 1)"
    using create_InrD [OF c(1)] by (metis unat_of_nat_uint256 c(5) word_unat_eq_iff)
  with createWithToken_InrD [OF c(2)] have "rerecorded sid (pu p) (pu p')" by (simp add: rerecorded_def c(3))
  with c(1,4) bonds show ?thesis by blast
qed

lemma sm_update_InrD:
  assumes "sm_update C sender token hash ids params thr sid p = Inr (x, p')" and "\<forall>q\<in>set params. bond q < 2 ^ 96"
  shows "\<exists>ps. update (sm_address C) sender hash ids ps thr sid (preg p) = Inr (x, preg p') \<and> (\<forall>q\<in>set ps. bond q < 2 ^ 96)
    \<and> rerecorded sid (pu p) (pu p') \<and> pw p' = pw p"
proof (cases "token = ETH_TOKEN_ADDRESS")
  case True
  with assms have "update (sm_address C) sender hash ids params thr sid (preg p) = Inr (x, preg p')"
      "resetServiceToken (sm_address C) sid (pu p) = Inr (pu p')" "pw p' = pw p"
    by (auto simp: sm_update_def manager_defs split: if_splits)
  with assms(2) resetServiceToken_InrD show ?thesis unfolding rerecorded_def by blast
next
  case False
  with assms have c: "update (sm_address C) sender hash ids (map wrap_bond params) thr sid (preg p) = Inr (x, preg p')"
      "createWithToken (erc20 C) (sm_address C) sid token ids (map (\<lambda>q. if slots q > 0 then bond q else 0) params) (pw p) (pu p) = Inr (pu p')"
      "pw p' = pw p"
    by (auto simp: sm_update_def manager_defs split: if_splits)
  have bonds: "\<forall>q\<in>set (map wrap_bond params). bond q < 2 ^ 96" using assms(2) by (auto simp: wrap_bond_def BOND_WRAPPER_def)
  have "rerecorded sid (pu p) (pu p')" using createWithToken_InrD [OF c(2)] by (simp add: rerecorded_def)
  with c(1,3) bonds show ?thesis by blast
qed

lemma sm_activateRegistration_InrD:
  assumes "sm_activateRegistration C sender val sid p = Inr (x, p')"
  shows "\<exists>b v. activateRegistrationTokenDeposit (erc20 C) (tu_address C) (sm_address C) sid (preg p) (pw p) (pu p) = Inr (b, pw p', pu p')
    \<and> activateRegistration (sm_address C) v sender sid (preg p) = Inr (x, preg p')"
  using assms by (fastforce simp: sm_activateRegistration_def manager_defs split: if_splits)

lemma sm_registerAgents_InrD:
  assumes "sm_registerAgents C sender val sid insts ids p = Inr (x, p')"
  shows "\<exists>b v. registerAgentsTokenDeposit (erc20 C) (tu_address C) (sm_address C) sender sid ids (pw p) (pu p) = Inr (b, pw p', pu p')
    \<and> registerAgents (sm_address C) v sender sid insts ids (preg p) = Inr (x, preg p')"
  using assms by (fastforce simp: sm_registerAgents_def manager_defs Let_def split: if_splits)

lemma sm_registerAgentsWithSignature_InrD:
  assumes "sm_registerAgentsWithSignature C sender val operator sid insts ids sig p = Inr (x, p')"
  shows "\<exists>b v. registerAgentsTokenDeposit (erc20 C) (tu_address C) (sm_address C) operator sid ids (pw p) (pu p) = Inr (b, pw p', pu p')
    \<and> registerAgents (sm_address C) v operator sid insts ids (preg p) = Inr (x, preg p')"
  using assms by (fastforce simp: sm_registerAgentsWithSignature_def manager_defs Let_def split: if_splits)

lemma sm_terminate_InrD:
  assumes "sm_terminate C sender sid p = Inr (x, p')"
  shows "\<exists>n y. terminateTokenRefund (erc20 C) (tu_address C) (sm_address C) sid (preg p) (pw p) (pu p) = Inr (n, pw p', pu p')
    \<and> terminate (evm C) (sr_address C) (sm_address C) sender sid (preg p) = Inr (y, preg p')"
  using assms by (fastforce simp: sm_terminate_def manager_defs split: if_splits)

lemma unbond_operator_InrD:
  assumes "unbond_operator C operator sid p = Inr (x, p')"
  shows "\<exists>n y. unbondTokenRefund (erc20 C) (tu_address C) (sm_address C) operator sid (pw p) (pu p) = Inr (n, pw p', pu p')
    \<and> unbond (evm C) (sr_address C) (sm_address C) operator sid (preg p) = Inr (y, preg p')"
  using assms by (fastforce simp: unbond_operator_def manager_defs split: if_splits)

lemma sm_unbond_InrD:
  "sm_unbond C sender sid p = Inr (x, p') \<Longrightarrow> \<exists>p0 p1. unbond_operator C sender sid p0 = Inr (x, p1)
     \<and> preg p0 = preg p \<and> pu p0 = pu p \<and> pw p0 = pw p \<and> preg p1 = preg p' \<and> pu p1 = pu p' \<and> pw p1 = pw p'"
  by (fastforce simp: sm_unbond_def sm_enter_def sm_leave_def split: if_splits)

lemma sm_unbondWithSignature_InrD:
  "sm_unbondWithSignature C sender operator sid sig p = Inr (x, p') \<Longrightarrow> \<exists>p0 p1. unbond_operator C operator sid p0 = Inr (x, p1)
     \<and> preg p0 = preg p \<and> pu p0 = pu p \<and> pw p0 = pw p \<and> preg p1 = preg p' \<and> pu p1 = pu p' \<and> pw p1 = pw p'"
  by (fastforce simp: sm_unbondWithSignature_def sm_enter_def sm_leave_def sm_log_def Let_def split: if_splits)

lemma pm_deploy_InrD:
  assumes "pm_deploy C sender sid impl data p = Inr (x, p')"
  shows "deploy (evm C) (sm_address C) sender sid impl data (preg p) = Inr (x, preg p') \<and> pu p' = pu p \<and> pw p' = pw p"
  using assms by (auto simp: pm_deploy_def sm_deploy_def claim_def Let_def split: if_splits)

section \<open>Books\<close>

text \<open>The books of the utility are right: no operator without instances has tokens bonded, and what is owed of a safe token is there.\<close>

definition books_ok :: "'w chain \<Rightarrow> service_registry \<Rightarrow> token_utility \<Rightarrow> 'w \<Rightarrow> bool" where
  "books_ok C r u w \<longleftrightarrow> bonded_ok r u \<and>
     (\<forall>t. t \<noteq> 0 \<longrightarrow> safe_token (erc20 C) (tu_address C) t \<longrightarrow> token_owed r u t \<le> money (erc20 C) (tu_address C) t w)"

text \<open>It is enough that what is owed grows by no more than the balance does.\<close>

lemma books_move:
  assumes "books_ok C r u w" and "bonded_ok r' u'"
    and "\<And>t. t \<noteq> 0 \<Longrightarrow> safe_token (erc20 C) (tu_address C) t \<Longrightarrow>
      token_owed r' u' t + money (erc20 C) (tu_address C) t w \<le> token_owed r u t + money (erc20 C) (tu_address C) t w'"
  shows "books_ok C r' u' w'"
  unfolding books_ok_def
proof (intro conjI allI impI)
  fix t assume "t \<noteq> 0" "safe_token (erc20 C) (tu_address C) t"
  with assms(1) assms(3) [OF this] show "token_owed r' u' t \<le> money (erc20 C) (tu_address C) t w'"
    unfolding books_ok_def by fastforce
qed (fact assms(2))

lemma books_keep:
  assumes "books_ok C r u w" and "same_books u u'" and "mapServices r' = mapServices r" and "operator_instances r' = operator_instances r"
  shows "books_ok C r' u' w"
  using assms owed_same [of u' u r' r] by (simp add: books_ok_def bonded_ok_def same_books_def)

lemma books_rerecord:
  assumes "books_ok C r u w" and "counted r" and "unat i < 2 ^ 96" and "numAgentInstances (mapServices r i) = 0"
    and "rerecorded i u u'" and "mapServices r' = (mapServices r)(i := v)" and "operator_instances r' = operator_instances r"
    and "\<not> running (service_state r i)" and "\<not> running (state v)"
  shows "books_ok C r' u' w"
proof -
  from assms(1) have b: "bonded_ok r u" by (simp add: books_ok_def)
  note idle = idle_balances [OF b assms(2-4)]
  obtain d where d: "mapServiceIdTokenDeposit u' = (mapServiceIdTokenDeposit u)(i := d)" "tu_balances u' = tu_balances u"
      "mapSlashedFunds u' = mapSlashedFunds u"
    using assms(5) by (auto simp: rerecorded_def)
  have "token_owed r' u' t = token_owed r u t" for t
    using owed_service [OF assms(6), of u' t] owed_record [OF d assms(8) idle, of t] assms(6,8,9) by (simp add: held_in_def)
  moreover have "bonded_ok r' u'" using b idle assms(7) by (auto simp: bonded_ok_def d)
  ultimately show ?thesis using assms(1) by (simp add: books_ok_def)
qed

lemma books_create:
  assumes "create E sender own hash ids params thr r = Inr (sid, r')" and "rerecorded sid u u'" and "books_ok C r u w"
    and "counted r" and "base_inv r" and "unat (totalSupply r') < 2 ^ 96"
  shows "books_ok C r' u' w"
proof -
  from create_InrD [OF assms(1)] obtain v where r': "mapServices r' = (mapServices r)(sid := v)" "state v = PreRegistration"
      "operator_instances r' = operator_instances r" "totalSupply r' = sid" "ownerOf_map r sid = 0"
    by auto
  with assms(5) have "mapServices r sid = empty_service"
    by (auto simp: base_inv_def existence_ok_def services_ok_def service_ok_def split: ServiceState.splits)
  with r' assms show ?thesis
    by (intro books_rerecord [OF assms(3,4) _ _ assms(2) r'(1,3)]) (simp_all add: empty_service_def running_def)
qed

lemma books_update:
  assumes "update sender own hash ids params thr sid r = Inr (x, r')" and "rerecorded sid u u'" and "books_ok C r u w"
    and "counted r" and "base_inv r" and "unat (totalSupply r) < 2 ^ 96"
  shows "books_ok C r' u' w"
proof -
  from update_InrD [OF assms(1)] obtain v where r': "mapServices r' = (mapServices r)(sid := v)" "state v = PreRegistration"
      "operator_instances r' = operator_instances r" "state (mapServices r sid) = PreRegistration"
    by auto
  moreover from assms(5) have "service_ok (mapServices r sid)" by (simp add: base_inv_def services_ok_def)
  ultimately show ?thesis
    using existing_id [OF assms(5) _ assms(6)]
    by (intro books_rerecord [OF assms(3,4) _ _ assms(2) r'(1,3)]) (simp_all add: service_ok_def running_def)
qed

lemma books_activate:
  assumes "activateRegistrationTokenDeposit (erc20 C) (tu_address C) m sid r w u = Inr (b, w', u')"
    and "activateRegistration sender v own sid r = Inr (x, r')" and "books_ok C r u w"
  shows "books_ok C r' u' w'"
proof -
  note e = activate_effect [OF assms(1)]
  from activateRegistration_InrD [OF assms(2)] have r': "service_state r sid = PreRegistration"
      "mapServices r' = (mapServices r)(sid := (mapServices r sid)\<lparr>state := ActiveRegistration\<rparr>)"
      "operator_instances r' = operator_instances r"
    by auto
  have owed: "token_owed r' u' t = token_owed r u t + (if tu_token u sid = t then td_securityDeposit (mapServiceIdTokenDeposit u sid) else 0)" for t
    using owed_service [OF r'(2), of u t] owed_same [of u' u r' r' t] e(1) r'(1,2)
    by (simp add: held_in_def running_def same_books_def)
  have "bonded_ok r' u'" using assms(3) e(1) r'(3) by (simp add: books_ok_def bonded_ok_def same_books_def)
  then show ?thesis using e(2) owed by (intro books_move [OF assms(3)]) (auto simp: add.commute add.left_commute)
qed

lemma books_register:
  assumes "registerAgentsTokenDeposit (erc20 C) (tu_address C) m operator sid ids w u = Inr (b, w', u')"
    and "registerAgents sender v operator sid insts ids r = Inr (x, r')" and "books_ok C r u w"
    and "base_inv r" and "unat (totalSupply r) < 2 ^ 96"
  shows "books_ok C r' u' w'"
proof -
  let ?k = "operatorService operator sid"
  from register_effect [OF assms(1)] obtain n where u': "mapServiceIdTokenDeposit u' = mapServiceIdTokenDeposit u"
      "mapSlashedFunds u' = mapSlashedFunds u" "tu_balances u' = (tu_balances u)(?k := tu_balances u ?k + n)"
      and n: "tu_token u sid = 0 \<or> ids = [] \<longrightarrow> n = 0"
      and m: "\<And>t. safe_token (erc20 C) (tu_address C) t \<Longrightarrow> t \<noteq> 0 \<Longrightarrow>
        money (erc20 C) (tu_address C) t w + (if tu_token u sid = t then n else 0) \<le> money (erc20 C) (tu_address C) t w'"
    by blast
  from registerAgents_InrD [OF assms(2)] obtain v where r': "service_state r sid = ActiveRegistration"
      "mapServices r' = (mapServices r)(sid := v)" "running (state v)" "length insts = length ids"
      "operator_instances r' = (operator_instances r)(?k := operator_instances r ?k
         @ map (\<lambda>(a, i). \<lparr>inst_addr = a, inst_agentId = i\<rparr>) (zip insts ids))"
    by (auto simp: running_def)
  have id: "drop_bit 160 ?k = sid"
    using existing_id [OF assms(4) _ assms(5)] r'(1) by (intro drop_operatorService) simp
  have owed: "token_owed r' u' t = token_owed r u t + (if tu_token u sid = t then n else 0)" for t
    using owed_service [OF r'(2), of u' t] owed_balance [OF u'(1,3), of r t] r'(1,2,3) id u'
    by (auto simp: held_in_def running_def bonded_in_def)
  have "bonded_ok r' u'" using assms(3) r'(4,5) n id u' by (auto simp: books_ok_def bonded_ok_def)
  then show ?thesis using m owed by (intro books_move [OF assms(3)]) (auto simp: add.commute add.left_commute)
qed

lemma books_deploy:
  assumes "deploy E sender own sid impl data r = Inr (x, r')" and "books_ok C r u w"
  shows "books_ok C r' u w"
proof -
  from deploy_InrD [OF assms(1)] obtain v where r': "service_state r sid = FinishedRegistration"
      "mapServices r' = (mapServices r)(sid := v)" "state v = Deployed" "operator_instances r' = operator_instances r"
    by auto
  have "token_owed r' u t = token_owed r u t" for t
    using owed_service [OF r'(2), of u t] r' by (simp add: held_in_def running_def)
  with assms(2) r'(4) show ?thesis by (simp add: books_ok_def bonded_ok_def)
qed

lemma books_terminate:
  assumes "terminateTokenRefund (erc20 C) (tu_address C) m sid r w u = Inr (n, w', u')"
    and "terminate E this sender own sid r = Inr (x, r')" and "books_ok C r u w" and "base_inv r"
  shows "books_ok C r' u' w'"
proof -
  note e = terminate_effect [OF assms(1)]
  obtain ok refund where x: "x = (ok, refund)" by (cases x)
  let ?d = "\<lambda>t. if tu_token u sid = t then td_securityDeposit (mapServiceIdTokenDeposit u sid) else 0"
  from terminate_InrD [OF assms(2) [unfolded x]] obtain v where r': "service_state r sid \<notin> {PreRegistration, TerminatedBonded}"
      "mapServices r' = (mapServices r)(sid := v)" "\<not> running (state v)" "operator_instances r' = operator_instances r"
      "ownerOf_map r sid \<noteq> 0"
    by (auto simp: running_def)
  have "running (service_state r sid)"
    using r'(1,5) assms(4) by (cases "service_state r sid") (auto simp: running_def base_inv_def existence_ok_def)
  then have owed: "token_owed r' u' t + ?d t = token_owed r u t" for t
    using owed_service [OF r'(2), of u t] owed_same [of u' u r' r' t] e(1) r'(2,3)
    by (simp add: held_in_def same_books_def)
  have "bonded_ok r' u'" using assms(3) r'(4) e(1) by (simp add: books_ok_def bonded_ok_def same_books_def)
  then show ?thesis
  proof (rule books_move [OF assms(3)])
    fix t assume t: "t \<noteq> 0" "safe_token (erc20 C) (tu_address C) t"
    show "token_owed r' u' t + money (erc20 C) (tu_address C) t w \<le> token_owed r u t + money (erc20 C) (tu_address C) t w'"
      using e(2) [OF t(2,1)] owed [of t] by linarith
  qed
qed

lemma books_unbond:
  assumes "unbondTokenRefund (erc20 C) (tu_address C) m operator sid w u = Inr (n, w', u')"
    and "unbond E this sender operator sid r = Inr (x, r')" and "books_ok C r u w" and "base_inv r" and "unat (totalSupply r) < 2 ^ 96"
  shows "books_ok C r' u' w'"
proof -
  let ?k = "operatorService operator sid"
  note e = unbond_effect [OF assms(1)]
  obtain ok refund where x: "x = (ok, refund)" by (cases x)
  from unbond_InrD(6,10) [OF assms(2) [unfolded x]] obtain v where r': "service_state r sid = TerminatedBonded"
      "mapServices r' = (mapServices r)(sid := v)" "\<not> running (state v)" "operator_instances r' = (operator_instances r)(?k := [])"
    by (auto simp: running_def unbonded_service_def Let_def)
  have id: "drop_bit 160 ?k = sid"
    using existing_id [OF assms(4) _ assms(5)] r'(1) by (intro drop_operatorService) simp
  have zero: "tu_balances u ?k = 0" if "tu_token u sid = 0" using assms(3) that id by (auto simp: books_ok_def bonded_ok_def)
  have owed: "token_owed r' u' t + (if tu_token u sid = t then tu_balances u ?k else 0) = token_owed r u t" for t
    using owed_service [OF r'(2), of u' t] owed_balance [OF e(1,3), of r t] r'(1-3) id e(1-3) zero
    by (auto simp: held_in_def running_def bonded_in_def)
  have "bonded_ok r' u'" using assms(3) r'(4) e(1,3) zero by (auto simp: books_ok_def bonded_ok_def)
  then show ?thesis
  proof (rule books_move [OF assms(3)])
    fix t assume t: "t \<noteq> 0" "safe_token (erc20 C) (tu_address C) t"
    show "token_owed r' u' t + money (erc20 C) (tu_address C) t w \<le> token_owed r u t + money (erc20 C) (tu_address C) t w'"
      using e(4) [OF t(2,1)] owed [of t] by linarith
  qed
qed

lemma books_slash:
  assumes "tu_slash sender insts amounts sid r u = Inr (x, u')" and "books_ok C r u w" and "base_inv r" and "unat (totalSupply r) < 2 ^ 96"
  shows "books_ok C r u' w"
proof -
  have "service_state r sid = Deployed" using assms(1) by (auto simp: tu_slash_def Let_def split: if_splits)
  then have "unat sid < 2 ^ 96" using existing_id [OF assms(3) _ assms(4)] by simp
  note e = slash_effect [OF assms(1) this]
  have "bonded_ok r u'" unfolding bonded_ok_def
  proof (intro allI impI)
    fix k assume "operator_instances r k = [] \<or> tu_token u' (drop_bit 160 k) = 0"
    with assms(2) e(1) have "tu_balances u k = 0" by (auto simp: books_ok_def bonded_ok_def)
    with e(2) show "tu_balances u' k = 0" by (metis le_zero_eq)
  qed
  with assms(2) e(3) show ?thesis by (simp add: books_ok_def)
qed

lemma books_drain:
  assumes "tu_drain (erc20 C) (tu_address C) sender token w u = Inr (n, w', u')" and "books_ok C r u w"
  shows "books_ok C r u' w'"
proof -
  note e = drain_effect [OF assms(1)]
  have "held_in r u' t = held_in r u t" "bonded_in u' t = bonded_in u t" for t
    by (simp_all add: held_in_def bonded_in_def e(1,2) fun_eq_iff)
  then have owed: "token_owed r u' t + (if token = t then mapSlashedFunds u token else 0) = token_owed r u t" for t
    by (simp add: token_owed_def e(3))
  have "bonded_ok r u'" using assms(2) e(1,2) by (simp add: books_ok_def bonded_ok_def)
  then show ?thesis
  proof (rule books_move [OF assms(2)])
    fix t assume t: "t \<noteq> 0" "safe_token (erc20 C) (tu_address C) t"
    show "token_owed r u' t + money (erc20 C) (tu_address C) t w \<le> token_owed r u t + money (erc20 C) (tu_address C) t w'"
      using e(4) [OF t(2)] owed [of t] by linarith
  qed
qed

section \<open>Every step\<close>

lemma user_step_sr: "user_step E this r r' \<Longrightarrow> sr_step E this r r'"
  by (induction rule: user_step.induct) (blast intro: sr_step.intros)+

lemma user_step_same:
  assumes "user_step E this r r'"
  shows "mapServices r' = mapServices r \<and> operator_instances r' = operator_instances r"
proof -
  have view: "service_view r' = service_view r \<Longrightarrow> ?thesis" by (simp add: service_view_def)
  from assms show ?thesis
  proof cases
    case (slash sender insts amounts sid x)
    from slash_InrD(3) [OF this] show ?thesis by (simp add: slashed_from_def)
  next
    case (drain sender x)
    from drain_InrD(4) [OF this] show ?thesis by auto
  qed (use view generic_steps_view safeTransferFrom_view in auto)
qed

lemma sm_admin_registry: "sm_admin m m' \<Longrightarrow> registry m' = registry m"
  by (induction rule: sm_admin.induct)
     (auto simp: sm_changeOwner_def sm_pause_def sm_unpause_def setOperatorWhitelist_def setIdentityRegistryBridger_def sm_emit_def
       dest: bindMultisig_Inr split: if_splits)

text \<open>The registry sees one of its own calls, or none.\<close>

lemma protocol_step_registry:
  assumes "protocol_step C p p'"
  shows "preg p' = preg p \<or> sr_step (evm C) (sr_address C) (preg p) (preg p')"
  using assms
proof cases
  case (create params own token hash ids thr x)
  from sm_create_InrD [OF create(2,1)] show ?thesis by (blast intro: sr_step.create)
next
  case (update params sender token hash ids thr sid x)
  from sm_update_InrD [OF update(2,1)] show ?thesis by (blast intro: sr_step.update)
next
  case (activateRegistration sender val sid x)
  from sm_activateRegistration_InrD [OF this] show ?thesis by (blast intro: sr_step.activateRegistration)
next
  case (registerAgents sender val sid insts ids x)
  from sm_registerAgents_InrD [OF this] show ?thesis by (blast intro: sr_step.registerAgents)
next
  case (registerAgentsWithSignature sender val operator sid insts ids sig x)
  from sm_registerAgentsWithSignature_InrD [OF this] show ?thesis by (blast intro: sr_step.registerAgents)
next
  case (deploy sender sid impl data x)
  from pm_deploy_InrD [OF this] show ?thesis by (blast intro: sr_step.deploy)
next
  case (terminate sender sid x)
  from sm_terminate_InrD [OF this] show ?thesis by (blast intro: sr_step.terminate)
next
  case (unbond sender sid x)
  from sm_unbond_InrD [OF this] show ?thesis by (metis unbond_operator_InrD sr_step.unbond)
next
  case (unbondWithSignature sender operator sid sig x)
  from sm_unbondWithSignature_InrD [OF this] show ?thesis by (metis unbond_operator_InrD sr_step.unbond)
qed (auto simp: sm_admin_registry dest: user_step_sr)

lemma protocol_step_books:
  assumes "protocol_step C p p'" and b: "books_ok C (preg p) (pu p) (pw p)" and c: "counted (preg p)" and i: "base_inv (preg p)"
    and n: "unat (totalSupply (preg p)) < 2 ^ 96" and n': "unat (totalSupply (preg p')) < 2 ^ 96"
  shows "books_ok C (preg p') (pu p') (pw p')"
  using assms(1)
proof cases
  case (create params own token hash ids thr x)
  from sm_create_InrD [OF create(2,1)] books_create [OF _ _ b c i n'] show ?thesis by metis
next
  case (update params sender token hash ids thr sid x)
  from sm_update_InrD [OF update(2,1)] books_update [OF _ _ b c i n] show ?thesis by metis
next
  case (activateRegistration sender val sid x)
  from sm_activateRegistration_InrD [OF this] books_activate [OF _ _ b] show ?thesis by metis
next
  case (registerAgents sender val sid insts ids x)
  from sm_registerAgents_InrD [OF this] books_register [OF _ _ b i n] show ?thesis by metis
next
  case (registerAgentsWithSignature sender val operator sid insts ids sig x)
  from sm_registerAgentsWithSignature_InrD [OF this] books_register [OF _ _ b i n] show ?thesis by metis
next
  case (deploy sender sid impl data x)
  from pm_deploy_InrD [OF this] books_deploy [OF _ b] show ?thesis by metis
next
  case (terminate sender sid x)
  from sm_terminate_InrD [OF this] books_terminate [OF _ _ b i] show ?thesis by metis
next
  case (unbond sender sid x)
  from sm_unbond_InrD [OF this] books_unbond [OF _ _ b i n] show ?thesis by (metis unbond_operator_InrD)
next
  case (unbondWithSignature sender operator sid sig x)
  from sm_unbondWithSignature_InrD [OF this] books_unbond [OF _ _ b i n] show ?thesis by (metis unbond_operator_InrD)
next
  case (admin m)
  with b show ?thesis by (simp add: sm_admin_registry)
next
  case (registry_user r)
  with user_step_same [OF registry_user(1)] books_keep [OF b] show ?thesis by (simp add: same_books_def)
next
  case (utility_owner sender a u)
  then have "same_books (pu p) u"
    by (auto simp: tu_changeOwner_def tu_changeDrainer_def same_books_def split: if_splits)
  with utility_owner(2) books_keep [OF b] show ?thesis by simp
next
  case (utility_slash sender insts amounts sid x u)
  with books_slash [OF utility_slash(1) b i n] show ?thesis by simp
next
  case (utility_drain sender token x w u)
  with books_drain [OF utility_drain(1) b] show ?thesis by simp
next
  case (holders w)
  with b show ?thesis by (auto simp: books_ok_def intro: order_trans)
qed

definition protocol_inv :: "'w chain \<Rightarrow> 'w protocol \<Rightarrow> bool" where
  "protocol_inv C p \<longleftrightarrow> base_inv (preg p) \<and> widths_ok (preg p) \<and>
     (unat (totalSupply (preg p)) < 2 ^ 96 \<longrightarrow> counted (preg p) \<and> books_ok C (preg p) (pu p) (pw p))"

lemma protocol_inv_step:
  assumes "protocol_step C p p'" and inv: "protocol_inv C p"
  shows "protocol_inv C p'"
proof -
  from inv have i: "base_inv (preg p)" "widths_ok (preg p)" by (simp_all add: protocol_inv_def)
  have acc: "base_inv (preg p')" "acc_step (preg p) (preg p')"
    using protocol_step_registry [OF assms(1)] sr_step_inv [OF _ i(1)] sr_step_acc [OF _ i] i by (auto simp: acc_step_def)
  show ?thesis
  proof (cases "unat (totalSupply (preg p')) < 2 ^ 96")
    case True
    with acc(2) have n: "unat (totalSupply (preg p)) < 2 ^ 96" by (simp add: acc_step_def)
    with inv have "counted (preg p)" "books_ok C (preg p) (pu p) (pw p)" by (simp_all add: protocol_inv_def)
    with protocol_step_books [OF assms(1) this(2,1) i(1) n True] acc True show ?thesis
      by (simp add: protocol_inv_def acc_step_def)
  qed (use acc in \<open>simp add: protocol_inv_def acc_step_def\<close>)
qed

lemma protocol_inv_init:
  assumes "preg p = (new_registry deployer uri)\<lparr>manager := a\<rparr>" and "pu p = (new_utility deployer')\<lparr>tu_manager := a'\<rparr>"
  shows "protocol_inv C p"
proof -
  have "base_inv (new_registry deployer uri)"
    by (rule sr_reachable_inv [OF sr_reachable.init])
  then have "base_inv (preg p)" by (simp add: assms base_inv_def solvent_def obligations_def existence_ok_def services_ok_def)
  moreover have "token_owed (preg p) (pu p) t = 0" for t
    by (simp add: token_owed_def held_in_def bonded_in_def assms new_utility_def no_deposit_def)
  ultimately show ?thesis
    by (simp add: protocol_inv_def books_ok_def bonded_ok_def widths_ok_def counted_def engaged_def assms new_registry_def new_utility_def
        no_params_def empty_service_def)
qed

lemma protocol_reachable_inv: "protocol_reachable C p \<Longrightarrow> protocol_inv C p"
  by (induction rule: protocol_reachable.induct) (auto intro: protocol_inv_init protocol_inv_step)

section \<open>Between calls\<close>

text \<open>Between calls no lock is taken, and the registry and the utility have the manager they were given.\<close>

definition at_rest :: "'w chain \<Rightarrow> 'w protocol \<Rightarrow> bool" where
  "at_rest C p \<longleftrightarrow> sm_locked (pm p) = 1 \<and> tu_locked (pu p) = 1 \<and> manager (preg p) = sm_address C \<and> tu_manager (pu p) = sm_address C"

lemma registerAgents_manager:
  assumes "registerAgents sender val operator sid insts ids s = Inr (x, s')"
  shows "manager s' = manager s"
proof -
  from assms obtain s1 where "register_loop operator sid (zip insts ids) (s\<lparr>ethBalance := ethBalance s + val\<rparr>) = Inr s1"
      "registerAgents_finish operator sid val s1 = Inr (x, s')"
    by (auto simp: registerAgents_def split: if_splits)
  with register_loop_frame [OF this(1)] show ?thesis by (auto simp: registerAgents_finish_def Let_def)
qed

lemma slash_loop_manager: "slash_loop sid xs s = Inr s' \<Longrightarrow> manager s' = manager s"
  by (induction sid xs s rule: slash_loop.induct) (fastforce simp: slash_one_Inr_iff Let_def)+

lemma user_step_manager: "user_step E this r r' \<Longrightarrow> manager r' = manager r"
  by (induction rule: user_step.induct)
     (auto simp: changeOwner_def setBaseURI_def changeDrainer_def changeMultisigPermission_def approve_def setApprovalForAll_def
       transferFrom_def safeTransferFrom_def slash_def drain_def send_eth_def Let_def dest: slash_loop_manager split: if_splits option.splits)

text \<open>What a call of the utility keeps of it.\<close>

lemma utility_at_rest:
  "activateRegistrationTokenDeposit T this sender sid r w u = Inr (b, w', u') \<Longrightarrow> tu_locked u' = 1 \<and> tu_manager u' = tu_manager u"
  "registerAgentsTokenDeposit T this sender operator sid ids w u = Inr (b, w', u') \<Longrightarrow> tu_locked u' = 1 \<and> tu_manager u' = tu_manager u"
  "terminateTokenRefund T this sender sid r w u = Inr (n, w', u') \<Longrightarrow> tu_locked u' = 1 \<and> tu_manager u' = tu_manager u"
  "unbondTokenRefund T this sender operator sid w u = Inr (n, w', u') \<Longrightarrow> tu_locked u' = 1 \<and> tu_manager u' = tu_manager u"
  "tu_drain T this sender token w u = Inr (n, w', u') \<Longrightarrow> tu_locked u' = 1 \<and> tu_manager u' = tu_manager u"
  by (auto simp: activateRegistrationTokenDeposit_def registerAgentsTokenDeposit_def
      terminateTokenRefund_def unbondTokenRefund_def tu_drain_def Let_def split: if_splits dest!: tu_enter_InrD)

lemma slash_one_at_rest: "tu_slash_one r sid inst amount (u, s) = Inr (u', s') \<Longrightarrow> tu_locked u' = tu_locked u \<and> tu_manager u' = tu_manager u"
  by (auto simp: tu_slash_one_def Let_def split: if_splits)

lemma slash_loop_at_rest:
  "tu_slash_loop r sid xs (u, s) = Inr (u', s') \<Longrightarrow> tu_locked u' = tu_locked u \<and> tu_manager u' = tu_manager u"
  by (induction xs arbitrary: u s) (fastforce dest: slash_one_at_rest)+

lemma tu_slash_at_rest: "tu_slash sender insts amounts sid r u = Inr (b, u') \<Longrightarrow> tu_locked u' = tu_locked u \<and> tu_manager u' = tu_manager u"
  by (auto simp: tu_slash_def Let_def dest: slash_loop_at_rest split: if_splits)

lemma manager_leaves:
  "sm_create C own token hash ids params thr p = Inr (y, p') \<Longrightarrow> sm_locked (pm p') = 1"
  "sm_update C sender token hash ids params thr sid p = Inr (b, p') \<Longrightarrow> sm_locked (pm p') = 1"
  "sm_activateRegistration C sender val sid p = Inr (b, p') \<Longrightarrow> sm_locked (pm p') = 1"
  "sm_registerAgents C sender val sid insts ids p = Inr (b, p') \<Longrightarrow> sm_locked (pm p') = 1"
  "sm_registerAgentsWithSignature C sender val operator sid insts ids sig p = Inr (b, p') \<Longrightarrow> sm_locked (pm p') = 1"
  "pm_deploy C sender sid impl data p = Inr (a, p') \<Longrightarrow> sm_locked (pm p') = 1"
  "sm_terminate C sender sid p = Inr (z, p') \<Longrightarrow> sm_locked (pm p') = 1"
  "sm_unbond C sender sid p = Inr (z, p') \<Longrightarrow> sm_locked (pm p') = 1"
  "sm_unbondWithSignature C sender operator sid sig p = Inr (z, p') \<Longrightarrow> sm_locked (pm p') = 1"
  by (auto simp: sm_create_def sm_update_def sm_activateRegistration_def sm_registerAgents_def sm_registerAgentsWithSignature_def
      pm_deploy_def sm_deploy_def claim_def sm_terminate_def sm_unbond_def sm_unbondWithSignature_def sm_leave_def Let_def split: if_splits)

lemma sm_admin_locked: "sm_admin m m' \<Longrightarrow> sm_locked m = 1 \<Longrightarrow> sm_locked m' = 1"
  by (induction rule: sm_admin.induct)
     (auto simp: sm_changeOwner_def sm_pause_def sm_unpause_def setOperatorWhitelist_def setIdentityRegistryBridger_def sm_emit_def
       bindMultisig_def split: if_splits)

lemma registry_manager_kept:
  "create E sender own hash ids params thr r = Inr (sid, r') \<Longrightarrow> manager r' = manager r"
  "update sender own hash ids params thr sid r = Inr (b, r') \<Longrightarrow> manager r' = manager r"
  "activateRegistration sender v own sid r = Inr (b, r') \<Longrightarrow> manager r' = manager r"
  "deploy E sender own sid impl data r = Inr (msig, r') \<Longrightarrow> manager r' = manager r"
  "terminate E this sender own sid r = Inr (y, r') \<Longrightarrow> manager r' = manager r"
  "unbond E this sender operator sid r = Inr (y, r') \<Longrightarrow> manager r' = manager r"
  by (auto dest: create_InrD update_InrD activateRegistration_InrD deploy_InrD)
     (cases y; auto dest: terminate_InrD unbond_InrD(10))+

lemma at_rest_step:
  assumes "protocol_step C p p'" and rest: "at_rest C p"
  shows "at_rest C p'"
  using assms(1)
proof cases
  case (create params own token hash ids thr x)
  from sm_create_InrD [OF create(2,1)] manager_leaves(1) [OF create(2)] rest show ?thesis
    by (auto simp: at_rest_def rerecorded_def dest: registry_manager_kept(1))
next
  case (update params sender token hash ids thr sid x)
  from sm_update_InrD [OF update(2,1)] manager_leaves(2) [OF update(2)] rest show ?thesis
    by (auto simp: at_rest_def rerecorded_def dest: registry_manager_kept(2))
next
  case (activateRegistration sender val sid x)
  from sm_activateRegistration_InrD [OF this] manager_leaves(3) [OF this] registry_manager_kept(3) utility_at_rest(1) rest show ?thesis
    by (metis at_rest_def)
next
  case (registerAgents sender val sid insts ids x)
  from sm_registerAgents_InrD [OF this] manager_leaves(4) [OF this] registerAgents_manager utility_at_rest(2) rest show ?thesis
    by (metis at_rest_def)
next
  case (registerAgentsWithSignature sender val operator sid insts ids sig x)
  from sm_registerAgentsWithSignature_InrD [OF this] manager_leaves(5) [OF this] registerAgents_manager utility_at_rest(2) rest show ?thesis
    by (metis at_rest_def)
next
  case (deploy sender sid impl data x)
  from pm_deploy_InrD [OF this] manager_leaves(6) [OF this] registry_manager_kept(4) rest show ?thesis
    by (metis at_rest_def)
next
  case (terminate sender sid x)
  from sm_terminate_InrD [OF this] manager_leaves(7) [OF this] registry_manager_kept(5) utility_at_rest(3) rest show ?thesis
    by (metis at_rest_def)
next
  case (unbond sender sid x)
  from sm_unbond_InrD [OF this] manager_leaves(8) [OF this] registry_manager_kept(6) utility_at_rest(4) rest show ?thesis
    by (metis at_rest_def unbond_operator_InrD)
next
  case (unbondWithSignature sender operator sid sig x)
  from sm_unbondWithSignature_InrD [OF this] manager_leaves(9) [OF this] registry_manager_kept(6) utility_at_rest(4) rest show ?thesis
    by (metis at_rest_def unbond_operator_InrD)
next
  case (utility_owner sender a u)
  with rest show ?thesis by (auto simp: at_rest_def tu_changeOwner_def tu_changeDrainer_def split: if_splits)
qed (use rest in \<open>auto simp: at_rest_def sm_admin_registry sm_admin_locked dest: user_step_manager utility_at_rest(5) tu_slash_at_rest\<close>)

lemma at_rest_reachable: "protocol_reachable C p \<Longrightarrow> at_rest C p"
proof (induction rule: protocol_reachable.induct)
  case init
  then show ?case by (simp add: at_rest_def new_utility_def)
qed (rule at_rest_step)

end
