(* ===== verification/Token_Properties.thy ===== *)
theory Token_Properties
  imports Token_Solvency
begin

text \<open>
  The properties of the token deposits, each with a run through the manager on which its hypotheses hold; the token of the run is
  a ledger of balances.
\<close>

section \<open>A ledger and a sample run\<close>

definition moved :: "address \<Rightarrow> address \<Rightarrow> nat \<Rightarrow> (address \<Rightarrow> nat) \<Rightarrow> (address \<Rightarrow> nat)" where
  "moved src to n w = (let w1 = w(src := w src - n) in w1(to := w1 to + n))"

definition ledger :: "address \<Rightarrow> address \<Rightarrow> (address \<Rightarrow> nat) tokens" where
  "ledger coin this = \<lparr>has_balanceOf = (\<lambda>_ t. t = coin), tk_balanceOf = (\<lambda>w t a. if t = coin then Some (w a) else None),
     tk_allowance = (\<lambda>_ _ _ _. Some (2 ^ 256 - 1)),
     tk_transferFrom = (\<lambda>w t src to n. if t = coin \<and> n \<le> w src then Some (moved src to n w) else None),
     tk_transfer = (\<lambda>w t to n. if t = coin \<and> n \<le> w this then Some (moved this to n w) else None)\<rparr>"

lemma ledger_money: "money (ledger coin this) a t w = (if t = coin then w a else 0)"
  by (simp add: money_def ledger_def)

lemma ledger_safe: "safe_token (ledger coin this) this t"
  unfolding safe_token_def ledger_money by (auto simp: ledger_def moved_def Let_def split: if_splits)

definition sample_chain :: "(address \<Rightarrow> nat) chain" where
  "sample_chain = \<lparr>evm = \<lparr>nft_accepts = (\<lambda>_ _ _. True), eth_accepts = (\<lambda>_ _. True), multisig_create = (\<lambda>_ _ _ _. Some 77)\<rparr>,
     erc20 = ledger 7 4, bridger_register = (\<lambda>_. True), bridger_update = (\<lambda>_ _ _. True), isOperatorWhitelisted = (\<lambda>_ _. True),
     signed_unbond = (\<lambda>_ _ _ _ _. True), signed_register = (\<lambda>_ _ _ _ _ _ _. True), sm_address = 2, sr_address = 3, tu_address = 4\<rparr>"

definition sample_start :: "(address \<Rightarrow> nat) protocol" where
  "sample_start = \<lparr>pm = \<lparr>sm_owner = 1, sm_paused = False, operatorWhitelist = 0, identityRegistryBridger = 0, implementation = 9,
       sm_locked = 1, mapMultisigServiceIds = (\<lambda>_. 0),
       registry = (new_registry 1 ''ipfs'')\<lparr>manager := 2\<rparr>, sm_events = []\<rparr>,
     pu = (new_utility 1)\<lparr>tu_manager := 2\<rparr>, pw = (\<lambda>a. if a = 5 \<or> a = 6 then 100 else 0), pm_eth = 0,
     mapOperatorUnbondNonces = (\<lambda>_. 0), mapOperatorRegisterAgentsNonces = (\<lambda>_. 0)\<rparr>"

definition and_then :: "'w protocol res \<Rightarrow> ('w protocol \<Rightarrow> ('a \<times> 'w protocol) res) \<Rightarrow> 'w protocol res" where
  "and_then r f = rbind r (\<lambda>p. rbind (f p) (\<lambda>(_, p'). Inr p'))"

definition goes :: "'w chain \<Rightarrow> 'w protocol res \<Rightarrow> bool" where
  "goes C r \<longleftrightarrow> (\<forall>p. r = Inr p \<longrightarrow> protocol_reachable C p)"

lemma goes_and_then:
  assumes "goes C r" and "\<And>p x p'. f p = Inr (x, p') \<Longrightarrow> protocol_step C p p'"
  shows "goes C (and_then r f)"
  using assms protocol_reachable.step unfolding goes_def and_then_def by fastforce

text \<open>
  A service of owner 5 secured in the token 7, with two slots and bonds of 10 tokens; activated; the instances 21 and 22 of operator 6
  registered by the owner with the operator's signature, with 9 wei where 2 are needed; terminated.
\<close>

definition sample_active :: "(address \<Rightarrow> nat) protocol res" where
  "sample_active = and_then (and_then (Inr sample_start)
     (sm_create sample_chain 5 7 11 [1] [\<lparr>slots = 2, bond = 10\<rparr>] 2)) (sm_activateRegistration sample_chain 5 1 1)"

definition sample_registered :: "(address \<Rightarrow> nat) protocol res" where
  "sample_registered = and_then sample_active (sm_registerAgentsWithSignature sample_chain 5 9 6 1 [21, 22] [1, 1] [])"

definition sample_ended :: "(address \<Rightarrow> nat) protocol res" where
  "sample_ended = and_then sample_registered (sm_terminate sample_chain 5 1)"

lemma sample_start_goes: "goes sample_chain (Inr sample_start)"
  unfolding goes_def by (auto intro!: protocol_reachable.init [where deployer = 1 and uri = "''ipfs''" and deployer' = 1] simp: sample_start_def sample_chain_def)

lemma sample_goes: "goes sample_chain sample_active" "goes sample_chain sample_registered" "goes sample_chain sample_ended"
  unfolding sample_ended_def sample_registered_def sample_active_def
  by (intro goes_and_then sample_start_goes; erule protocol_step.intros [rotated] protocol_step.intros; simp)+

lemmas token_eval = sample_chain_def sample_start_def and_then_def ledger_def moved_def new_registry_def new_utility_def no_deposit_def
  sm_create_def sm_create_with_token_def manager_defs ETH_TOKEN_ADDRESS_def BOND_WRAPPER_def createWithToken_def
  create_def initialChecks_def setServiceData_def chk_add_def chk_sub_def minThreshold_def serviceAgent_def operatorService_def
  safeMint_def mint_def empty_service_def no_params_def sm_activateRegistration_def activateRegistrationTokenDeposit_def tu_enter_def
  ownerOf_def asks_def receive_tokens_def tu_safeTransferFrom_def activateRegistration_def sm_registerAgentsWithSignature_def
  registerAgentsTokenDeposit_def registerAgents_def registerAgents_finish_def sm_emit_def sm_terminate_def terminateTokenRefund_def
  tu_safeTransfer_def terminate_def send_eth_def Let_def

lemma sample_registered_run:
  "\<exists>p p'. sample_active = Inr p \<and> sample_registered = Inr p' \<and> pm_eth p = 0 \<and> pm_eth p' = 7 \<and> pw p' 4 = 30 \<and>
     isTokenSecuredService 1 (pu p) \<and> totalSupply (preg p') = 1"
  by (simp add: sample_registered_def sample_active_def token_eval isTokenSecuredService_def)

lemma sample_ended_run:
  "\<exists>p. sample_ended = Inr p \<and> state (mapServices (preg p) 1) = TerminatedBonded \<and> totalSupply (preg p) = 1 \<and> tu_token (pu p) 1 = 7
     \<and> operator_instances (preg p) (operatorService 6 1) \<noteq> [] \<and> tu_getOperatorBalance 6 1 (pu p) = 20"
  by (simp add: sample_ended_def sample_registered_def sample_active_def token_eval tu_getOperatorBalance_def)

section \<open>Properties\<close>

text \<open>
  C10. The token utility can pay: in every state that calls of anyone to the manager, the registry and the utility can lead to, its
  balance of a token that is safe for it covers the security deposits of the running services secured in this token, the balances
  of their operators and the slashed funds. (Service ids are below 2^96, so that the packed operator keys do not collide.)
\<close>

theorem token_utility_solvent:
  assumes "protocol_reachable C p" and "unat (totalSupply (preg p)) < 2 ^ 96" and "t \<noteq> 0" and "safe_token (erc20 C) (tu_address C) t"
  shows "(\<Sum>i\<in>UNIV. held_in (preg p) (pu p) t i) + (\<Sum>k\<in>UNIV. bonded_in (pu p) t k) + mapSlashedFunds (pu p) t
    \<le> money (erc20 C) (tu_address C) t (pw p)"
  using protocol_reachable_inv [OF assms(1)] assms(2-4) by (simp add: protocol_inv_def books_ok_def token_owed_def)

theorem token_utility_solvent_witness:
  "\<exists>p. sample_registered = Inr p \<and> (\<Sum>i\<in>UNIV. held_in (preg p) (pu p) 7 i) + (\<Sum>k\<in>UNIV. bonded_in (pu p) 7 k) + mapSlashedFunds (pu p) 7
    \<le> 30"
proof -
  obtain p where p: "sample_registered = Inr p" "pw p 4 = 30" "totalSupply (preg p) = 1" using sample_registered_run by blast
  with sample_goes(2) have "protocol_reachable sample_chain p" by (simp add: goes_def)
  from token_utility_solvent [OF this, of 7] p show ?thesis by (auto simp: sample_chain_def ledger_safe ledger_money)
qed

text \<open>
  C11. Unbonding pays out tokens: once a service secured in a token is terminated, every operator with instances in it can unbond
  through the manager, when the token is safe for the utility and pays what it has, and the operator accepts ether. The tokens of the operator the
  utility holds for it are transferred to the operator: the world is the one after that call of the token, which is the only one, the amount is
  logged and returned, and the operator has no balance left.
\<close>

theorem token_unbond_refunds:
  assumes "protocol_reachable C p" and "unat (totalSupply (preg p)) < 2 ^ 96"
    and "state (mapServices (preg p) sid) = TerminatedBonded" and "operator \<noteq> 0"
    and "operator_instances (preg p) (operatorService operator sid) \<noteq> []" and "\<forall>n. eth_accepts (evm C) operator n"
    and token: "tu_token (pu p) sid = t" "t \<noteq> 0" and "safe_token (erc20 C) (tu_address C) t"
    and pays: "\<forall>w to n. n \<le> money (erc20 C) (tu_address C) t w \<longrightarrow> tk_transfer (erc20 C) w t to n \<noteq> None"
  defines "due \<equiv> tu_getOperatorBalance operator sid (pu p)"
  shows "\<exists>n p'. sm_unbond C operator sid p = Inr ((True, if due > 0 then due else n), p')
    \<and> (if due > 0 then tk_transfer (erc20 C) (pw p) t operator due = Some (pw p') else pw p' = pw p)
    \<and> tu_events (pu p') = tu_events (pu p) @ (if due > 0 then [TokenRefund operator t due] else [])
    \<and> tu_getOperatorBalance operator sid (pu p') = 0"
proof -
  let ?k = "operatorService operator sid"
  let ?b = "tu_balances (pu p) ?k"
  from protocol_reachable_inv [OF assms(1)] assms(2) have inv: "base_inv (preg p)" "widths_ok (preg p)" "counted (preg p)"
      "books_ok C (preg p) (pu p) (pw p)" by (simp_all add: protocol_inv_def)
  from at_rest_reachable [OF assms(1)] have rest: "sm_locked (pm p) = 1" "tu_locked (pu p) = 1" "manager (preg p) = sm_address C"
      "tu_manager (pu p) = sm_address C" by (simp_all add: at_rest_def)
  obtain n r where r: "unbond (evm C) (sr_address C) (sm_address C) operator sid (preg p) = Inr ((True, n), r)"
    using unbond_pays [OF inv(1-3) assms(2-6), of "sr_address C"] rest(3) by metis
  have "unat sid < 2 ^ 96" using existing_id [OF inv(1) _ assms(2)] assms(3) by simp
  then have "bonded_in (pu p) t ?k = ?b" by (simp add: bonded_in_def drop_operatorService token)
  then have "?b \<le> token_owed (preg p) (pu p) t"
    using member_le_sum [of ?k UNIV "bonded_in (pu p) t"] by (simp add: token_owed_def)
  also have "\<dots> \<le> money (erc20 C) (tu_address C) t (pw p)" using inv(4) token assms(9) by (simp add: books_ok_def)
  finally obtain w where "tk_transfer (erc20 C) (pw p) t operator ?b = Some w" using pays by blast
  then show ?thesis using r rest token
    by (cases "?b = 0") (auto simp: sm_unbond_def unbond_operator_def unbondTokenRefund_def tu_enter_def tu_safeTransfer_def
        tu_getOperatorBalance_def manager_defs Let_def due_def)
qed

theorem token_unbond_refunds_witness:
  "\<exists>p p'. sample_ended = Inr p \<and> sm_unbond sample_chain 6 1 p = Inr ((True, 20), p') \<and> tu_getOperatorBalance 6 1 (pu p') = 0
    \<and> pw p' 6 = pw p 6 + 20"
proof -
  obtain p where p: "sample_ended = Inr p" "state (mapServices (preg p) 1) = TerminatedBonded" "totalSupply (preg p) = 1"
      "tu_token (pu p) 1 = 7" "operator_instances (preg p) (operatorService 6 1) \<noteq> []" "tu_getOperatorBalance 6 1 (pu p) = 20"
    using sample_ended_run by blast
  with sample_goes(3) have reach: "protocol_reachable sample_chain p" by (simp add: goes_def)
  have C: "erc20 sample_chain = ledger 7 4" "tu_address sample_chain = 4" by (simp_all add: sample_chain_def)
  have pays: "\<forall>w to n. n \<le> money (ledger 7 4) 4 7 w \<longrightarrow> tk_transfer (ledger 7 4) w 7 to n \<noteq> None"
    by (simp add: ledger_money) (simp add: ledger_def)
  from token_unbond_refunds [OF reach _ p(2) _ p(5) _ p(4), unfolded C, OF _ _ _ _ ledger_safe pays] p
  obtain p' where "sm_unbond sample_chain 6 1 p = Inr ((True, 20), p')" "tu_getOperatorBalance 6 1 (pu p') = 0"
      "tk_transfer (ledger 7 4) (pw p) 7 6 20 = Some (pw p')"
    by (auto simp: sample_chain_def)
  moreover from this(3) have "pw p' = (pw p)(4 := pw p 4 - 20, 6 := pw p 6 + 20)" by (auto simp: ledger_def moved_def Let_def split: if_splits)
  then have "pw p' 6 = pw p 6 + 20" by simp
  ultimately show ?thesis using p(1) by blast
qed

text \<open>
  Registration with a signature of the operator does not compare the value sent along with the bonds: for a service secured in a
  token one wei per instance goes to the registry, and whatever else was sent stays with the manager.
\<close>

theorem signed_registration_keeps_excess:
  assumes "sm_registerAgentsWithSignature C sender val operator sid insts ids sig p = Inr (ok, p')"
    and "isTokenSecuredService sid (pu p)"
  shows "pm_eth p' + length insts = pm_eth p + val"
proof -
  from assms have "pm_eth p' = pm_eth p + val - length insts \<and> length insts \<le> pm_eth p + val"
    by (auto simp: sm_registerAgentsWithSignature_def registerAgentsTokenDeposit_def isTokenSecuredService_def BOND_WRAPPER_def
        manager_defs Let_def split: if_splits dest!: tu_enter_InrD)
  then show ?thesis by simp
qed

theorem signed_registration_keeps_excess_witness:
  "\<exists>p p'. sample_active = Inr p \<and> sm_registerAgentsWithSignature sample_chain 5 9 6 1 [21, 22] [1, 1] [] p = Inr (True, p')
     \<and> pm_eth p = 0 \<and> pm_eth p' = 7"
proof -
  obtain p p' where p: "sample_active = Inr p" "sample_registered = Inr p'" "pm_eth p = 0" "isTokenSecuredService 1 (pu p)"
    using sample_registered_run by blast
  from p(2) obtain ok where run: "sm_registerAgentsWithSignature sample_chain 5 9 6 1 [21, 22] [1, 1] [] p = Inr (ok, p')"
    by (auto simp: sample_registered_def and_then_def p(1))
  have ok
    using run by (auto simp: sm_registerAgentsWithSignature_def registerAgents_def registerAgents_finish_def manager_defs Let_def split: if_splits)
  with run signed_registration_keeps_excess [OF run p(4)] p show ?thesis by auto
qed

section \<open>Bindings of multisigs\<close>

text \<open>Only deployment and back-filling write the bindings.\<close>

lemma manager_bindings:
  "sm_create C own token hash ids params thr p = Inr (x, p') \<Longrightarrow> mapMultisigServiceIds (pm p') = mapMultisigServiceIds (pm p)"
  "sm_update C sender token hash ids params thr sid p = Inr (b, p') \<Longrightarrow> mapMultisigServiceIds (pm p') = mapMultisigServiceIds (pm p)"
  "sm_activateRegistration C sender val sid p = Inr (b, p') \<Longrightarrow> mapMultisigServiceIds (pm p') = mapMultisigServiceIds (pm p)"
  "sm_registerAgents C sender val sid insts ids p = Inr (b, p') \<Longrightarrow> mapMultisigServiceIds (pm p') = mapMultisigServiceIds (pm p)"
  "sm_registerAgentsWithSignature C sender val operator sid insts ids sig p = Inr (b, p') \<Longrightarrow> mapMultisigServiceIds (pm p') = mapMultisigServiceIds (pm p)"
  "sm_terminate C sender sid p = Inr (z, p') \<Longrightarrow> mapMultisigServiceIds (pm p') = mapMultisigServiceIds (pm p)"
  "unbond_operator C operator sid p = Inr (z, p') \<Longrightarrow> mapMultisigServiceIds (pm p') = mapMultisigServiceIds (pm p)"
  "sm_unbond C sender sid p = Inr (z, p') \<Longrightarrow> mapMultisigServiceIds (pm p') = mapMultisigServiceIds (pm p)"
  "sm_unbondWithSignature C sender operator sid sig p = Inr (z, p') \<Longrightarrow> mapMultisigServiceIds (pm p') = mapMultisigServiceIds (pm p)"
  by (auto simp: sm_create_def sm_create_with_token_def sm_update_def sm_activateRegistration_def sm_registerAgents_def
      sm_registerAgentsWithSignature_def sm_terminate_def unbond_operator_def sm_unbond_def sm_unbondWithSignature_def manager_defs
      Let_def split: if_splits)

lemma admin_bindings:
  assumes "sm_admin m m'" and "mapMultisigServiceIds m a \<noteq> 0"
  shows "mapMultisigServiceIds m' a = mapMultisigServiceIds m a"
  using assms
  by (cases rule: sm_admin.cases)
     (auto simp: sm_changeOwner_def sm_pause_def sm_unpause_def setOperatorWhitelist_def setIdentityRegistryBridger_def
       bindMultisig_keeps split: if_splits)

text \<open>
  C17. Binding is safe: once the multisig of a service is bound to it, no call of anyone to the manager, the registry or the token utility
  unbinds it or binds it to another service, as long as the call leaves the service with this multisig; and no deployment of a different
  service can come out at this multisig.
\<close>

theorem bound_multisig_stays_bound:
  assumes "protocol_step C p p'" and "sid \<noteq> 0" and "mapMultisigServiceIds (pm p) (multisigs (pm p) sid) = sid"
    and "multisigs (pm p') sid = multisigs (pm p) sid"
  shows "mapMultisigServiceIds (pm p') (multisigs (pm p') sid) = sid \<and>
    (\<forall>sender sid2 impl data r p2. pm_deploy C sender sid2 impl data p = Inr (r, p2) \<longrightarrow> sid2 \<noteq> sid \<longrightarrow> r \<noteq> multisigs (pm p) sid)"
proof
  have bound: "mapMultisigServiceIds (pm p) (multisigs (pm p) sid) \<noteq> 0" using assms(2,3) by metis
  have "mapMultisigServiceIds (pm p') (multisigs (pm p) sid) = mapMultisigServiceIds (pm p) (multisigs (pm p) sid)"
    using assms(1)
  proof cases
    case (deploy sender sid2 impl data x)
    then have "sm_deploy (evm C) (bridger_update C) (sm_address C) sender sid2 impl data (pm p) = Inr (x, pm p')"
      by (auto simp: pm_deploy_def)
    from sm_deploy_keeps(1) [OF this assms(2,3,4)] assms(3) show ?thesis by simp
  next
    case (admin m)
    with admin_bindings [OF admin(1) bound] show ?thesis by simp
  qed (auto dest: manager_bindings)
  with assms(3,4) show "mapMultisigServiceIds (pm p') (multisigs (pm p') sid) = sid" by simp
  show "\<forall>sender sid2 impl data r p2. pm_deploy C sender sid2 impl data p = Inr (r, p2) \<longrightarrow> sid2 \<noteq> sid \<longrightarrow> r \<noteq> multisigs (pm p) sid"
    using sm_deploy_InrD(3) assms(2,3) by (fastforce simp: pm_deploy_def)
qed

theorem bound_multisig_stays_bound_witness:
  "\<exists>p p'. protocol_step sample_chain p p' \<and> multisigs (pm p') 1 = 11 \<and> mapMultisigServiceIds (pm p') (multisigs (pm p') 1) = 1"
proof -
  obtain m m' where m: "bindMultisig [1] small_manager = Inr m" "bindMultisig [2, 1] m = Inr m'"
    and eq: "multisigs m 1 = 11" "multisigs m' 1 = 11" "mapMultisigServiceIds m 11 = 1"
    by (simp add: bindMultisig_def small_manager_def multisigs_def)
  let ?p = "sample_start\<lparr>pm := m\<rparr>"
  have step: "protocol_step sample_chain ?p (?p\<lparr>pm := m'\<rparr>)"
    using m(2) by (intro protocol_step.admin [OF sm_admin.bindMultisig]) auto
  from bound_multisig_stays_bound [OF this, of 1] step eq show ?thesis by (intro exI [of _ ?p] exI [of _ "?p\<lparr>pm := m'\<rparr>"]) simp
qed

end
