(* ===== verification/Service_Registry_Properties.thy ===== *)
theory Service_Registry_Properties
  imports Service_Registry_Accounting
begin

text \<open>
  The properties of the service registry, each with a sample run of the contract on which its
  hypotheses hold: the runs are built from the model's own calls and evaluated by the simplifier.
\<close>

section \<open>Sample runs\<close>

definition sample_env :: env where
  "sample_env = \<lparr>nft_accepts = (\<lambda>_ _ _. True), eth_accepts = (\<lambda>_ _. True),
     multisig_create = (\<lambda>_ _ _ _. Some 77)\<rparr>"

definition then_call ::
    "service_registry res \<Rightarrow> (service_registry \<Rightarrow> ('a \<times> service_registry) res) \<Rightarrow> service_registry res" where
  "then_call r f = rbind r (\<lambda>s. rbind (f s) (\<lambda>(_, s'). Inr s'))"

definition reaches :: "env \<Rightarrow> address \<Rightarrow> service_registry res \<Rightarrow> bool" where
  "reaches E this r \<longleftrightarrow> (\<forall>s. r = Inr s \<longrightarrow> sr_reachable E this s)"

lemma reaches_then_call:
  assumes "reaches E this r" and "\<And>s x s'. f s = Inr (x, s') \<Longrightarrow> sr_step E this s s'"
  shows "reaches E this (then_call r f)"
  using assms sr_reachable.step unfolding reaches_def then_call_def by fastforce

lemma reaches_new_managed: "reaches E this (changeManager sender a (new_registry deployer uri))"
  unfolding reaches_def using sr_reachable.step [OF sr_reachable.init sr_step.changeManager] by blast

text \<open>
  A service with one agent id, two slots and bond 10, set up by owner 1 and manager 2; deployed with the
  instances 21 and 22 of operator 6; slashed; terminated.
\<close>

definition sample_created :: "service_registry res" where
  "sample_created = then_call (then_call (changeManager 1 2 (new_registry 1 ''ipfs''))
     (changeMultisigPermission 1 9 True))
     (create sample_env 2 5 7 [1] [\<lparr>slots = 2, bond = 10\<rparr>] 2)"

definition sample_deployed :: "service_registry res" where
  "sample_deployed = then_call (then_call (then_call sample_created
     (activateRegistration 2 10 5 1)) (registerAgents 2 20 6 1 [21, 22] [1, 1]))
     (deploy sample_env 2 5 1 9 [])"

definition sample_slashed :: "service_registry res" where
  "sample_slashed = then_call sample_deployed (slash 77 [21] [3] 1)"

definition sample_terminated :: "service_registry res" where
  "sample_terminated = then_call sample_slashed (terminate sample_env 0 2 5 1)"

text \<open>
  A service created for agent 1 and updated for agent 2 only, registered with an instance of agent 1.
\<close>

definition sample_stale :: "service_registry res" where
  "sample_stale = then_call (then_call (then_call (then_call (then_call (changeManager 1 2 (new_registry 1 ''ipfs''))
     (changeMultisigPermission 1 9 True))
     (create sample_env 2 5 7 [1] [\<lparr>slots = 1, bond = 10\<rparr>] 1))
     (update 2 5 7 [2] [\<lparr>slots = 1, bond = 10\<rparr>] 1 1))
     (activateRegistration 2 10 5 1)) (registerAgents 2 10 6 1 [21] [1])"

lemmas sr_eval = changeManager_def new_registry_def changeMultisigPermission_def create_def
  initialChecks_def setServiceData_def chk_add_def chk_sub_def minThreshold_def serviceAgent_def
  operatorService_def safeMint_def mint_def empty_service_def activateRegistration_def ownerOf_def
  registerAgents_def no_params_def registerAgents_finish_def deploy_def getAgentInstances_def
  listed_instances_def slash_def slash_one_def terminate_def send_eth_def update_def kept_def
  sample_env_def then_call_def Let_def

lemma sample_reaches:
  "reaches sample_env 0 sample_created" "reaches sample_env 0 sample_deployed"
  "reaches sample_env 0 sample_slashed" "reaches sample_env 0 sample_terminated"
  "reaches sample_env 0 sample_stale"
  unfolding sample_terminated_def sample_slashed_def sample_deployed_def sample_created_def sample_stale_def
  by (intro reaches_then_call reaches_new_managed; erule sr_step.intros [rotated] sr_step.intros; simp)+

lemma sample_deployed_run:
  "\<exists>s. sample_deployed = Inr s \<and> state (mapServices s 1) = Deployed \<and> ethBalance s = 30 \<and>
     ownerOf_map s 1 = 5 \<and> manager s = 2 \<and> securityDeposit (mapServices s 1) = 10"
  by (simp add: sample_deployed_def sample_created_def sr_eval)

lemma sample_slashed_run:
  "\<exists>s. sample_slashed = Inr s \<and> slashedFunds s = 3 \<and> drainer s = 0"
  by (simp add: sample_slashed_def sample_deployed_def sample_created_def sr_eval)

lemma sample_terminated_run:
  "\<exists>s. sample_terminated = Inr s \<and> state (mapServices s 1) = TerminatedBonded \<and> manager s = 2 \<and>
     totalSupply s = 1 \<and> mapOperatorAndServiceIdAgentInstances s (operatorService 6 1) \<noteq> [] \<and>
     min (bonds_of 6 1 s) (getOperatorBalance 6 1 s) = 17"
  by (simp add: sample_terminated_def sample_slashed_def sample_deployed_def sample_created_def sr_eval bonds_of_def getOperatorBalance_def)

section \<open>Events of unbonding\<close>

lemma unbond_loop_events: "unbond_loop sid xs r s = Inr (b, s') \<Longrightarrow> events s' = events s"
  by (induction sid xs r s rule: unbond_loop.induct) fastforce+

lemma unbond_events:
  assumes "unbond E this sender operator sid s = Inr ((ok, refund), s')"
  shows "events s' = events s @ (if 0 < refund then [Refund operator refund] else []) @ [OperatorUnbond operator sid]"
  using assms
  by (auto simp: unbond_def unbond_refund_def send_eth_Some_iff Let_def split: if_splits option.splits dest!: unbond_loop_events)

section \<open>Properties of every reachable state\<close>

text \<open>
  C1. Solvency: in every state the contract can reach, its ether balance covers the security deposits of the
  active, full and deployed services, the operators' bonding balances and the slashed
  funds together.
\<close>

theorem registry_always_solvent:
  assumes "sr_reachable E this s"
  shows "(\<Sum>i\<in>UNIV. held (mapServices s i)) + (\<Sum>k\<in>UNIV. mapOperatorAndServiceIdOperatorBalances s k)
     + slashedFunds s \<le> ethBalance s"
  using sr_reachable_inv [OF assms] by (simp add: base_inv_def solvent_def obligations_def obl_def)

theorem registry_always_solvent_witness:
  "\<exists>s. sample_slashed = Inr s \<and> slashedFunds s = 3 \<and>
     (\<Sum>i\<in>UNIV. held (mapServices s i)) + (\<Sum>k\<in>UNIV. mapOperatorAndServiceIdOperatorBalances s k)
     + slashedFunds s \<le> ethBalance s"
  using sample_slashed_run sample_reaches(3) registry_always_solvent unfolding reaches_def by blast

text \<open>
  C2. Life cycle: whatever call succeeds in a reachable state, it changes at most one service,
  and that service moves along an edge of the documented state machine.
\<close>

theorem services_follow_the_state_machine:
  assumes "sr_reachable E this s" and "sr_step E this s s'"
  shows "(\<forall>i. fsm_edge (state (mapServices s i)) (state (mapServices s' i))) \<and>
     (\<exists>i. \<forall>j. j \<noteq> i \<longrightarrow> mapServices s' j = mapServices s j)"
proof -
  from sr_step_inv [OF assms(2) sr_reachable_inv [OF assms(1)]] have "service_step s s'" by simp
  then show ?thesis
    using service_step_edge by (auto simp: service_step_def)
qed

theorem services_follow_the_state_machine_witness:
  "\<exists>s s'. sample_slashed = Inr s \<and> sample_terminated = Inr s' \<and>
     state (mapServices s' 1) = TerminatedBonded \<and>
     (\<forall>i. fsm_edge (state (mapServices s i)) (state (mapServices s' i)))"
proof -
  obtain s' where s': "sample_terminated = Inr s'" "state (mapServices s' 1) = TerminatedBonded"
    using sample_terminated_run by blast
  then obtain s r where s: "sample_slashed = Inr s" "terminate sample_env 0 2 5 1 s = Inr (r, s')"
    by (auto simp: sample_terminated_def then_call_def)
  with sample_reaches(3) services_follow_the_state_machine [OF _ sr_step.terminate] s' show ?thesis
    unfolding reaches_def by metis
qed

text \<open>
  C3. Quorum: in every reachable state an existing service has a threshold between two thirds plus one of
  its slots and all of them, its slots fit below 2^31, and a full or deployed service has
  exactly as many instances as slots.
\<close>

theorem quorum_always_holds:
  assumes "sr_reachable E this s" and "state (mapServices s i) \<noteq> NonExistent"
  defines "v \<equiv> mapServices s i"
  shows "2 * maxNumAgentInstances v + 1 \<le> 3 * threshold v \<and> threshold v \<le> maxNumAgentInstances v \<and>
     maxNumAgentInstances v < 2 ^ 31 \<and>
     (state v \<in> {FinishedRegistration, Deployed} \<longrightarrow> numAgentInstances v = maxNumAgentInstances v)"
proof -
  have "service_ok v"
    using sr_reachable_inv [OF assms(1)] by (simp add: base_inv_def services_ok_def v_def)
  with assms(2) show ?thesis
    unfolding v_def [symmetric] by (cases "state v") (auto simp: service_ok_def quorum_ok_def)
qed

theorem quorum_always_holds_witness:
  "\<exists>s. sample_deployed = Inr s \<and> numAgentInstances (mapServices s 1) = maxNumAgentInstances (mapServices s 1) \<and>
     2 * maxNumAgentInstances (mapServices s 1) + 1 \<le> 3 * threshold (mapServices s 1)"
proof -
  obtain s where s: "sample_deployed = Inr s" "state (mapServices s 1) = Deployed"
    using sample_deployed_run by blast
  with sample_reaches(2) have "sr_reachable sample_env 0 s"
    by (simp add: reaches_def)
  from quorum_always_holds [OF this, of 1] s show ?thesis by auto
qed

text \<open>
  C4. Existence: in every reachable state the services that exist are exactly those with an owned token, and
  their ids are 1 to the total supply.
\<close>

theorem services_are_the_owned_tokens:
  assumes "sr_reachable E this s"
  shows "(state (mapServices s i) \<noteq> NonExistent \<longleftrightarrow> ownerOf_map s i \<noteq> 0) \<and>
     (ownerOf_map s i \<noteq> 0 \<longleftrightarrow> 1 \<le> unat i \<and> unat i \<le> unat (totalSupply s))"
proof -
  from sr_reachable_inv [OF assms] have "existence_ok s" by (simp add: base_inv_def)
  then have "ownerOf_map s i \<noteq> 0 \<longleftrightarrow> state (mapServices s i) \<noteq> NonExistent"
    "state (mapServices s i) \<noteq> NonExistent \<longleftrightarrow> 0 < unat i \<and> unat i \<le> unat (totalSupply s)"
    unfolding existence_ok_def by blast+
  then show ?thesis by (simp add: Suc_le_eq)
qed

theorem services_are_the_owned_tokens_witness:
  "\<exists>s. sample_deployed = Inr s \<and> ownerOf_map s 1 \<noteq> 0 \<and> ownerOf_map s 0 = 0"
proof -
  obtain s where s: "sample_deployed = Inr s" "ownerOf_map s 1 = 5"
    using sample_deployed_run by blast
  with sample_reaches(2) have "sr_reachable sample_env 0 s"
    by (simp add: reaches_def)
  from services_are_the_owned_tokens [OF this, of 0] s show ?thesis by auto
qed

section \<open>Calls that must go through\<close>

text \<open>
  C5. Termination pays out: the owner of an active, full or deployed service who accepts ether can always
  terminate it through the manager, whatever happened before, and gets the whole security deposit back.
\<close>

theorem terminate_refunds_the_deposit:
  assumes "sr_reachable E this s" and "ownerOf_map s sid = own"
    and "state (mapServices s sid) \<in> {ActiveRegistration, FinishedRegistration, Deployed}"
    and "eth_accepts E own (securityDeposit (mapServices s sid))"
  shows "\<exists>s'. terminate E this (manager s) own sid s = Inr ((True, securityDeposit (mapServices s sid)), s') \<and>
     ethBalance s' + securityDeposit (mapServices s sid) = ethBalance s \<and>
     state (mapServices s' sid) =
       (if numAgentInstances (mapServices s sid) > 0 then TerminatedBonded else PreRegistration)"
proof -
  let ?v = "mapServices s sid"
  from sr_reachable_inv [OF assms(1)] have inv: "solvent s" "existence_ok s"
    by (simp_all add: base_inv_def)
  from assms(2,3) inv(2) have own: "own \<noteq> 0" by (auto simp: existence_ok_def)
  have "securityDeposit ?v = held ?v"
    using assms(3) by (auto simp: held_def)
  also have "\<dots> \<le> (\<Sum>i\<in>UNIV. held (mapServices s i))"
    by (rule member_le_sum) auto
  also have "\<dots> \<le> ethBalance s"
    using inv(1) by (simp add: solvent_def obligations_def obl_def)
  finally have "securityDeposit ?v \<le> ethBalance s" .
  moreover have "locked s = 1"
    using sr_reachable_acc [OF assms(1)] by (simp add: widths_ok_def)
  ultimately show ?thesis
    using assms(2-4) own by (auto simp: terminate_def send_eth_def Let_def ownerOf_def)
qed

theorem terminate_refunds_the_deposit_witness:
  "\<exists>s s'. sample_deployed = Inr s \<and> terminate sample_env 0 2 5 1 s = Inr ((True, 10), s') \<and>
     ethBalance s' + 10 = ethBalance s"
proof -
  obtain s where s: "sample_deployed = Inr s" "state (mapServices s 1) = Deployed" "ownerOf_map s 1 = 5"
    "manager s = 2" "securityDeposit (mapServices s 1) = 10"
    using sample_deployed_run by blast
  with sample_reaches(2) have "sr_reachable sample_env 0 s"
    by (simp add: reaches_def)
  from terminate_refunds_the_deposit [OF this s(3)] s show ?thesis
    by (auto simp: sample_env_def)
qed

text \<open>
  C6. Unbonding pays out: once a service is terminated, every operator with instances in it who accepts
  ether can unbond. The contract pays the operator its bonds or what slashing left of them: the amount leaves its ether, is logged as refunded
  to the operator, and is returned; the operator has no instances left in the service, and nothing of the balance if it was paid. (Service ids are
  below 2^96, so that the packed operator keys do not collide.)
\<close>

theorem unbond_refunds_the_bonds:
  assumes "sr_reachable E this s" and small: "unat (totalSupply s) < 2 ^ 96"
    and "state (mapServices s sid) = TerminatedBonded" and "operator \<noteq> 0"
    and insts: "mapOperatorAndServiceIdAgentInstances s (operatorService operator sid) \<noteq> []"
    and acc: "\<forall>n. eth_accepts E operator n"
  defines "refund \<equiv> min (bonds_of operator sid s) (getOperatorBalance operator sid s)"
  shows "\<exists>s'. unbond E this (manager s) operator sid s = Inr ((True, refund), s') \<and> ethBalance s' + refund = ethBalance s \<and>
     events s' = events s @ (if 0 < refund then [Refund operator refund] else []) @ [OperatorUnbond operator sid] \<and>
     mapOperatorAndServiceIdAgentInstances s' (operatorService operator sid) = [] \<and>
     getOperatorBalance operator sid s' = (if 0 < refund then 0 else getOperatorBalance operator sid s)"
proof -
  obtain s' where u: "unbond E this (manager s) operator sid s = Inr ((True, refund), s')"
    using sr_reachable_inv [OF assms(1)] sr_reachable_acc [OF assms(1)] assms(2-6) unbond_pays [of s sid operator E this]
    by (auto simp: getOperatorBalance_def refund_def)
  from unbond_InrD(9) [OF u] have "refund \<le> ethBalance s" by (cases "refund = 0") simp_all
  with u unbond_InrD(10) [OF u] unbond_events [OF u] show ?thesis by (auto simp: getOperatorBalance_def)
qed

theorem unbond_refunds_the_bonds_witness:
  "\<exists>s s'. sample_terminated = Inr s \<and> unbond sample_env 0 2 6 1 s = Inr ((True, 17), s') \<and> ethBalance s' + 17 = ethBalance s"
proof -
  obtain s where s: "sample_terminated = Inr s" "state (mapServices s 1) = TerminatedBonded" "manager s = 2"
    "totalSupply s = 1" "mapOperatorAndServiceIdAgentInstances s (operatorService 6 1) \<noteq> []"
    "min (bonds_of 6 1 s) (getOperatorBalance 6 1 s) = 17"
    using sample_terminated_run by blast
  with sample_reaches(4) have "sr_reachable sample_env 0 s"
    by (simp add: reaches_def)
  from unbond_refunds_the_bonds [OF this _ s(2) _ s(5)] s show ?thesis
    by (auto simp: sample_env_def)
qed

text \<open>
  C7. Draining pays out: a drainer that accepts ether collects exactly the slashed funds. They leave the ether of the contract and are logged;
  nothing else of the state changes.
\<close>

theorem drain_collects_the_slashed_funds:
  assumes "sr_reachable E this s" and "eth_accepts E (drainer s) (slashedFunds s)"
  shows "slashedFunds s \<le> ethBalance s \<and>
     drain E this (drainer s) s = Inr (slashedFunds s, s\<lparr>slashedFunds := 0, ethBalance := ethBalance s - slashedFunds s,
       events := events s @ (if slashedFunds s = 0 then [] else [Drain (drainer s) (slashedFunds s)])\<rparr>)"
proof -
  from sr_reachable_inv [OF assms(1)] have le: "slashedFunds s \<le> ethBalance s"
    by (simp add: base_inv_def solvent_def obligations_def obl_def)
  have "locked s = 1" using sr_reachable_acc [OF assms(1)] by (simp add: widths_ok_def)
  with le assms(2) show ?thesis by (cases s) (auto simp: drain_def send_eth_def Let_def)
qed

theorem drain_collects_the_slashed_funds_witness:
  "\<exists>s s'. sample_slashed = Inr s \<and> drain sample_env 0 0 s = Inr (3, s') \<and> slashedFunds s' = 0 \<and> ethBalance s' + 3 = ethBalance s"
proof -
  obtain s where s: "sample_slashed = Inr s" "slashedFunds s = 3" "drainer s = 0"
    using sample_slashed_run by blast
  with sample_reaches(3) have "sr_reachable sample_env 0 s"
    by (simp add: reaches_def)
  from drain_collects_the_slashed_funds [OF this] s show ?thesis
    by (auto simp: sample_env_def)
qed

text \<open>
  C8. Slashing: only the service's own multisig slashes a deployed service; the operators' balances never grow
  and what they lose is exactly what the slashed funds gain, no ether moves, and no service changes.
\<close>

theorem slash_moves_balances_to_slashed_funds:
  assumes "slash sender insts amounts sid s = Inr (r, s')"
  shows "sender = multisig (mapServices s sid) \<and> state (mapServices s sid) = Deployed \<and>
     (\<forall>k. mapOperatorAndServiceIdOperatorBalances s' k \<le> mapOperatorAndServiceIdOperatorBalances s k) \<and>
     (\<Sum>k\<in>UNIV. mapOperatorAndServiceIdOperatorBalances s' k) + slashedFunds s'
       = (\<Sum>k\<in>UNIV. mapOperatorAndServiceIdOperatorBalances s k) + slashedFunds s \<and>
     ethBalance s' = ethBalance s \<and> mapServices s' = mapServices s"
  using slash_InrD [OF assms] by (auto simp: slashed_from_def)

theorem slash_moves_balances_to_slashed_funds_witness:
  "\<exists>s s' r. sample_deployed = Inr s \<and> slash 77 [21] [3] 1 s = Inr (r, s') \<and>
     slashedFunds s' = 3 \<and> ethBalance s' = ethBalance s"
proof -
  obtain s' where s': "sample_slashed = Inr s'" "slashedFunds s' = 3"
    using sample_slashed_run by blast
  then obtain s r where "sample_deployed = Inr s" "slash 77 [21] [3] 1 s = Inr (r, s')"
    by (auto simp: sample_slashed_def then_call_def)
  with s' slash_moves_balances_to_slashed_funds show ?thesis by blast
qed

text \<open>
  C9. Packed keys: with service ids below 2^32 the key of (service, agent) and the key of (operator, service)
  determine their parts, so no two entries share a slot.
\<close>

theorem packed_keys_do_not_collide:
  assumes "unat i < 2 ^ 32" and "unat j < 2 ^ 32"
  shows "(serviceAgent i a = serviceAgent j b \<longleftrightarrow> i = j \<and> a = b) \<and>
     (operatorService p i = operatorService q j \<longleftrightarrow> p = q \<and> i = j)"
proof -
  from assms have "unat i < 2 ^ 96" "unat j < 2 ^ 96" by simp_all
  with assms show ?thesis by (simp add: serviceAgent_inj operatorService_inj)
qed

theorem packed_keys_do_not_collide_witness:
  "operatorService 6 1 \<noteq> operatorService 6 2 \<and> serviceAgent 1 3 \<noteq> serviceAgent 2 3"
  using packed_keys_do_not_collide [of 1 2 3 3 6 6] by simp

text \<open>
  Deployment: it succeeds exactly when the manager asks for the owner of a service that is full, the multisig implementation is allowed, the
  instances registered for the agent ids of the service are not more than its registered instances, and the implementation creates the multisig of
  these instances followed by a zero address for every other registered instance. The run of the witness has one: an update that does not
  mention an agent id leaves its slots registrable, and the multisig is created of the zero address in place of the instance registered for it.
\<close>

theorem deployment_pads_with_zero_addresses:
  defines "v s sid \<equiv> mapServices s sid"
  defines "insts s sid \<equiv> concat (map (\<lambda>a. mapServiceAndAgentIdAgentInstances s (serviceAgent sid a)) (agentIds (v s sid)))"
  shows "(\<exists>s'. deploy E sender own sid impl data s = Inr (msig, s')) \<longleftrightarrow>
    locked s \<le> 1 \<and> sender = manager s \<and> own = ownerOf_map s sid \<and> own \<noteq> 0 \<and> mapMultisigs s impl \<and> state (v s sid) = FinishedRegistration
    \<and> length (insts s sid) \<le> numAgentInstances (v s sid)
    \<and> multisig_create E impl (insts s sid @ replicate (numAgentInstances (v s sid) - length (insts s sid)) 0) (threshold (v s sid)) data = Some msig"
  unfolding v_def insts_def
  by (auto simp: deploy_def ownerOf_def getAgentInstances_def listed_instances_def Let_def split: if_splits option.splits)

definition only_zero :: env where
  "only_zero = sample_env\<lparr>multisig_create := (\<lambda>_ instances _ _. if instances = [0] then Some 77 else None)\<rparr>"

theorem deployment_pads_with_zero_addresses_witness:
  "\<exists>s. sample_stale = Inr s \<and> sr_reachable sample_env 0 s \<and> agentIds (mapServices s 1) = [2] \<and>
     mapServiceAndAgentIdAgentInstances s (serviceAgent 1 1) = [21] \<and> (\<exists>s'. deploy only_zero 2 5 1 9 [] s = Inr (77, s'))"
proof -
  obtain s where s: "sample_stale = Inr s" "agentIds (mapServices s 1) = [2]" "state (mapServices s 1) = FinishedRegistration"
      "mapServiceAndAgentIdAgentInstances s (serviceAgent 1 1) = [21]" "mapServiceAndAgentIdAgentInstances s (serviceAgent 1 2) = []"
      "numAgentInstances (mapServices s 1) = 1" "mapMultisigs s 9" "locked s = 1" "manager s = 2" "ownerOf_map s 1 = 5"
    by (simp add: sample_stale_def sr_eval)
  have "\<exists>s'. deploy only_zero 2 5 1 9 [] s = Inr (77, s')"
    unfolding deployment_pads_with_zero_addresses using s by (simp add: only_zero_def)
  with s sample_reaches(5) show ?thesis by (auto simp: reaches_def)
qed

end
