(* ===== verification/Unit_Registry.thy ===== *)
theory Unit_Registry
  imports Generic_Registry
begin

text \<open>
  The registries of components and agents: \<^verbatim>\<open>contracts/UnitRegistry.sol\<close> with its two heirs
  \<^verbatim>\<open>contracts/ComponentRegistry.sol\<close> and \<^verbatim>\<open>contracts/AgentRegistry.sol\<close>, and the manager
  \<^verbatim>\<open>contracts/RegistriesManager.sol\<close> through which they are called.

  Both heirs have the storage \<open>unit_registry\<close>; where the heirs override a function the definition looks at
  \<open>unitType\<close>. The agent registry reads the component registry it was constructed with: that is the argument
  \<open>C\<close> of the functions that do so. Ids of components are \<^verbatim>\<open>uint32\<close> words, as in the source.
\<close>

section \<open>Data\<close>

datatype UnitType = Component | Agent

primrec unit_code :: "UnitType \<Rightarrow> nat" where
  "unit_code Component = 0"
| "unit_code Agent = 1"

record Unit =
  unitHash :: bytes32
  dependencies :: "uint32 list"

record unit_registry = generic_registry +
  unitType :: UnitType
  mapUnitIdHashes :: "uint256 \<Rightarrow> bytes32 list"
  mapSubComponents :: "uint256 \<Rightarrow> uint32 list"
  mapUnits :: "uint256 \<Rightarrow> Unit"

definition new_unit_registry :: "UnitType \<Rightarrow> address \<Rightarrow> string \<Rightarrow> unit_registry" where
  "new_unit_registry t deployer uri =
     \<lparr>owner = deployer, manager = 0, baseURI = uri, totalSupply = 0, locked = 1,
      ownerOf_map = (\<lambda>_. 0), balanceOf_map = (\<lambda>_. 0), getApproved = (\<lambda>_. 0),
      isApprovedForAll = (\<lambda>_ _. False), events = [],
      unitType = t, mapUnitIdHashes = (\<lambda>_. []), mapSubComponents = (\<lambda>_. []),
      mapUnits = (\<lambda>_. \<lparr>unitHash = 0, dependencies = []\<rparr>)\<rparr>"

section \<open>Dependencies\<close>

text \<open>\<^verbatim>\<open>lastId + 1\<close> is checked at 32 bits.\<close>

fun check_dependency_loop :: "uint32 \<Rightarrow> uint32 \<Rightarrow> uint32 list \<Rightarrow> unit res" where
  "check_dependency_loop maxId lastId [] = Inr ()"
| "check_dependency_loop maxId lastId (d # ds) =
     rbind (chk_add 32 (unat lastId) 1) (\<lambda>n.
       if unat d < n \<or> d > maxId then Inl (ComponentNotFound (ucast d))
       else check_dependency_loop maxId d ds)"

definition checkDependencies :: "unit_registry \<Rightarrow> unit_registry \<Rightarrow> uint32 list \<Rightarrow> uint32 \<Rightarrow> unit res" where
  "checkDependencies C s deps maxUnitId =
     (case unitType s of
        Component \<Rightarrow> check_dependency_loop maxUnitId 0 deps
      | Agent \<Rightarrow> if deps = [] then Inl ZeroValue else check_dependency_loop (ucast (totalSupply C)) 0 deps)"

section \<open>Subcomponents\<close>

definition getSubComponents :: "unit_registry \<Rightarrow> unit_registry \<Rightarrow> UnitType \<Rightarrow> uint32 \<Rightarrow> uint32 list" where
  "getSubComponents C s subcomponentsFromType unitId =
     (if unitType s = Agent \<and> subcomponentsFromType = Component then mapSubComponents C (ucast unitId)
      else mapSubComponents s (ucast unitId))"

text \<open>
  \<^verbatim>\<open>_calculateSubComponents\<close> merges the sorted lists of all units. \<open>num\<close> is the number of components of a list, cast to
  32 bits; \<open>max_components\<close> their checked sum; \<open>skip\<close> the innermost loop, which moves the position \<open>p\<close> in one list past the
  components that are not above the last one found; \<open>scan\<close> the loop over the units, with the position of every list, the
  smallest component seen so far, the index of its list, and the number of lists that still have one; and \<open>merge_loop\<close>
  the outer loop.
\<close>

definition num :: "uint32 list \<Rightarrow> nat" where
  "num xs = length xs mod 2 ^ 32"

fun max_components :: "uint32 list list \<Rightarrow> nat \<Rightarrow> nat res" where
  "max_components [] m = Inr m"
| "max_components (xs # xss) m = rbind (chk_add 32 m (num xs)) (max_components xss)"

function skip :: "uint32 \<Rightarrow> uint32 list \<Rightarrow> nat \<Rightarrow> nat" where
  "skip minComponent xs p =
     (if p < num xs \<and> \<not> minComponent < xs ! p then skip minComponent xs (Suc p) else p)"
  by pat_completeness auto
termination by (relation "measure (\<lambda>(_, xs, p). num xs - p)") auto

declare skip.simps [simp del]

fun scan :: "uint32 \<Rightarrow> nat \<Rightarrow> uint32 list list \<Rightarrow> nat list \<Rightarrow> uint32 \<times> nat \<times> nat \<Rightarrow> (uint32 \<times> nat \<times> nat) \<times> nat list" where
  "scan minComponent i (xs # xss) (p # ps) (tryMin, minIdx, check) =
     (let p' = skip minComponent xs p;
          acc = (if p' < num xs
                 then (if xs ! p' < tryMin then (xs ! p', i, Suc check) else (tryMin, minIdx, Suc check))
                 else (tryMin, minIdx, check));
          (r, ps') = scan minComponent (Suc i) xss ps acc
      in (r, p' # ps'))"
| "scan minComponent i _ _ acc = (acc, [])"

fun merge_loop :: "uint32 list list \<Rightarrow> nat \<Rightarrow> nat list \<Rightarrow> uint32 \<Rightarrow> uint32 list" where
  "merge_loop components 0 processed minComponent = []"
| "merge_loop components (Suc k) processed minComponent =
     (case scan minComponent 0 components processed (- 1, 0, 0) of
        ((tryMin, minIdx, check), processed') \<Rightarrow>
          if check > 0
          then tryMin # merge_loop components k (processed'[minIdx := Suc (processed' ! minIdx)]) tryMin
          else [])"

definition merge_components :: "uint32 list list \<Rightarrow> uint32 list res" where
  "merge_components components =
     rbind (max_components components 0) (\<lambda>n. Inr (merge_loop components n (replicate (length components) 0) 0))"

definition calculateSubComponents_of :: "unit_registry \<Rightarrow> unit_registry \<Rightarrow> UnitType \<Rightarrow> uint32 list \<Rightarrow> uint32 list res" where
  "calculateSubComponents_of C s subcomponentsFromType unitIds =
     merge_components (map (getSubComponents C s subcomponentsFromType) (take (length unitIds mod 2 ^ 32) unitIds))"

definition calculateSubComponents :: "unit_registry \<Rightarrow> unit_registry \<Rightarrow> uint32 list \<Rightarrow> uint32 list res" where
  "calculateSubComponents C s unitIds = calculateSubComponents_of C s Agent unitIds"

section \<open>Creation and hashes\<close>

definition create_unit ::
    "env \<Rightarrow> unit_registry \<Rightarrow> address \<Rightarrow> address \<Rightarrow> bytes32 \<Rightarrow> uint32 list \<Rightarrow> unit_registry \<Rightarrow> (uint256 \<times> unit_registry) res" where
  "create_unit E C sender unitOwner hash deps s =
     (if locked s > 1 then Inl ReentrancyGuard
      else if manager s \<noteq> sender then Inl (ManagerOnly sender (manager s))
      else if unitOwner = 0 then Inl ZeroAddress
      else if hash = 0 then Inl ZeroValue
      else rbind (checkDependencies C s deps (ucast (totalSupply s))) (\<lambda>_.
        rbind (chk_add 256 (unat (totalSupply s)) 1) (\<lambda>n.
        rbind (calculateSubComponents_of C s Component deps) (\<lambda>subs.
        let unitId = of_nat n;
            subComponentIds = (if unitType s = Component then subs @ [ucast unitId] else subs)
        in rbind (safeMint E unitOwner unitId
             (s\<lparr>locked := 2, mapUnits := (mapUnits s)(unitId := \<lparr>unitHash = hash, dependencies = deps\<rparr>),
                mapSubComponents := (mapSubComponents s)(unitId := subComponentIds), totalSupply := unitId\<rparr>))
           (\<lambda>s'. Inr (unitId, (emit (CreateUnit unitId (unit_code (unitType s)) hash) s')\<lparr>locked := 1\<rparr>))))))"

definition updateHash ::
    "address \<Rightarrow> address \<Rightarrow> uint256 \<Rightarrow> bytes32 \<Rightarrow> unit_registry \<Rightarrow> (bool \<times> unit_registry) res" where
  "updateHash sender unitOwner unitId hash s =
     (if manager s \<noteq> sender then Inl (ManagerOnly sender (manager s))
      else rbind (ownerOf unitId s) (\<lambda>own.
        if own \<noteq> unitOwner
          then Inl (case unitType s of Component \<Rightarrow> ComponentNotFound unitId | Agent \<Rightarrow> AgentNotFound unitId)
        else if hash = 0 then Inl ZeroValue
        else Inr (True, emit (UpdateUnitHash unitId (unit_code (unitType s)) hash)
          (s\<lparr>mapUnitIdHashes := (mapUnitIdHashes s)(unitId := mapUnitIdHashes s unitId @ [hash])\<rparr>))))"

section \<open>Views\<close>

definition getUnit :: "uint256 \<Rightarrow> unit_registry \<Rightarrow> Unit" where
  "getUnit unitId s = mapUnits s unitId"

definition getDependencies :: "uint256 \<Rightarrow> unit_registry \<Rightarrow> nat \<times> uint32 list" where
  "getDependencies unitId s = (length (dependencies (mapUnits s unitId)), dependencies (mapUnits s unitId))"

definition getUpdatedHashes :: "uint256 \<Rightarrow> unit_registry \<Rightarrow> nat \<times> bytes32 list" where
  "getUpdatedHashes unitId s = (length (mapUnitIdHashes s unitId), mapUnitIdHashes s unitId)"

definition getLocalSubComponents :: "uint256 \<Rightarrow> unit_registry \<Rightarrow> uint32 list \<times> nat" where
  "getLocalSubComponents unitId s = (mapSubComponents s unitId, length (mapSubComponents s unitId))"

section \<open>The manager\<close>

text \<open>The manager contract and the two registries it calls; \<open>rm_this\<close> is the address of the manager.\<close>

datatype rm_event = RmOwnerUpdated address | RmPause address | RmUnpause address

record registries =
  rm_this :: address
  rm_owner :: address
  rm_paused :: bool
  rm_events :: "rm_event list"
  component_registry :: unit_registry
  agent_registry :: unit_registry

definition rm_create ::
    "env \<Rightarrow> UnitType \<Rightarrow> address \<Rightarrow> bytes32 \<Rightarrow> uint32 list \<Rightarrow> registries \<Rightarrow> (uint256 \<times> registries) res" where
  "rm_create E t unitOwner hash deps R =
     (if rm_paused R then Inl Paused
      else case t of
        Component \<Rightarrow> rbind (create_unit E (component_registry R) (rm_this R) unitOwner hash deps (component_registry R))
          (\<lambda>(unitId, s). Inr (unitId, R\<lparr>component_registry := s\<rparr>))
      | Agent \<Rightarrow> rbind (create_unit E (component_registry R) (rm_this R) unitOwner hash deps (agent_registry R))
          (\<lambda>(unitId, s). Inr (unitId, R\<lparr>agent_registry := s\<rparr>)))"

definition rm_updateHash :: "UnitType \<Rightarrow> address \<Rightarrow> uint256 \<Rightarrow> bytes32 \<Rightarrow> registries \<Rightarrow> (bool \<times> registries) res" where
  "rm_updateHash t sender unitId hash R =
     (case t of
        Component \<Rightarrow> rbind (updateHash (rm_this R) sender unitId hash (component_registry R))
          (\<lambda>(b, s). Inr (b, R\<lparr>component_registry := s\<rparr>))
      | Agent \<Rightarrow> rbind (updateHash (rm_this R) sender unitId hash (agent_registry R))
          (\<lambda>(b, s). Inr (b, R\<lparr>agent_registry := s\<rparr>)))"

definition rm_changeOwner :: "address \<Rightarrow> address \<Rightarrow> registries \<Rightarrow> registries res" where
  "rm_changeOwner sender newOwner R =
     (if sender \<noteq> rm_owner R then Inl (OwnerOnly sender (rm_owner R))
      else if newOwner = 0 then Inl ZeroAddress
      else Inr (R\<lparr>rm_owner := newOwner, rm_events := rm_events R @ [RmOwnerUpdated newOwner]\<rparr>))"

definition rm_pause :: "address \<Rightarrow> registries \<Rightarrow> registries res" where
  "rm_pause sender R =
     (if sender \<noteq> rm_owner R then Inl (OwnerOnly sender (rm_owner R))
      else Inr (R\<lparr>rm_paused := True, rm_events := rm_events R @ [RmPause sender]\<rparr>))"

definition rm_unpause :: "address \<Rightarrow> registries \<Rightarrow> registries res" where
  "rm_unpause sender R =
     (if sender \<noteq> rm_owner R then Inl (OwnerOnly sender (rm_owner R))
      else Inr (R\<lparr>rm_paused := False, rm_events := rm_events R @ [RmUnpause sender]\<rparr>))"

end
