(* ===== verification/Unit_Merge.thy ===== *)
theory Unit_Merge
  imports Unit_Registry
begin

text \<open>
  The merge of \<^verbatim>\<open>_calculateSubComponents\<close>: on strictly ascending lists of ids its result is the ascending list of all
  their elements, and the bound of its outer loop is large enough.
\<close>

section \<open>The innermost loop\<close>

definition above :: "uint32 \<Rightarrow> uint32 list \<Rightarrow> uint32 set" where
  "above m xs = {x \<in> set xs. m < x}"

text \<open>Lists the registry stores: ascending, shorter than \<open>2 ^ 32\<close>, without the largest word.\<close>

definition ids_list :: "uint32 list \<Rightarrow> bool" where
  "ids_list xs \<longleftrightarrow> sorted_wrt (<) xs \<and> length xs < 2 ^ 32 \<and> - 1 \<notin> set xs"

definition passed :: "uint32 \<Rightarrow> uint32 list \<Rightarrow> nat \<Rightarrow> bool" where
  "passed m xs p \<longleftrightarrow> p \<le> length xs \<and> (\<forall>j < p. xs ! j \<le> m)"

lemma num_ids_list [simp]: "ids_list xs \<Longrightarrow> num xs = length xs"
  by (simp add: ids_list_def num_def)

lemma skip_passed:
  "ids_list xs \<Longrightarrow> passed m xs p \<Longrightarrow> passed m xs (skip m xs p) \<and> (skip m xs p < length xs \<longrightarrow> m < xs ! skip m xs p)"
proof (induction m xs p rule: skip.induct)
  case (1 m xs p)
  show ?case
  proof (cases "p < num xs \<and> \<not> m < xs ! p")
    case True
    with "1.prems" have "passed m xs (Suc p)"
      by (auto simp: passed_def less_Suc_eq)
    with "1.IH" [OF True "1.prems"(1)] True show ?thesis by (subst (1 2 3) skip.simps) simp
  next
    case False
    then have "skip m xs p = p" by (subst skip.simps) auto
    with False "1.prems" show ?thesis by auto
  qed
qed

lemma passed_above:
  assumes "ids_list xs" and "passed m xs p" and "p < length xs \<longrightarrow> m < xs ! p"
  shows "above m xs \<noteq> {} \<longleftrightarrow> p < length xs" and "p < length xs \<Longrightarrow> xs ! p \<in> above m xs"
    and "x \<in> above m xs \<Longrightarrow> xs ! p \<le> x"
proof -
  have le: "p \<le> j" if "j < length xs" "m < xs ! j" for j
    using assms(2) that by (auto simp: passed_def not_le [symmetric])
  show mem: "xs ! p \<in> above m xs" if "p < length xs"
    using assms(3) that by (simp add: above_def)
  show "xs ! p \<le> x" if x: "x \<in> above m xs"
  proof -
    obtain j where j: "j < length xs" "x = xs ! j" "m < xs ! j"
      using x by (auto simp: above_def in_set_conv_nth)
    then show ?thesis
      using le [of j] assms(1) by (cases "p = j") (auto simp: ids_list_def sorted_wrt_iff_nth_less less_imp_le)
  qed
  show "above m xs \<noteq> {} \<longleftrightarrow> p < length xs"
    using mem le by (auto simp: above_def in_set_conv_nth) (metis le_less_trans)
qed

section \<open>The loop over the units\<close>

definition all_above :: "uint32 \<Rightarrow> uint32 list list \<Rightarrow> uint32 set" where
  "all_above m xss = (\<Union>xs \<in> set xss. above m xs)"

definition smaller :: "uint32 \<Rightarrow> uint32 \<Rightarrow> uint32 list list \<Rightarrow> nat \<Rightarrow> uint32 \<Rightarrow> nat \<Rightarrow> nat list \<Rightarrow> bool" where
  "smaller m t xss i t' idx ps \<longleftrightarrow>
     (\<exists>k < length xss. idx = i + k \<and> ps ! k < length (xss ! k) \<and> xss ! k ! (ps ! k) = t' \<and> m < t' \<and> t' < t)"

definition scanned :: "uint32 \<Rightarrow> nat \<Rightarrow> uint32 list list \<Rightarrow> uint32 \<times> nat \<times> nat \<Rightarrow> (uint32 \<times> nat \<times> nat) \<times> nat list \<Rightarrow> bool" where
  "scanned m i xss a r \<longleftrightarrow>
     (case (a, r) of ((t, idx, c), ((t', idx', c'), ps')) \<Rightarrow>
        list_all2 (passed m) xss ps' \<and> (c' > 0 \<longleftrightarrow> c > 0 \<or> all_above m xss \<noteq> {}) \<and> t' \<le> t
        \<and> (\<forall>x \<in> all_above m xss. t' \<le> x) \<and> ((t' = t \<and> idx' = idx) \<or> smaller m t xss i t' idx' ps'))"

lemma all_above_Cons: "all_above m (xs # xss) = above m xs \<union> all_above m xss"
  by (simp add: all_above_def)

lemma smaller_Cons:
  assumes "smaller m t1 xss (Suc i) t' idx ps" and "t1 \<le> t"
  shows "smaller m t (xs # xss) i t' idx (p # ps)"
proof -
  obtain k where "k < length xss" "idx = Suc i + k" "ps ! k < length (xss ! k)" "xss ! k ! (ps ! k) = t'" "m < t'" "t' < t1"
    using assms(1) by (auto simp: smaller_def)
  with assms(2) show ?thesis
    unfolding smaller_def by (intro exI [of _ "Suc k"]) auto
qed

lemma smaller_here: "p < length xs \<Longrightarrow> m < xs ! p \<Longrightarrow> xs ! p < t \<Longrightarrow> smaller m t (xs # xss) i (xs ! p) i (p # ps)"
  unfolding smaller_def by (intro exI [of _ 0]) auto

lemma scan_scanned:
  "list_all2 (passed m) xss ps \<Longrightarrow> \<forall>xs \<in> set xss. ids_list xs \<Longrightarrow> scanned m i xss a (scan m i xss ps a)"
proof (induction xss ps arbitrary: i a rule: list_all2_induct)
  case Nil
  then show ?case by (auto simp: scanned_def all_above_def split: prod.splits)
next
  case (Cons xs xss p ps)
  obtain t idx c where a: "a = (t, idx, c)" by (cases a)
  define q where "q = skip m xs p"
  have xs: "ids_list xs" using Cons.prems by simp
  have q: "passed m xs q" "q < length xs \<longrightarrow> m < xs ! q"
    using skip_passed [OF xs Cons.hyps(1)] by (simp_all add: q_def)
  note found = passed_above [OF xs q]
  define a1 where "a1 = (if q < num xs then (if xs ! q < t then (xs ! q, i, Suc c) else (t, idx, Suc c)) else (t, idx, c))"
  obtain t1 idx1 c1 where a1': "a1 = (t1, idx1, c1)" by (cases a1)
  obtain t' idx' c' ps' where r: "scan m (Suc i) xss ps a1 = ((t', idx', c'), ps')"
    by (metis prod.exhaust)
  have IH: "list_all2 (passed m) xss ps'" "c' > 0 \<longleftrightarrow> c1 > 0 \<or> all_above m xss \<noteq> {}" "t' \<le> t1"
    "\<forall>x \<in> all_above m xss. t' \<le> x" "(t' = t1 \<and> idx' = idx1) \<or> smaller m t1 xss (Suc i) t' idx' ps'"
    using Cons.IH [of "Suc i" a1] Cons.prems r [unfolded a1'] by (simp_all add: a1' scanned_def)
  have t1: "t1 \<le> t" "(t1 = t \<and> idx1 = idx) \<or> (q < length xs \<and> t1 = xs ! q \<and> idx1 = i \<and> xs ! q < t)"
    "q < length xs \<Longrightarrow> t1 \<le> xs ! q" "c1 > 0 \<longleftrightarrow> c > 0 \<or> above m xs \<noteq> {}"
    using a1' xs found(1) by (auto simp: a1_def less_imp_le not_less split: if_splits)
  have "\<forall>x \<in> above m xs. t' \<le> x"
    using found IH(3) t1(3) by (metis empty_iff order_trans)
  moreover have "(t' = t \<and> idx' = idx) \<or> smaller m t (xs # xss) i t' idx' (q # ps')"
    using IH(5) t1(1,2) q(2) smaller_Cons smaller_here by metis
  moreover have "scan m i (xs # xss) (p # ps) a = ((t', idx', c'), q # ps')"
    using r unfolding a scan.simps Let_def q_def [symmetric] a1_def [symmetric] by simp
  ultimately show ?case
    using IH t1(4) q(1) order_trans [OF IH(3) t1(1)] by (auto simp: scanned_def a all_above_Cons)
qed


section \<open>The outer loop\<close>

lemma finite_all_above [simp]: "finite (all_above m xss)"
  by (simp add: all_above_def above_def)

lemma all_above_Min:
  assumes "t \<in> all_above m xss" and "\<forall>x \<in> all_above m xss. t \<le> x"
  shows "sorted_list_of_set (all_above m xss) = t # sorted_list_of_set (all_above t xss)"
proof -
  have "all_above t xss = all_above m xss - {t}"
    using assms by (fastforce simp: all_above_def above_def)
  moreover have "Min (all_above m xss) = t"
    using assms by (intro Min_eqI) auto
  ultimately show ?thesis
    using assms(1) by (subst sorted_list_of_set_nonempty) auto
qed

lemma passed_mono: "passed m xs p \<Longrightarrow> m \<le> m' \<Longrightarrow> passed m' xs p"
  by (auto simp: passed_def intro: order_trans)

lemma merge_loop_take:
  assumes "\<forall>xs \<in> set xss. ids_list xs"
  shows "list_all2 (passed m) xss ps \<Longrightarrow> merge_loop xss k ps m = take k (sorted_list_of_set (all_above m xss))"
proof (induction k arbitrary: ps m)
  case (Suc k)
  obtain t idx c ps' where r: "scan m 0 xss ps (- 1, 0, 0) = ((t, idx, c), ps')"
    by (metis prod.exhaust)
  have s: "list_all2 (passed m) xss ps'" "c > 0 \<longleftrightarrow> all_above m xss \<noteq> {}" "\<forall>x \<in> all_above m xss. t \<le> x"
    "t = - 1 \<or> smaller m (- 1) xss 0 t idx ps'"
    using scan_scanned [OF Suc.prems assms, of 0 "(- 1, 0, 0)"] by (auto simp: r scanned_def)
  show ?case
  proof (cases "c > 0")
    case True
    then obtain x where x: "x \<in> all_above m xss" using s(2) by auto
    then have "x \<noteq> - 1"
      using assms by (auto simp: all_above_def above_def ids_list_def)
    then have "x < - 1" by (simp add: word_order.not_eq_extremum)
    with s(3) x have "t \<noteq> - 1" by auto
    with s(4) have k: "idx < length xss" "ps' ! idx < length (xss ! idx)" "xss ! idx ! (ps' ! idx) = t" "m < t"
      by (auto simp: smaller_def)
    then have t: "t \<in> all_above m xss"
      by (auto simp: all_above_def above_def intro!: bexI [of _ "xss ! idx"])
    have "list_all2 (passed t) xss (ps'[idx := Suc (ps' ! idx)])"
    proof (rule list_all2_all_nthI)
      show "length xss = length (ps'[idx := Suc (ps' ! idx)])"
        using s(1) by (simp add: list_all2_lengthD)
      fix n assume n: "n < length xss"
      then have "passed m (xss ! n) (ps' ! n)" "n < length ps'"
        using s(1) by (auto simp: list_all2_conv_all_nth)
      then show "passed t (xss ! n) (ps'[idx := Suc (ps' ! idx)] ! n)"
        using k less_imp_le [OF k(4)]
        by (cases "n = idx") (auto simp: passed_def less_Suc_eq intro: order_trans)
    qed
    from Suc.IH [OF this] show ?thesis
      using True r all_above_Min [OF t s(3)] by simp
  next
    case False
    with s(2) r show ?thesis by simp
  qed
qed simp

lemma card_all_above: "card (all_above m xss) \<le> sum_list (map length xss)"
proof (induction xss)
  case (Cons xs xss)
  have "card (above m xs) \<le> length xs"
    by (rule order_trans [OF card_mono card_length]) (auto simp: above_def)
  with Cons show ?case
    by (auto simp: all_above_Cons intro: order_trans [OF card_Un_le])
qed (simp add: all_above_def)

text \<open>The merge is the ascending list of all elements, unless the total does not fit in 32 bits.\<close>

lemma merge_components_sorted:
  assumes "\<forall>xs \<in> set xss. ids_list xs \<and> 0 \<notin> set xs"
  shows "merge_components xss =
    (if sum_list (map length xss) < 2 ^ 32 then Inr (sorted_list_of_set (\<Union>xs \<in> set xss. set xs)) else Inl Panic)"
proof -
  have n: "map num xss = map length xss"
    using assms by (intro map_cong) auto
  have max: "max_components xss m = (if m + sum_list (map length xss) < 2 ^ 32 then Inr (m + sum_list (map length xss)) else Inl Panic)"
    if "m < 2 ^ 32" for m
    using assms that
  proof (induction xss arbitrary: m)
    case (Cons xs xss)
    then show ?case by (auto simp: chk_add_def)
  qed simp
  have "above 0 xs = set xs" if "xs \<in> set xss" for xs
    using assms that by (auto simp: above_def word_neq_0_conv [symmetric])
  then have all: "all_above 0 xss = (\<Union>xs \<in> set xss. set xs)"
    by (simp add: all_above_def)
  have "list_all2 (passed 0) xss (replicate (length xss) 0)"
    by (simp add: list_all2_conv_all_nth passed_def)
  then have "merge_loop xss k (replicate (length xss) 0) 0 = take k (sorted_list_of_set (all_above 0 xss))" for k
    using assms by (intro merge_loop_take) auto
  moreover have "take (sum_list (map length xss)) (sorted_list_of_set (all_above 0 xss)) = sorted_list_of_set (all_above 0 xss)"
    using card_all_above [of 0 xss] by simp
  ultimately show ?thesis
    by (simp add: merge_components_def max all)
qed

end
