(* ===== verification/Unit_Closure.thy ===== *)
theory Unit_Closure
  imports Unit_Merge
begin

text \<open>
  What the registries store as subcomponents: for a component, all components it depends on, directly or not, and itself; for
  an agent, the same for all the components it is made of; always in ascending order.
\<close>

section \<open>The specification\<close>

inductive subcomponent :: "unit_registry \<Rightarrow> uint32 \<Rightarrow> uint32 \<Rightarrow> bool" for C :: unit_registry where
  self: "subcomponent C c c"
| dependency: "d \<in> set (dependencies (mapUnits C (ucast c))) \<Longrightarrow> subcomponent C d e \<Longrightarrow> subcomponent C c e"

definition closure :: "unit_registry \<Rightarrow> uint32 \<Rightarrow> uint32 set" where
  "closure C c = {d. subcomponent C c d}"

definition closure_list :: "unit_registry \<Rightarrow> uint32 list \<Rightarrow> uint32 list" where
  "closure_list C deps = sorted_list_of_set (\<Union>c \<in> set deps. closure C c)"

lemma closure_step: "closure C c = insert c (\<Union>d \<in> set (dependencies (mapUnits C (ucast c))). closure C d)"
  by (auto simp: closure_def intro: subcomponent.intros elim: subcomponent.cases)

section \<open>Lists of ids\<close>

lemma ids_listI:
  assumes "sorted_wrt (<) xs" and "- 1 \<notin> set xs"
  shows "ids_list xs"
proof -
  have "length xs = card (set xs)"
    using assms(1) by (simp add: distinct_card strict_sorted_iff)
  also have "\<dots> \<le> card (UNIV - {- 1 :: uint32})"
    using assms(2) by (intro card_mono) auto
  also have "\<dots> < 2 ^ 32"
    by (simp add: card_Diff_singleton card_word)
  finally show ?thesis using assms by (simp add: ids_list_def)
qed

lemma sorted_list_of_set_strict: "sorted_wrt (<) (sorted_list_of_set (A :: uint32 set))"
  by (simp add: strict_sorted_iff)

lemma check_dependency_loop_Inr:
  "check_dependency_loop maxId lastId ds = Inr () \<Longrightarrow> sorted_wrt (<) (lastId # ds) \<and> (\<forall>d \<in> set ds. d \<le> maxId)"
proof (induction ds arbitrary: lastId)
  case (Cons d ds)
  then have d: "lastId < d" "d \<le> maxId" "check_dependency_loop maxId d ds = Inr ()"
    by (auto simp: word_less_nat_alt word_le_nat_alt not_less split: if_splits)
  with Cons.IH [of d] show ?case by (auto intro: less_trans)
qed simp

lemma check_dependency_loop_ids:
  assumes "check_dependency_loop maxId 0 ds = Inr ()" and "maxId < - 1"
  shows "ids_list ds" and "\<And>d. d \<in> set ds \<Longrightarrow> 0 < d \<and> d \<le> maxId"
proof -
  have s: "sorted_wrt (<) (0 # ds)" "\<forall>d \<in> set ds. d \<le> maxId"
    using check_dependency_loop_Inr [OF assms(1)] by simp_all
  show "\<And>d. d \<in> set ds \<Longrightarrow> 0 < d \<and> d \<le> maxId"
    using s by auto
  show "ids_list ds"
    using s assms(2) by (intro ids_listI) (auto dest: leD)
qed

lemma unat_ucast_uint32: "unat w < 2 ^ 32 \<Longrightarrow> unat (ucast (w :: uint256) :: uint32) = unat w"
  by (simp add: unsigned_ucast_eq take_bit_nat_eq_self)

lemma unat_ucast_uint256 [simp]: "unat (ucast (c :: uint32) :: uint256) = unat c"
proof -
  have "unat c < 2 ^ 32" using unsigned_less [of c, where 'a = nat] by simp
  then show ?thesis by (simp add: unsigned_ucast_eq take_bit_nat_eq_self)
qed

section \<open>The component registry\<close>

definition small :: "unit_registry \<Rightarrow> bool" where
  "small C \<longleftrightarrow> unat (totalSupply C) < 2 ^ 32 - 1"

definition member :: "unit_registry \<Rightarrow> uint32 \<Rightarrow> bool" where
  "member C c \<longleftrightarrow> 0 < c \<and> unat c \<le> unat (totalSupply C)"

definition comp_inv :: "unit_registry \<Rightarrow> bool" where
  "comp_inv C \<longleftrightarrow> unitType C = Component \<and>
     (\<forall>c. member C c \<longrightarrow> (\<forall>d \<in> set (dependencies (mapUnits C (ucast c))). 0 < d \<and> d < c)
        \<and> mapSubComponents C (ucast c) = sorted_list_of_set (closure C c))"

lemma member_dependency:
  "comp_inv C \<Longrightarrow> member C c \<Longrightarrow> d \<in> set (dependencies (mapUnits C (ucast c))) \<Longrightarrow> member C d \<and> d < c"
  unfolding comp_inv_def member_def by (meson le_trans less_imp_le word_le_nat_alt)

lemma member_closure:
  assumes "comp_inv C" and "subcomponent C c d" and "member C c"
  shows "member C d \<and> d \<le> c"
  using assms(2,3)
proof (induction rule: subcomponent.induct)
  case (dependency d c e)
  with member_dependency [OF assms(1) dependency.prems dependency.hyps(1)] show ?case by auto
qed simp

lemma unat_max_uint32: "unat (- 1 :: uint32) = 2 ^ 32 - 1"
  by (simp add: unsigned_minus_1_eq_mask mask_eq_exp_minus_1)

lemma member_small: "small C \<Longrightarrow> member C c \<Longrightarrow> c < - 1"
  by (auto simp: small_def member_def word_less_nat_alt unat_max_uint32)

lemma closure_ids:
  assumes "comp_inv C" and "small C" and "member C c"
  shows "ids_list (sorted_list_of_set (closure C c))" and "0 \<notin> closure C c"
proof -
  have "d < - 1" "0 < d" if "d \<in> closure C c" for d
    using member_closure [OF assms(1) _ assms(3), of d] member_small [OF assms(2), of d] that
    by (auto simp: closure_def member_def)
  then have "- 1 \<notin> closure C c" "0 \<notin> closure C c" by blast+
  then show "ids_list (sorted_list_of_set (closure C c))" "0 \<notin> closure C c"
    using sorted_list_of_set_strict by (auto intro!: ids_listI)
qed

lemma merge_closures:
  assumes "comp_inv C" and "small C" and "\<forall>d \<in> set ds. member C d"
    and "merge_components (map (\<lambda>d. mapSubComponents C (ucast d)) ds) = Inr subs"
  shows "subs = closure_list C ds"
proof -
  let ?xss = "map (\<lambda>d. mapSubComponents C (ucast d)) ds"
  have eq: "mapSubComponents C (ucast d) = sorted_list_of_set (closure C d)" if "d \<in> set ds" for d
    using assms(1,3) that by (simp add: comp_inv_def)
  have "\<forall>xs \<in> set ?xss. ids_list xs \<and> 0 \<notin> set xs"
    using closure_ids [OF assms(1,2)] assms(3) by (auto simp: eq)
  from merge_components_sorted [OF this] assms(4) have "subs = sorted_list_of_set (\<Union>xs \<in> set ?xss. set xs)"
    by (simp split: if_splits)
  also have "(\<Union>xs \<in> set ?xss. set xs) = (\<Union>d \<in> set ds. closure C d)"
    by (simp add: eq)
  finally show ?thesis by (simp add: closure_list_def)
qed


section \<open>Creating units\<close>

lemma safeMint_keeps:
  assumes "safeMint E to tid s = Inr s'"
  shows "unitType s' = unitType s" and "mapUnits s' = mapUnits s" and "mapSubComponents s' = mapSubComponents s"
    and "totalSupply s' = totalSupply s"
  using assms by (auto simp: safeMint_def mint_def split: if_splits)

lemma create_unit_Inr:
  assumes "create_unit E C sender own hash deps s = Inr (i, s')"
  obtains subs where "checkDependencies C s deps (ucast (totalSupply s)) = Inr ()"
    and "calculateSubComponents_of C s Component deps = Inr subs" and "unat (totalSupply s') = unat (totalSupply s) + 1"
    and "unitType s' = unitType s" and "mapUnits s' = (mapUnits s)(totalSupply s' := \<lparr>unitHash = hash, dependencies = deps\<rparr>)"
    and "mapSubComponents s' = (mapSubComponents s)(totalSupply s' :=
           if unitType s = Component then subs @ [ucast (totalSupply s')] else subs)"
proof -
  from assms obtain subs s1 where c: "checkDependencies C s deps (ucast (totalSupply s)) = Inr ()"
    and subs: "calculateSubComponents_of C s Component deps = Inr subs" and n: "unat (totalSupply s) + 1 < 2 ^ 256"
    and m: "safeMint E own (of_nat (unat (totalSupply s) + 1))
       (s\<lparr>locked := 2, mapUnits := (mapUnits s)(of_nat (unat (totalSupply s) + 1) := \<lparr>unitHash = hash, dependencies = deps\<rparr>),
          mapSubComponents := (mapSubComponents s)(of_nat (unat (totalSupply s) + 1) :=
            if unitType s = Component then subs @ [ucast (of_nat (unat (totalSupply s) + 1) :: uint256)] else subs),
          totalSupply := of_nat (unat (totalSupply s) + 1)\<rparr>) = Inr s1"
    and s': "s' = (emit (CreateUnit (of_nat (unat (totalSupply s) + 1)) (unit_code (unitType s)) hash) s1)\<lparr>locked := 1\<rparr>"
    unfolding create_unit_def by (auto simp: Let_def split: if_splits)
  note k = safeMint_keeps [OF m]
  have "totalSupply s' = of_nat (unat (totalSupply s) + 1)" using k s' by simp
  moreover have "unat (of_nat (unat (totalSupply s) + 1) :: uint256) = unat (totalSupply s) + 1"
    using n by (rule unat_of_nat_uint256)
  ultimately show ?thesis
    using that c subs k s' by simp
qed


lemma subcomponent_agree:
  assumes "comp_inv C" and "\<And>c. member C c \<Longrightarrow> mapUnits C' (ucast c) = mapUnits C (ucast c)" and "member C c"
  shows "closure C' c = closure C c"
proof -
  have "subcomponent C c d" if "subcomponent C' c d" "member C c" for c d
    using that
  proof (induction rule: subcomponent.induct)
    case (dependency d c e)
    with assms(2) have d: "d \<in> set (dependencies (mapUnits C (ucast c)))" by simp
    with member_dependency [OF assms(1) dependency.prems] dependency.IH show ?case
      by (auto intro: subcomponent.dependency)
  qed (rule subcomponent.self)
  moreover have "subcomponent C' c d" if "subcomponent C c d" "member C c" for c d
    using that
  proof (induction rule: subcomponent.induct)
    case (dependency d c e)
    with member_dependency [OF assms(1) dependency.prems dependency.hyps(1)] assms(2) [OF dependency.prems] show ?case
      by (auto intro: subcomponent.dependency)
  qed (rule subcomponent.self)
  ultimately show ?thesis using assms(3) by (auto simp: closure_def)
qed

lemma sorted_list_of_set_snoc:
  assumes "\<And>u. u \<in> U \<Longrightarrow> u < (n :: uint32)"
  shows "sorted_list_of_set (insert n U) = sorted_list_of_set U @ [n]"
proof -
  have "U - {n} = U" using assms by auto
  with assms show ?thesis by (auto intro!: sorted_insort_is_snoc less_imp_le)
qed

lemma supply_dependencies:
  assumes "check_dependency_loop (ucast (totalSupply C)) 0 deps = Inr ()" and "small C"
  shows "ids_list deps" and "\<forall>d \<in> set deps. member C d"
proof -
  have u: "unat (ucast (totalSupply C) :: uint32) = unat (totalSupply C)"
    using assms(2) by (simp add: small_def unat_ucast_uint32)
  then have "ucast (totalSupply C) < (- 1 :: uint32)"
    using assms(2) by (simp add: small_def word_less_nat_alt unat_max_uint32)
  from check_dependency_loop_ids [OF assms(1) this] u
  show "ids_list deps" "\<forall>d \<in> set deps. member C d"
    by (auto simp: member_def word_le_nat_alt)
qed

lemma calculate_closure:
  assumes "comp_inv C" and "small C" and "ids_list deps" and "\<forall>d \<in> set deps. member C d"
    and "\<And>d. getSubComponents C s t d = mapSubComponents C (ucast d)"
    and "calculateSubComponents_of C s t deps = Inr subs"
  shows "subs = closure_list C deps"
proof -
  have "getSubComponents C s t = (\<lambda>d. mapSubComponents C (ucast d))"
    using assms(5) by (rule ext)
  with assms(3,6) have "merge_components (map (\<lambda>d. mapSubComponents C (ucast d)) deps) = Inr subs"
    by (simp add: calculateSubComponents_of_def ids_list_def)
  then show ?thesis by (rule merge_closures [OF assms(1,2,4)])
qed

lemma create_component_inv:
  assumes "create_unit E C sender own hash deps C = Inr (i, C')" and "comp_inv C" and "small C'"
  shows "comp_inv C'" and "member C c \<Longrightarrow> closure C' c = closure C c" and "small C"
proof -
  obtain subs where chk: "checkDependencies C C deps (ucast (totalSupply C)) = Inr ()"
    and calc: "calculateSubComponents_of C C Component deps = Inr subs"
    and n: "unat (totalSupply C') = unat (totalSupply C) + 1" and t: "unitType C' = unitType C"
    and units: "mapUnits C' = (mapUnits C)(totalSupply C' := \<lparr>unitHash = hash, dependencies = deps\<rparr>)"
    and subm: "mapSubComponents C' = (mapSubComponents C)(totalSupply C' :=
           if unitType C = Component then subs @ [ucast (totalSupply C')] else subs)"
    using create_unit_Inr [OF assms(1)] by metis
  let ?n = "ucast (totalSupply C') :: uint32"
  show sC: "small C" using assms(3) n by (simp add: small_def)
  have ct: "unitType C = Component" using assms(2) by (simp add: comp_inv_def)
  have un: "unat ?n = unat (totalSupply C')" "ucast ?n = totalSupply C'"
    using assms(3) by (simp_all add: small_def unat_ucast_uint32 word_unat_eq_iff)
  have ne: "ucast c \<noteq> totalSupply C'" if "member C c" for c
    using that n by (auto simp: member_def word_unat_eq_iff)
  have deps: "ids_list deps" "\<forall>d \<in> set deps. member C d"
    using supply_dependencies [OF _ sC, of deps] chk ct by (simp_all add: checkDependencies_def)
  have same: "closure C' c = closure C c" if "member C c" for c
    by (rule subcomponent_agree [OF assms(2) _ that]) (use ne units in simp)
  then show "member C c \<Longrightarrow> closure C' c = closure C c" .
  have subs: "subs = closure_list C deps"
    by (rule calculate_closure [OF assms(2) sC deps _ calc]) (simp add: getSubComponents_def)
  have lt: "d < ?n" if "member C d" for d
    using that n un by (simp add: member_def word_less_nat_alt)
  have U: "d < ?n" if "d \<in> (\<Union>c \<in> set deps. closure C c)" for d
    using that deps(2) member_closure [OF assms(2)] lt by (auto simp: closure_def)
  have "closure C' ?n = insert ?n (\<Union>d \<in> set deps. closure C d)"
    using deps(2) same by (subst closure_step) (simp add: units un)
  then have "sorted_list_of_set (closure C' ?n) = subs @ [?n]"
    using sorted_list_of_set_snoc [OF U] by (simp only: subs closure_list_def)
  then have new: "mapSubComponents C' (ucast ?n) = sorted_list_of_set (closure C' ?n)"
    using subm ct by (simp add: un)
  have cases: "member C c \<or> c = ?n" if "member C' c" for c
    using that n un by (auto simp: member_def le_Suc_eq word_unat_eq_iff word_less_nat_alt)
  show "comp_inv C'"
    unfolding comp_inv_def
  proof (intro conjI allI impI)
    show "unitType C' = Component" using t ct by simp
    fix c assume "member C' c"
    then consider "member C c" | "c = ?n" using cases by blast
    then have "(\<forall>d \<in> set (dependencies (mapUnits C' (ucast c))). 0 < d \<and> d < c)
        \<and> mapSubComponents C' (ucast c) = sorted_list_of_set (closure C' c)"
    proof cases
      case 1
      with assms(2) have "(\<forall>d \<in> set (dependencies (mapUnits C (ucast c))). 0 < d \<and> d < c)"
        "mapSubComponents C (ucast c) = sorted_list_of_set (closure C c)"
        by (simp_all add: comp_inv_def)
      with ne [OF 1] same [OF 1] show ?thesis by (simp add: units subm)
    next
      case 2
      have "0 < d" if "d \<in> set deps" for d using deps(2) that by (simp add: member_def)
      with 2 new deps(2) lt show ?thesis by (simp add: units un)
    qed
    then show "\<forall>d \<in> set (dependencies (mapUnits C' (ucast c))). 0 < d \<and> d < c"
      and "mapSubComponents C' (ucast c) = sorted_list_of_set (closure C' c)" by simp_all
  qed
qed

end
