(* ===== verification/Unit_Properties.thy ===== *)
theory Unit_Properties
  imports Unit_Closure "HOL-Library.Code_Target_Nat"
begin

text \<open>
  Every state the registries of components and agents can reach stores the subcomponents the specification gives, and
  the subcomponents of a list of agents, which a service keeps when it is deployed, are computed from them.
\<close>

section \<open>Steps\<close>

text \<open>
  A transaction on one of the two registries, \<open>C\<close> being the component registry; the calls through the manager are such
  transactions with the manager as their sender.
\<close>

inductive registry_step :: "unit_registry \<Rightarrow> unit_registry \<Rightarrow> unit_registry \<Rightarrow> bool" for C s where
  "create_unit E C sender own hash deps s = Inr (i, s') \<Longrightarrow> registry_step C s s'"
| "updateHash sender own i hash s = Inr (b, s') \<Longrightarrow> registry_step C s s'"
| "approve sender spender i s = Inr s' \<Longrightarrow> registry_step C s s'"
| "registry_step C s (setApprovalForAll sender operator approved s)"
| "transferFrom sender a b i s = Inr s' \<Longrightarrow> registry_step C s s'"
| "safeTransferFrom E sender a b i s = Inr s' \<Longrightarrow> registry_step C s s'"
| "changeOwner sender newOwner s = Inr s' \<Longrightarrow> registry_step C s s'"
| "changeManager sender newManager s = Inr s' \<Longrightarrow> registry_step C s s'"
| "setBaseURI sender uri s = Inr s' \<Longrightarrow> registry_step C s s'"

inductive_cases registry_stepE: "registry_step C s s'"

inductive units_reachable :: "registries \<Rightarrow> bool" where
  deployed: "units_reachable \<lparr>rm_this = this, rm_owner = own, rm_paused = False, rm_events = [],
      component_registry = new_unit_registry Component deployer uri, agent_registry = new_unit_registry Agent deployer' uri'\<rparr>"
| component: "units_reachable R \<Longrightarrow> registry_step (component_registry R) (component_registry R) s
    \<Longrightarrow> units_reachable (R\<lparr>component_registry := s\<rparr>)"
| agent: "units_reachable R \<Longrightarrow> registry_step (component_registry R) (agent_registry R) s
    \<Longrightarrow> units_reachable (R\<lparr>agent_registry := s\<rparr>)"
| owner: "units_reachable R \<Longrightarrow> rm_changeOwner sender newOwner R = Inr R' \<Longrightarrow> units_reachable R'"
| pause: "units_reachable R \<Longrightarrow> rm_pause sender R = Inr R' \<Longrightarrow> units_reachable R'"
| unpause: "units_reachable R \<Longrightarrow> rm_unpause sender R = Inr R' \<Longrightarrow> units_reachable R'"

lemma units_reachable_manager:
  assumes "units_reachable R"
  shows "rm_create E t own hash deps R = Inr (i, R') \<Longrightarrow> units_reachable R'"
    and "rm_updateHash t sender i hash R = Inr (b, R') \<Longrightarrow> units_reachable R'"
  using assms
  by (auto simp: rm_create_def rm_updateHash_def split: if_splits UnitType.splits
      intro: component agent registry_step.intros(1,2))

section \<open>Invariant\<close>

definition keeps_units :: "unit_registry \<Rightarrow> unit_registry \<Rightarrow> bool" where
  "keeps_units s s' \<longleftrightarrow> unitType s' = unitType s \<and> mapUnits s' = mapUnits s \<and> mapSubComponents s' = mapSubComponents s
     \<and> totalSupply s' = totalSupply s"

lemma registry_step_cases:
  assumes "registry_step C s s'"
  obtains E sender own hash deps i where "create_unit E C sender own hash deps s = Inr (i, s')"
  | "keeps_units s s'"
  using assms
  by (elim registry_stepE)
    (auto simp: keeps_units_def updateHash_def approve_def setApprovalForAll_def transferFrom_def safeTransferFrom_def
      changeOwner_def changeManager_def setBaseURI_def Let_def split: if_splits)

definition agent_inv :: "unit_registry \<Rightarrow> unit_registry \<Rightarrow> bool" where
  "agent_inv C A \<longleftrightarrow> unitType A = Agent \<and>
     (\<forall>a. 0 < a \<and> a \<le> totalSupply A \<longrightarrow> (\<forall>d \<in> set (dependencies (mapUnits A a)). member C d)
        \<and> mapSubComponents A a = closure_list C (dependencies (mapUnits A a)))"

lemma subcomponent_transfer: "subcomponent C c d \<Longrightarrow> mapUnits C' = mapUnits C \<Longrightarrow> subcomponent C' c d"
  by (induction rule: subcomponent.induct) (auto intro: subcomponent.intros)

lemma closure_agree:
  assumes "keeps_units C C'"
  shows "closure C' c = closure C c" and "member C' c = member C c" and "small C' = small C"
proof -
  have "subcomponent C' c d = subcomponent C c d" for c d
    using assms subcomponent_transfer [of C c d C'] subcomponent_transfer [of C' c d C] by (auto simp: keeps_units_def)
  then show "closure C' c = closure C c" by (simp add: closure_def)
  show "member C' c = member C c" "small C' = small C"
    using assms by (simp_all add: keeps_units_def member_def small_def)
qed

lemma comp_inv_keeps:
  assumes "keeps_units C C'"
  shows "comp_inv C' = comp_inv C"
  using closure_agree(1,2) [OF assms] assms by (simp add: comp_inv_def keeps_units_def)

lemma agent_inv_mono:
  assumes "agent_inv C A" and "\<And>c. member C c \<Longrightarrow> member C' c \<and> closure C' c = closure C c"
  shows "agent_inv C' A"
proof -
  have "closure_list C' ds = closure_list C ds" if "\<forall>d \<in> set ds. member C d" for ds
    using assms(2) that by (simp add: closure_list_def)
  with assms show ?thesis by (auto simp: agent_inv_def)
qed

lemma agent_inv_keeps: "keeps_units A A' \<Longrightarrow> agent_inv C A' = agent_inv C A"
  by (simp add: agent_inv_def keeps_units_def)

lemma create_agent_inv:
  assumes "create_unit E C sender own hash deps A = Inr (i, A')" and "comp_inv C" and "small C" and "agent_inv C A"
  shows "agent_inv C A'"
proof -
  obtain subs where chk: "checkDependencies C A deps (ucast (totalSupply A)) = Inr ()"
    and calc: "calculateSubComponents_of C A Component deps = Inr subs"
    and n: "unat (totalSupply A') = unat (totalSupply A) + 1" and t: "unitType A' = unitType A"
    and units: "mapUnits A' = (mapUnits A)(totalSupply A' := \<lparr>unitHash = hash, dependencies = deps\<rparr>)"
    and subm: "mapSubComponents A' = (mapSubComponents A)(totalSupply A' :=
           if unitType A = Component then subs @ [ucast (totalSupply A')] else subs)"
    using create_unit_Inr [OF assms(1)] by metis
  have at: "unitType A = Agent" using assms(4) by (simp add: agent_inv_def)
  have deps: "ids_list deps" "\<forall>d \<in> set deps. member C d"
    using supply_dependencies [OF _ assms(3), of deps] chk at by (auto simp: checkDependencies_def split: if_splits)
  have "subs = closure_list C deps"
    by (rule calculate_closure [OF assms(2,3) deps _ calc]) (simp add: getSubComponents_def at)
  moreover have "a = totalSupply A' \<or> a \<le> totalSupply A \<and> a \<noteq> totalSupply A'" if "a \<le> totalSupply A'" for a
    using that n by (auto simp: word_le_nat_alt word_unat_eq_iff le_Suc_eq)
  ultimately show ?thesis
    using assms(4) deps(2) at t by (auto simp: agent_inv_def units subm)
qed

lemma member_create: "create_unit E C sender own hash deps s = Inr (i, s') \<Longrightarrow> member s c \<Longrightarrow> member s' c"
  by (auto simp: member_def elim!: create_unit_Inr)

lemma units_invariant:
  assumes "units_reachable R" and "small (component_registry R)"
  shows "comp_inv (component_registry R) \<and> agent_inv (component_registry R) (agent_registry R)"
  using assms
proof (induction rule: units_reachable.induct)
  case (deployed this own deployer uri deployer' uri')
  have "\<not> member (new_unit_registry Component deployer uri) c" for c
    by (auto simp: member_def new_unit_registry_def word_unat_eq_iff word_less_nat_alt)
  then show ?case by (auto simp: comp_inv_def agent_inv_def new_unit_registry_def)
next
  case (component R s)
  from component.hyps(2) show ?case
  proof (cases rule: registry_step_cases)
    case (1 E sender own hash deps i)
    have sm: "small s" using component.prems by simp
    have sC: "small (component_registry R)"
      using 1 sm by (auto simp: small_def elim!: create_unit_Inr)
    with component.IH have IH: "comp_inv (component_registry R)" "agent_inv (component_registry R) (agent_registry R)"
      by simp_all
    from create_component_inv [OF 1 IH(1) sm] member_create [OF 1] agent_inv_mono [OF IH(2), of s] show ?thesis
      by simp
  next
    case 2
    with component.IH component.prems closure_agree [OF 2] agent_inv_mono [of "component_registry R" "agent_registry R" s] show ?thesis
      by (simp add: comp_inv_keeps)
  qed
next
  case (agent R s)
  from agent.hyps(2) show ?case
    by (cases rule: registry_step_cases)
      (use agent.IH agent.prems create_agent_inv in \<open>auto simp: agent_inv_keeps\<close>)
qed (auto simp: rm_changeOwner_def rm_pause_def rm_unpause_def split: if_splits)


section \<open>Properties\<close>

text \<open>A state with two components, the second depending on the first, and an agent made of the second.\<close>

definition demo_unit_env :: env where
  "demo_unit_env = \<lparr>nft_accepts = (\<lambda>_ _ _. True), eth_accepts = (\<lambda>_ _. True), multisig_create = (\<lambda>_ _ _ _. None)\<rparr>"

definition demo_with_manager :: "UnitType \<Rightarrow> unit_registry" where
  "demo_with_manager t = (new_unit_registry t 1 [])\<lparr>manager := 7, events := [ManagerUpdated 7]\<rparr>"

definition demo_created :: "unit_registry \<Rightarrow> uint256 \<Rightarrow> address \<Rightarrow> bytes32 \<Rightarrow> uint32 list \<Rightarrow> uint32 list \<Rightarrow> unit_registry" where
  "demo_created s i own h deps subs = s\<lparr>totalSupply := i, balanceOf_map := (balanceOf_map s)(own := balanceOf_map s own + 1),
     ownerOf_map := (ownerOf_map s)(i := own), events := events s @ [Transfer 0 own i, CreateUnit i (unit_code (unitType s)) h],
     mapSubComponents := (mapSubComponents s)(i := subs), mapUnits := (mapUnits s)(i := \<lparr>unitHash = h, dependencies = deps\<rparr>)\<rparr>"

definition demo_component1 :: unit_registry where
  "demo_component1 = demo_created (demo_with_manager Component) 1 2 11 [] [1]"

definition demo_component2 :: unit_registry where
  "demo_component2 = demo_created demo_component1 2 3 12 [1] [1, 2]"

definition demo_agent :: unit_registry where
  "demo_agent = demo_created (demo_with_manager Agent) 1 3 13 [2] [1, 2]"

definition demo_units :: registries where
  "demo_units = \<lparr>rm_this = 7, rm_owner = 1, rm_paused = False, rm_events = [], component_registry = demo_component2,
     agent_registry = demo_agent\<rparr>"

lemma merge_unit_demo: "merge_components [] = Inr []" "merge_components [[1]] = Inr [1]" "merge_components [[1, 2]] = Inr [1, 2]"
  by code_simp+

lemmas unit_demo_simps = demo_unit_env_def demo_with_manager_def new_unit_registry_def demo_created_def demo_component1_def
  demo_component2_def demo_agent_def create_unit_def checkDependencies_def calculateSubComponents_of_def
  getSubComponents_def chk_add_def safeMint_def mint_def merge_unit_demo changeManager_def

lemma demo_units_reachable: "units_reachable demo_units"
proof -
  let ?R = "\<lparr>rm_this = 7, rm_owner = 1, rm_paused = False, rm_events = [],
      component_registry = new_unit_registry Component 1 [], agent_registry = new_unit_registry Agent 1 []\<rparr>"
  have m: "registry_step C (new_unit_registry t 1 []) (demo_with_manager t)" for C t
    by (rule registry_step.intros(8) [of 1 7]) (simp add: unit_demo_simps)
  have 0: "units_reachable ?R" by (rule units_reachable.deployed)
  have 1: "units_reachable (?R\<lparr>component_registry := demo_with_manager Component\<rparr>)"
    using units_reachable.component [OF 0] m by simp
  have 2: "units_reachable (?R\<lparr>component_registry := demo_with_manager Component, agent_registry := demo_with_manager Agent\<rparr>)"
    using units_reachable.agent [OF 1] m by simp
  have "create_unit demo_unit_env (demo_with_manager Component) 7 2 11 [] (demo_with_manager Component) = Inr (1, demo_component1)"
    by (simp add: unit_demo_simps)
  then have 3: "units_reachable (?R\<lparr>component_registry := demo_component1, agent_registry := demo_with_manager Agent\<rparr>)"
    using units_reachable.component [OF 2] registry_step.intros(1) by simp
  have "create_unit demo_unit_env demo_component1 7 3 12 [1] demo_component1 = Inr (2, demo_component2)"
    by (simp add: unit_demo_simps)
  then have 4: "units_reachable (?R\<lparr>component_registry := demo_component2, agent_registry := demo_with_manager Agent\<rparr>)"
    using units_reachable.component [OF 3] registry_step.intros(1) by simp
  have "create_unit demo_unit_env demo_component2 7 3 13 [2] (demo_with_manager Agent) = Inr (1, demo_agent)"
    by (simp add: unit_demo_simps)
  then show ?thesis
    using units_reachable.agent [OF 4] registry_step.intros(1) by (simp add: demo_units_def)
qed

text \<open>
  C12. In every state the registries can reach, with fewer than \<open>2 ^ 32 - 1\<close> components, the subcomponents stored for a
  component are, in ascending order, the component and all components it depends on directly or through others, and those
  stored for an agent are the subcomponents of the components it is made of; a component depends only on older ones.
\<close>
theorem subcomponents_are_the_closure:
  assumes "units_reachable R" and "small (component_registry R)"
  shows "(\<forall>c. member (component_registry R) c \<longrightarrow>
            mapSubComponents (component_registry R) (ucast c) = sorted_list_of_set {d. subcomponent (component_registry R) c d}
            \<and> (\<forall>d \<in> set (dependencies (mapUnits (component_registry R) (ucast c))). 0 < d \<and> d < c))
         \<and> (\<forall>a. 0 < a \<and> a \<le> totalSupply (agent_registry R) \<longrightarrow>
            mapSubComponents (agent_registry R) a =
              sorted_list_of_set {d. \<exists>e \<in> set (dependencies (mapUnits (agent_registry R) a)). subcomponent (component_registry R) e d})"
proof -
  have "(\<Union>c \<in> set ds. closure C c) = {d. \<exists>e \<in> set ds. subcomponent C e d}" for C ds
    by (auto simp: closure_def)
  then show ?thesis
    using units_invariant [OF assms] by (simp add: comp_inv_def agent_inv_def closure_list_def) (simp add: closure_def)
qed

theorem subcomponents_are_the_closure_witness:
  "units_reachable demo_units \<and> small demo_component2 \<and> member demo_component2 2
   \<and> [1, 2] = sorted_list_of_set {d. subcomponent demo_component2 2 d}"
proof -
  have "small demo_component2" "member demo_component2 2" "mapSubComponents demo_component2 2 = [1, 2]"
    by (simp_all add: small_def member_def unit_demo_simps)
  then show ?thesis
    using subcomponents_are_the_closure [OF demo_units_reachable] demo_units_reachable by (auto simp: demo_units_def)
qed

text \<open>
  C13. The merge of the lists of subcomponents is the ascending list of their elements without repetitions, for lists in
  ascending order without the ids zero and \<open>2 ^ 32 - 1\<close>; it reverts exactly when the lists together have \<open>2 ^ 32\<close> or more
  entries.
\<close>
theorem merge_is_sorted_union:
  assumes "\<forall>xs \<in> set xss. sorted_wrt (<) xs \<and> 0 \<notin> set xs \<and> - 1 \<notin> set xs"
  shows "merge_components xss =
    (if sum_list (map length xss) < 2 ^ 32 then Inr (sorted_list_of_set (\<Union>xs \<in> set xss. set xs)) else Inl Panic)"
  by (rule merge_components_sorted) (use assms in \<open>auto intro: ids_listI\<close>)

theorem merge_is_sorted_union_witness:
  "merge_components [[1, 4, 9], [2, 4], []] = Inr (sorted_list_of_set {1, 2, 4, 9}) \<and> merge_components [[1, 4, 9], [2, 4], []] = Inr [1, 2, 4, 9]"
proof -
  have "merge_components [[1, 4, 9], [2, 4], []] = Inr [1, 2, 4, 9]" by code_simp
  moreover have "(\<Union>xs \<in> set [[1, 4, 9], [2, 4], []]. set xs) = {1, 2, 4, 9 :: uint32}" by auto
  ultimately show ?thesis
    using merge_is_sorted_union [of "[[1, 4, 9], [2, 4], []]"] by simp
qed

lemma calculate_agents:
  assumes "units_reachable R" and "small (component_registry R)" and "length ids < 2 ^ 32"
    and "\<forall>a \<in> set ids. 0 < a \<and> ucast a \<le> totalSupply (agent_registry R)"
  shows "calculateSubComponents (component_registry R) (agent_registry R) ids =
    (if (\<Sum>a \<leftarrow> ids. length (mapSubComponents (agent_registry R) (ucast a))) < 2 ^ 32
     then Inr (sorted_list_of_set {d. \<exists>a \<in> set ids. \<exists>e \<in> set (dependencies (mapUnits (agent_registry R) (ucast a))).
                                     subcomponent (component_registry R) e d})
     else Inl Panic)"
proof -
  let ?C = "component_registry R" and ?A = "agent_registry R"
  have inv: "comp_inv ?C" "agent_inv ?C ?A" using units_invariant [OF assms(1,2)] by simp_all
  have pos: "(0 :: uint256) < ucast a" if "a \<in> set ids" for a
    using assms(4) that by (auto simp: word_less_nat_alt)
  have a: "\<forall>d \<in> set (dependencies (mapUnits ?A (ucast a))). member ?C d"
    "mapSubComponents ?A (ucast a) = closure_list ?C (dependencies (mapUnits ?A (ucast a)))" if "a \<in> set ids" for a
    using inv(2) pos [OF that] assms(4) that unfolding agent_inv_def by blast+
  have "ids_list (mapSubComponents ?A (ucast a)) \<and> 0 \<notin> set (mapSubComponents ?A (ucast a))" if "a \<in> set ids" for a
  proof -
    have "\<forall>d \<in> set (dependencies (mapUnits ?A (ucast a))). - 1 \<notin> closure ?C d \<and> 0 \<notin> closure ?C d"
      using a(1) [OF that] closure_ids [OF inv(1) assms(2)] by (auto simp: ids_list_def)
    then show ?thesis
      using a(2) [OF that] sorted_list_of_set_strict by (auto simp: closure_list_def intro!: ids_listI)
  qed
  then have "\<forall>xs \<in> set (map (\<lambda>a. mapSubComponents ?A (ucast a)) ids). ids_list xs \<and> 0 \<notin> set xs" by auto
  moreover have "(\<Union>xs \<in> set (map (\<lambda>a. mapSubComponents ?A (ucast a)) ids). set xs) =
      {d. \<exists>a \<in> set ids. \<exists>e \<in> set (dependencies (mapUnits ?A (ucast a))). subcomponent ?C e d}"
    using a(2) by (auto simp: closure_list_def closure_def)
  moreover have "calculateSubComponents ?C ?A ids = merge_components (map (\<lambda>a. mapSubComponents ?A (ucast a)) ids)"
    using inv(2) assms(3)
    by (simp add: calculateSubComponents_def calculateSubComponents_of_def getSubComponents_def [abs_def])
  ultimately show ?thesis
    using merge_components_sorted by (simp add: comp_def)
qed

text \<open>
  The components of a list of agents, which a service stores when it is deployed, are the ascending list of
  the subcomponents of all these agents; the computation reverts only when the stored lists together have \<open>2 ^ 32\<close> or more entries.
\<close>
theorem components_of_agents:
  assumes "units_reachable R" and "small (component_registry R)" and "length ids < 2 ^ 32"
    and "\<forall>a \<in> set ids. 0 < a \<and> ucast a \<le> totalSupply (agent_registry R)"
  shows "calculateSubComponents (component_registry R) (agent_registry R) ids =
    (if (\<Sum>a \<leftarrow> ids. length (mapSubComponents (agent_registry R) (ucast a))) < 2 ^ 32
     then Inr (sorted_list_of_set {d. \<exists>a \<in> set ids. \<exists>e \<in> set (dependencies (mapUnits (agent_registry R) (ucast a))).
                                     subcomponent (component_registry R) e d})
     else Inl Panic)"
  by (rule calculate_agents [OF assms])

theorem components_of_agents_witness:
  "calculateSubComponents demo_component2 demo_agent [1] =
     Inr (sorted_list_of_set {d. \<exists>e \<in> set (dependencies (mapUnits demo_agent 1)). subcomponent demo_component2 e d})"
proof -
  have "small demo_component2" by (simp add: small_def unit_demo_simps)
  moreover have "1 \<le> totalSupply demo_agent" "length (mapSubComponents demo_agent 1) < 2 ^ 32"
    by (simp_all add: unit_demo_simps)
  ultimately show ?thesis
    using components_of_agents [OF demo_units_reachable, of "[1]"] by (simp add: demo_units_def)
qed

end
