(* ===== verification/Js_Runtime.thy ===== *)
theory Js_Runtime
  imports Prelude "HOL-Library.Log_Nat"
begin

text \<open>
  What the scripts use of the JavaScript language: exceptions over a mutable world, double-precision
  arithmetic, and array slices.

  A script computation is a function from a world to a result and a new world: a thrown
  \<^verbatim>\<open>Error\<close> is \<open>Inl\<close> of its message, and, unlike a reverted transaction, it leaves behind what was
  done before it was thrown.
\<close>

section \<open>Computations that throw\<close>

type_synonym ('w, 'a) js = "'w \<Rightarrow> (string + 'a) \<times> 'w"

definition jret :: "'a \<Rightarrow> ('w, 'a) js" where
  [simp]: "jret x w = (Inr x, w)"

definition jthrow :: "string \<Rightarrow> ('w, 'a) js" where
  [simp]: "jthrow e w = (Inl e, w)"

definition jbind :: "('w, 'a) js \<Rightarrow> ('a \<Rightarrow> ('w, 'b) js) \<Rightarrow> ('w, 'b) js" where
  "jbind m f w = (case m w of (Inl e, w') \<Rightarrow> (Inl e, w') | (Inr x, w') \<Rightarrow> f x w')"

text \<open>Run the second computation after the first.\<close>

definition jthen :: "('w, unit) js \<Rightarrow> ('w, 'a) js \<Rightarrow> ('w, 'a) js" where
  "jthen m k = jbind m (\<lambda>_. k)"

lemma jthen_apply: "jthen m k w = (case m w of (Inl e, w') \<Rightarrow> (Inl e, w') | (Inr _, w') \<Rightarrow> k w')"
  by (simp add: jthen_def jbind_def)

text \<open>\<^verbatim>\<open>try { m } catch (e) { h(e) }\<close>\<close>

definition jtry :: "('w, 'a) js \<Rightarrow> (string \<Rightarrow> ('w, 'a) js) \<Rightarrow> ('w, 'a) js" where
  "jtry m h w = (case m w of (Inl e, w') \<Rightarrow> h e w' | (Inr x, w') \<Rightarrow> (Inr x, w'))"

fun jmap :: "('a \<Rightarrow> ('w, 'b) js) \<Rightarrow> 'a list \<Rightarrow> ('w, 'b list) js" where
  "jmap f [] = jret []"
| "jmap f (x # xs) = jbind (f x) (\<lambda>y. jbind (jmap f xs) (\<lambda>ys. jret (y # ys)))"

lemma jbind_Inr_iff:
  "jbind m f w = (Inr y, w') \<longleftrightarrow> (\<exists>x w1. m w = (Inr x, w1) \<and> f x w1 = (Inr y, w'))"
  by (auto simp: jbind_def split: prod.splits sum.splits)

lemma jbind_Inr_elim [elim!]:
  assumes "jbind m f w = (Inr y, w')"
  obtains x w1 where "m w = (Inr x, w1)" and "f x w1 = (Inr y, w')"
  using assms by (auto simp: jbind_Inr_iff)

lemma jbind_simps [simp]:
  "m w = (Inr x, w1) \<Longrightarrow> jbind m f w = f x w1"
  "m w = (Inl e, w1) \<Longrightarrow> jbind m f w = (Inl e, w1)"
  by (simp_all add: jbind_def)

lemma jbind_cases:
  obtains e w1 where "m w = (Inl e, w1)" "jbind m f w = (Inl e, w1)"
  | x w1 where "m w = (Inr x, w1)" "jbind m f w = f x w1"
  by (cases "m w"; cases "fst (m w)") auto

lemma jmap_Inr_length: "jmap f xs w = (Inr ys, w') \<Longrightarrow> length ys = length xs"
  by (induction xs arbitrary: ys w) auto

section \<open>Double-precision numbers\<close>

text \<open>
  The value of a rational rounded to a double (IEEE 754, round to nearest, ties to even). Only
  non-negative values below the overflow threshold occur. \<open>ulp x\<close> is the distance of adjacent doubles
  at \<open>x\<close>: 53 significant bits, down to the subnormal spacing \<open>2 ^ -1074\<close>.
\<close>

fun leading_zeros :: "nat \<Rightarrow> rat \<Rightarrow> nat" where
  "leading_zeros 0 x = 0"
| "leading_zeros (Suc f) x = (if x \<ge> 1 then 0 else Suc (leading_zeros f (2 * x)))"

definition ulp :: "rat \<Rightarrow> rat" where
  "ulp x = (if x \<ge> 1 then 2 ^ (floorlog 2 (nat \<lfloor>x\<rfloor>) - 1) / 2 ^ 52
            else 1 / 2 ^ (leading_zeros 1022 x + 52))"

definition round_half_even :: "rat \<Rightarrow> int" where
  "round_half_even y =
     (let f = \<lfloor>y\<rfloor>; d = y - of_int f in
      if d < 1 / 2 then f else if d > 1 / 2 then f + 1 else if even f then f else f + 1)"

definition fl :: "rat \<Rightarrow> rat" where
  "fl x = of_int (round_half_even (x / ulp x)) * ulp x"

definition dmul :: "rat \<Rightarrow> rat \<Rightarrow> rat" where
  "dmul a b = fl (a * b)"

definition ddiv :: "rat \<Rightarrow> rat \<Rightarrow> rat" where
  "ddiv a b = fl (a / b)"

lemma round_half_even_error: "\<bar>of_int (round_half_even y) - y\<bar> \<le> 1 / 2"
  using floor_correct [of y] by (auto simp: round_half_even_def Let_def)

lemma round_half_even_int [simp]: "round_half_even (of_int k) = k"
  by (simp add: round_half_even_def)

lemma round_half_even_nonneg: "0 \<le> y \<Longrightarrow> 0 \<le> round_half_even y"
  by (simp add: round_half_even_def Let_def)

lemma ulp_pos [simp]: "0 < ulp x"
  by (simp add: ulp_def)

lemma fl_error: "\<bar>fl x - x\<bar> \<le> ulp x / 2"
proof -
  have "fl x - x = (of_int (round_half_even (x / ulp x)) - x / ulp x) * ulp x"
    using ulp_pos [of x, THEN less_imp_neq] by (simp add: fl_def left_diff_distrib)
  then have "\<bar>fl x - x\<bar> = \<bar>of_int (round_half_even (x / ulp x)) - x / ulp x\<bar> * ulp x"
    using ulp_pos [of x] by (simp add: abs_mult abs_of_pos)
  also have "\<dots> \<le> 1 / 2 * ulp x"
    by (intro mult_right_mono round_half_even_error) (simp add: less_imp_le)
  finally show ?thesis by simp
qed

lemma fl_nonneg: "0 \<le> x \<Longrightarrow> 0 \<le> fl x"
  using ulp_pos [of x] round_half_even_nonneg [of "x / ulp x"] by (simp add: fl_def less_imp_le)

lemma fl_exact: "x = of_int k * ulp x \<Longrightarrow> fl x = x"
  using ulp_pos [of x] unfolding fl_def by (metis less_irrefl nonzero_mult_div_cancel_right round_half_even_int)

lemma floorlog_bounds:
  assumes "x \<ge> (1 :: rat)"
  shows "2 ^ (floorlog 2 (nat \<lfloor>x\<rfloor>) - 1) \<le> x" and "x < 2 ^ floorlog 2 (nat \<lfloor>x\<rfloor>)"
proof -
  let ?n = "nat \<lfloor>x\<rfloor>"
  have n: "0 < ?n" using assms by simp
  have b: "2 ^ (floorlog 2 ?n - 1) \<le> ?n" "?n < 2 ^ floorlog 2 ?n"
    using floorlog_bounds [of ?n 2] n by simp_all
  have x: "of_nat ?n \<le> x" "x < of_nat ?n + 1"
    using assms floor_correct [of x] by simp_all
  show "2 ^ (floorlog 2 ?n - 1) \<le> x"
    using b(1) x(1) by (metis (mono_tags) of_nat_le_iff of_nat_numeral of_nat_power order_trans)
  have "of_nat (?n + 1) \<le> (of_nat (2 ^ floorlog 2 ?n) :: rat)"
    using b(2) by (subst of_nat_le_iff) (simp only: Suc_leI Suc_eq_plus1 [symmetric])
  with x(2) show "x < 2 ^ floorlog 2 ?n" by simp
qed

lemma leading_zeros_bound: "0 < x \<Longrightarrow> x < 1 \<Longrightarrow> 1 \<le> x * 2 ^ n \<Longrightarrow> 1 \<le> x * 2 ^ leading_zeros n x"
proof (induction n arbitrary: x)
  case (Suc n)
  then show ?case
  proof (cases "2 * x \<ge> 1")
    case True
    then show ?thesis using Suc.prems by (cases n) auto
  next
    case False
    with Suc.IH [of "2 * x"] Suc.prems show ?thesis by (simp add: mult.assoc mult.left_commute)
  qed
qed simp

lemma ulp_rel:
  assumes "1 / 2 ^ 64 \<le> x"
  shows "ulp x \<le> x / 2 ^ 52"
proof (cases "x \<ge> 1")
  case True
  then show ?thesis
    using floorlog_bounds(1) [OF True] by (simp add: ulp_def divide_right_mono)
next
  case False
  have "(1 :: rat) \<le> x * 2 ^ 64"
    using assms by (simp add: field_simps)
  also have "\<dots> \<le> x * 2 ^ 1022"
    using assms by (intro mult_left_mono power_increasing) (auto intro: order_trans [of 0 "1 / 2 ^ 64"])
  finally have "1 \<le> x * 2 ^ leading_zeros 1022 x"
    using False assms by (intro leading_zeros_bound) (auto intro: less_le_trans [of 0 "1 / 2 ^ 64"])
  then show ?thesis
    using False by (simp add: ulp_def power_add field_simps)
qed

text \<open>Rounding is within a relative error of \<open>2 ^ -53\<close>, and exact on small multiples of a quarter.\<close>

lemma fl_rel: "1 / 2 ^ 64 \<le> x \<Longrightarrow> \<bar>fl x - x\<bar> \<le> x / 2 ^ 53"
  using fl_error [of x] ulp_rel [of x] by simp

lemma fl_bounds:
  assumes "1 / 2 ^ 64 \<le> x"
  shows "x - x / 2 ^ 53 \<le> fl x" and "fl x \<le> x + x / 2 ^ 53"
  using fl_rel [OF assms] unfolding abs_le_iff by linarith+

lemma fl_dyadic:
  assumes "ulp x = 1 / 2 ^ j" and "m \<le> j" and "x = of_int k / 2 ^ m"
  shows "fl x = x"
proof -
  have "(2 :: rat) ^ j = 2 ^ (j - m) * 2 ^ m"
    using assms(2) by (simp flip: power_add)
  then have "x = of_int (k * 2 ^ (j - m)) * ulp x"
    unfolding assms(1) by (subst assms(3)) simp
  then show ?thesis by (rule fl_exact)
qed

lemma fl_quarter:
  assumes "k < 2 ^ 53"
  shows "fl (of_nat k / 4) = of_nat k / 4"
proof (cases "4 \<le> k")
  case False
  then have "\<not> (1 :: rat) \<le> of_nat k / 4" by simp
  then have "ulp (of_nat k / 4) = 1 / 2 ^ (leading_zeros 1022 (of_nat k / 4) + 52)"
    by (simp add: ulp_def)
  then show ?thesis
    by (rule fl_dyadic [where m = 2 and k = "int k"]) simp_all
next
  case True
  let ?x = "of_nat k / 4 :: rat" and ?L = "floorlog 2 (nat \<lfloor>of_nat k / 4 :: rat\<rfloor>)"
  have one: "1 \<le> ?x" using True by simp
  have "2 ^ (?L - 1) \<le> ?x" by (rule floorlog_bounds(1) [OF one])
  also have "?x < 2 ^ 53 / 4"
    using assms by (intro divide_strict_right_mono) (metis of_nat_less_iff of_nat_numeral of_nat_power, simp)
  finally have "(2 :: rat) ^ (?L - 1) < 2 ^ 51" by simp
  then have L: "?L - 1 < 51"
    by (rule power_less_imp_less_exp [rotated]) simp
  then have "ulp ?x = 1 / 2 ^ (52 - (?L - 1))"
    using one by (simp add: ulp_def power_diff)
  then show ?thesis
    by (rule fl_dyadic [where m = 2 and k = "int k"]) (use L in simp_all)
qed

section \<open>Decimal strings\<close>

definition digit_value :: "char \<Rightarrow> nat" where
  "digit_value c = of_char c - 48"

definition is_digit :: "char \<Rightarrow> bool" where
  "is_digit c \<longleftrightarrow> 48 \<le> (of_char c :: nat) \<and> (of_char c :: nat) \<le> 57"

definition decimal :: "string \<Rightarrow> nat" where
  "decimal s = fold (\<lambda>c n. 10 * n + digit_value c) s 0"

text \<open>\<^verbatim>\<open>t.includes(s)\<close>\<close>

definition contains :: "string \<Rightarrow> string \<Rightarrow> bool" where
  "contains s t \<longleftrightarrow> (\<exists>i \<in> set [0..<Suc (length t)]. take (length s) (drop i t) = s)"

end
