(* ===== verification/Bind_Fix.thy ===== *)
theory Bind_Fix
  imports Js_Runtime Service_Manager
begin

text \<open>
  The script \<^verbatim>\<open>scripts/multisig_binding/bind_fix.js\<close>, which back-fills the multisig bindings of
  every service of a chain: which ids it takes, how it sizes the batches from gas estimates, how it
  submits, splits and skips, and how it verifies.

  The network is not code of the repository: it is the record \<open>bind_client\<close> of the calls the script makes, each a
  function of a world. The locale \<open>bind_chain\<close> states what the script relies on (an estimate changes
  nothing, a mined successful call has the effect of \<^verbatim>\<open>bindMultisig\<close>, one that failed has none), and
  the simulated chain at the end, which runs the contract model, satisfies it. Gas figures are
  natural numbers, and the fractional factors are doubles, multiplied as the script does.
\<close>

section \<open>Constants\<close>

definition GNOSIS_DRAINABLE :: "nat list" where
  "GNOSIS_DRAINABLE = [
    614, 704, 995, 996, 997, 998, 999, 1000, 1001, 1002, 1003, 1004, 1005, 1006, 1012,
    1013, 1027, 1028, 1029, 1031, 1032, 1033, 1034, 1035, 1036, 1037, 1038, 1039, 1040, 1041,
    1042, 1043, 1044, 1046, 1081, 1082, 1083, 1098, 1099, 1100, 1101, 1102, 1103, 1104, 1109,
    1110, 1117, 1146, 1147, 1148, 1189, 1190, 1191, 1192, 1193, 1194, 1195, 1196, 1197, 1198,
    1199, 1200, 1201, 1202, 1220, 1235, 1236, 1251, 1253, 1254, 1255, 1259, 1263, 1264, 1265,
    1266, 1267, 1268, 1269, 1285, 1286, 1293, 1295, 1308, 1323, 1351, 1434, 1437, 1438, 1440,
    1441, 1442, 1445, 1448, 1449, 1452, 1453, 1454, 1455, 1456, 1461, 1466, 1467, 1471, 1472,
    1473, 1475, 1477, 1479, 1480, 1481, 1482, 1483, 1484, 1486, 1487, 1490, 1492, 1494, 1495,
    1496, 1498, 1500, 1501, 1502, 1503, 1504, 1505, 1506, 1508, 1509, 1510, 1511, 1513, 1514,
    1515, 1516, 1517, 1518, 1519, 1520, 1521, 1522, 1523, 1524, 1527, 1528, 1529, 1531, 1532,
    1533, 1534, 1535, 1551, 1552, 1567, 1592, 1593, 1679, 1699, 1840, 1858, 1859, 1860, 1866,
    1879, 1882, 1883, 1884, 1889, 1890, 1892, 1895, 1898, 1912, 1926, 1951, 2038, 2040, 2043,
    2045, 2048, 2051, 2052, 2053, 2056, 2059, 2060, 2070, 2075, 2077, 2080, 2081, 2118, 2127,
    2219, 2269, 2436, 2602, 2686, 2914, 2916, 2925, 3093, 3170]"

record chain_config =
  chainId :: nat
  inProposal :: bool
  proxy :: string
  impl :: string
  priority_ids :: "nat list"
  rpcs :: "string list"

definition CHAINS :: "(string \<times> chain_config) list" where
  "CHAINS = [
    (''gnosis'', \<lparr>chainId = 100, inProposal = True,
       proxy = ''0x068a4f0946cF8c7f9C1B58a3b5243Ac8843bf473'',
       impl = ''0x2D2754EAc33C4B456e96C7438C3141735C3b60B8'', priority_ids = GNOSIS_DRAINABLE,
       rpcs = [''https://rpc.gnosischain.com'', ''https://gnosis-rpc.publicnode.com'',
         ''https://gnosis.drpc.org'', ''https://1rpc.io/gnosis'']\<rparr>),
    (''optimism'', \<lparr>chainId = 10, inProposal = True,
       proxy = ''0xA5C7FbCCFf28441b7d250412b0Fb87AA1c8b14AD'',
       impl = ''0x43fB32f25dce34EB76c78C7A42C8F40F84BCD237'', priority_ids = [],
       rpcs = [''https://optimism.drpc.org'', ''https://mainnet.optimism.io'',
         ''https://optimism-rpc.publicnode.com'', ''https://1rpc.io/op'']\<rparr>),
    (''mode'', \<lparr>chainId = 34443, inProposal = True,
       proxy = ''0xcDdD9D9ABaB36fFa882530D69c73FeE5D4001C2d'',
       impl = ''0xaea9ef993d8a1A164397642648DF43F053d43D85'', priority_ids = [],
       rpcs = [''https://mainnet.mode.network'', ''https://mode.drpc.org'',
         ''https://mode.gateway.tenderly.co'']\<rparr>),
    (''polygon'', \<lparr>chainId = 137, inProposal = True,
       proxy = ''0xE3e5Df46060370af5Fd37B2aA11e7dac3cCB4bd0'',
       impl = ''0x69E679AF02D7F18157A8730189f9aFa8cf9c9a2a'', priority_ids = [],
       rpcs = [''https://polygon.drpc.org'', ''https://polygon-bor-rpc.publicnode.com'',
         ''https://polygon.gateway.tenderly.co'', ''https://1rpc.io/matic'']\<rparr>),
    (''base'', \<lparr>chainId = 8453, inProposal = True,
       proxy = ''0x1262136cac6a06A782DC94eb3a3dF0b4d09FF6A6'',
       impl = ''0x32B5A40B43C4eDb123c9cFa6ea97432380a38dDF'', priority_ids = [],
       rpcs = [''https://mainnet.base.org'', ''https://base.drpc.org'',
         ''https://base-rpc.publicnode.com'', ''https://1rpc.io/base'']\<rparr>),
    (''arbitrum'', \<lparr>chainId = 42161, inProposal = True,
       proxy = ''0xD421f433e36465B3e558B1121F584ac09Fc33DF8'',
       impl = ''0x7fc0ddf4DFB61CfA5519db2A5eE7B2Eb02De0140'', priority_ids = [],
       rpcs = [''https://arb1.arbitrum.io/rpc'', ''https://arbitrum-one-rpc.publicnode.com'',
         ''https://arbitrum.drpc.org'', ''https://1rpc.io/arb'']\<rparr>),
    (''celo'', \<lparr>chainId = 42220, inProposal = True,
       proxy = ''0x84B4DA67B37B1EA1dea9c7044042C1d2297b80a0'',
       impl = ''0xd00Cb760Bf30183EAFE67f0E590BEeE190F35Cf3'', priority_ids = [],
       rpcs = [''https://forno.celo.org'', ''https://celo.drpc.org'', ''https://1rpc.io/celo'',
         ''https://rpc.ankr.com/celo'']\<rparr>),
    (''ethereum'', \<lparr>chainId = 1, inProposal = True,
       proxy = ''0x94a1892D91c05D0C61c3f49F42205D2285b914c9'',
       impl = ''0xA8C52f0bB977F423E31400d151F1b98181511f2e'', priority_ids = [],
       rpcs = [''https://eth.llamarpc.com'', ''https://ethereum-rpc.publicnode.com'',
         ''https://eth.drpc.org'', ''https://rpc.ankr.com/eth'', ''https://1rpc.io/eth'']\<rparr>)]"

definition PRIORITY :: "string list" where
  "PRIORITY = [''gnosis'', ''optimism'', ''mode'', ''polygon'', ''base'', ''arbitrum'', ''celo'', ''ethereum'']"

text \<open>
  \<^verbatim>\<open>resolveChain\<close>: a name, \<^verbatim>\<open>all\<close>, or a decimal chain id. The argument may be missing (\<open>None\<close>).
\<close>

definition unknown_chain :: "string \<Rightarrow> string" where
  "unknown_chain a = ''unknown chain '' @ [CHR 0x27] @ a @ [CHR 0x27] @ '' (use a name, a chainId, or ''
     @ [CHR 0x27] @ ''all'' @ [CHR 0x27] @ '')''"

definition resolveChain :: "string option \<Rightarrow> string + string list" where
  "resolveChain arg =
     (case arg of
        None \<Rightarrow> Inl (unknown_chain ''undefined'')
      | Some a \<Rightarrow>
          if a = ''all'' then Inr PRIORITY
          else if map_of CHAINS a \<noteq> None then Inr [a]
          else case (if a \<noteq> [] \<and> list_all is_digit a
                     then find (\<lambda>(k, c). chainId c = decimal a) CHAINS else None) of
            Some (k, c) \<Rightarrow> Inr [k]
          | None \<Rightarrow> Inl (unknown_chain a))"

section \<open>The network\<close>

text \<open>
  The messages the script prints that say what happened to a batch; a transaction is named by a
  number. \<open>estimate\<close> and \<open>await_receipt\<close> answer \<open>None\<close> when the call throws (the script
  catches both); \<open>await_receipt\<close> answers the receipt's status and gas. Reads that throw end the script.
\<close>

datatype bind_msg =
    RpcDown string
  | RpcUp string
  | SubmitRetry nat
  | BatchOk "nat list" nat
  | SkippedId "nat list"
  | Splitting nat
  | SkipChain string
  | PlanSizes "nat list" nat
  | VerifyResult nat nat "nat list"
  | Total nat nat

datatype fees = Fees1559 nat nat | LegacyGasPrice nat

datatype sign_mode = Fork_key | Private_key | Ledger

record 'w bind_client =
  responsive :: "string \<Rightarrow> ('w, bool) js"
  env_url :: "string option"
  has_private_key :: bool
  storage_at :: "string \<Rightarrow> ('w, string) js"
  set_impl :: "string \<Rightarrow> string \<Rightarrow> ('w, unit) js"
  connect_signer :: "sign_mode \<Rightarrow> ('w, unit) js"
  block_gas_limit :: "('w, nat) js"
  registry_address :: "('w, string) js"
  total_supply :: "('w, nat) js"
  service_multisig :: "nat \<Rightarrow> ('w, address) js"
  bound_service :: "address \<Rightarrow> ('w, nat) js"
  estimate :: "nat list \<Rightarrow> 'w \<Rightarrow> nat option \<times> 'w"
  node_tip :: "('w, nat) js"
  fee_data_tip :: "('w, nat option) js"
  base_fee :: "('w, nat option) js"
  gas_price :: "('w, nat) js"
  submit :: "nat list \<Rightarrow> nat \<Rightarrow> fees \<Rightarrow> 'w \<Rightarrow> nat option \<times> 'w"
  await_receipt :: "nat \<Rightarrow> 'w \<Rightarrow> (nat \<times> nat) option \<times> 'w"
  print :: "bind_msg \<Rightarrow> 'w \<Rightarrow> 'w"

definition jprint :: "'w bind_client \<Rightarrow> bind_msg \<Rightarrow> ('w, unit) js" where
  "jprint C e w = (Inr (), print C e w)"

fun connect_loop :: "'w bind_client \<Rightarrow> string \<Rightarrow> string list \<Rightarrow> ('w, string) js" where
  "connect_loop C chain [] = jthrow (''no responsive RPC for '' @ chain)"
| "connect_loop C chain (url # urls) =
     jbind (jtry (responsive C url) (\<lambda>_. jret False)) (\<lambda>up.
       if up then jbind (jprint C (RpcUp url)) (\<lambda>_. jret url)
       else jbind (jprint C (RpcDown url)) (\<lambda>_. connect_loop C chain urls))"

definition connect :: "'w bind_client \<Rightarrow> string \<Rightarrow> chain_config \<Rightarrow> ('w, string) js" where
  "connect C chain cfg =
     connect_loop C chain (case env_url C of Some u \<Rightarrow> [u] | None \<Rightarrow> rpcs cfg)"

text \<open>\<^verbatim>\<open>implInPlace\<close>: the implementation slot, a 32-byte hex string, against the expected address.\<close>

definition lower :: "char \<Rightarrow> char" where
  "lower c = (if 65 \<le> (of_char c :: nat) \<and> (of_char c :: nat) \<le> 90 then char_of (of_char c + 32 :: nat) else c)"

definition implInPlace :: "'w bind_client \<Rightarrow> chain_config \<Rightarrow> ('w, bool) js" where
  "implInPlace C cfg =
     jbind (storage_at C (proxy cfg)) (\<lambda>s.
       jret (map lower (''0x'' @ drop 26 s) = map lower (impl cfg)))"

section \<open>Batching\<close>

definition SAFE_FRAC :: rat where "SAFE_FRAC = fl (6 / 10)"
definition LIMIT_MULT :: rat where "LIMIT_MULT = fl (125 / 100)"
definition CAP_FRAC :: rat where "CAP_FRAC = fl (95 / 100)"
definition FALLBACK_N :: nat where "FALLBACK_N = 150"

definition limitFor :: "nat \<Rightarrow> nat \<Rightarrow> nat" where
  "limitFor est blk = min (nat \<lfloor>dmul (of_nat blk) CAP_FRAC\<rfloor>) (nat \<lceil>dmul (of_nat est) LIMIT_MULT\<rceil>)"

definition safe_gas :: "nat \<Rightarrow> nat" where
  "safe_gas blk = nat \<lfloor>dmul (of_nat blk) SAFE_FRAC\<rfloor>"

text \<open>\<^verbatim>\<open>buildIds\<close>: the embedded priority ids that exist, then every other id up to the supply.\<close>

definition buildIds :: "'w bind_client \<Rightarrow> chain_config \<Rightarrow> ('w, nat list \<times> nat list \<times> nat) js" where
  "buildIds C cfg =
     jbind (registry_address C) (\<lambda>_. jbind (total_supply C) (\<lambda>ts.
       let priority = filter (\<lambda>i. i \<le> ts) (priority_ids cfg)
       in jret (priority, filter (\<lambda>i. i \<notin> set priority) [1..<Suc ts], ts)))"

text \<open>\<^verbatim>\<open>Math.max(1, Math.floor(n * SAFE / est * 0.85))\<close>\<close>

definition shrink :: "nat \<Rightarrow> nat \<Rightarrow> nat \<Rightarrow> nat" where
  "shrink n safe est =
     max 1 (nat \<lfloor>dmul (ddiv (dmul (of_nat n) (of_nat safe)) (of_nat est)) (fl (85 / 100))\<rfloor>)"

text \<open>
  The inner loop of \<^verbatim>\<open>planChunk\<close>, with the number of tries left: it estimates the next \<open>n\<close> ids, retries
  up to three times when the estimate cannot be had and then falls back to a fixed size, and
  shrinks a slice that is too big.
\<close>

fun size_batch ::
    "'w bind_client \<Rightarrow> nat \<Rightarrow> nat list \<Rightarrow> nat \<Rightarrow> nat \<Rightarrow> nat option \<Rightarrow> nat \<Rightarrow> 'w \<Rightarrow> (nat \<times> nat option) \<times> 'w" where
  "size_batch C safe ids 0 n est rpcFails w = ((n, est), w)"
| "size_batch C safe ids (Suc tries) n est rpcFails w =
     (case estimate C (take n ids) w of
        (None, w1) \<Rightarrow>
          if rpcFails + 1 \<le> 3 then size_batch C safe ids tries n None (rpcFails + 1) w1
          else ((min n FALLBACK_N, Some (nat \<lfloor>dmul (of_nat safe) (fl (8 / 10))\<rfloor>)), w1)
      | (Some e, w1) \<Rightarrow>
          if e > safe \<and> n > 1 then size_batch C safe ids tries (shrink n safe e) (Some e) rpcFails w1
          else ((n, Some e), w1))"

text \<open>
  The outer loop, on the ids still to be planned. Each round takes at least one id, so one unit of
  fuel per id is enough; \<open>planChunk_partition\<close> below shows that it is.
\<close>

fun planChunk_loop ::
    "nat \<Rightarrow> 'w bind_client \<Rightarrow> nat \<Rightarrow> nat list \<Rightarrow> nat \<Rightarrow> 'w \<Rightarrow> (nat list list \<times> nat list) \<times> 'w" where
  "planChunk_loop fuel C blk [] guess w = (([], []), w)"
| "planChunk_loop 0 C blk ids guess w = (([], []), w)"
| "planChunk_loop (Suc fuel) C blk ids guess w =
     (let safe = safe_gas blk;
          ((n, est), w1) = size_batch C safe ids 12 (min guess (length ids)) None 0 w;
          e = (case est of None \<Rightarrow> safe | Some x \<Rightarrow> if x = 0 then safe else x);
          ((batches, gas), w2) = planChunk_loop fuel C blk (drop n ids) (max FALLBACK_N n) w1
      in ((take n ids # batches, limitFor e blk # gas), w2))"

definition planChunk :: "'w bind_client \<Rightarrow> nat list \<Rightarrow> nat \<Rightarrow> 'w \<Rightarrow> (nat list list \<times> nat list) \<times> 'w" where
  "planChunk C ids blk w = planChunk_loop (length ids) C blk ids 400 w"

definition planAll ::
    "'w bind_client \<Rightarrow> nat list \<Rightarrow> nat list \<Rightarrow> nat \<Rightarrow> 'w \<Rightarrow> (nat list list \<times> nat list \<times> nat) \<times> 'w" where
  "planAll C priority rest blk w =
     (let (pr, w1) = (if priority \<noteq> [] then planChunk C priority blk w else (([], []), w));
          (re, w2) = (if rest \<noteq> [] then planChunk C rest blk w1 else (([], []), w1))
      in ((fst pr @ fst re, snd pr @ snd re, length (fst pr)), w2))"

section \<open>Sending and verifying\<close>

text \<open>
  \<^verbatim>\<open>verify\<close>: a service without a multisig counts, one whose multisig is bound to it counts, any other
  is missing.
\<close>

fun verify :: "'w bind_client \<Rightarrow> nat list \<Rightarrow> ('w, nat \<times> nat list) js" where
  "verify C [] = jret (0, [])"
| "verify C (i # is) =
     jbind (service_multisig C i) (\<lambda>ms.
       if ms = 0 then jbind (verify C is) (\<lambda>(ok, miss). jret (Suc ok, miss))
       else jbind (bound_service C ms) (\<lambda>b. jbind (verify C is) (\<lambda>(ok, miss).
         jret (if b = i then (Suc ok, miss) else (ok, i # miss)))))"

text \<open>
  \<^verbatim>\<open>feeOverrides\<close>: the tip is the node's, or the library's, or 2 gwei, with a margin of a quarter.
\<close>

definition feeOverrides :: "'w bind_client \<Rightarrow> ('w, fees) js" where
  "feeOverrides C =
     jbind (base_fee C) (\<lambda>base.
     jbind (jtry (node_tip C) (\<lambda>_. jbind (fee_data_tip C) (\<lambda>t.
              jret (case t of Some x \<Rightarrow> x | None \<Rightarrow> 2 * 10 ^ 9)))) (\<lambda>tip0.
       let tip = tip0 * 125 div 100 in
       case base of
         Some b \<Rightarrow> jret (Fees1559 (b * 2 + tip) tip)
       | None \<Rightarrow> jbind (gas_price C) (\<lambda>gp. jret (LegacyGasPrice (gp * 125 div 100)))))"

text \<open>Submission: three attempts, then the script gives up on the run.\<close>

fun submit_try :: "'w bind_client \<Rightarrow> nat list \<Rightarrow> nat \<Rightarrow> fees \<Rightarrow> nat \<Rightarrow> ('w, nat) js" where
  "submit_try C ids gl fs retries w =
     (case submit C ids gl fs w of
        (Some tx, w1) \<Rightarrow> (Inr tx, w1)
      | (None, w1) \<Rightarrow>
          (case retries of
             0 \<Rightarrow> (Inl ''submit failed after 3 tries'', w1)
           | Suc r \<Rightarrow> submit_try C ids gl fs r (print C (SubmitRetry (3 - retries)) w1)))"

declare submit_try.simps [simp del]

text \<open>
  \<^verbatim>\<open>sendOne\<close>: a batch that was mined and failed is split in halves, each with a fresh estimate; a
  single id that fails is skipped.
\<close>

definition half_limit :: "'w bind_client \<Rightarrow> nat list \<Rightarrow> nat \<Rightarrow> 'w \<Rightarrow> nat \<times> 'w" where
  "half_limit C ids blk w =
     (case estimate C ids w of (est, w1) \<Rightarrow>
        (limitFor (case est of Some e \<Rightarrow> e | None \<Rightarrow> safe_gas blk) blk, w1))"

function sendOne :: "'w bind_client \<Rightarrow> nat list \<Rightarrow> nat \<Rightarrow> nat \<Rightarrow> fees \<Rightarrow> ('w, nat) js" where
  "sendOne C ids blk gl fs w =
     (case submit_try C ids gl fs 2 w of
        (Inl e, w1) \<Rightarrow> (Inl e, w1)
      | (Inr tx, w1) \<Rightarrow>
          (case await_receipt C tx w1 of (rc, w2) \<Rightarrow>
             (case rc of
                Some (Suc 0, g) \<Rightarrow> (Inr g, print C (BatchOk ids g) w2)
              | _ \<Rightarrow>
                  if length ids \<le> 1 then (Inr 0, print C (SkippedId ids) w2)
                  else
                    let mid = length ids div 2;
                        (gl1, w3) = half_limit C (take mid ids) blk (print C (Splitting (length ids)) w2)
                    in (case sendOne C (take mid ids) blk gl1 fs w3 of
                          (Inl e, w4) \<Rightarrow> (Inl e, w4)
                        | (Inr g1, w4) \<Rightarrow>
                            (case half_limit C (drop mid ids) blk w4 of (gl2, w5) \<Rightarrow>
                              (case sendOne C (drop mid ids) blk gl2 fs w5 of
                                 (Inl e, w6) \<Rightarrow> (Inl e, w6)
                               | (Inr g2, w6) \<Rightarrow> (Inr (g1 + g2), w6)))))))"
  by pat_completeness auto
termination
  by (relation "measure (\<lambda>(C, ids, blk, gl, fs, w). length ids)") auto

declare sendOne.simps [simp del]

fun send :: "'w bind_client \<Rightarrow> nat list list \<Rightarrow> nat list \<Rightarrow> nat \<Rightarrow> fees \<Rightarrow> ('w, nat) js" where
  "send C (b # bs) (g # gs) blk fs =
     jbind (sendOne C b blk g fs) (\<lambda>used. jbind (send C bs gs blk fs) (\<lambda>total_used. jret (used + total_used)))"
| "send C _ _ blk fs = jret 0"

section \<open>The command line and a run\<close>

datatype mode = PlanMode | ForkMode | ExecuteMode

definition parse_mode :: "string \<Rightarrow> mode option" where
  "parse_mode s = (if s = ''plan'' then Some PlanMode else if s = ''fork'' then Some ForkMode
     else if s = ''execute'' then Some ExecuteMode else None)"

fun after_flag :: "string \<Rightarrow> string list \<Rightarrow> string option option" where
  "after_flag f [] = None"
| "after_flag f (x # xs) = (if x = f then Some (case xs of [] \<Rightarrow> None | y # _ \<Rightarrow> Some y) else after_flag f xs)"

definition parse_args :: "string list \<Rightarrow> string + mode \<times> string list" where
  "parse_args argv =
     (let chainArg = (case after_flag ''--chainId'' argv of
            Some (Some y) \<Rightarrow> Some y
          | Some None \<Rightarrow> Some ''undefined''
          | None \<Rightarrow> (if length argv > 1 then Some (argv ! 1) else None))
      in case (case argv of [] \<Rightarrow> None | m # _ \<Rightarrow> parse_mode m) of
           None \<Rightarrow> Inl ''mode must be plan|fork|execute''
         | Some m \<Rightarrow> rbind (resolveChain chainArg) (\<lambda>names. Inr (m, names)))"

text \<open>Whether a chain is processed: the proxy must be on the fixed implementation.\<close>

definition prepare :: "'w bind_client \<Rightarrow> mode \<Rightarrow> string \<Rightarrow> chain_config \<Rightarrow> ('w, bool) js" where
  "prepare C m chain cfg =
     (if m = ForkMode then
        jbind (set_impl C (proxy cfg) (impl cfg)) (\<lambda>_. jbind (implInPlace C cfg) (\<lambda>ok.
          if \<not> ok then jthrow ''impl override failed''
          else jbind (connect_signer C Fork_key) (\<lambda>_. jret True)))
      else
        jbind (implInPlace C cfg) (\<lambda>ok.
          if \<not> ok then jbind (jprint C (SkipChain chain)) (\<lambda>_. jret False)
          else if m = ExecuteMode then
            jbind (connect_signer C (if has_private_key C then Private_key else Ledger)) (\<lambda>_. jret True)
          else jret True))"

definition run_chain :: "'w bind_client \<Rightarrow> mode \<Rightarrow> string \<Rightarrow> chain_config \<Rightarrow> ('w, unit) js" where
  "run_chain C m chain cfg =
     jbind (connect C chain cfg) (\<lambda>_. jbind (block_gas_limit C) (\<lambda>blk.
     jbind (prepare C m chain cfg) (\<lambda>go.
       if \<not> go then jret ()
       else jbind (registry_address C) (\<lambda>_. jbind (buildIds C cfg) (\<lambda>(priority, rest, ts) w.
         let ((batches, gas, pCount), w1) = planAll C priority rest blk w;
             w2 = print C (PlanSizes (map length batches) pCount) w1
         in if m = PlanMode then (Inr (), w2)
            else
              let checkSet = priority @ (if length rest \<le> 300 then rest else [])
              in jbind (feeOverrides C) (\<lambda>fs. jbind (send C batches gas blk fs) (\<lambda>used.
                 jbind (verify C checkSet) (\<lambda>(ok, miss).
                 jbind (jprint C (VerifyResult ok (length checkSet) miss)) (\<lambda>_.
                   jprint C (Total (length batches) used))))) w2)))))"

fun run_chains :: "'w bind_client \<Rightarrow> mode \<Rightarrow> string list \<Rightarrow> ('w, unit) js" where
  "run_chains C m [] = jret ()"
| "run_chains C m (c # cs) =
     (case map_of CHAINS c of
        None \<Rightarrow> jthrow ''TypeError''
      | Some cfg \<Rightarrow> jbind (run_chain C m c cfg) (\<lambda>_. run_chains C m cs))"

definition run :: "'w bind_client \<Rightarrow> string list \<Rightarrow> ('w, unit) js" where
  "run C argv w =
     (case parse_args argv of Inl e \<Rightarrow> (Inl e, w) | Inr (m, names) \<Rightarrow> run_chains C m names w)"

section \<open>The plan covers the ids\<close>

lemma shrink_pos: "1 \<le> shrink n safe e"
  by (simp add: shrink_def)

lemma size_batch_pos:
  "size_batch C safe ids tries n est f w = ((n', est'), w') \<Longrightarrow> 1 \<le> n \<Longrightarrow> 1 \<le> n'"
proof (induction C safe ids tries n est f w rule: size_batch.induct)
  case (2 C safe ids tries n est f w)
  show ?case
  proof (cases "estimate C (take n ids) w")
    case (Pair r w1)
    with 2 show ?thesis
      using shrink_pos [of n safe] by (cases r) (auto simp: FALLBACK_N_def split: if_splits)
  qed
qed simp

lemma limitFor_cap: "limitFor e blk \<le> nat \<lfloor>dmul (of_nat blk) CAP_FRAC\<rfloor>"
  by (simp add: limitFor_def)

lemma planChunk_loop_partition:
  assumes "planChunk_loop fuel C blk ids guess w = ((bs, gs), w')" and "length ids \<le> fuel" and "1 \<le> guess"
  shows "concat bs = ids \<and> [] \<notin> set bs \<and> length gs = length bs
    \<and> (\<forall>g\<in>set gs. g \<le> nat \<lfloor>dmul (of_nat blk) CAP_FRAC\<rfloor>)"
  using assms
proof (induction fuel C blk ids guess w arbitrary: bs gs w' rule: planChunk_loop.induct)
  case (3 fuel C blk i "is" guess w)
  let ?ids = "i # is"
  obtain n est w1 where sb: "size_batch C (safe_gas blk) ?ids 12 (min guess (length ?ids)) None 0 w = ((n, est), w1)"
    by (metis surj_pair)
  obtain bs1 gs1 w2 where rest: "planChunk_loop fuel C blk (drop n ?ids) (max FALLBACK_N n) w1 = ((bs1, gs1), w2)"
    by (metis surj_pair)
  have n: "1 \<le> n"
    using size_batch_pos [OF sb] "3.prems"(3) by simp
  have bs: "bs = take n ?ids # bs1" "\<exists>e. gs = limitFor e blk # gs1"
    using "3.prems"(1) sb rest by (auto simp: Let_def)
  have "length (drop n ?ids) \<le> fuel" "1 \<le> max FALLBACK_N n"
    using n "3.prems"(2) by auto
  then have ih: "concat bs1 = drop n ?ids \<and> [] \<notin> set bs1 \<and> length gs1 = length bs1
      \<and> (\<forall>g\<in>set gs1. g \<le> nat \<lfloor>dmul (of_nat blk) CAP_FRAC\<rfloor>)"
    using "3.IH" [OF refl sb [symmetric] refl refl refl rest] by blast
  then show ?case
    using bs n limitFor_cap by auto
qed auto

lemma planChunk_partition:
  assumes "planChunk C ids blk w = ((bs, gs), w')"
  shows "concat bs = ids \<and> [] \<notin> set bs \<and> length gs = length bs
    \<and> (\<forall>g\<in>set gs. g \<le> nat \<lfloor>dmul (of_nat blk) CAP_FRAC\<rfloor>)"
  using planChunk_loop_partition assms by (fastforce simp: planChunk_def)

lemma planAll_partition:
  assumes "planAll C priority rest blk w = ((bs, gs, p), w')"
  shows "concat bs = priority @ rest \<and> concat (take p bs) = priority \<and> [] \<notin> set bs \<and> length gs = length bs
    \<and> (\<forall>g\<in>set gs. g \<le> nat \<lfloor>dmul (of_nat blk) CAP_FRAC\<rfloor>)"
proof -
  define chunk where "chunk xs v = (if xs \<noteq> [] then planChunk C xs blk v else (([], []), v))" for xs v
  obtain b1 g1 w1 where c1: "chunk priority w = ((b1, g1), w1)" by (metis surj_pair)
  obtain b2 g2 w2 where c2: "chunk rest w1 = ((b2, g2), w2)" by (metis surj_pair)
  have part: "concat b = xs \<and> [] \<notin> set b \<and> length g = length b
      \<and> (\<forall>x\<in>set g. x \<le> nat \<lfloor>dmul (of_nat blk) CAP_FRAC\<rfloor>)"
    if "chunk xs v = ((b, g), v')" for xs v b g v'
    using that planChunk_partition [of C xs blk v b g v'] by (auto simp: chunk_def split: if_splits)
  have "bs = b1 @ b2" "gs = g1 @ g2" "p = length b1"
    using assms c1 c2 unfolding planAll_def chunk_def by (auto simp: Let_def split: prod.splits)
  with part [OF c1] part [OF c2] show ?thesis by auto
qed

lemma buildIds_Inr:
  assumes "buildIds C cfg w = (Inr (priority, rest, ts), w')"
  shows "priority = filter (\<lambda>i. i \<le> ts) (priority_ids cfg)"
    and "rest = filter (\<lambda>i. i \<notin> set priority) [1..<Suc ts]"
  using assms by (auto simp: buildIds_def Let_def jret_def)

lemma buildIds_cover:
  assumes "buildIds C cfg w = (Inr (priority, rest, ts), w')" and "distinct (priority_ids cfg)"
    and "0 \<notin> set (priority_ids cfg)"
  shows "distinct (priority @ rest) \<and> set (priority @ rest) = {1..ts}"
proof -
  have "0 < i" if "i \<in> set (priority_ids cfg)" for i
    using assms(3) that by (metis gr0I)
  then show ?thesis
    using assms(2) by (auto simp: buildIds_Inr [OF assms(1)] Suc_le_eq)
qed

section \<open>What the script relies on\<close>

text \<open>
  A view of a world: the multisig of every service, and the bindings of the manager. \<open>bindv\<close> is the effect of
  \<^verbatim>\<open>bindMultisig\<close> on it.
\<close>

type_synonym bind_view = "(uint256 \<Rightarrow> address) \<times> (address \<Rightarrow> uint256)"

definition bindv :: "nat list \<Rightarrow> bind_view \<Rightarrow> bind_view" where
  "bindv ids v = (fst v, bind_map (fst v) (map of_nat ids) (snd v))"

fun skips :: "bind_msg list \<Rightarrow> nat list" where
  "skips [] = []"
| "skips (SkippedId l # ms) = l @ skips ms"
| "skips (_ # ms) = skips ms"

lemma skips_append [simp]: "skips (xs @ ys) = skips xs @ skips ys"
  by (induction xs rule: skips.induct) auto

lemma bindv_simps [simp]:
  "bindv [] v = v" "fst (bindv ids v) = fst v" "bindv ys (bindv xs v) = bindv (xs @ ys) v"
  by (simp_all add: bindv_def bind_map_append)

locale bind_chain =
  fixes C :: "'w bind_client" and view :: "'w \<Rightarrow> bind_view" and msgs :: "'w \<Rightarrow> bind_msg list"
  assumes estimate_reads: "estimate C ids w = (r, w') \<Longrightarrow> view w' = view w \<and> msgs w' = msgs w"
    and submit_fails: "submit C ids gl fs w = (None, w') \<Longrightarrow> view w' = view w \<and> msgs w' = msgs w"
    and tx_effect: "submit C ids gl fs w = (Some tx, w1) \<Longrightarrow> await_receipt C tx w1 = (rc, w2) \<Longrightarrow>
      msgs w2 = msgs w \<and> view w2 = (if \<exists>g. rc = Some (1, g) then bindv ids (view w) else view w)"
    and print_view: "view (print C m w) = view w"
    and print_msgs: "msgs (print C m w) = msgs w @ [m]"
    and multisig_reads: "service_multisig C i w = (Inr a, w') \<Longrightarrow>
      a = fst (view w) (of_nat i) \<and> view w' = view w \<and> msgs w' = msgs w"
    and bound_reads: "bound_service C a w = (Inr b, w') \<Longrightarrow>
      b = unat (snd (view w) a) \<and> view w' = view w \<and> msgs w' = msgs w"
begin

text \<open>What a computation did to the bindings: \<open>done\<close> was bound, in order, and the rest was reported.\<close>

definition sent :: "nat list \<Rightarrow> 'w \<Rightarrow> 'w \<Rightarrow> bool" where
  "sent ids w w' \<longleftrightarrow> (\<exists>bd sk. view w' = bindv bd (view w) \<and> set bd \<subseteq> set ids \<and>
     skips (msgs w') = skips (msgs w) @ sk \<and> set ids \<subseteq> set bd \<union> set sk)"

lemma sentI:
  "view w' = bindv bd (view w) \<Longrightarrow> set bd \<subseteq> set ids \<Longrightarrow> skips (msgs w') = skips (msgs w) @ sk
    \<Longrightarrow> set ids \<subseteq> set bd \<union> set sk \<Longrightarrow> sent ids w w'"
  unfolding sent_def by blast

lemma sent_append: 
  assumes "sent xs w w1" and "sent ys w1 w2"
  shows "sent (xs @ ys) w w2"
proof -
  from assms obtain b1 s1 b2 s2 where
    "view w1 = bindv b1 (view w)" "set b1 \<subseteq> set xs" "skips (msgs w1) = skips (msgs w) @ s1" "set xs \<subseteq> set b1 \<union> set s1"
    "view w2 = bindv b2 (view w1)" "set b2 \<subseteq> set ys" "skips (msgs w2) = skips (msgs w1) @ s2" "set ys \<subseteq> set b2 \<union> set s2"
    unfolding sent_def by metis
  then show ?thesis
    by (intro sentI [where bd = "b1 @ b2" and sk = "s1 @ s2"]) auto
qed

lemma sent_cong: 
  "sent ids w1 w2 \<Longrightarrow> view w1 = view w \<Longrightarrow> skips (msgs w1) = skips (msgs w) \<Longrightarrow> sent ids w w2"
  by (simp add: sent_def)

lemma submit_try_tx:
  "submit_try C ids gl fs r w = (Inr tx, w1) \<Longrightarrow> await_receipt C tx w1 = (rc, w2) \<Longrightarrow>
     skips (msgs w2) = skips (msgs w) \<and> view w2 = (if \<exists>g. rc = Some (1, g) then bindv ids (view w) else view w)"
proof (induction r arbitrary: w)
  case 0
  then show ?case
    using tx_effect [of ids gl fs w tx w1 rc w2] by (auto simp: submit_try.simps split: prod.splits option.splits)
next
  case (Suc r)
  show ?case
  proof (cases "submit C ids gl fs w")
    case (Pair t wa)
    show ?thesis
    proof (cases t)
      case None
      with Pair Suc.prems Suc.IH [of "print C (SubmitRetry (3 - Suc r)) wa"] show ?thesis
        using submit_fails [of ids gl fs w wa]
        by (simp add: print_view print_msgs submit_try.simps [of C ids gl fs "Suc r"])
    next
      case (Some x)
      with Pair Suc.prems show ?thesis
        using tx_effect [of ids gl fs w tx w1 rc w2] by (simp add: submit_try.simps [of C ids gl fs "Suc r"])
    qed
  qed
qed

lemma half_limit_reads: "half_limit C ids blk w = (gl, w') \<Longrightarrow> view w' = view w \<and> msgs w' = msgs w"
  using estimate_reads by (auto simp: half_limit_def split: prod.splits)

lemma sendOne_sent: "sendOne C ids blk gl fs w = (Inr g, w') \<Longrightarrow> sent ids w w'"
proof (induction "length ids" arbitrary: ids gl w g w' rule: less_induct)
  case less
  obtain tx w1 where sub: "submit_try C ids gl fs 2 w = (Inr tx, w1)"
    using less.prems by (subst (asm) sendOne.simps) (auto split: prod.splits sum.splits)
  obtain rc w2 where aw: "await_receipt C tx w1 = (rc, w2)" by (metis surj_pair)
  note eff = submit_try_tx [OF sub aw]
  show ?case
  proof (cases "\<exists>g. rc = Some (1, g)")
    case True
    then obtain g0 where "rc = Some (Suc 0, g0)" by auto
    with less.prems sub aw have "w' = print C (BatchOk ids g0) w2"
      by (subst (asm) sendOne.simps) auto
    with eff True show ?thesis
      by (intro sentI [where bd = ids and sk = "[]"]) (auto simp: print_view print_msgs)
  next
    case False
    have eq: "sendOne C ids blk gl fs w =
       (if length ids \<le> 1 then (Inr 0, print C (SkippedId ids) w2)
        else let mid = length ids div 2;
                 (gl1, w3) = half_limit C (take mid ids) blk (print C (Splitting (length ids)) w2)
             in (case sendOne C (take mid ids) blk gl1 fs w3 of
                   (Inl e, w4) \<Rightarrow> (Inl e, w4)
                 | (Inr g1, w4) \<Rightarrow> (case half_limit C (drop mid ids) blk w4 of (gl2, w5) \<Rightarrow>
                     (case sendOne C (drop mid ids) blk gl2 fs w5 of
                        (Inl e, w6) \<Rightarrow> (Inl e, w6) | (Inr g2, w6) \<Rightarrow> (Inr (g1 + g2), w6)))))"
      using False by (subst sendOne.simps) (simp add: sub aw split: option.splits prod.splits nat.splits)
    show ?thesis
    proof (cases "length ids \<le> 1")
      case True
      with eq less.prems have "w' = print C (SkippedId ids) w2" by simp
      with eff False show ?thesis
        by (intro sentI [where bd = "[]" and sk = ids]) (auto simp: print_view print_msgs)
    next
      case long: False
      let ?mid = "length ids div 2"
      obtain gl1 w3 where h1: "half_limit C (take ?mid ids) blk (print C (Splitting (length ids)) w2) = (gl1, w3)"
        by (metis surj_pair)
      from eq less.prems long h1 obtain g1 w4 where s1: "sendOne C (take ?mid ids) blk gl1 fs w3 = (Inr g1, w4)"
        by (auto simp: Let_def split: prod.splits sum.splits)
      obtain gl2 w5 where h2: "half_limit C (drop ?mid ids) blk w4 = (gl2, w5)" by (metis surj_pair)
      from eq less.prems long h1 s1 h2 obtain g2 where s2: "sendOne C (drop ?mid ids) blk gl2 fs w5 = (Inr g2, w')"
        by (auto simp: Let_def split: prod.splits sum.splits)
      have "sent (take ?mid ids) w3 w4" "sent (drop ?mid ids) w5 w'"
        using less.hyps [OF _ s1] less.hyps [OF _ s2] long by simp_all
      moreover have "view w3 = view w \<and> skips (msgs w3) = skips (msgs w)"
        using half_limit_reads [OF h1] eff False by (simp add: print_view print_msgs)
      moreover have "view w5 = view w4 \<and> skips (msgs w5) = skips (msgs w4)"
        using half_limit_reads [OF h2] by simp
      ultimately have "sent (take ?mid ids @ drop ?mid ids) w w'"
        using sent_append sent_cong by blast
      then show ?thesis by simp
    qed
  qed
qed

lemma send_sent: 
  "send C bs gs blk fs w = (Inr g, w') \<Longrightarrow> length gs = length bs \<Longrightarrow> sent (concat bs) w w'"
proof (induction bs gs arbitrary: w g rule: list_induct2')
  case (4 b bs x gs)
  then show ?case
    using sendOne_sent sent_append by fastforce
qed (auto simp: sent_def intro: exI [of _ "[]"])

lemma verify_exact:
  "verify C ids w = (Inr (ok, miss), w') \<Longrightarrow>
     miss = filter (\<lambda>i. fst (view w) (of_nat i) \<noteq> 0 \<and> unat (snd (view w) (fst (view w) (of_nat i))) \<noteq> i) ids \<and>
     ok + length miss = length ids"
proof (induction ids arbitrary: w ok miss)
  case (Cons i ids)
  from Cons.prems obtain a w1 where a: "service_multisig C i w = (Inr a, w1)" by auto
  note ra = multisig_reads [OF a]
  show ?case
  proof (cases "a = 0")
    case True
    with Cons.prems a obtain ok1 where rest: "verify C ids w1 = (Inr (ok1, miss), w')" and "ok = Suc ok1"
      by (auto simp: jret_def)
    with Cons.IH [OF rest] ra True show ?thesis by auto
  next
    case False
    with Cons.prems a obtain b w2 where b: "bound_service C a w1 = (Inr b, w2)" by auto
    note rb = bound_reads [OF b]
    from False Cons.prems a b obtain ok1 miss1 where rest: "verify C ids w2 = (Inr (ok1, miss1), w')"
      and res: "(ok, miss) = (if b = i then (Suc ok1, miss1) else (ok1, i # miss1))"
      by (auto simp: jret_def)
    from Cons.IH [OF rest] ra rb False res show ?thesis
      by (cases "b = i") auto
  qed
qed simp

end

section \<open>A chain that runs the contract\<close>

text \<open>
  The simulated world: the manager contract, the gas each service id costs, the block limit, a pending
  transaction and the printed messages. A call succeeds when 63/64 of its gas limit covers its cost, and then has the
  effect of the contract's \<open>bindMultisig\<close>.
\<close>

record sim_world =
  sim_manager :: service_manager
  sim_gas :: "nat \<Rightarrow> nat"
  sim_block :: nat
  sim_supply :: nat
  sim_pending :: "nat list \<times> nat"
  sim_msgs :: "bind_msg list"

definition sim_cost :: "nat list \<Rightarrow> sim_world \<Rightarrow> nat" where
  "sim_cost ids w = 21000 + (\<Sum>i\<leftarrow>ids. sim_gas w i)"

definition sim_await :: "nat \<Rightarrow> sim_world \<Rightarrow> (nat \<times> nat) option \<times> sim_world" where
  "sim_await tx w =
     (case sim_pending w of (ids, gl) \<Rightarrow>
        if 64 * sim_cost ids w > 63 * gl then (None, w)
        else case bindMultisig (map of_nat ids) (sim_manager w) of
               Inl _ \<Rightarrow> (None, w)
             | Inr m \<Rightarrow> (Some (1, sim_cost ids w), w\<lparr>sim_manager := m\<rparr>))"

definition sim_client :: "sim_world bind_client" where
  "sim_client = \<lparr>
     responsive = (\<lambda>_. jret True), env_url = None, has_private_key = True,
     storage_at = (\<lambda>_. jret []), set_impl = (\<lambda>_ _. jret ()), connect_signer = (\<lambda>_. jret ()),
     block_gas_limit = (\<lambda>w. (Inr (sim_block w), w)), registry_address = jret [],
     total_supply = (\<lambda>w. (Inr (sim_supply w), w)),
     service_multisig = (\<lambda>i w. (Inr (multisigs (sim_manager w) (of_nat i)), w)),
     bound_service = (\<lambda>a w. (Inr (unat (mapMultisigServiceIds (sim_manager w) a)), w)),
     estimate = (\<lambda>ids w. (Some (sim_cost ids w), w)),
     node_tip = jret 1, fee_data_tip = jret None, base_fee = jret (Some 1), gas_price = jret 1,
     submit = (\<lambda>ids gl fs w. (Some 0, w\<lparr>sim_pending := (ids, gl)\<rparr>)),
     await_receipt = sim_await,
     print = (\<lambda>m w. w\<lparr>sim_msgs := sim_msgs w @ [m]\<rparr>)\<rparr>"

definition sim_view :: "sim_world \<Rightarrow> bind_view" where
  "sim_view w = (multisigs (sim_manager w), mapMultisigServiceIds (sim_manager w))"

lemma sim_await_effect:
  assumes "sim_await tx w = (rc, w')"
  shows "sim_msgs w' = sim_msgs w \<and>
    sim_view w' = (if \<exists>g. rc = Some (1, g) then bindv (fst (sim_pending w)) (sim_view w) else sim_view w)"
proof (cases "\<exists>g. rc = Some (1, g)")
  case True
  with assms obtain m where "bindMultisig (map of_nat (fst (sim_pending w))) (sim_manager w) = Inr m"
    and w': "w' = w\<lparr>sim_manager := m\<rparr>"
    by (auto simp: sim_await_def split: prod.splits if_splits sum.splits)
  with bindMultisig_Inr [OF this(1)] True show ?thesis
    by (auto simp: sim_view_def bindv_def multisigs_def)
next
  case False
  with assms have "w' = w"
    by (auto simp: sim_await_def split: prod.splits if_splits sum.splits)
  with False show ?thesis by simp
qed

interpretation sim: bind_chain sim_client sim_view sim_msgs
proof unfold_locales
  fix ids gl fs w tx w1 rc w2
  assume "submit sim_client ids gl fs w = (Some tx, w1)" and aw: "await_receipt sim_client tx w1 = (rc, w2)"
  then have w1: "w1 = w\<lparr>sim_pending := (ids, gl)\<rparr>" by (simp add: sim_client_def)
  have "sim_view w1 = sim_view w" "sim_msgs w1 = sim_msgs w"
    by (simp_all add: w1 sim_view_def)
  with sim_await_effect [of tx w1 rc w2] aw
  show "sim_msgs w2 = sim_msgs w \<and>
     sim_view w2 = (if \<exists>g. rc = Some (1, g) then bindv ids (sim_view w) else sim_view w)"
    by (simp add: sim_client_def w1)
qed (auto simp: sim_client_def sim_view_def jret_def)

section \<open>Properties\<close>

text \<open>
  C19. The plan: whatever estimates the network returns, however often it fails to, the planned batches
  are the priority ids followed by all other ids, cut into non-empty consecutive pieces with one gas
  limit each, no limit above 95 per cent of the block, and the ids are exactly 1 to the total supply,
  each once.
\<close>

theorem bind_plan_covers_every_service:
  assumes "buildIds C cfg w = (Inr (priority, rest, ts), w1)" and "planAll C priority rest blk w1 = ((bs, gs, p), w2)"
    and "distinct (priority_ids cfg)" and "0 \<notin> set (priority_ids cfg)"
  shows "concat bs = priority @ rest \<and> concat (take p bs) = priority \<and> [] \<notin> set bs \<and>
    distinct (concat bs) \<and> set (concat bs) = {1..ts} \<and> length gs = length bs \<and>
    (\<forall>g\<in>set gs. g \<le> nat \<lfloor>dmul (of_nat blk) CAP_FRAC\<rfloor>)"
  using planAll_partition [OF assms(2)] buildIds_cover [OF assms(1,3,4)] by simp

text \<open>
  C20. Sending: if the run of the batches ends without an exception, then every id is either bound or
  reported as skipped, nothing else was bound, and with nothing skipped every service with a multisig has
  its multisig bound.
\<close>

theorem bind_send_binds_or_reports:
  assumes "bind_chain C view msgs" and "send C bs gs blk fs w = (Inr g, w')" and "length gs = length bs"
    and "set (concat bs) \<subseteq> {1..2 ^ 53}"
  shows "\<exists>bd sk. view w' = bindv bd (view w) \<and> set bd \<subseteq> set (concat bs) \<and>
      skips (msgs w') = skips (msgs w) @ sk \<and> set (concat bs) \<subseteq> set bd \<union> set sk \<and>
      (sk = [] \<longrightarrow> (\<forall>i\<in>set (concat bs). fst (view w) (of_nat i) \<noteq> 0 \<longrightarrow>
         snd (view w') (fst (view w) (of_nat i)) \<noteq> 0))"
proof -
  from bind_chain.send_sent [OF assms(1-3)] obtain bd sk where *:
    "view w' = bindv bd (view w)" "set bd \<subseteq> set (concat bs)" "skips (msgs w') = skips (msgs w) @ sk"
    "set (concat bs) \<subseteq> set bd \<union> set sk"
    unfolding bind_chain.sent_def [OF assms(1)] by blast
  have "snd (view w') (fst (view w) (of_nat i)) \<noteq> 0"
    if "sk = []" "i \<in> set (concat bs)" "fst (view w) (of_nat i) \<noteq> 0" for i
  proof -
    from that *(4) have "i \<in> set bd" by auto
    moreover have "(of_nat i :: uint256) \<noteq> 0"
    proof -
      from assms(4) that(2) have "1 \<le> i" "i \<le> 2 ^ 53" by auto
      then have "unat (of_nat i :: uint256) = i"
        by (intro unat_of_nat_uint256) simp
      with \<open>1 \<le> i\<close> show ?thesis by auto
    qed
    ultimately show ?thesis
      using that(3) by (simp add: *(1) bindv_def bind_map_bound)
  qed
  with * show ?thesis by blast
qed





text \<open>
  C22. Verification: after a run that skipped nothing, verifying any of the sent ids counts or reports each of them, and reports exactly those with
  a multisig that was bound to another service before, or that was not bound and is shared with another one of the sent services, which has got the
  binding. In particular nothing is missing on a chain where no two services share a multisig and none is bound to a foreign service.
\<close>

theorem verification_reports_shared_and_foreign:
  assumes "bind_chain C view msgs" and "send C bs gs blk fs w = (Inr g, w1)" and "length gs = length bs"
    and ids: "set (concat bs) \<subseteq> {1..2 ^ 53}" and skip: "skips (msgs w1) = skips (msgs w)"
    and ver: "verify C checked w1 = (Inr (ok, miss), w2)" and sub: "set checked \<subseteq> set (concat bs)"
  defines "ms i \<equiv> fst (view w) (of_nat i)" and "b \<equiv> snd (view w)" and "b1 \<equiv> snd (view w1)"
  shows "ok + length miss = length checked \<and>
    (\<forall>i. i \<in> set miss \<longleftrightarrow> i \<in> set checked \<and> ms i \<noteq> 0 \<and>
      (b (ms i) \<notin> {0, of_nat i} \<or> b (ms i) = 0 \<and> (\<exists>j\<in>set (concat bs). j \<noteq> i \<and> ms j = ms i \<and> b1 (ms i) = of_nat j)))"
proof -
  from bind_chain.send_sent [OF assms(1-3)] skip obtain bd where
    v: "view w1 = bindv bd (view w)" and bd: "set bd = set (concat bs)"
    unfolding bind_chain.sent_def [OF assms(1)] by auto
  note vx = bind_chain.verify_exact [OF assms(1) ver]
  have b1: "b1 = bind_map (fst (view w)) (map of_nat bd) b" and ms1: "fst (view w1) = fst (view w)"
    by (simp_all add: b1_def b_def v bindv_def)
  have un: "unat (of_nat k :: uint256) = k" if "k \<in> set (concat bs)" for k
    using that ids by (intro unat_of_nat_uint256) auto
  have "i \<in> set miss \<longleftrightarrow> i \<in> set checked \<and> ms i \<noteq> 0 \<and>
      (b (ms i) \<notin> {0, of_nat i} \<or> b (ms i) = 0 \<and> (\<exists>j\<in>set (concat bs). j \<noteq> i \<and> ms j = ms i \<and> b1 (ms i) = of_nat j))" for i
  proof (cases "i \<in> set checked \<and> ms i \<noteq> 0")
    case True
    with sub have i: "i \<in> set (concat bs)" by blast
    with ids have nz: "(of_nat i :: uint256) \<noteq> 0" using un [OF i] by (metis atLeastAtMost_iff not_one_le_zero subset_iff unat_0)
    have in_miss: "i \<in> set miss \<longleftrightarrow> b1 (ms i) \<noteq> of_nat i"
      using True vx un [OF i] by (auto simp: ms1 ms_def b1_def [symmetric] word_unat_eq_iff)
    have bound: "b1 (ms i) \<noteq> 0" unfolding b1 ms_def using True i bd nz by (intro bind_map_bound) (auto simp: ms_def)
    have inj: "(of_nat j :: uint256) = of_nat i \<longleftrightarrow> j = i" if "j \<in> set (concat bs)" for j using un [OF that] un [OF i] by metis
    show ?thesis
    proof (cases "b (ms i) = 0")
      case zero: True
      obtain j where j: "j \<in> set (concat bs)" "ms j = ms i" "b1 (ms i) = of_nat j"
        using bind_map_own [of "fst (view w)" "map of_nat bd" b "ms i"] bound zero bd by (auto simp: b1 ms_def)
      have "b1 (ms i) \<noteq> of_nat i \<longleftrightarrow> (\<exists>j\<in>set (concat bs). j \<noteq> i \<and> ms j = ms i \<and> b1 (ms i) = of_nat j)"
        using j inj by (metis (no_types))
      with True zero show ?thesis unfolding in_miss by blast
    next
      case False
      then have "b1 (ms i) = b (ms i)" unfolding b1 by (rule bind_map_keeps)
      with True False show ?thesis unfolding in_miss by simp
    qed
  next
    case False
    with vx show ?thesis by (auto simp: ms1 ms_def)
  qed
  moreover have "ok + length miss = length checked" using vx by blast
  ultimately show ?thesis by blast
qed

text \<open>A small world for the witnesses: three services, the third without a multisig.\<close>

definition small_world :: sim_world where
  "small_world = \<lparr>sim_manager = small_manager, sim_gas = (\<lambda>_. 50000), sim_block = 30000000, sim_supply = 3,
     sim_pending = ([], 0), sim_msgs = []\<rparr>"

definition small_config :: chain_config where
  "small_config = \<lparr>chainId = 1, inProposal = True, proxy = [], impl = [], priority_ids = [2, 7], rpcs = []\<rparr>"

theorem bind_plan_covers_every_service_witness:
  "\<exists>bs gs p w'. planAll sim_client [2] [1, 3] 30000000 small_world = ((bs, gs, p), w') \<and>
     concat bs = [2, 1, 3] \<and> concat (take p bs) = [2]"
proof -
  have b: "buildIds sim_client small_config small_world = (Inr ([2], [1, 3], 3), small_world)"
    by (simp add: buildIds_def sim_client_def small_config_def small_world_def jbind_def upt_rec [of _ 3] upt_rec [of _ 2])
  obtain bs gs p w' where p: "planAll sim_client [2] [1, 3] 30000000 small_world = ((bs, gs, p), w')"
    by (metis surj_pair)
  from bind_plan_covers_every_service [OF b p] show ?thesis
    using p by (auto simp: small_config_def)
qed

lemmas sim_eval = sim_client_def sim_await_def sim_cost_def bindMultisig_def bind_loop_effect
  sendOne.simps submit_try.simps jbind_def jret_def small_world_def small_manager_def

lemma sim_reads:
  "service_multisig sim_client i w = (Inr (multisigs (sim_manager w) (of_nat i)), w)"
  "bound_service sim_client a w = (Inr (unat (mapMultisigServiceIds (sim_manager w) a)), w)"
  by (simp_all add: sim_client_def)

lemma sim_verify_returns: "\<exists>ok miss. verify sim_client ids w = (Inr (ok, miss), w)"
proof (induction ids)
  case (Cons i ids)
  then obtain ok miss where "verify sim_client ids w = (Inr (ok, miss), w)" by blast
  then show ?case
    by (cases "multisigs (sim_manager w) (of_nat i) = 0") (simp_all add: sim_reads jret_def)
qed simp

lemma small_send:
  "\<exists>g w'. send sim_client [[2], [1, 3]] [100000, 200000] 30000000 (LegacyGasPrice 1) small_world = (Inr g, w') \<and>
     skips (sim_msgs w') = [] \<and> mapMultisigServiceIds (sim_manager w') 11 = 1"
  by (simp add: sim_eval)

lemma small_view: "fst (sim_view small_world) = (\<lambda>i. if i = 1 then 11 else if i = 2 then 12 else 0)"
  "snd (sim_view small_world) = (\<lambda>_. 0)"
  by (simp_all add: sim_view_def small_world_def small_manager_def multisigs_def fun_eq_iff)

theorem bind_send_binds_or_reports_witness:
  "\<exists>g w'. send sim_client [[2], [1, 3]] [100000, 200000] 30000000 (LegacyGasPrice 1) small_world = (Inr g, w') \<and>
     snd (sim_view w') 12 \<noteq> 0"
proof -
  obtain g w' where s: "send sim_client [[2], [1, 3]] [100000, 200000] 30000000 (LegacyGasPrice 1) small_world = (Inr g, w')"
    and sk: "skips (sim_msgs w') = []"
    using small_send by blast
  have sk0: "skips (sim_msgs small_world) = []"
    by (simp add: small_world_def)
  have "set (concat [[2], [1, 3]]) \<subseteq> {1..2 ^ 53 :: nat}" by auto
  from bind_send_binds_or_reports [OF sim.bind_chain_axioms s _ this] sk sk0
  have "\<forall>i\<in>{2, 1, 3}. fst (sim_view small_world) (of_nat i) \<noteq> 0 \<longrightarrow>
      snd (sim_view w') (fst (sim_view small_world) (of_nat i)) \<noteq> 0"
    by auto
  from bspec [OF this, of 2] s show ?thesis
    by (auto simp: small_view)
qed


definition shared_world :: sim_world where
  "shared_world = small_world\<lparr>sim_manager := small_manager\<lparr>registry := (registry small_manager)
     \<lparr>mapServices := (\<lambda>i. empty_service\<lparr>multisig := (if i = 1 \<or> i = 2 then 11 else 0)\<rparr>)\<rparr>\<rparr>\<rparr>"

lemma shared_send:
  "\<exists>g w'. send sim_client [[2], [1, 3]] [100000, 200000] 30000000 (LegacyGasPrice 1) shared_world = (Inr g, w') \<and>
     skips (sim_msgs w') = [] \<and> mapMultisigServiceIds (sim_manager w') 11 = 2"
  by (simp add: sim_eval shared_world_def multisigs_def)

lemma shared_view: "fst (sim_view shared_world) = (\<lambda>i. if i = 1 \<or> i = 2 then 11 else 0)" "snd (sim_view shared_world) = (\<lambda>_. 0)"
  by (simp_all add: sim_view_def shared_world_def small_world_def small_manager_def multisigs_def fun_eq_iff)

theorem verification_reports_shared_and_foreign_witness:
  "\<exists>g w1 ok miss. send sim_client [[2], [1, 3]] [100000, 200000] 30000000 (LegacyGasPrice 1) shared_world = (Inr g, w1) \<and>
     fst (verify sim_client [1, 2, 3] w1) = Inr (ok, miss) \<and> set miss = {1}"
proof -
  obtain g w1 where s: "send sim_client [[2], [1, 3]] [100000, 200000] 30000000 (LegacyGasPrice 1) shared_world = (Inr g, w1)"
    and sk: "skips (sim_msgs w1) = skips (sim_msgs shared_world)" and b: "snd (sim_view w1) 11 = 2"
    using shared_send by (auto simp: shared_world_def small_world_def sim_view_def)
  obtain ok miss w2 where v: "verify sim_client [1, 2, 3] w1 = (Inr (ok, miss), w2)"
    using sim_verify_returns by blast
  have l: "length [100000, 200000 :: nat] = length [[2], [1, 3 :: nat]]" and ids: "set (concat [[2], [1, 3]]) \<subseteq> {1..2 ^ 53 :: nat}"
    and sub: "set [1, 2, 3] \<subseteq> set (concat [[2], [1, 3 :: nat]])" by auto
  note iff = spec [OF conjunct2 [OF verification_reports_shared_and_foreign [OF sim.bind_chain_axioms s l ids sk v sub]], unfolded shared_view]
  have "1 \<in> set miss" "2 \<notin> set miss" "3 \<notin> set miss" using iff [of 1] iff [of 2] iff [of 3] b by simp_all
  moreover have "set miss \<subseteq> {1, 2, 3}" using iff by auto
  ultimately have "set miss = {1}" by blast
  with s v show ?thesis by auto
qed

end
