(* ===== verification/Check_Coverage.thy ===== *)
theory Check_Coverage
  imports Bind_Fix
begin

text \<open>
  The script \<^verbatim>\<open>scripts/multisig_binding/check_coverage.js\<close>: it reads every service's multisig and its
  claim through the Multicall3 contract, in chunks, and reports the services whose multisig is not
  claimed. The network, Multicall3 and the ABI codec are code outside the repository: the record
  \<open>cover_client\<close>. A call answers a success flag and return data; decoding may fail.
\<close>

section \<open>The script\<close>

datatype cc_call = GetMultisig nat | GetClaim address

record 'w cover_client =
  cc_responsive :: "string \<Rightarrow> ('w, bool) js"
  cc_registry :: "('w, string) js"
  cc_supply :: "('w, nat) js"
  aggregate3 :: "cc_call list \<Rightarrow> ('w, (bool \<times> string) list) js"
  decode_multisig :: "string \<Rightarrow> address option"
  decode_claim :: "string \<Rightarrow> nat option"

definition COVERAGE_CHAINS :: "(string \<times> string \<times> string list) list" where
  "COVERAGE_CHAINS = [
    (''ethereum'', ''0x94a1892D91c05D0C61c3f49F42205D2285b914c9'', [''https://eth.llamarpc.com'',
       ''https://ethereum-rpc.publicnode.com'', ''https://eth.drpc.org'', ''https://1rpc.io/eth'']),
    (''gnosis'', ''0x068a4f0946cF8c7f9C1B58a3b5243Ac8843bf473'', [''https://rpc.gnosischain.com'',
       ''https://gnosis-rpc.publicnode.com'', ''https://gnosis.drpc.org'']),
    (''optimism'', ''0xA5C7FbCCFf28441b7d250412b0Fb87AA1c8b14AD'', [''https://optimism.drpc.org'',
       ''https://optimism-rpc.publicnode.com'', ''https://mainnet.optimism.io'']),
    (''polygon'', ''0xE3e5Df46060370af5Fd37B2aA11e7dac3cCB4bd0'', [''https://polygon.drpc.org'',
       ''https://polygon-bor-rpc.publicnode.com'', ''https://1rpc.io/matic'']),
    (''base'', ''0x1262136cac6a06A782DC94eb3a3dF0b4d09FF6A6'', [''https://mainnet.base.org'',
       ''https://base.drpc.org'', ''https://base-rpc.publicnode.com'']),
    (''arbitrum'', ''0xD421f433e36465B3e558B1121F584ac09Fc33DF8'', [''https://arb1.arbitrum.io/rpc'',
       ''https://arbitrum-one-rpc.publicnode.com'', ''https://arbitrum.drpc.org'']),
    (''celo'', ''0x84B4DA67B37B1EA1dea9c7044042C1d2297b80a0'', [''https://forno.celo.org'',
       ''https://celo.drpc.org'', ''https://1rpc.io/celo'']),
    (''mode'', ''0xcDdD9D9ABaB36fFa882530D69c73FeE5D4001C2d'', [''https://mainnet.mode.network'',
       ''https://mode.drpc.org''])]"

definition ORDER :: "string list" where
  "ORDER = [''ethereum'', ''gnosis'', ''optimism'', ''polygon'', ''base'', ''arbitrum'', ''celo'', ''mode'']"

fun cc_connect :: "'w cover_client \<Rightarrow> string \<Rightarrow> string list \<Rightarrow> ('w, string) js" where
  "cc_connect C chain [] = jthrow (''no RPC for '' @ chain)"
| "cc_connect C chain (url # urls) =
     jbind (jtry (cc_responsive C url) (\<lambda>_. jret False)) (\<lambda>up.
       if up then jret url else cc_connect C chain urls)"

definition CHUNK :: nat where "CHUNK = 600"

text \<open>\<^verbatim>\<open>multicall\<close>: return data per call, \<open>None\<close> for a call that failed.\<close>

function multicall :: "'w cover_client \<Rightarrow> cc_call list \<Rightarrow> ('w, string option list) js" where
  "multicall C calls =
     (if calls = [] then jret []
      else jbind (aggregate3 C (take CHUNK calls)) (\<lambda>res.
        jbind (multicall C (drop CHUNK calls)) (\<lambda>out.
          jret (map (\<lambda>(ok, d). if ok then Some d else None) res @ out))))"
  by pat_completeness auto
termination
  by (relation "measure (\<lambda>(C, calls). length calls)") (auto simp: CHUNK_def)

declare multicall.simps [simp del]

record coverage =
  cov_supply :: nat
  cov_withMs :: nat
  cov_noMs :: int
  cov_unbound :: "nat list"
  cov_rpcFail :: nat

text \<open>A multisig as the script reads it: the zero address when the call failed, null when it does not decode.\<close>

definition read_multisig :: "'w cover_client \<Rightarrow> string option \<Rightarrow> address option" where
  "read_multisig C s = (case s of None \<Rightarrow> Some 0 | Some d \<Rightarrow> decode_multisig C d)"

definition read_claim :: "'w cover_client \<Rightarrow> string option \<Rightarrow> bool" where
  "read_claim C c = (case c of None \<Rightarrow> False
     | Some d \<Rightarrow> (case decode_claim C d of None \<Rightarrow> False | Some b \<Rightarrow> b \<noteq> 0))"

definition count_null :: "string option list \<Rightarrow> nat" where
  "count_null xs = length (filter (\<lambda>x. x = None) xs)"

definition checkChain :: "'w cover_client \<Rightarrow> string \<Rightarrow> string list \<Rightarrow> ('w, coverage) js" where
  "checkChain C chain urls =
     jbind (cc_connect C chain urls) (\<lambda>_. jbind (cc_registry C) (\<lambda>_. jbind (cc_supply C) (\<lambda>ts.
     jbind (multicall C (map GetMultisig [1..<Suc ts])) (\<lambda>svc.
       let ids = map Suc [0..<length svc];
           ms = map (read_multisig C) svc;
           withMs = filter (\<lambda>i. case ms ! (i - 1) of None \<Rightarrow> False | Some a \<Rightarrow> a \<noteq> 0) ids
       in jbind (multicall C (map (\<lambda>i. GetClaim (the (ms ! (i - 1)))) withMs)) (\<lambda>claims.
          jret \<lparr>cov_supply = ts, cov_withMs = length withMs, cov_noMs = int ts - int (length withMs),
            cov_unbound = map fst (filter (\<lambda>(i, c). \<not> read_claim C c)
              (zip withMs (claims @ replicate (length withMs - length claims) None))),
            cov_rpcFail = count_null svc + count_null claims\<rparr>)))))"

text \<open>The outer loop: a chain that fails is reported and the next one is tried.\<close>

datatype summary = CovOK string | CovUnbound string nat | CovERR string

fun cc_run :: "'w cover_client \<Rightarrow> string list \<Rightarrow> 'w \<Rightarrow> summary list \<times> 'w" where
  "cc_run C [] w = ([], w)"
| "cc_run C (chain # names) w =
     (let (r, w1) = (case map_of COVERAGE_CHAINS chain of
            None \<Rightarrow> (Inl ''TypeError'', w)
          | Some (px, urls) \<Rightarrow> checkChain C chain urls w);
          s = (case r of
                 Inl _ \<Rightarrow> CovERR chain
               | Inr c \<Rightarrow> (if cov_unbound c = [] then CovOK chain
                          else CovUnbound chain (length (cov_unbound c))));
          (rest, w2) = cc_run C names w1
      in (s # rest, w2))"

definition coverage_main :: "'w cover_client \<Rightarrow> string option \<Rightarrow> 'w \<Rightarrow> summary list \<times> 'w" where
  "coverage_main C only w = cc_run C (case only of Some c \<Rightarrow> [c] | None \<Rightarrow> ORDER) w"

section \<open>What the script relies on\<close>

text \<open>
  One answer per call, successful answers decode to the state of the chain, reads change nothing.
  Calls may fail one by one.
\<close>

definition answers :: "'w cover_client \<Rightarrow> bind_view \<Rightarrow> cc_call \<Rightarrow> string \<Rightarrow> bool" where
  "answers C v c d = (case c of
     GetMultisig i \<Rightarrow> decode_multisig C d = Some (fst v (of_nat i))
   | GetClaim a \<Rightarrow> decode_claim C d = Some (unat (snd v a)))"

locale cover_chain =
  fixes C :: "'w cover_client" and view :: "'w \<Rightarrow> bind_view" and minted :: "'w \<Rightarrow> nat"
  assumes aggregate_answers: "aggregate3 C calls w = (Inr res, w') \<Longrightarrow>
      w' = w \<and> list_all2 (\<lambda>c (ok, d). ok \<longrightarrow> answers C (view w) c d) calls res"
    and supply_reads: "cc_supply C w = (Inr n, w') \<Longrightarrow> w' = w \<and> n = minted w"
    and registry_reads: "cc_registry C w = (Inr s, w') \<Longrightarrow> w' = w"
    and ping_reads: "cc_responsive C url w = (r, w') \<Longrightarrow> w' = w"
begin

lemma connect_reads: "cc_connect C chain urls w = (Inr u, w') \<Longrightarrow> w' = w"
proof (induction urls arbitrary: w)
  case (Cons url urls)
  obtain r w1 where p: "cc_responsive C url w = (r, w1)" by (metis surj_pair)
  with ping_reads have "w1 = w" by blast
  with Cons p show ?case
    by (cases r) (auto simp: jtry_def jbind_def split: if_splits)
qed simp

lemma multicall_answers:
  "multicall C calls w = (Inr out, w') \<Longrightarrow> w' = w \<and>
     list_all2 (\<lambda>c x. case x of None \<Rightarrow> True | Some d \<Rightarrow> answers C (view w) c d) calls out"
proof (induction "length calls" arbitrary: calls out w' rule: less_induct)
  case less
  show ?case
  proof (cases "calls = []")
    case True
    with less.prems show ?thesis by (simp add: multicall.simps)
  next
    case False
    with less.prems obtain res w1 out1 where agg: "aggregate3 C (take CHUNK calls) w = (Inr res, w1)"
      and rest: "multicall C (drop CHUNK calls) w1 = (Inr out1, w')"
      and out: "out = map (\<lambda>(ok, d). if ok then Some d else None) res @ out1"
      by (subst (asm) multicall.simps) auto
    note a = aggregate_answers [OF agg]
    have "length (drop CHUNK calls) < length calls"
      using False by (simp add: CHUNK_def)
    from less.hyps [OF this, of out1 w'] rest a have ih: "w' = w"
      "list_all2 (\<lambda>c x. case x of None \<Rightarrow> True | Some d \<Rightarrow> answers C (view w) c d) (drop CHUNK calls) out1"
      by auto
    have "list_all2 (\<lambda>c x. case x of None \<Rightarrow> True | Some d \<Rightarrow> answers C (view w) c d)
        (take CHUNK calls) (map (\<lambda>(ok, d). if ok then Some d else None) res)"
      using a unfolding list_all2_map2 by (auto elim!: list_all2_mono)
    from list_all2_appendI [OF this ih(2)] ih(1) out show ?thesis by simp
  qed
qed

lemma readable_multisigs:
  assumes "list_all2 (\<lambda>c x. case x of None \<Rightarrow> True | Some d \<Rightarrow> answers C v c d) (map GetMultisig is) svc"
    and "count_null svc = 0"
  shows "map (read_multisig C) svc = map (\<lambda>i. Some (fst v (of_nat i))) is"
  using assms
proof (induction "is" svc rule: list_induct2')
  case (4 i "is" x svc)
  then show ?case
    by (cases x) (auto simp: read_multisig_def answers_def count_null_def split: if_splits)
qed (auto simp: count_null_def)

lemma readable_claims:
  assumes "list_all2 (\<lambda>c x. case x of None \<Rightarrow> True | Some d \<Rightarrow> answers C v c d) (map (\<lambda>i. GetClaim (f i)) is) cs"
    and "count_null cs = 0"
  shows "map fst (filter (\<lambda>(i, c). \<not> read_claim C c) (zip is (cs @ replicate (length is - length cs) None)))
     = filter (\<lambda>i. snd v (f i) = 0) is"
  using assms
proof (induction "is" cs rule: list_induct2')
  case (4 i "is" x cs)
  then show ?case
    by (cases x) (auto simp: read_claim_def answers_def count_null_def unat_eq_0 split: if_splits)
qed (auto simp: count_null_def)

lemma checkChain_exact:
  assumes "checkChain C chain urls w = (Inr c, w')" and "cov_rpcFail c = 0"
  shows "w' = w \<and> cov_supply c = minted w \<and>
    cov_unbound c = filter (\<lambda>i. fst (view w) (of_nat i) \<noteq> 0 \<and> snd (view w) (fst (view w) (of_nat i)) = 0)
      [1..<Suc (minted w)]"
proof -
  let ?ms = "\<lambda>i. fst (view w) (of_nat i)"
  from assms(1) obtain u w1 s w2 ts w3 svc w4 where
      c1: "cc_connect C chain urls w = (Inr u, w1)" and c2: "cc_registry C w1 = (Inr s, w2)"
    and c3: "cc_supply C w2 = (Inr ts, w3)" and c4: "multicall C (map GetMultisig [1..<Suc ts]) w3 = (Inr svc, w4)"
    and tail: "(let ids = map Suc [0..<length svc]; ms = map (read_multisig C) svc;
         withMs = filter (\<lambda>i. case ms ! (i - 1) of None \<Rightarrow> False | Some a \<Rightarrow> a \<noteq> 0) ids
       in jbind (multicall C (map (\<lambda>i. GetClaim (the (ms ! (i - 1)))) withMs)) (\<lambda>claims.
          jret \<lparr>cov_supply = ts, cov_withMs = length withMs, cov_noMs = int ts - int (length withMs),
            cov_unbound = map fst (filter (\<lambda>(i, c). \<not> read_claim C c)
              (zip withMs (claims @ replicate (length withMs - length claims) None))),
            cov_rpcFail = count_null svc + count_null claims\<rparr>)) w4 = (Inr c, w')"
    unfolding checkChain_def by blast
  have w: "w1 = w" "w2 = w" "w3 = w" "ts = minted w" "w4 = w"
    using connect_reads [OF c1] registry_reads [OF c2] supply_reads [OF c3] multicall_answers [OF c4] by auto
  note svc = conjunct2 [OF multicall_answers [OF c4]]
  from list_all2_lengthD [OF this] have len: "length svc = ts" by (simp del: upt_Suc)
  let ?ids = "[1..<Suc ts]"
  define ms where "ms = map (read_multisig C) svc"
  define withMs where "withMs = filter (\<lambda>i. case ms ! (i - 1) of None \<Rightarrow> False | Some a \<Rightarrow> a \<noteq> 0) ?ids"
  have ids: "map Suc [0..<length svc] = ?ids"
    by (simp add: len map_Suc_upt)
  from tail [unfolded ids Let_def, folded ms_def, folded withMs_def] obtain claims where
      c5: "multicall C (map (\<lambda>i. GetClaim (the (ms ! (i - 1)))) withMs) w4 = (Inr claims, w')"
    and c: "c = \<lparr>cov_supply = ts, cov_withMs = length withMs, cov_noMs = int ts - int (length withMs),
            cov_unbound = map fst (filter (\<lambda>(i, c). \<not> read_claim C c)
              (zip withMs (claims @ replicate (length withMs - length claims) None))),
            cov_rpcFail = count_null svc + count_null claims\<rparr>"
    by auto
  have "count_null svc = 0" "count_null claims = 0"
    using assms(2) by (simp_all add: c)
  note fails = this
  have msl: "ms = map (\<lambda>i. Some (?ms i)) ?ids"
    using readable_multisigs [OF svc fails(1)] by (simp add: ms_def w)
  have at: "ms ! (i - 1) = Some (?ms i)" if "i \<in> set ?ids" for i
    using that unfolding msl by (subst nth_map) (auto simp del: upt_Suc)
  have withMs: "withMs = filter (\<lambda>i. ?ms i \<noteq> 0) ?ids"
    unfolding withMs_def by (rule filter_cong [OF refl]) (simp only: at option.case)
  have cl: "map (\<lambda>i. GetClaim (the (ms ! (i - 1)))) withMs = map (\<lambda>i. GetClaim (?ms i)) withMs"
    unfolding withMs by (rule map_cong [OF refl]) (simp only: set_filter mem_Collect_eq at option.sel)
  from multicall_answers [OF c5, unfolded cl w(5)] have "w' = w" and
    "list_all2 (\<lambda>c x. case x of None \<Rightarrow> True | Some d \<Rightarrow> answers C (view w) c d) (map (\<lambda>i. GetClaim (?ms i)) withMs) claims"
    by blast+
  from readable_claims [OF this(2) fails(2)] \<open>w' = w\<close> show ?thesis
    by (simp add: c w(4) withMs conj_commute del: upt_Suc)
qed

end

section \<open>A chain that runs the contract\<close>

text \<open>
  Return data in the simulation is the value in unary; every call succeeds. The world is the manager contract and
  the number of services.
\<close>

definition unary :: "nat \<Rightarrow> string" where
  "unary n = replicate n CHR ''1''"

definition sim_answer :: "service_manager \<Rightarrow> cc_call \<Rightarrow> bool \<times> string" where
  "sim_answer m c = (True, case c of
      GetMultisig i \<Rightarrow> unary (unat (multisigs m (of_nat i)))
    | GetClaim a \<Rightarrow> unary (unat (mapMultisigServiceIds m a)))"

definition sim_cover :: "(service_manager \<times> nat) cover_client" where
  "sim_cover = \<lparr>cc_responsive = (\<lambda>_. jret True), cc_registry = jret [],
     cc_supply = (\<lambda>w. (Inr (snd w), w)),
     aggregate3 = (\<lambda>calls w. (Inr (map (sim_answer (fst w)) calls), w)),
     decode_multisig = (\<lambda>d. Some (of_nat (length d))), decode_claim = (\<lambda>d. Some (length d))\<rparr>"

definition sim_cover_view :: "service_manager \<times> nat \<Rightarrow> bind_view" where
  "sim_cover_view w = (multisigs (fst w), mapMultisigServiceIds (fst w))"

interpretation simc: cover_chain sim_cover sim_cover_view snd
  by unfold_locales
    (auto simp: sim_cover_def sim_cover_view_def sim_answer_def answers_def unary_def list_all2_map2 list_all2_same
      jret_def split: cc_call.splits)

section \<open>Properties\<close>

text \<open>
  C23. Coverage: when no call failed, the ids the check reports as unbound are exactly, in order, the services
  up to the total supply that have a multisig nobody has claimed.
\<close>

theorem coverage_reports_exactly_the_unbound:
  assumes "cover_chain C view minted" and "checkChain C chain urls w = (Inr c, w')" and "cov_rpcFail c = 0"
  shows "cov_supply c = minted w \<and>
    cov_unbound c = filter (\<lambda>i. fst (view w) (of_nat i) \<noteq> 0 \<and> snd (view w) (fst (view w) (of_nat i)) = 0)
      [1..<Suc (minted w)]"
  using cover_chain.checkChain_exact [OF assms] by blast

definition bound_manager :: service_manager where
  "bound_manager = small_manager\<lparr>mapMultisigServiceIds := (\<lambda>_. 0)(11 := 1)\<rparr>"

lemmas cover_eval = checkChain_def sim_cover_def jbind_def jret_def jtry_def multicall.simps CHUNK_def sim_answer_def
  bound_manager_def small_manager_def multisigs_def unary_def count_null_def read_claim_def read_multisig_def
  upt_rec [of _ 4] upt_rec [of _ 3] upt_rec [of _ 2]

theorem coverage_reports_exactly_the_unbound_witness:
  "\<exists>c. fst (checkChain sim_cover ''gnosis'' [''url''] (bound_manager, 3)) = Inr c \<and> cov_unbound c = [2]"
proof -
  obtain c w' where c: "checkChain sim_cover ''gnosis'' [''url''] (bound_manager, 3) = (Inr c, w')" "cov_rpcFail c = 0"
    by (simp add: cover_eval)
  from coverage_reports_exactly_the_unbound [OF simc.cover_chain_axioms c] have "cov_unbound c = [2]"
    by (simp add: sim_cover_view_def bound_manager_def small_manager_def multisigs_def upt_rec [of _ 4] upt_rec [of _ 3] upt_rec [of _ 2])
  with c show ?thesis by auto
qed

end
