(* ===== verification/Deployment_World.thy ===== *)
theory Deployment_World
  imports Js_Runtime
begin

text \<open>
  What the deployment scripts act on: the parsed \<^verbatim>\<open>globals.json\<close>, the environment variables, the
  signer, the chain with the contracts the scripts deploy, and the shell command they run.

  The contracts are kept to what the scripts and the audit read and write: owner, manager, drainer,
  whitelisted multisigs and implementations, and the constructor arguments; constructors and
  setters are those of the Solidity sources. What the scripts only call is a field of the world that they
  never change: the addresses and transaction hashes the chain gives out, whether a transaction is
  mined as soon as it is sent, which endpoints answer, \<^verbatim>\<open>parseUnits\<close> of the library, and what
  the explorer accepts.
\<close>

section \<open>JSON values and the globals file\<close>

text \<open>
  \<open>JAddr a\<close> stands for the checksummed string form of the address \<open>a\<close>; \<open>JUndef\<close> is a field that is not there.
\<close>

datatype json = JUndef | JNull | JBool bool | JNum nat | JStr string | JAddr address

type_synonym globals = "(string \<times> json) list"

definition getf :: "globals \<Rightarrow> string \<Rightarrow> json" where
  "getf g k = (case map_of g k of None \<Rightarrow> JUndef | Some v \<Rightarrow> v)"

text \<open>\<^verbatim>\<open>parsedData.key = value\<close> keeps the position of an existing key and appends a new one.\<close>

fun putf :: "string \<Rightarrow> json \<Rightarrow> globals \<Rightarrow> globals" where
  "putf k v [] = [(k, v)]"
| "putf k v ((k', v') # g) = (if k = k' then (k, v) # g else (k', v') # putf k v g)"

fun truthy :: "json \<Rightarrow> bool" where
  "truthy JUndef = False"
| "truthy JNull = False"
| "truthy (JBool b) = b"
| "truthy (JNum n) = (n \<noteq> 0)"
| "truthy (JStr s) = (s \<noteq> [])"
| "truthy (JAddr a) = True"

fun is_str :: "json \<Rightarrow> bool" where
  "is_str (JStr _) = True"
| "is_str (JAddr _) = True"
| "is_str _ = False"

fun as_addr :: "json \<Rightarrow> address option" where
  "as_addr (JAddr a) = Some a"
| "as_addr _ = None"

fun as_num :: "json \<Rightarrow> nat option" where
  "as_num (JNum n) = Some n"
| "as_num (JStr s) = (if s \<noteq> [] \<and> list_all is_digit s then Some (decimal s) else None)"
| "as_num _ = None"

text \<open>A 32-byte hash as a hex string, and the test for the zero hash.\<close>

fun as_hash :: "json \<Rightarrow> string option" where
  "as_hash (JStr s) = (if length s = 66 \<and> take 2 s = ''0x'' then Some s else None)"
| "as_hash _ = None"

definition zero_hash :: "string \<Rightarrow> bool" where
  "zero_hash s \<longleftrightarrow> list_all (\<lambda>c. c = CHR ''0'') (drop 2 s)"

lemma getf_putf [simp]: "getf (putf k v g) k' = (if k = k' then v else getf g k')"
  by (induction k v g rule: putf.induct) (auto simp: getf_def)

text \<open>\<^verbatim>\<open>String(v)\<close>, as \<^verbatim>\<open>+=\<close> on a string converts its right operand.\<close>

fun nat_str_aux :: "nat \<Rightarrow> nat \<Rightarrow> nat \<Rightarrow> string" where
  "nat_str_aux base 0 n = []"
| "nat_str_aux base (Suc fuel) n =
     (if n < base then [''0123456789abcdef'' ! n]
      else nat_str_aux base fuel (n div base) @ [''0123456789abcdef'' ! (n mod base)])"

definition nat_str :: "nat \<Rightarrow> string" where
  "nat_str n = nat_str_aux 10 (Suc n) n"

definition hex_str :: "nat \<Rightarrow> nat \<Rightarrow> string" where
  "hex_str width n = (let s = nat_str_aux 16 (Suc n) n in replicate (width - length s) (CHR ''0'') @ s)"

fun to_str :: "json \<Rightarrow> string" where
  "to_str JUndef = ''undefined''"
| "to_str JNull = ''null''"
| "to_str (JBool b) = (if b then ''true'' else ''false'')"
| "to_str (JNum n) = nat_str n"
| "to_str (JStr s) = s"
| "to_str (JAddr a) = ''0x'' @ hex_str 40 (unat a)"

lemma putf_putf: "putf k v (putf k v' g) = putf k v g"
  by (induction k v g rule: putf.induct) auto

section \<open>Contracts\<close>

record contract =
  c_kind :: string
  c_args :: "json list"
  c_owner :: address
  c_manager :: address
  c_drainer :: address
  c_multisigs :: "address \<Rightarrow> bool"
  c_impls :: "address \<Rightarrow> bool"
  c_check :: bool

definition new_contract :: "string \<Rightarrow> json list \<Rightarrow> address \<Rightarrow> contract" where
  "new_contract kind args own = \<lparr>c_kind = kind, c_args = args, c_owner = own, c_manager = 0, c_drainer = 0,
     c_multisigs = (\<lambda>_. False), c_impls = (\<lambda>_. False), c_check = False\<rparr>"

text \<open>
  The constructors, by contract name. A wrong number or kind of arguments is refused by the
  library before anything is sent; \<open>None\<close> for a name that is not an artifact of the repository.
\<close>

definition bad_args :: "'a res" where
  "bad_args = Inl (Require ''argument error'')"

definition construct_registry :: "address \<Rightarrow> string \<Rightarrow> json list \<Rightarrow> contract res" where
  "construct_registry sender kind args =
     (case args of
        [n, s, u] \<Rightarrow> (if kind \<in> {''ComponentRegistry'', ''ServiceRegistryL2''} \<and> is_str n \<and> is_str s \<and> is_str u
                      then Inr (new_contract kind args sender) else bad_args)
      | [n, s, u, a] \<Rightarrow> (if kind \<in> {''AgentRegistry'', ''ServiceRegistry''} \<and> is_str n \<and> is_str s \<and> is_str u
                         \<and> as_addr a \<noteq> None then Inr (new_contract kind args sender) else bad_args)
      | _ \<Rightarrow> bad_args)"

definition construct_one_address :: "address \<Rightarrow> string \<Rightarrow> json list \<Rightarrow> bool \<Rightarrow> address \<Rightarrow> contract res" where
  "construct_one_address sender kind args check_zero own =
     (case map as_addr args of
        [Some a] \<Rightarrow> (if check_zero \<and> a = 0 then Inl ZeroAddress else Inr (new_contract kind args own))
      | _ \<Rightarrow> bad_args)"

definition construct_two_addresses :: "address \<Rightarrow> string \<Rightarrow> json list \<Rightarrow> bool \<Rightarrow> address \<Rightarrow> contract res" where
  "construct_two_addresses sender kind args check_zero own =
     (case map as_addr args of
        [Some a, Some b] \<Rightarrow> (if check_zero \<and> (a = 0 \<or> b = 0) then Inl ZeroAddress
                             else Inr (new_contract kind args own))
      | _ \<Rightarrow> bad_args)"

definition construct_verifier :: "address \<Rightarrow> json list \<Rightarrow> contract res" where
  "construct_verifier sender args =
     (case args of
        [olas, sr, tu, n1, n2, n3, n4] \<Rightarrow>
          (case (as_addr olas, as_addr sr, as_addr tu, map as_num [n1, n2, n3, n4]) of
             (Some o', Some r, Some t, [Some x1, Some x2, Some x3, Some x4]) \<Rightarrow>
               if o' = 0 \<or> r = 0 then Inl ZeroAddress
               else if x1 = 0 \<or> x2 = 0 \<or> x3 = 0 \<or> x4 = 0 then Inl ZeroValue
               else Inr (new_contract ''StakingVerifier'' args sender)
           | _ \<Rightarrow> bad_args)
      | _ \<Rightarrow> bad_args)"

definition construct_same_address :: "json list \<Rightarrow> contract res" where
  "construct_same_address args =
     (case map as_hash args of
        [Some h] \<Rightarrow> (if zero_hash h then Inl ZeroValue
                     else Inr (new_contract ''GnosisSafeSameAddressMultisig'' args 0))
      | _ \<Rightarrow> bad_args)"

definition ARTIFACTS :: "string list" where
  "ARTIFACTS = [''ComponentRegistry'', ''AgentRegistry'', ''RegistriesManager'', ''ServiceRegistry'',
     ''ServiceRegistryL2'', ''OperatorWhitelist'', ''ServiceRegistryTokenUtility'', ''ServiceManager'',
     ''ServiceManagerProxy'', ''GnosisSafeMultisig'', ''GnosisSafeSameAddressMultisig'', ''StakingToken'',
     ''StakingNativeToken'', ''StakingVerifier'', ''StakingFactory'', ''HashCheckpoint'']"

text \<open>
  The proxy delegates \<^verbatim>\<open>initialize()\<close> to its implementation in its constructor: the service manager makes
  the sender the owner of the proxy, and a call to an address without code succeeds and does nothing.
\<close>

definition construct_proxy :: "(address \<Rightarrow> contract option) \<Rightarrow> address \<Rightarrow> json list \<Rightarrow> contract res" where
  "construct_proxy cs sender args =
     (case args of
        [impl, data] \<Rightarrow>
          (case as_addr impl of
             None \<Rightarrow> bad_args
           | Some a \<Rightarrow>
               if a = 0 then Inl ZeroAddress
               else if data = JStr [] then Inl ZeroValue
               else if data \<noteq> JStr ''initialize()'' then Inl CallReverted
               else (case cs a of
                  None \<Rightarrow> Inr (new_contract ''ServiceManagerProxy'' args 0)
                | Some c \<Rightarrow> if c_kind c = ''ServiceManager'' then Inr (new_contract ''ServiceManagerProxy'' args sender)
                            else Inl CallReverted))
      | _ \<Rightarrow> bad_args)"

definition construct :: "(address \<Rightarrow> contract option) \<Rightarrow> address \<Rightarrow> string \<Rightarrow> json list \<Rightarrow> contract res" where
  "construct cs sender kind args =
     (if kind \<in> {''ComponentRegistry'', ''AgentRegistry'', ''ServiceRegistry'', ''ServiceRegistryL2''}
        then construct_registry sender kind args
      else if kind = ''RegistriesManager'' then construct_two_addresses sender kind args False sender
      else if kind = ''OperatorWhitelist'' then construct_one_address sender kind args True 0
      else if kind = ''ServiceRegistryTokenUtility'' then construct_one_address sender kind args True sender
      else if kind = ''ServiceManager'' then construct_two_addresses sender kind args True 0
      else if kind = ''ServiceManagerProxy'' then construct_proxy cs sender args
      else if kind = ''GnosisSafeMultisig'' then construct_two_addresses sender kind args False 0
      else if kind = ''GnosisSafeSameAddressMultisig'' then construct_same_address args
      else if kind \<in> {''StakingToken'', ''StakingNativeToken''}
        then (if args = [] then Inr (new_contract kind args 0) else bad_args)
      else if kind = ''StakingVerifier'' then construct_verifier sender args
      else if kind = ''StakingFactory'' then construct_one_address sender kind args False sender
      else if kind = ''HashCheckpoint''
        then (case args of [u] \<Rightarrow> (if is_str u then Inr (new_contract kind args sender) else bad_args) | _ \<Rightarrow> bad_args)
      else bad_args)"

text \<open>The setters. A contract without the function reverts.\<close>

datatype meth =
    ChangeOwner address
  | ChangeManager address
  | ChangeDrainer address
  | ChangeMultisigPermission address bool
  | SetImplementationsStatuses "address list" "bool list" bool

definition has_owner :: "string \<Rightarrow> bool" where
  "has_owner k \<longleftrightarrow> k \<in> {''ComponentRegistry'', ''AgentRegistry'', ''ServiceRegistry'', ''ServiceRegistryL2'',
     ''RegistriesManager'', ''ServiceRegistryTokenUtility'', ''ServiceManager'', ''ServiceManagerProxy'',
     ''StakingVerifier'', ''StakingFactory'', ''HashCheckpoint''}"

definition has_manager :: "string \<Rightarrow> bool" where
  "has_manager k \<longleftrightarrow> k \<in> {''ComponentRegistry'', ''AgentRegistry'', ''ServiceRegistry'', ''ServiceRegistryL2'',
     ''ServiceRegistryTokenUtility''}"

definition has_drainer :: "string \<Rightarrow> bool" where
  "has_drainer k \<longleftrightarrow> k \<in> {''ServiceRegistry'', ''ServiceRegistryL2'', ''ServiceRegistryTokenUtility''}"

definition has_multisigs :: "string \<Rightarrow> bool" where
  "has_multisigs k \<longleftrightarrow> k \<in> {''ServiceRegistry'', ''ServiceRegistryL2''}"

fun set_statuses :: "(address \<times> bool) list \<Rightarrow> (address \<Rightarrow> bool) \<Rightarrow> (address \<Rightarrow> bool) res" where
  "set_statuses [] m = Inr m"
| "set_statuses ((a, b) # rest) m = (if a = 0 then Inl ZeroAddress else set_statuses rest (m(a := b)))"

fun exec_meth :: "address \<Rightarrow> meth \<Rightarrow> contract \<Rightarrow> contract res" where
  "exec_meth sender (ChangeOwner a) c =
     (if \<not> has_owner (c_kind c) then Inl CallReverted
      else if sender \<noteq> c_owner c then Inl (OwnerOnly sender (c_owner c))
      else if a = 0 then Inl ZeroAddress else Inr (c\<lparr>c_owner := a\<rparr>))"
| "exec_meth sender (ChangeManager a) c =
     (if \<not> has_manager (c_kind c) then Inl CallReverted
      else if sender \<noteq> c_owner c then Inl (OwnerOnly sender (c_owner c))
      else if a = 0 then Inl ZeroAddress else Inr (c\<lparr>c_manager := a\<rparr>))"
| "exec_meth sender (ChangeDrainer a) c =
     (if \<not> has_drainer (c_kind c) then Inl CallReverted
      else if sender \<noteq> c_owner c then Inl (OwnerOnly sender (c_owner c))
      else if a = 0 then Inl ZeroAddress else Inr (c\<lparr>c_drainer := a\<rparr>))"
| "exec_meth sender (ChangeMultisigPermission a b) c =
     (if \<not> has_multisigs (c_kind c) then Inl CallReverted
      else if sender \<noteq> c_owner c then Inl (OwnerOnly sender (c_owner c))
      else if a = 0 then Inl ZeroAddress else Inr (c\<lparr>c_multisigs := (c_multisigs c)(a := b)\<rparr>))"
| "exec_meth sender (SetImplementationsStatuses as bs chk) c =
     (if c_kind c \<noteq> ''StakingVerifier'' then Inl CallReverted
      else if sender \<noteq> c_owner c then Inl (OwnerOnly (c_owner c) sender)
      else if as = [] \<or> length as \<noteq> length bs then Inl (WrongArrayLength (length as) (length bs))
      else rbind (set_statuses (zip as bs) (c_impls c)) (\<lambda>m. Inr (c\<lparr>c_impls := m, c_check := chk\<rparr>)))"

section \<open>The world of a script\<close>

text \<open>
  \<open>globals_file\<close> is \<^verbatim>\<open>globals.json\<close> of the working directory, which all JavaScript scripts read and write; \<open>network_files\<close> are the files
  \<^verbatim>\<open>globals_<network>.json\<close> beside the scripts, by path, which the two shell scripts use.
\<close>

record world =
  globals_file :: globals
  network_files :: "string \<Rightarrow> globals option"
  envvar :: "string \<Rightarrow> string option"
  ledger_address :: address
  signer_address :: address
  private_key_address :: address
  code :: "address \<Rightarrow> contract option"
  pending :: "(address \<times> address \<times> meth) list"
  sent :: "(address \<times> nat option) list"
  submitted :: "(address \<times> json list) list"
  console :: "json list list"
  fresh_address :: "nat \<Rightarrow> address"
  tx_hash :: "nat \<Rightarrow> string"
  automine :: bool
  rpc_up :: "string \<Rightarrow> bool"
  parseUnits :: "json \<Rightarrow> nat option"
  explorer_accepts :: "json \<Rightarrow> address \<Rightarrow> json list \<Rightarrow> bool"

definition console_log :: "json list \<Rightarrow> (world, unit) js" where
  "console_log xs w = (Inr (), w\<lparr>console := console w @ [xs]\<rparr>)"

definition say :: "string \<Rightarrow> (world, unit) js" where
  "say s = console_log [JStr s]"

definition read_globals :: "(world, globals) js" where
  "read_globals w = (Inr (globals_file w), w)"

definition write_globals :: "globals \<Rightarrow> (world, unit) js" where
  "write_globals g w = (Inr (), w\<lparr>globals_file := g\<rparr>)"

text \<open>\<^verbatim>\<open>process.env.KEY\<close>: a string, or undefined.\<close>

definition env_var :: "string \<Rightarrow> (world, json) js" where
  "env_var k w = (Inr (case envvar w k of None \<Rightarrow> JUndef | Some s \<Rightarrow> JStr s), w)"

text \<open>
  \<^verbatim>\<open>useLedger ? new LedgerSigner(provider, derivationPath) : signers[0]\<close>: the ledger sends through the
  provider the script built, the other signer through the network hardhat was started with.
\<close>

datatype signer = Ledger address string | Hardhat address

fun signer_addr :: "signer \<Rightarrow> address" where
  "signer_addr (Ledger a url) = a"
| "signer_addr (Hardhat a) = a"

fun reachable :: "world \<Rightarrow> signer \<Rightarrow> bool" where
  "reachable w (Ledger a url) = rpc_up w url"
| "reachable w (Hardhat a) = True"

definition get_EOA :: "globals \<Rightarrow> string \<Rightarrow> (world, signer) js" where
  "get_EOA g url = (\<lambda>w.
     let EOA = if truthy (getf g ''useLedger'') then Ledger (ledger_address w) url else Hardhat (signer_address w)
     in jbind (console_log [JStr ''EOA is:'', JAddr (signer_addr EOA)]) (\<lambda>_. jret EOA) w)"

definition getContractFactory :: "string \<Rightarrow> (world, unit) js" where
  "getContractFactory kind = (if kind \<in> set ARTIFACTS then jret () else jthrow ''HH700: Artifact not found'')"

text \<open>
  \<^verbatim>\<open>ethers.getContractAt(name, address)\<close> refuses an address that is not one; it does not look at the
  chain.
\<close>

definition getContractAt :: "string \<Rightarrow> json \<Rightarrow> (world, address) js" where
  "getContractAt kind a = jthen (getContractFactory kind)
     (case as_addr a of None \<Rightarrow> jthrow ''invalid contract address or ENS name'' | Some x \<Rightarrow> jret x)"

text \<open>Mining what is pending: a transaction that reverts has no effect.\<close>

fun mine :: "address \<times> address \<times> meth \<Rightarrow> (address \<Rightarrow> contract option) \<Rightarrow> (address \<Rightarrow> contract option)" where
  "mine (sender, a, m) cs =
     (case cs a of None \<Rightarrow> cs
      | Some c \<Rightarrow> (case exec_meth sender m c of Inl _ \<Rightarrow> cs | Inr c' \<Rightarrow> cs(a := Some c')))"

definition settle :: "world \<Rightarrow> world" where
  "settle w = w\<lparr>code := fold mine (pending w) (code w), pending := []\<rparr>"

text \<open>
  \<^verbatim>\<open>Factory.connect(EOA).deploy(args, { gasPrice })\<close> and \<^verbatim>\<open>deployed()\<close>, which waits until the deployment
  and so everything sent before it is mined; the address and the transaction hash.
\<close>

definition deploy_contract :: "signer \<Rightarrow> string \<Rightarrow> json list \<Rightarrow> nat option \<Rightarrow> (world, address \<times> string) js" where
  "deploy_contract EOA kind args gas w =
     (if \<not> reachable w EOA then (Inl ''could not detect network'', w)
      else case construct (code (settle w)) (signer_addr EOA) kind args of
        Inl e \<Rightarrow> (Inl ''deployment reverted'', w)
      | Inr c \<Rightarrow>
          let n = length (sent w); a = fresh_address w n; w' = settle w
          in (Inr (a, tx_hash w n),
              w'\<lparr>code := (code w')(a := Some c), sent := sent w @ [(signer_addr EOA, gas)]\<rparr>))"

text \<open>
  \<^verbatim>\<open>contract.connect(EOA).method(args, { gasPrice })\<close>: the gas estimation runs the call on the current
  state and throws when it reverts; then the transaction is sent, and mined at once or later.
\<close>

definition transact :: "signer \<Rightarrow> address \<Rightarrow> meth option \<Rightarrow> nat option \<Rightarrow> (world, string) js" where
  "transact EOA a m gas w =
     (case m of None \<Rightarrow> (Inl ''invalid argument'', w)
      | Some mth \<Rightarrow>
          if \<not> reachable w EOA then (Inl ''could not detect network'', w)
          else (case code w a of
             None \<Rightarrow> (Inl ''call to a non-contract'', w)
           | Some c \<Rightarrow> (case exec_meth (signer_addr EOA) mth c of
                 Inl e \<Rightarrow> (Inl ''transaction reverted'', w)
               | Inr c' \<Rightarrow>
                   let w' = w\<lparr>sent := sent w @ [(signer_addr EOA, gas)]\<rparr>
                   in (Inr (tx_hash w (length (sent w))),
                       if automine w then w'\<lparr>code := (code w)(a := Some c')\<rparr>
                       else w'\<lparr>pending := pending w @ [(signer_addr EOA, a, mth)]\<rparr>))))"

definition addr_arg :: "(address \<Rightarrow> meth) \<Rightarrow> json \<Rightarrow> meth option" where
  "addr_arg m j = map_option m (as_addr j)"

text \<open>\<^verbatim>\<open>await contract.owner()\<close> reads the mined state.\<close>

definition owner :: "address \<Rightarrow> (world, address) js" where
  "owner a w = (case code w a of
      None \<Rightarrow> (Inl ''call to a non-contract'', w)
    | Some c \<Rightarrow> (if has_owner (c_kind c) then (Inr (c_owner c), w) else (Inl ''call reverted'', w)))"

text \<open>\<^verbatim>\<open>expect(v).to.equal(u)\<close>\<close>

definition expect_equal :: "address \<Rightarrow> json \<Rightarrow> (world, unit) js" where
  "expect_equal v u = (if u = JAddr v then jret () else jthrow ''AssertionError'')"

definition parse_gas :: "json \<Rightarrow> (world, nat) js" where
  "parse_gas j w = (case parseUnits w j of None \<Rightarrow> (Inl ''invalid decimal value'', w) | Some n \<Rightarrow> (Inr n, w))"

text \<open>\<^verbatim>\<open>main().then(() => process.exit(0)).catch((error) => { console.error(error); process.exit(1); })\<close>\<close>

definition run_main :: "(world, unit) js \<Rightarrow> world \<Rightarrow> nat \<times> world" where
  "run_main m w = (case m w of (Inr _, w') \<Rightarrow> (0, w') | (Inl e, w') \<Rightarrow> (1, w'\<lparr>console := console w' @ [[JStr e]]\<rparr>))"

end
