(* ===== verification/Audit_Setup.thy ===== *)
theory Audit_Setup
  imports Deployment_World
begin

text \<open>
  The audit of the deployed contracts, \<^verbatim>\<open>scripts/audit_chains/audit_contracts_setup.js\<close>: for every chain of
  \<^verbatim>\<open>docs/configuration.json\<close> it compares what the contracts answer with the globals file of the chain and
  collects the owners in a CSV file.

  The chains, the files of the repository and the environment variables are fields of \<open>audit_env\<close>; what the
  script prints and writes is the state.
\<close>

section \<open>The environment and the state\<close>

text \<open>
  An artifact has \<^verbatim>\<open>deployedBytecode\<close> as an object with the code (Forge), as the code (Hardhat), or not at all;
  of the ABI only the names of the functions matter. \<open>call\<close> is a read of a function of a contract through an
  endpoint and \<open>getCode\<close> the code at an address, \<open>None\<close> when they throw; \<open>getAddress\<close> is the library's
  reading of a string that is not in checksummed form as an address; \<open>sh_stderr\<close> is what a shell command
  prints to the error stream, which is passed on (\<open>Child\<close>).
\<close>

datatype deployed_bytecode = Forge string | HardhatCode string | NoBytecode

record artifact =
  abi :: "string list"
  deployedBytecode :: deployed_bytecode

record config_contract =
  cc_name :: string
  cc_artifact :: string
  cc_address :: json

record chain_config =
  cfg_name :: string
  cfg_chainId :: json
  cfg_contracts :: "config_contract list"

record audit_env =
  aenv :: "string \<Rightarrow> string option"
  configs :: "chain_config list option"
  read_artifact :: "string \<Rightarrow> artifact option"
  read_globals_file :: "string \<Rightarrow> globals option"
  sh_stderr :: "string \<Rightarrow> string"
  getAddress :: "string \<Rightarrow> address option"
  getCode :: "string \<Rightarrow> json \<Rightarrow> string option"
  call :: "string \<Rightarrow> json \<Rightarrow> string \<Rightarrow> json list \<Rightarrow> json option"

datatype line = Log string | Err string | Child string

record ownership_row =
  r_chainId :: json
  r_contractName :: json
  r_contractAddress :: json
  r_ownerAddress :: json
  r_ownerCategory :: json
  r_expectedDaoExecutor :: json
  r_ownershipChangeRequired :: json

record audit =
  lines :: "line list"
  ownershipRows :: "ownership_row list"
  csv :: "(string \<times> string) option"

fun jseq :: "('w, unit) js list \<Rightarrow> ('w, unit) js" where
  "jseq [] = jret ()"
| "jseq (m # ms) = jthen m (jseq ms)"

definition print :: "line list \<Rightarrow> (audit, unit) js" where
  "print ls s = (Inr (), s\<lparr>lines := lines s @ ls\<rparr>)"

definition NL :: string where
  "NL = [CHR 0x0A]"

section \<open>Expectations\<close>

definition customExpect :: "json \<Rightarrow> json \<Rightarrow> string \<Rightarrow> (audit, unit) js" where
  "customExpect arg1 arg2 lg =
     (if arg1 = arg2 then jret () else print [Log lg, Err ''AssertionError'', Log NL])"

definition customExpectContain :: "string \<Rightarrow> string \<Rightarrow> string \<Rightarrow> (audit, unit) js" where
  "customExpectContain arg1 arg2 lg =
     (if contains arg2 arg1 then jret () else print [Log lg, Err ''AssertionError'', Log NL])"

section \<open>The CSV file\<close>

definition HEADERS :: "string list" where
  "HEADERS = [''chainId'', ''contractName'', ''contractAddress'', ''ownerAddress'', ''ownerCategory'',
     ''expectedDaoExecutor'', ''ownershipChangeRequired'']"

definition row_fields :: "ownership_row \<Rightarrow> json list" where
  "row_fields r = [r_chainId r, r_contractName r, r_contractAddress r, r_ownerAddress r, r_ownerCategory r,
     r_expectedDaoExecutor r, r_ownershipChangeRequired r]"

text \<open>\<^verbatim>\<open>s.replace(/"/g, "\"\"")\<close>\<close>

fun double_quotes :: "string \<Rightarrow> string" where
  "double_quotes [] = []"
| "double_quotes (c # s) = (if c = CHR 0x22 then [CHR 0x22, CHR 0x22] else [c]) @ double_quotes s"

definition escape_string :: "string \<Rightarrow> string" where
  "escape_string s =
     (if CHR 0x22 \<in> set s \<or> CHR '','' \<in> set s \<or> CHR 0x0A \<in> set s
      then [CHR 0x22] @ double_quotes s @ [CHR 0x22] else s)"

definition escapeCsv :: "json \<Rightarrow> string" where
  "escapeCsv v = (if v = JNull \<or> v = JUndef then [] else escape_string (to_str v))"

fun join :: "string \<Rightarrow> string list \<Rightarrow> string" where
  "join sep [] = []"
| "join sep [x] = x"
| "join sep (x # y # xs) = x @ sep @ join sep (y # xs)"

definition csv_text :: "ownership_row list \<Rightarrow> string" where
  "csv_text rows = join NL (join '','' HEADERS # map (\<lambda>r. join '','' (map escapeCsv (row_fields r))) rows)"

definition writeOwnershipCsv :: "ownership_row list \<Rightarrow> string \<Rightarrow> (audit, unit) js" where
  "writeOwnershipCsv rows outPath = (\<lambda>s.
     print [Log (NL @ ''[CSV] Wrote '' @ nat_str (length rows) @ '' rows to '' @ outPath @ NL)]
       (s\<lparr>csv := Some (outPath, csv_text rows)\<rparr>))"

section \<open>Owners\<close>

definition AUTONOLAS_DEPLOYER :: address where
  "AUTONOLAS_DEPLOYER = 0xEB2A22b27C7Ad5eeE424Fd90b376c745E60f914E"

text \<open>\<^verbatim>\<open>a ? ethers.utils.getAddress(a) : a\<close>, which throws on what is not an address.\<close>

fun read_address :: "audit_env \<Rightarrow> json \<Rightarrow> address option" where
  "read_address E (JAddr a) = Some a"
| "read_address E (JStr s) = getAddress E s"
| "read_address E _ = None"

definition norm_address :: "audit_env \<Rightarrow> json \<Rightarrow> (audit, json) js" where
  "norm_address E a =
     (if truthy a then (case read_address E a of None \<Rightarrow> jthrow ''invalid address'' | Some x \<Rightarrow> jret (JAddr x))
      else jret a)"

record owner_info =
  oi_owner :: json
  oi_expectedDaoExecutor :: json
  oi_ownerCategory :: json
  oi_ownershipChangeRequired :: json

definition recordOwnershipRow :: "audit_env \<Rightarrow> json \<Rightarrow> string \<Rightarrow> json \<Rightarrow> owner_info \<Rightarrow> (audit, unit) js" where
  "recordOwnershipRow E chainId contractName contractAddress ownerInfo =
     jbind (norm_address E contractAddress) (\<lambda>a s.
       (Inr (), s\<lparr>ownershipRows := ownershipRows s @ [\<lparr>r_chainId = JStr (to_str chainId), r_contractName = JStr contractName,
          r_contractAddress = a, r_ownerAddress = oi_owner ownerInfo, r_ownerCategory = oi_ownerCategory ownerInfo,
          r_expectedDaoExecutor = oi_expectedDaoExecutor ownerInfo,
          r_ownershipChangeRequired = oi_ownershipChangeRequired ownerInfo\<rparr>]\<rparr>))"

section \<open>Contracts\<close>

record instance_of =
  i_address :: json
  i_abi :: "string list"
  i_provider :: "string option"

text \<open>\<^verbatim>\<open>globalsInstance[key]\<close> and \<^verbatim>\<open>bytecode.slice(-86)\<close>\<close>

definition gget :: "globals option \<Rightarrow> string \<Rightarrow> (audit, json) js" where
  "gget g k = (case g of None \<Rightarrow> jthrow ''TypeError: undefined'' | Some x \<Rightarrow> jret (getf x k))"

definition last_chars :: "nat \<Rightarrow> string \<Rightarrow> string" where
  "last_chars n s = drop (length s - n) s"

fun find_contract :: "config_contract list \<Rightarrow> string \<Rightarrow> nat \<Rightarrow> nat option" where
  "find_contract [] name i = None"
| "find_contract (c # cs) name i = (if cc_name c = name then Some i else find_contract cs name (Suc i))"

definition load_artifact :: "audit_env \<Rightarrow> string \<Rightarrow> (audit, artifact) js" where
  "load_artifact E path = (case read_artifact E path of None \<Rightarrow> jthrow ''ENOENT'' | Some a \<Rightarrow> jret a)"

definition compare_code :: "audit_env \<Rightarrow> string option \<Rightarrow> config_contract \<Rightarrow> string \<Rightarrow> string \<Rightarrow> (audit, unit) js" where
  "compare_code E provider c bytecode lg =
     (case Option.bind provider (\<lambda>url. getCode E url (cc_address c)) of
        None \<Rightarrow> jthrow ''getCode failed''
      | Some onChainCreationCode \<Rightarrow>
          customExpectContain onChainCreationCode (last_chars 86 bytecode)
            (lg @ '', address: '' @ to_str (cc_address c) @ '', failed bytecode comparison''))"

definition checkBytecode :: "audit_env \<Rightarrow> string option \<Rightarrow> config_contract list \<Rightarrow> string \<Rightarrow> string \<Rightarrow> (audit, unit) js" where
  "checkBytecode E provider configContracts contractName lg =
     (case find_contract configContracts contractName 0 of
        None \<Rightarrow> jret ()
      | Some i \<Rightarrow>
          jbind (load_artifact E (cc_artifact (configContracts ! i))) (\<lambda>parsedFile.
          case deployedBytecode parsedFile of
            NoBytecode \<Rightarrow> jthrow ''TypeError: undefined''
          | Forge b \<Rightarrow> compare_code E provider (configContracts ! i) b lg
          | HardhatCode b \<Rightarrow> compare_code E provider (configContracts ! i) b lg))"

text \<open>
  A proxy has the ABI of the contract before it in the list; for a proxy at the head of the list that contract is
  undefined. A name that is not in the list gives undefined, which every later use of the instance refuses.
\<close>

definition findContractInstance ::
  "audit_env \<Rightarrow> string option \<Rightarrow> config_contract list \<Rightarrow> string \<Rightarrow> (audit, instance_of) js" where
  "findContractInstance E provider configContracts contractName =
     (case find_contract configContracts contractName 0 of
        None \<Rightarrow> jthrow ''TypeError: undefined''
      | Some i \<Rightarrow>
          jbind (load_artifact E (cc_artifact (configContracts ! i))) (\<lambda>own.
          jbind (if contractName = ''ServiceManagerProxy'' \<or> contractName = ''IdentityRegistryBridgerProxy''
                 then (if i = 0 then jthrow ''TypeError: undefined''
                       else load_artifact E (cc_artifact (configContracts ! (i - 1))))
                 else jret own) (\<lambda>parsedFile.
          if cc_address (configContracts ! i) \<in> {JUndef, JNull} then jthrow ''invalid contract address''
          else jret \<lparr>i_address = cc_address (configContracts ! i), i_abi = abi parsedFile, i_provider = provider\<rparr>)))"

text \<open>\<^verbatim>\<open>await contract.fn(args)\<close>\<close>

definition invoke :: "audit_env \<Rightarrow> instance_of \<Rightarrow> string \<Rightarrow> json list \<Rightarrow> (audit, json) js" where
  "invoke E c fn args =
     (if fn \<notin> set (i_abi c) then jthrow (''TypeError: '' @ fn @ '' is not a function'')
      else case Option.bind (i_provider c) (\<lambda>url. call E url (i_address c) fn args) of
        None \<Rightarrow> jthrow ''call failed''
      | Some v \<Rightarrow> jret v)"

text \<open>\<^verbatim>\<open>v.toString()\<close>\<close>

definition toString :: "json \<Rightarrow> (audit, json) js" where
  "toString v = (if v = JUndef \<or> v = JNull then jthrow ''TypeError: undefined'' else jret (JStr (to_str v)))"

text \<open>
  The pattern of one check: a call, and the comparison with a constant or with a field of the globals. The label
  of a failure is the name of the function, except where the source prints another one.
\<close>

definition labelled :: "string \<Rightarrow> string \<Rightarrow> string" where
  "labelled lg fn = lg @ '', function: '' @ fn @ ''()''"

definition expect_const :: "audit_env \<Rightarrow> instance_of \<Rightarrow> string \<Rightarrow> json \<Rightarrow> string \<Rightarrow> (audit, unit) js" where
  "expect_const E c fn v lg = jbind (invoke E c fn []) (\<lambda>r. customExpect r v (labelled lg fn))"

definition expect_global_as ::
  "audit_env \<Rightarrow> instance_of \<Rightarrow> string \<Rightarrow> globals option \<Rightarrow> string \<Rightarrow> string \<Rightarrow> string \<Rightarrow> (audit, unit) js" where
  "expect_global_as E c fn g key label lg =
     jbind (invoke E c fn []) (\<lambda>r. jbind (gget g key) (\<lambda>v. customExpect r v (labelled lg label)))"

definition expect_global :: "audit_env \<Rightarrow> instance_of \<Rightarrow> string \<Rightarrow> globals option \<Rightarrow> string \<Rightarrow> string \<Rightarrow> (audit, unit) js" where
  "expect_global E c fn g key lg = expect_global_as E c fn g key fn lg"

definition expect_global_string :: "audit_env \<Rightarrow> instance_of \<Rightarrow> string \<Rightarrow> globals option \<Rightarrow> string \<Rightarrow> string \<Rightarrow> (audit, unit) js" where
  "expect_global_string E c fn g key lg =
     jbind (invoke E c fn []) (\<lambda>r. jbind (toString r) (\<lambda>t. jbind (gget g key) (\<lambda>v. customExpect t v (labelled lg fn))))"

text \<open>\<^verbatim>\<open>Number(v)\<close> of the answer of a function that returns a \<^verbatim>\<open>uint256\<close>.\<close>

fun toNumber :: "json \<Rightarrow> json" where
  "toNumber JNull = JNum 0"
| "toNumber (JBool b) = JNum (if b then 1 else 0)"
| "toNumber v = (case as_num v of Some n \<Rightarrow> JNum n | None \<Rightarrow> JStr ''NaN'')"

definition expect_number :: "audit_env \<Rightarrow> instance_of \<Rightarrow> string \<Rightarrow> nat \<Rightarrow> string \<Rightarrow> (audit, unit) js" where
  "expect_number E c fn n lg = jbind (invoke E c fn []) (\<lambda>r. customExpect (toNumber r) (JNum n) (labelled lg fn))"

definition expect_enabled :: "audit_env \<Rightarrow> instance_of \<Rightarrow> globals option \<Rightarrow> string \<Rightarrow> string \<Rightarrow> string \<Rightarrow> (audit, unit) js" where
  "expect_enabled E c g key label lg =
     jbind (gget g key) (\<lambda>v. jbind (invoke E c ''mapMultisigs'' [v]) (\<lambda>res.
       customExpect res (JBool True) (lg @ '', function: mapMultisigs('' @ label @ '')'')))"

definition at_address :: "string \<Rightarrow> instance_of \<Rightarrow> string" where
  "at_address lg c = lg @ '', address: '' @ to_str (i_address c)"

definition checkOwner :: "audit_env \<Rightarrow> json \<Rightarrow> instance_of \<Rightarrow> globals option \<Rightarrow> string \<Rightarrow> (audit, owner_info) js" where
  "checkOwner E chainId contract globalsInstance lg =
     jbind (invoke E contract ''owner'' []) (\<lambda>r. jbind (norm_address E r) (\<lambda>owner.
     jbind (gget globalsInstance (if to_str chainId = ''1'' then ''timelockAddress'' else ''bridgeMediatorAddress'')) (\<lambda>x.
     jbind (norm_address E x) (\<lambda>expected.
     jthen (customExpect owner expected (labelled lg ''owner'')) (
     jret \<lparr>oi_owner = owner, oi_expectedDaoExecutor = expected,
       oi_ownerCategory = JStr (if owner = JAddr AUTONOLAS_DEPLOYER then ''autonolas_deployer''
         else if owner = expected then ''dao_executor'' else ''other''),
       oi_ownershipChangeRequired = JStr (if owner = expected then ''no'' else ''yes'')\<rparr>)))))"

definition checkOwnerRecorded :: "audit_env \<Rightarrow> json \<Rightarrow> string \<Rightarrow> instance_of \<Rightarrow> globals option \<Rightarrow> string \<Rightarrow> (audit, unit) js" where
  "checkOwnerRecorded E chainId contractName c g lg =
     jbind (checkOwner E chainId c g lg) (\<lambda>ownerInfo. recordOwnershipRow E chainId contractName (i_address c) ownerInfo)"

section \<open>The checks of the contracts\<close>

text \<open>
  Every check starts with the bytecode and the instance of the contract. The checks of the ownable contracts
  without a version look at the owner before they add the address to the message.
\<close>

definition contract_check ::
  "audit_env \<Rightarrow> string option \<Rightarrow> config_contract list \<Rightarrow> string \<Rightarrow> string \<Rightarrow> (instance_of \<Rightarrow> (audit, unit) js) \<Rightarrow> (audit, unit) js" where
  "contract_check E provider configContracts contractName lg k =
     jthen (checkBytecode E provider configContracts contractName lg)
       (jbind (findContractInstance E provider configContracts contractName) k)"

definition checkComponentRegistry ::
  "audit_env \<Rightarrow> json \<Rightarrow> string option \<Rightarrow> globals option \<Rightarrow> config_contract list \<Rightarrow> string \<Rightarrow> string \<Rightarrow> (audit, unit) js" where
  "checkComponentRegistry E chainId provider globalsInstance configContracts contractName log0 =
     contract_check E provider configContracts contractName log0 (\<lambda>c.
     let lg = at_address log0 c in
     jseq [
       expect_const E c ''VERSION'' (JStr ''1.0.0'') lg,
       expect_const E c ''baseURI'' (JStr ''https://gateway.autonolas.tech/ipfs/'') lg,
       checkOwnerRecorded E chainId contractName c globalsInstance lg,
       expect_global E c ''manager'' globalsInstance ''registriesManagerAddress'' lg])"

definition checkAgentRegistry ::
  "audit_env \<Rightarrow> json \<Rightarrow> string option \<Rightarrow> globals option \<Rightarrow> config_contract list \<Rightarrow> string \<Rightarrow> string \<Rightarrow> (audit, unit) js" where
  "checkAgentRegistry E chainId provider globalsInstance configContracts contractName log0 =
     contract_check E provider configContracts contractName log0 (\<lambda>c.
     let lg = at_address log0 c in
     jseq [
       expect_const E c ''VERSION'' (JStr ''1.0.0'') lg,
       expect_const E c ''baseURI'' (JStr ''https://gateway.autonolas.tech/ipfs/'') lg,
       checkOwnerRecorded E chainId contractName c globalsInstance lg,
       expect_global E c ''manager'' globalsInstance ''registriesManagerAddress'' lg,
       expect_global E c ''componentRegistry'' globalsInstance ''componentRegistryAddress'' lg])"

definition checkServiceRegistry ::
  "audit_env \<Rightarrow> json \<Rightarrow> string option \<Rightarrow> globals option \<Rightarrow> config_contract list \<Rightarrow> string \<Rightarrow> string \<Rightarrow> (audit, unit) js" where
  "checkServiceRegistry E chainId provider globalsInstance configContracts contractName log0 =
     contract_check E provider configContracts contractName log0 (\<lambda>c.
     let lg = at_address log0 c in
     jseq [
       expect_const E c ''VERSION'' (JStr ''1.0.0'') lg,
       expect_const E c ''baseURI'' (JStr ''https://gateway.autonolas.tech/ipfs/'') lg,
       checkOwnerRecorded E chainId contractName c globalsInstance lg,
       expect_global E c ''manager'' globalsInstance ''serviceManagerProxyAddress'' lg,
       expect_global E c ''drainer'' globalsInstance (if chainId = JStr ''1'' then ''treasuryAddress'' else ''bridgeMediatorAddress'') lg,
       if chainId = JStr ''1'' then expect_global E c ''agentRegistry'' globalsInstance ''agentRegistryAddress'' lg else jret (),
       expect_enabled E c globalsInstance ''gnosisSafeMultisigImplementationAddress'' ''safeMultisig'' lg,
       expect_enabled E c globalsInstance ''gnosisSafeSameAddressMultisigImplementationAddress'' ''safeSameAddressMultisig'' lg,
       expect_enabled E c globalsInstance ''recoveryModuleAddress'' ''recoveryModule'' lg,
       expect_enabled E c globalsInstance ''safeMultisigWithRecoveryModuleAddress'' ''safeMultisigWithRecoveryModule'' lg])"

definition checkServiceManagerProxy ::
  "audit_env \<Rightarrow> json \<Rightarrow> string option \<Rightarrow> globals option \<Rightarrow> config_contract list \<Rightarrow> string \<Rightarrow> string \<Rightarrow> (audit, unit) js" where
  "checkServiceManagerProxy E chainId provider globalsInstance configContracts contractName log0 =
     contract_check E provider configContracts contractName log0 (\<lambda>c.
     let lg = at_address log0 c in
     jseq [
       checkOwnerRecorded E chainId contractName c globalsInstance log0,
       expect_const E c ''paused'' (JBool False) lg,
       expect_global E c ''serviceRegistry'' globalsInstance ''serviceRegistryAddress'' lg,
       expect_global E c ''serviceRegistryTokenUtility'' globalsInstance ''serviceRegistryTokenUtilityAddress'' lg,
       expect_global E c ''operatorWhitelist'' globalsInstance ''operatorWhitelistAddress'' lg,
       expect_global E c ''identityRegistryBridger'' globalsInstance ''identityRegistryBridgerProxyAddress'' lg])"

definition checkIdentityRegistryBridgerProxy ::
  "audit_env \<Rightarrow> json \<Rightarrow> string option \<Rightarrow> globals option \<Rightarrow> config_contract list \<Rightarrow> string \<Rightarrow> string \<Rightarrow> (audit, unit) js" where
  "checkIdentityRegistryBridgerProxy E chainId provider globalsInstance configContracts contractName log0 =
     contract_check E provider configContracts contractName log0 (\<lambda>c.
     let lg = at_address log0 c in
     jseq [
       checkOwnerRecorded E chainId contractName c globalsInstance log0,
       expect_global E c ''serviceRegistry'' globalsInstance ''serviceRegistryAddress'' lg,
       expect_global E c ''serviceManager'' globalsInstance ''serviceManagerProxyAddress'' lg,
       expect_global E c ''identityRegistry'' globalsInstance ''identityRegistryAddress'' lg])"

definition checkServiceRegistryTokenUtility ::
  "audit_env \<Rightarrow> json \<Rightarrow> string option \<Rightarrow> globals option \<Rightarrow> config_contract list \<Rightarrow> string \<Rightarrow> string \<Rightarrow> (audit, unit) js" where
  "checkServiceRegistryTokenUtility E chainId provider globalsInstance configContracts contractName log0 =
     contract_check E provider configContracts contractName log0 (\<lambda>c.
     let lg = at_address log0 c in
     jseq [
       checkOwnerRecorded E chainId contractName c globalsInstance log0,
       expect_global E c ''manager'' globalsInstance ''serviceManagerProxyAddress'' lg,
       expect_global E c ''drainer'' globalsInstance (if chainId = JStr ''1'' then ''timelockAddress'' else ''bridgeMediatorAddress'') lg,
       expect_global E c ''serviceRegistry'' globalsInstance ''serviceRegistryAddress'' lg])"

definition checkOperatorWhitelist ::
  "audit_env \<Rightarrow> json \<Rightarrow> string option \<Rightarrow> globals option \<Rightarrow> config_contract list \<Rightarrow> string \<Rightarrow> string \<Rightarrow> (audit, unit) js" where
  "checkOperatorWhitelist E chainId provider globalsInstance configContracts contractName log0 =
     contract_check E provider configContracts contractName log0 (\<lambda>c.
     let lg = at_address log0 c in
     jseq [
       expect_global E c ''serviceRegistry'' globalsInstance ''serviceRegistryAddress'' lg])"

definition checkGnosisSafeMultisig ::
  "audit_env \<Rightarrow> json \<Rightarrow> string option \<Rightarrow> globals option \<Rightarrow> config_contract list \<Rightarrow> string \<Rightarrow> string \<Rightarrow> (audit, unit) js" where
  "checkGnosisSafeMultisig E chainId provider globalsInstance configContracts contractName log0 =
     contract_check E provider configContracts contractName log0 (\<lambda>c.
     let lg = at_address log0 c in
     jseq [
       expect_number E c ''DEFAULT_DATA_LENGTH'' 144 lg,
       expect_const E c ''GNOSIS_SAFE_SETUP_SELECTOR'' (JStr ''0xb63e800d'') lg])"

definition checkGnosisSafeSameAddressMultisig ::
  "audit_env \<Rightarrow> json \<Rightarrow> string option \<Rightarrow> globals option \<Rightarrow> config_contract list \<Rightarrow> string \<Rightarrow> string \<Rightarrow> (audit, unit) js" where
  "checkGnosisSafeSameAddressMultisig E chainId provider globalsInstance configContracts contractName log0 =
     contract_check E provider configContracts contractName log0 (\<lambda>c.
     let lg = at_address log0 c in
     jseq [
       expect_number E c ''DEFAULT_DATA_LENGTH'' 20 lg])"

definition checkStakingVerifier ::
  "audit_env \<Rightarrow> json \<Rightarrow> string option \<Rightarrow> globals option \<Rightarrow> config_contract list \<Rightarrow> string \<Rightarrow> string \<Rightarrow> (audit, unit) js" where
  "checkStakingVerifier E chainId provider globalsInstance configContracts contractName log0 =
     contract_check E provider configContracts contractName log0 (\<lambda>c.
     let lg = at_address log0 c in
     jseq [
       checkOwnerRecorded E chainId contractName c globalsInstance log0,
       expect_global E c ''olas'' globalsInstance ''olasAddress'' lg,
       expect_global E c ''serviceRegistry'' globalsInstance ''serviceRegistryAddress'' lg,
       expect_global E c ''serviceRegistryTokenUtility'' globalsInstance ''serviceRegistryTokenUtilityAddress'' lg,
       expect_global_string E c ''minStakingDepositLimit'' globalsInstance ''minStakingDepositLimit'' lg,
       expect_global_string E c ''timeForEmissionsLimit'' globalsInstance ''timeForEmissionsLimit'' lg,
       expect_global_string E c ''numServicesLimit'' globalsInstance ''numServicesLimit'' lg,
       expect_global_string E c ''apyLimit'' globalsInstance ''apyLimit'' lg,
       expect_const E c ''implementationsCheck'' (JBool True) lg])"

definition checkStakingFactory ::
  "audit_env \<Rightarrow> json \<Rightarrow> string option \<Rightarrow> globals option \<Rightarrow> config_contract list \<Rightarrow> string \<Rightarrow> string \<Rightarrow> (audit, unit) js" where
  "checkStakingFactory E chainId provider globalsInstance configContracts contractName log0 =
     contract_check E provider configContracts contractName log0 (\<lambda>c.
     let lg = at_address log0 c in
     jseq [
       checkOwnerRecorded E chainId contractName c globalsInstance log0,
       expect_global E c ''verifier'' globalsInstance ''stakingVerifierAddress'' lg])"

definition checkRecoveryModule ::
  "audit_env \<Rightarrow> json \<Rightarrow> string option \<Rightarrow> globals option \<Rightarrow> config_contract list \<Rightarrow> string \<Rightarrow> string \<Rightarrow> (audit, unit) js" where
  "checkRecoveryModule E chainId provider globalsInstance configContracts contractName log0 =
     contract_check E provider configContracts contractName log0 (\<lambda>c.
     let lg = at_address log0 c in
     jseq [
       expect_number E c ''DEFAULT_DATA_LENGTH'' 32 lg,
       expect_number E c ''RECOVER_THRESHOLD'' 1 lg,
       expect_global E c ''multiSend'' globalsInstance ''multiSendCallOnlyAddress'' lg,
       expect_global E c ''serviceRegistry'' globalsInstance ''serviceRegistryAddress'' lg])"

definition checkSafeMultisigWithRecoveryModule ::
  "audit_env \<Rightarrow> json \<Rightarrow> string option \<Rightarrow> globals option \<Rightarrow> config_contract list \<Rightarrow> string \<Rightarrow> string \<Rightarrow> (audit, unit) js" where
  "checkSafeMultisigWithRecoveryModule E chainId provider globalsInstance configContracts contractName log0 =
     contract_check E provider configContracts contractName log0 (\<lambda>c.
     let lg = at_address log0 c in
     jseq [
       expect_number E c ''DEFAULT_DATA_LENGTH'' 64 lg,
       expect_const E c ''SAFE_SETUP_SELECTOR'' (JStr ''0xb63e800d'') lg,
       expect_const E c ''ENABLE_MODULE_SELECTOR'' (JStr ''0x24292962'') lg,
       expect_global E c ''safe'' globalsInstance ''gnosisSafeAddress'' lg,
       expect_global E c ''safeProxyFactory'' globalsInstance ''gnosisSafeProxyFactoryAddress'' lg,
       expect_global_as E c ''recoveryModule'' globalsInstance ''recoveryModuleAddress'' ''safe'' lg])"

definition checkPolySafeCreatorWithRecoveryModule ::
  "audit_env \<Rightarrow> json \<Rightarrow> string option \<Rightarrow> globals option \<Rightarrow> config_contract list \<Rightarrow> string \<Rightarrow> string \<Rightarrow> (audit, unit) js" where
  "checkPolySafeCreatorWithRecoveryModule E chainId provider globalsInstance configContracts contractName log0 =
     contract_check E provider configContracts contractName log0 (\<lambda>c.
     let lg = at_address log0 c in
     jseq [
       expect_global E c ''polySafeProxyFactory'' globalsInstance ''polySafeProxyFactoryAddress'' lg,
       expect_global E c ''polySafeProxyBytecodeHash'' globalsInstance ''polySafeProxyBytecodeHash'' lg,
       expect_global_as E c ''recoveryModule'' globalsInstance ''recoveryModuleAddress'' ''safe'' lg])"


section \<open>The run\<close>

definition globalNames :: "string \<Rightarrow> string option" where
  "globalNames = map_of [
     (''mainnet'', ''scripts/deployment/globals_mainnet.json''),
     (''polygon'', ''scripts/deployment/l2/globals_polygon_mainnet.json''),
     (''gnosis'', ''scripts/deployment/l2/globals_gnosis_mainnet.json''),
     (''arbitrum'', ''scripts/deployment/l2/globals_arbitrum_mainnet.json''),
     (''optimism'', ''scripts/deployment/l2/globals_optimism_mainnet.json''),
     (''base'', ''scripts/deployment/l2/globals_base_mainnet.json''),
     (''celo'', ''scripts/deployment/l2/globals_celo_mainnet.json'')]"

definition env_str :: "audit_env \<Rightarrow> string \<Rightarrow> string" where
  "env_str E k = (case aenv E k of None \<Rightarrow> ''undefined'' | Some v \<Rightarrow> v)"

definition providerLinks :: "audit_env \<Rightarrow> string \<Rightarrow> string option" where
  "providerLinks E = map_of [
     (''mainnet'', ''https://eth-mainnet.g.alchemy.com/v2/'' @ env_str E ''ALCHEMY_API_KEY_MAINNET''),
     (''polygon'', ''https://polygon-mainnet.g.alchemy.com/v2/'' @ env_str E ''ALCHEMY_API_KEY_MATIC''),
     (''gnosis'', ''https://rpc.gnosischain.com''),
     (''arbitrum'', ''https://arb1.arbitrum.io/rpc''),
     (''optimism'', ''https://optimism.drpc.org''),
     (''base'', ''https://mainnet.base.org''),
     (''celo'', ''https://forno.celo.org'')]"

definition OWNERSHIP_CSV_PATH :: string where
  "OWNERSHIP_CSV_PATH = ''scripts/audit_chains/ownable_owners.csv''"

text \<open>The comparison with the repository is done by a shell script, whose failures are passed over.\<close>

definition verify_repo_contract :: "audit_env \<Rightarrow> json \<Rightarrow> config_contract \<Rightarrow> (audit, unit) js" where
  "verify_repo_contract E chainId c =
     print [Log (''Checking '' @ cc_name c),
       Child (sh_stderr E (''scripts/audit_chains/audit_repo_contract.sh '' @ to_str chainId @ '' '' @ cc_name c @ '' '' @ to_str (cc_address c)))]"

definition verify_repo_chain :: "audit_env \<Rightarrow> chain_config \<Rightarrow> (audit, unit) js" where
  "verify_repo_chain E cfg = jseq (
     print [Log (NL @ NL @ ''Network: '' @ cfg_name cfg), Log (''chainId '' @ to_str (cfg_chainId cfg))]
     # map (verify_repo_contract E (cfg_chainId cfg)) (cfg_contracts cfg))"

text \<open>
  The globals and the endpoints of the chains, in the order of the configuration and without the chain "mode".
  The default endpoint of the library, for a chain without a link, is never used: such a chain has no globals file.
\<close>

definition DEFAULT_ENDPOINT :: string where
  "DEFAULT_ENDPOINT = ''http://localhost:8545''"

definition load_globals :: "audit_env \<Rightarrow> string \<Rightarrow> (audit, globals) js" where
  "load_globals E name =
     (case Option.bind (globalNames name) (read_globals_file E) of None \<Rightarrow> jthrow ''ENOENT'' | Some g \<Rightarrow> jret g)"

fun process_globals :: "audit_env \<Rightarrow> chain_config list \<Rightarrow> (audit, globals list \<times> string list) js" where
  "process_globals E [] = jret ([], [])"
| "process_globals E (cfg # cfgs) =
     (if cfg_name cfg = ''mode'' then process_globals E cfgs
      else jbind (load_globals E (cfg_name cfg)) (\<lambda>g.
           jbind (process_globals E cfgs) (\<lambda>(gs, ps).
           jret (g # gs, (case providerLinks E (cfg_name cfg) of None \<Rightarrow> DEFAULT_ENDPOINT | Some u \<Rightarrow> u) # ps))))"

text \<open>\<^verbatim>\<open>xs[i]\<close>, undefined past the end\<close>

definition elem_at :: "'a list \<Rightarrow> nat \<Rightarrow> 'a option" where
  "elem_at xs i = (if i < length xs then Some (xs ! i) else None)"

type_synonym setup_check =
  "audit_env \<Rightarrow> json \<Rightarrow> string option \<Rightarrow> globals option \<Rightarrow> config_contract list \<Rightarrow> string \<Rightarrow> string \<Rightarrow> (audit, unit) js"

definition initLog :: "chain_config \<Rightarrow> string" where
  "initLog cfg = ''ChainId: '' @ to_str (cfg_chainId cfg) @ '', network: '' @ cfg_name cfg"

definition run_check ::
  "audit_env \<Rightarrow> string option \<Rightarrow> globals option \<Rightarrow> chain_config \<Rightarrow> setup_check \<Rightarrow> string \<Rightarrow> (audit, unit) js" where
  "run_check E p g cfg check name =
     check E (cfg_chainId cfg) p g (cfg_contracts cfg) name (initLog cfg @ '', contract: '' @ name)"

definition verify_setup_chain :: "audit_env \<Rightarrow> nat \<Rightarrow> string option \<Rightarrow> globals option \<Rightarrow> chain_config \<Rightarrow> (audit, unit) js" where
  "verify_setup_chain E i p g cfg =
     (if cfg_name cfg = ''mode'' then jret () else
      jseq [
        print [Log (NL @ ''######## Verifying setup on CHAIN ID '' @ to_str (cfg_chainId cfg))],
        if i = 0 then jseq [run_check E p g cfg checkComponentRegistry ''ComponentRegistry'',
                            run_check E p g cfg checkAgentRegistry ''AgentRegistry''] else jret (),
        if i = 0 then run_check E p g cfg checkServiceRegistry ''ServiceRegistry''
        else run_check E p g cfg checkServiceRegistry ''ServiceRegistryL2'',
        run_check E p g cfg checkServiceManagerProxy ''ServiceManagerProxy'',
        run_check E p g cfg checkServiceRegistryTokenUtility ''ServiceRegistryTokenUtility'',
        run_check E p g cfg checkOperatorWhitelist ''OperatorWhitelist'',
        run_check E p g cfg checkGnosisSafeMultisig ''GnosisSafeMultisig'',
        run_check E p g cfg checkGnosisSafeSameAddressMultisig ''GnosisSafeSameAddressMultisig'',
        run_check E p g cfg checkStakingVerifier ''StakingVerifier'',
        run_check E p g cfg checkStakingFactory ''StakingFactory'',
        run_check E p g cfg checkRecoveryModule ''RecoveryModule'',
        run_check E p g cfg checkSafeMultisigWithRecoveryModule ''SafeMultisigWithRecoveryModule'',
        if cfg_name cfg = ''polygon''
        then run_check E p g cfg checkPolySafeCreatorWithRecoveryModule ''PolySafeCreatorWithRecoveryModule'' else jret (),
        run_check E p g cfg checkIdentityRegistryBridgerProxy ''IdentityRegistryBridgerProxy''])"

fun verify_setup_from :: "audit_env \<Rightarrow> globals list \<Rightarrow> string list \<Rightarrow> nat \<Rightarrow> chain_config list \<Rightarrow> (audit, unit) js" where
  "verify_setup_from E gs ps i [] = jret ()"
| "verify_setup_from E gs ps i (cfg # cfgs) =
     jthen (verify_setup_chain E i (elem_at ps i) (elem_at gs i) cfg) (verify_setup_from E gs ps (Suc i) cfgs)"

definition keys_set :: "audit_env \<Rightarrow> bool" where
  "keys_set E \<longleftrightarrow> aenv E ''ALCHEMY_API_KEY_MAINNET'' \<notin> {None, Some []} \<and> aenv E ''ALCHEMY_API_KEY_MATIC'' \<notin> {None, Some []}"

definition audit_script :: "audit_env \<Rightarrow> (audit, unit) js" where
  "audit_script E =
     (if \<not> keys_set E then print [Log ''Check API keys!'']
      else case configs E of
        None \<Rightarrow> jthrow ''ENOENT''
      | Some cfgs \<Rightarrow> jseq [
          print [Log (NL @ ''Verifying deployed contracts vs the repo... If no error is output, then the contracts are correct.'')],
          jseq (map (verify_repo_chain E) cfgs),
          jbind (process_globals E cfgs) (\<lambda>(gs, ps).
            jthen (print [Log (NL @ ''Verifying deployed contracts setup... If no error is output, then the contracts are correct.'')])
              (verify_setup_from E gs ps 0 cfgs)),
          \<lambda>s. writeOwnershipCsv (ownershipRows s) OWNERSHIP_CSV_PATH s])"

definition audit_main :: "audit_env \<Rightarrow> nat \<times> audit" where
  "audit_main E =
     (case audit_script E \<lparr>lines = [], ownershipRows = [], csv = None\<rparr> of
        (Inr _, s) \<Rightarrow> (0, s)
      | (Inl e, s) \<Rightarrow> (1, s\<lparr>lines := lines s @ [Err e]\<rparr>))"

end
