(* ===== verification/Audit_Csv.thy ===== *)
theory Audit_Csv
  imports Audit_Setup
begin

text \<open>
  The file the audit writes can be read back: a reader of comma-separated values with quoted fields recovers the header
  and every cell of every row, also when a cell holds commas, quotes or line breaks.
\<close>

section \<open>A reader\<close>

text \<open>\<open>q\<close> says whether the reader is inside quotes; \<open>cur\<close> and \<open>row\<close> are the field and the row read so far.\<close>

fun csv_read :: "bool \<Rightarrow> string \<Rightarrow> string list \<Rightarrow> string \<Rightarrow> string list list" where
  "csv_read q cur row [] = [row @ [cur]]"
| "csv_read False cur row (c # s) =
     (if c = CHR '','' then csv_read False [] (row @ [cur]) s
      else if c = CHR 0x0A then (row @ [cur]) # csv_read False [] [] s
      else if c = CHR 0x22 then csv_read True cur row s
      else csv_read False (cur @ [c]) row s)"
| "csv_read True cur row [c] =
     (if c = CHR 0x22 then csv_read False cur row [] else csv_read True (cur @ [c]) row [])"
| "csv_read True cur row (c # d # s) =
     (if c = CHR 0x22 \<and> d = CHR 0x22 then csv_read True (cur @ [c]) row s
      else if c = CHR 0x22 then csv_read False cur row (d # s)
      else csv_read True (cur @ [c]) row (d # s))"

definition parse_csv :: "string \<Rightarrow> string list list" where
  "parse_csv s = csv_read False [] [] s"

text \<open>The text of a cell: nothing for a missing value.\<close>

definition cell :: "json \<Rightarrow> string" where
  "cell v = (if v = JNull \<or> v = JUndef then [] else to_str v)"

section \<open>Fields\<close>

definition special :: "string \<Rightarrow> bool" where
  "special s \<longleftrightarrow> CHR 0x22 \<in> set s \<or> CHR '','' \<in> set s \<or> CHR 0x0A \<in> set s"

lemma csv_read_plain: "\<not> special s \<Longrightarrow> csv_read False cur row (s @ rest) = csv_read False (cur @ s) row rest"
  by (induction s arbitrary: cur) (auto simp: special_def)

lemma csv_read_quoted:
  assumes "rest = [] \<or> hd rest \<noteq> CHR 0x22"
  shows "csv_read True cur row (double_quotes s @ CHR 0x22 # rest) = csv_read False (cur @ s) row rest"
proof (induction s arbitrary: cur)
  case Nil
  with assms show ?case by (cases rest) auto
next
  case (Cons c s)
  show ?case
  proof (cases "c = CHR 0x22")
    case False
    obtain d t where "double_quotes s @ CHR 0x22 # rest = d # t"
      by (cases "double_quotes s @ CHR 0x22 # rest") auto
    with False Cons [of "cur @ [c]"] show ?thesis by simp
  qed (use Cons [of "cur @ [c]"] in simp)
qed

lemma csv_read_field:
  assumes "rest = [] \<or> hd rest \<noteq> CHR 0x22"
  shows "csv_read False [] row (escape_string s @ rest) = csv_read False s row rest"
  using csv_read_plain [of s "[]" row rest] csv_read_quoted [OF assms, of "[]" row s]
  by (auto simp: escape_string_def special_def)

lemma escapeCsv_cell: "escapeCsv v = escape_string (cell v)"
  by (simp add: escapeCsv_def cell_def escape_string_def)

section \<open>Rows and files\<close>

lemma csv_read_row:
  assumes "fs \<noteq> []" and "rest = [] \<or> hd rest \<noteq> CHR 0x22"
  shows "csv_read False [] row (join '','' (map escape_string fs) @ rest) = csv_read False (last fs) (row @ butlast fs) rest"
  using assms(1)
proof (induction fs arbitrary: row rule: induct_list012)
  case (3 f f' fs)
  have "csv_read False [] row (escape_string f @ '','' @ join '','' (map escape_string (f' # fs)) @ rest)
      = csv_read False f row ('','' @ join '','' (map escape_string (f' # fs)) @ rest)"
    by (rule csv_read_field) simp
  with 3(2) [of "row @ [f]"] show ?case by simp
qed (use assms(2) csv_read_field in auto)

lemma csv_read_rows:
  assumes "list_all (\<lambda>r. r \<noteq> []) (r # rs)"
  shows "csv_read False [] [] (join NL (map (\<lambda>r. join '','' (map escape_string r)) (r # rs))) = r # rs"
  using assms
proof (induction rs arbitrary: r)
  case Nil
  then show ?case using csv_read_row [of r "[]" "[]"] by simp
next
  case (Cons r' rs)
  let ?t = "join NL (map (\<lambda>r. join '','' (map escape_string r)) (r' # rs))"
  have "csv_read False [] [] (join '','' (map escape_string r) @ NL @ ?t) = csv_read False (last r) (butlast r) (NL @ ?t)"
    using csv_read_row [of r "NL @ ?t" "[]"] Cons.prems by (simp add: NL_def)
  also have "\<dots> = r # csv_read False [] [] ?t"
    using Cons.prems by (simp add: NL_def)
  also have "\<dots> = r # r' # rs"
    using Cons.IH [of r'] Cons.prems by simp
  finally show ?case by simp
qed

lemma csv_text_strings:
  "csv_text rows = join NL (map (\<lambda>r. join '','' (map escape_string r)) (HEADERS # map (\<lambda>r. map cell (row_fields r)) rows))"
proof -
  have "map escape_string HEADERS = HEADERS" by code_simp
  moreover have "escapeCsv = (\<lambda>v. escape_string (cell v))"
    by (simp add: fun_eq_iff escapeCsv_cell)
  ultimately show ?thesis by (simp add: csv_text_def comp_def)
qed

text \<open>
  C31. The owners file can be read back: reading the text the audit writes gives the header and, for every row, exactly
  the cells of the row, whatever characters they hold.
\<close>
theorem csv_roundtrip: "parse_csv (csv_text rows) = HEADERS # map (\<lambda>r. map cell (row_fields r)) rows"
  unfolding parse_csv_def csv_text_strings
  by (rule csv_read_rows) (simp add: list_all_iff row_fields_def HEADERS_def)

end
