(* ===== verification/Contract_Verification.thy ===== *)
theory Contract_Verification
  imports Deployment_World
begin

text \<open>
  Verification of a deployed contract on the explorer: the modules \<^verbatim>\<open>verify_*.js\<close> that give the constructor
  arguments, read from \<^verbatim>\<open>globals.json\<close> when the command runs, and the shell command that the deployment
  scripts call.
\<close>

section \<open>The modules of constructor arguments\<close>

definition verify_01_component_registry :: "globals \<Rightarrow> json list" where
  "verify_01_component_registry g =
     [getf g ''componentRegistryName'', getf g ''componentRegistrySymbol'',
      getf g ''baseURI'']"

definition verify_02_agent_registry :: "globals \<Rightarrow> json list" where
  "verify_02_agent_registry g =
     [getf g ''agentRegistryName'', getf g ''agentRegistrySymbol'',
      getf g ''baseURI'', getf g ''componentRegistryAddress'']"

definition verify_03_registries_manager :: "globals \<Rightarrow> json list" where
  "verify_03_registries_manager g =
     [getf g ''componentRegistryAddress'', getf g ''agentRegistryAddress'']"

definition verify_04_service_registry :: "globals \<Rightarrow> json list" where
  "verify_04_service_registry g =
     [getf g ''serviceRegistryName'', getf g ''serviceRegistrySymbol'',
      getf g ''baseURI'', getf g ''agentRegistryAddress'']"

definition verify_05_operator_whitelist :: "globals \<Rightarrow> json list" where
  "verify_05_operator_whitelist g =
     [getf g ''serviceRegistryAddress'']"

definition verify_06_service_registry_token_utility :: "globals \<Rightarrow> json list" where
  "verify_06_service_registry_token_utility g =
     [getf g ''serviceRegistryAddress'']"

definition verify_07_service_manager :: "globals \<Rightarrow> json list" where
  "verify_07_service_manager g =
     [getf g ''serviceRegistryAddress'', getf g ''serviceRegistryTokenUtilityAddress'']"

definition verify_08_gnosis_safe_multisig :: "globals \<Rightarrow> json list" where
  "verify_08_gnosis_safe_multisig g =
     [getf g ''gnosisSafeAddress'', getf g ''gnosisSafeProxyFactoryAddress'']"

definition verify_09_gnosis_safe_same_address_multisig :: "globals \<Rightarrow> json list" where
  "verify_09_gnosis_safe_same_address_multisig g =
     [getf g ''multisigProxyHash130'']"

definition l2_verify_01_service_registry_l2 :: "globals \<Rightarrow> json list" where
  "l2_verify_01_service_registry_l2 g =
     [getf g ''serviceRegistryName'', getf g ''serviceRegistrySymbol'',
      getf g ''baseURI'']"

definition l2_verify_02_operator_whitelist :: "globals \<Rightarrow> json list" where
  "l2_verify_02_operator_whitelist g =
     [getf g ''serviceRegistryAddress'']"

definition l2_verify_03_service_registry_token_utility :: "globals \<Rightarrow> json list" where
  "l2_verify_03_service_registry_token_utility g =
     [getf g ''serviceRegistryAddress'']"

definition l2_verify_04_service_manager :: "globals \<Rightarrow> json list" where
  "l2_verify_04_service_manager g =
     [getf g ''serviceRegistryAddress'', getf g ''serviceRegistryTokenUtilityAddress'']"

definition l2_verify_05_gnosis_safe_multisig :: "globals \<Rightarrow> json list" where
  "l2_verify_05_gnosis_safe_multisig g =
     [getf g ''gnosisSafeAddress'', getf g ''gnosisSafeProxyFactoryAddress'']"

definition l2_verify_06_gnosis_safe_same_address_multisig :: "globals \<Rightarrow> json list" where
  "l2_verify_06_gnosis_safe_same_address_multisig g =
     [getf g ''multisigProxyHash130'']"

definition l2_verify_18_service_staking_verifier :: "globals \<Rightarrow> json list" where
  "l2_verify_18_service_staking_verifier g =
     [getf g ''olasAddress'', getf g ''serviceRegistryAddress'',
      getf g ''serviceRegistryTokenUtilityAddress'', getf g ''minStakingDepositLimit'',
      getf g ''timeForEmissionsLimit'', getf g ''numServicesLimit'',
      getf g ''apyLimit'']"

definition l2_verify_19_service_staking_factory :: "globals \<Rightarrow> json list" where
  "l2_verify_19_service_staking_factory g =
     [getf g ''stakingVerifierAddress'']"

definition l2_verify_23_hash_checkpoint :: "globals \<Rightarrow> json list" where
  "l2_verify_23_hash_checkpoint g =
     [getf g ''baseURI'']"

text \<open>The modules of the repository, by path.\<close>

definition VERIFY_MODULES :: "(string \<times> (globals \<Rightarrow> json list)) list" where
  "VERIFY_MODULES =
    [(''scripts/deployment/verify_01_component_registry.js'', verify_01_component_registry),
     (''scripts/deployment/verify_02_agent_registry.js'', verify_02_agent_registry),
     (''scripts/deployment/verify_03_registries_manager.js'', verify_03_registries_manager),
     (''scripts/deployment/verify_04_service_registry.js'', verify_04_service_registry),
     (''scripts/deployment/verify_05_operator_whitelist.js'', verify_05_operator_whitelist),
     (''scripts/deployment/verify_06_service_registry_token_utility.js'', verify_06_service_registry_token_utility),
     (''scripts/deployment/verify_07_service_manager.js'', verify_07_service_manager),
     (''scripts/deployment/verify_08_gnosis_safe_multisig.js'', verify_08_gnosis_safe_multisig),
     (''scripts/deployment/verify_09_gnosis_safe_same_address_multisig.js'', verify_09_gnosis_safe_same_address_multisig),
     (''scripts/deployment/l2/verify_01_service_registry_l2.js'', l2_verify_01_service_registry_l2),
     (''scripts/deployment/l2/verify_02_operator_whitelist.js'', l2_verify_02_operator_whitelist),
     (''scripts/deployment/l2/verify_03_service_registry_token_utility.js'', l2_verify_03_service_registry_token_utility),
     (''scripts/deployment/l2/verify_04_service_manager.js'', l2_verify_04_service_manager),
     (''scripts/deployment/l2/verify_05_gnosis_safe_multisig.js'', l2_verify_05_gnosis_safe_multisig),
     (''scripts/deployment/l2/verify_06_gnosis_safe_same_address_multisig.js'', l2_verify_06_gnosis_safe_same_address_multisig),
     (''scripts/deployment/l2/verify_18_service_staking_verifier.js'', l2_verify_18_service_staking_verifier),
     (''scripts/deployment/l2/verify_19_service_staking_factory.js'', l2_verify_19_service_staking_factory),
     (''scripts/deployment/l2/verify_23_hash_checkpoint.js'', l2_verify_23_hash_checkpoint)]"

lemmas verify_module_defs =
  verify_01_component_registry_def verify_02_agent_registry_def
  verify_03_registries_manager_def verify_04_service_registry_def
  verify_05_operator_whitelist_def verify_06_service_registry_token_utility_def
  verify_07_service_manager_def verify_08_gnosis_safe_multisig_def
  verify_09_gnosis_safe_same_address_multisig_def l2_verify_01_service_registry_l2_def
  l2_verify_02_operator_whitelist_def l2_verify_03_service_registry_token_utility_def
  l2_verify_04_service_manager_def l2_verify_05_gnosis_safe_multisig_def
  l2_verify_06_gnosis_safe_same_address_multisig_def l2_verify_18_service_staking_verifier_def
  l2_verify_19_service_staking_factory_def l2_verify_23_hash_checkpoint_def

section \<open>The command\<close>

text \<open>
  \<^verbatim>\<open>execSync("npx hardhat verify [--constructor-args path] --network " + providerName + " " + address)\<close>
  throws when the command fails: when the module is not in the repository, or when the explorer
  refuses. Without the option the list of arguments is empty.
\<close>

definition hardhat_verify :: "string option \<Rightarrow> json \<Rightarrow> address \<Rightarrow> (world, unit) js" where
  "hardhat_verify path network a w =
     (case (case path of None \<Rightarrow> Some (\<lambda>_. []) | Some p \<Rightarrow> map_of VERIFY_MODULES p) of
        None \<Rightarrow> (Inl ''Cannot find module'', w)
      | Some f \<Rightarrow>
          let args = f (globals_file w); w' = w\<lparr>submitted := submitted w @ [(a, args)]\<rparr>
          in if explorer_accepts w network a args then (Inr (), w') else (Inl ''Command failed'', w'))"

text \<open>\<^verbatim>\<open>if (parsedData.contractVerification) { execSync(...) }\<close>\<close>

definition verify_contract :: "globals \<Rightarrow> string option \<Rightarrow> address \<Rightarrow> (world, unit) js" where
  "verify_contract g path a =
     (if truthy (getf g ''contractVerification'') then hardhat_verify path (getf g ''providerName'') a else jret ())"

end
