(* ===== verification/Deployment_L1.thy ===== *)
theory Deployment_L1
  imports Contract_Verification
begin

text \<open>
  The deployment on the main chain: \<^verbatim>\<open>scripts/deployment/deploy_*.js\<close>, one definition per script in the order of
  their numbers, and \<^verbatim>\<open>deploy_08_service_manager_proxy.sh\<close>, which has no JavaScript version. A script is a
  function from the world to its exit code and the new world.
\<close>

type_synonym script = "world \<Rightarrow> nat \<times> world"

section \<open>What the scripts share\<close>

text \<open>
  Reading \<^verbatim>\<open>globals.json\<close>, \<^verbatim>\<open>getDefaultProvider(providerName)\<close> and the choice of the signer: the first lines of
  every script.
\<close>

definition L1_preamble :: "(globals \<Rightarrow> signer \<Rightarrow> (world, unit) js) \<Rightarrow> (world, unit) js" where
  "L1_preamble body =
     jbind read_globals (\<lambda>g. jbind (get_EOA g (to_str (getf g ''providerName''))) (\<lambda>EOA. body g EOA))"

text \<open>The deployment transaction and the three lines logged about it.\<close>

definition deploy_logged :: "signer \<Rightarrow> string \<Rightarrow> string \<Rightarrow> json list \<Rightarrow> nat option \<Rightarrow> (world, address) js" where
  "deploy_logged EOA label kind args gas =
     jbind (deploy_contract EOA kind args gas) (\<lambda>(a, h).
     jthen (say (''Contract deployment: '' @ label)) (
     jthen (console_log [JStr ''Contract address:'', JAddr a]) (
     jthen (console_log [JStr ''Transaction:'', JStr h]) (
     jret a))))"

text \<open>A method transaction with the lines logged before and after it.\<close>

definition signed_tx ::
  "signer \<Rightarrow> string \<Rightarrow> address \<Rightarrow> meth option \<Rightarrow> nat option \<Rightarrow> string option \<Rightarrow> json \<Rightarrow> (world, unit) js" where
  "signed_tx EOA signing contract m gas name addr =
     jthen (say signing) (
     jbind (transact EOA contract m gas) (\<lambda>h.
     jthen (case name of None \<Rightarrow> jret () | Some n \<Rightarrow> say (''Contract name: '' @ n)) (
     jthen (console_log [JStr ''Contract address:'', addr]) (
     console_log [JStr ''Transaction:'', JStr h]))))"

text \<open>\<^verbatim>\<open>await new Promise(r => setTimeout(r, ms))\<close>: nothing the script can see changes.\<close>

definition sleep :: "nat \<Rightarrow> (world, unit) js" where
  "sleep ms = jret ()"

definition sepolia_sleep :: "globals \<Rightarrow> (world, unit) js" where
  "sepolia_sleep g = (if getf g ''providerName'' = JStr ''sepolia'' then sleep 30000 else jret ())"

text \<open>\<^verbatim>\<open>expect(await contract.owner()).to.equal(u)\<close>\<close>

definition expect_owner :: "address \<Rightarrow> json \<Rightarrow> (world, unit) js" where
  "expect_owner contract u = jbind (owner contract) (\<lambda>v. expect_equal v u)"

section \<open>The scripts\<close>

definition deploy_01_component_registry :: script where
  "deploy_01_component_registry = run_main (
   L1_preamble (\<lambda>g EOA.
     jthen (say ''1. EOA to deploy ComponentRegistry'') (
     jthen (getContractFactory ''ComponentRegistry'') (
     jthen (say ''You are signing the following transaction: ComponentRegistry.connect(EOA).deploy()'') (
     jbind (deploy_logged EOA ''ComponentRegistry'' ''ComponentRegistry''
        [getf g ''componentRegistryName'', getf g ''componentRegistrySymbol'', getf g ''baseURI''] None) (\<lambda>a.
     jthen (verify_contract g (Some ''scripts/deployment/verify_01_component_registry.js'') a) (
     write_globals (putf ''componentRegistryAddress'' (JAddr a) g))))))))"

definition deploy_02_agent_registry :: script where
  "deploy_02_agent_registry = run_main (
   L1_preamble (\<lambda>g EOA.
     jthen (say ''2. EOA to deploy AgentRegistry'') (
     jthen (getContractFactory ''AgentRegistry'') (
     jthen (say ''You are signing the following transaction: AgentRegistry.connect(EOA).deploy()'') (
     jbind (deploy_logged EOA ''AgentRegistry'' ''AgentRegistry''
        [getf g ''agentRegistryName'', getf g ''agentRegistrySymbol'', getf g ''baseURI'',
         getf g ''componentRegistryAddress''] None) (\<lambda>a.
     jthen (verify_contract g (Some ''scripts/deployment/verify_02_agent_registry.js'') a) (
     write_globals (putf ''agentRegistryAddress'' (JAddr a) g))))))))"

definition deploy_03_registries_manager :: script where
  "deploy_03_registries_manager = run_main (
   L1_preamble (\<lambda>g EOA.
     jthen (say ''3. EOA to deploy RegistriesManager pointed to ComponentRegistry and AgentRegistry'') (
     jthen (getContractFactory ''RegistriesManager'') (
     jthen (say ''You are signing the following transaction: RegistriesManager.connect(EOA).deploy()'') (
     jbind (deploy_logged EOA ''RegistriesManager'' ''RegistriesManager''
        [getf g ''componentRegistryAddress'', getf g ''agentRegistryAddress''] None) (\<lambda>a.
     jthen (verify_contract g (Some ''scripts/deployment/verify_03_registries_manager.js'') a) (
     write_globals (putf ''registriesManagerAddress'' (JAddr a) g))))))))"

definition deploy_04_service_registry :: script where
  "deploy_04_service_registry = run_main (
   L1_preamble (\<lambda>g EOA.
     jthen (say ''4. EOA to deploy ServiceRegistry'') (
     jthen (getContractFactory ''ServiceRegistry'') (
     jthen (say ''You are signing the following transaction: ServiceRegistry.connect(EOA).deploy()'') (
     jbind (deploy_logged EOA ''ServiceRegistry'' ''ServiceRegistry''
        [getf g ''serviceRegistryName'', getf g ''serviceRegistrySymbol'', getf g ''baseURI'',
         getf g ''agentRegistryAddress''] None) (\<lambda>a.
     jthen (verify_contract g (Some ''scripts/deployment/verify_04_service_registry.js'') a) (
     write_globals (putf ''serviceRegistryAddress'' (JAddr a) g))))))))"

definition deploy_05_operator_whitelist :: script where
  "deploy_05_operator_whitelist = run_main (
   L1_preamble (\<lambda>g EOA.
     jthen (say ''15. EOA to deploy OperatorWhitelist'') (
     jthen (getContractFactory ''OperatorWhitelist'') (
     jthen (say ''You are signing the following transaction: OperatorWhitelist.connect(EOA).deploy(serviceRegistryAddress)'') (
     jbind (deploy_logged EOA ''OperatorWhitelist'' ''OperatorWhitelist''
        [getf g ''serviceRegistryAddress''] None) (\<lambda>a.
     jthen (sepolia_sleep g) (
     jthen (write_globals (putf ''operatorWhitelistAddress'' (JAddr a) g)) (
     verify_contract g (Some ''scripts/deployment/verify_15_operator_whitelist.js'') a))))))))"

definition deploy_06_service_registry_token_utility :: script where
  "deploy_06_service_registry_token_utility = run_main (
   L1_preamble (\<lambda>g EOA.
     jthen (say ''16. EOA to deploy ServiceRegistryTokenUtility'') (
     jthen (getContractFactory ''ServiceRegistryTokenUtility'') (
     jthen (say ''You are signing the following transaction: ServiceRegistryTokenUtility.connect(EOA).deploy(serviceRegistryAddress)'') (
     jbind (deploy_logged EOA ''ServiceRegistryTokenUtility'' ''ServiceRegistryTokenUtility''
        [getf g ''serviceRegistryAddress''] None) (\<lambda>a.
     jthen (sepolia_sleep g) (
     jthen (write_globals (putf ''serviceRegistryTokenUtilityAddress'' (JAddr a) g)) (
     verify_contract g (Some ''scripts/deployment/verify_16_service_registry_token_utility.js'') a))))))))"

definition deploy_07_service_manager :: script where
  "deploy_07_service_manager = run_main (
   L1_preamble (\<lambda>g EOA.
     jthen (say ''17. EOA to deploy ServiceManager'') (
     jthen (getContractFactory ''ServiceManager'') (
     jthen (say ''You are signing the following transaction: ServiceManager.connect(EOA).deploy()'') (
     jbind (deploy_logged EOA ''ServiceManager'' ''ServiceManager''
        [getf g ''serviceRegistryAddress'', getf g ''serviceRegistryTokenUtilityAddress''] None) (\<lambda>a.
     jthen (sepolia_sleep g) (
     jthen (write_globals (putf ''serviceManagerAddress'' (JAddr a) g)) (
     verify_contract g (Some ''scripts/deployment/verify_07_service_manager.js'') a))))))))"

text \<open>
  \<^verbatim>\<open>deploy_08_service_manager_proxy.sh\<close> and its copy \<^verbatim>\<open>l2/deploy_05_service_manager_proxy.sh\<close>, called with the name of the network. They read and write
  the file \<^verbatim>\<open>globals_<network>.json\<close> beside them and not \<^verbatim>\<open>globals.json\<close>. Both kinds of
  wallet send through \<^verbatim>\<open>networkURL\<close> with the API key; every way out has exit code 0, and a failed
  verification is not noticed. The string \<open>initialize()\<close> stands for the call data of this function.
\<close>

text \<open>\<^verbatim>\<open>jq -r\<close> prints a missing field as null.\<close>

definition jq_str :: "json \<Rightarrow> string" where
  "jq_str j = (if j = JUndef then ''null'' else to_str j)"

definition alchemy_key :: "json \<Rightarrow> string option" where
  "alchemy_key chainId = map_of [(''1'', ''ALCHEMY_API_KEY_MAINNET''), (''11155111'', ''ALCHEMY_API_KEY_SEPOLIA''),
     (''137'', ''ALCHEMY_API_KEY_MATIC''), (''80002'', ''ALCHEMY_API_KEY_AMOY'')] (jq_str chainId)"

definition shell_key :: "globals \<Rightarrow> (world, string option) js" where
  "shell_key g =
     (if contains ''alchemy.com'' (jq_str (getf g ''networkURL'')) then
        (case alchemy_key (getf g ''chainId'') of
           None \<Rightarrow> jret (Some [])
         | Some keyName \<Rightarrow> jbind (env_var keyName) (\<lambda>v.
             if truthy v then jret (Some (to_str v))
             else jthen (say (''set '' @ keyName @ '' env variable'')) (jret None)))
      else jret (Some []))"

definition forge_verify :: "address \<Rightarrow> json list \<Rightarrow> (world, unit) js" where
  "forge_verify a args w = (Inr (), w\<lparr>submitted := submitted w @ [(a, args)]\<rparr>)"

definition write_network :: "string \<Rightarrow> globals \<Rightarrow> (world, unit) js" where
  "write_network path g w = (Inr (), w\<lparr>network_files := (network_files w)(path := Some g)\<rparr>)"

definition say_private_key :: "globals \<Rightarrow> (world, unit) js" where
  "say_private_key g = (if jq_str (getf g ''useLedger'') = ''true'' then jret ()
     else jbind (env_var ''PRIVATE_KEY'') (\<lambda>v. say (''Using PRIVATE_KEY: '' @ take 6 (if v = JUndef then [] else to_str v) @ ''...'')))"

definition proxy_verify :: "globals \<Rightarrow> address \<Rightarrow> json list \<Rightarrow> (world, unit) js" where
  "proxy_verify g a args =
     (if jq_str (getf g ''contractVerification'') = ''true'' then
        jthen (console_log ([JStr ''Verification contract params: '', JAddr a, JStr ''contracts/ServiceManagerProxy.sol:ServiceManagerProxy''] @ args)) (
        jthen (say ''Verifying contract on Etherscan...'') (
        jthen (forge_verify a args)
          (if jq_str (getf g ''blockscoutURL'') \<noteq> ''null''
           then jthen (say ''Verifying contract on Blockscout...'') (forge_verify a args) else jret ())))
      else jret ())"

definition proxy_body :: "string \<Rightarrow> globals \<Rightarrow> signer \<Rightarrow> (world, unit) js" where
  "proxy_body path g EOA = (let args = [getf g ''serviceManagerAddress'', JStr ''initialize()''] in
     jthen (say_private_key g) (
     jthen (console_log [JStr ''Deploying from: '', JAddr (signer_addr EOA)]) (
     jthen (console_log ([JStr ''Deployment of: '', JStr ''contracts/ServiceManagerProxy.sol:ServiceManagerProxy''] @ args)) (
     jtry (
       jbind (deploy_contract EOA ''ServiceManagerProxy'' args None) (\<lambda>(a, h).
       jthen (write_network path (putf ''serviceManagerProxyAddress'' (JAddr a) g)) (
       jthen (proxy_verify g a args) (
       console_log [JStr ''ServiceManagerProxy deployed at: '', JAddr a]))))
       (\<lambda>e. say ''!!! The contract was not deployed, aborting...'')))))"

definition proxy_signer :: "globals \<Rightarrow> string \<Rightarrow> world \<Rightarrow> signer" where
  "proxy_signer g API_KEY w = Ledger (if jq_str (getf g ''useLedger'') = ''true'' then ledger_address w else private_key_address w)
     (jq_str (getf g ''networkURL'') @ API_KEY)"

definition proxy_script :: "string \<Rightarrow> script" where
  "proxy_script path = run_main (\<lambda>w.
     case network_files w path of
       None \<Rightarrow> say (''!!! '' @ path @ '' is not found'') w
     | Some g \<Rightarrow> jbind (shell_key g) (\<lambda>key.
         case key of None \<Rightarrow> jret () | Some API_KEY \<Rightarrow> (\<lambda>w. proxy_body path g (proxy_signer g API_KEY w) w)) w)"

definition network_path :: "string \<Rightarrow> string \<Rightarrow> string" where
  "network_path dir network = dir @ ''/globals_'' @ network @ ''.json''"

definition deploy_08_service_manager_proxy :: "string \<Rightarrow> script" where
  "deploy_08_service_manager_proxy network = proxy_script (network_path ''scripts/deployment'' network)"

definition deploy_09a_gnosis_safe_multisig :: script where
  "deploy_09a_gnosis_safe_multisig = run_main (
   L1_preamble (\<lambda>g EOA.
     jthen (say ''6. EOA to deploy GnosisSafeMultisig'') (
     jthen (getContractFactory ''GnosisSafeMultisig'') (
     jthen (say ''You are signing the following transaction: GnosisSafeMultisig.connect(EOA).deploy(gnosisSafeAddress, gnosisSafeProxyFactoryAddress)'') (
     jbind (deploy_logged EOA ''GnosisSafeMultisig'' ''GnosisSafeMultisig''
        [getf g ''gnosisSafeAddress'', getf g ''gnosisSafeProxyFactoryAddress''] None) (\<lambda>a.
     jthen (write_globals (putf ''gnosisSafeMultisigImplementationAddress'' (JAddr a) g)) (
     verify_contract g (Some ''scripts/deployment/verify_06a_gnosis_safe_multisig.js'') a)))))))"

definition deploy_09b_gnosis_safe_same_address_multisig :: script where
  "deploy_09b_gnosis_safe_same_address_multisig = run_main (
   L1_preamble (\<lambda>g EOA.
     jthen (say ''6b. EOA to deploy GnosisSafeSameAddressMultisig'') (
     jthen (getContractFactory ''GnosisSafeSameAddressMultisig'') (
     jthen (say ''You are signing the following transaction: GnosisSafeSameAddressMultisig.connect(EOA).deploy(multisigProxyHash130)'') (
     jbind (deploy_logged EOA ''GnosisSafeSameAddressMultisig'' ''GnosisSafeSameAddressMultisig''
        [getf g ''multisigProxyHash130''] None) (\<lambda>a.
     jthen (write_globals (putf ''gnosisSafeSameAddressMultisigImplementationAddress'' (JAddr a) g)) (
     verify_contract g (Some ''scripts/deployment/verify_06b_gnosis_safe_same_address_multisig.js'') a)))))))"

definition deploy_10_14_change_managers :: script where
  "deploy_10_14_change_managers = run_main (
   L1_preamble (\<lambda>g EOA.
     jbind (getContractAt ''ComponentRegistry'' (getf g ''componentRegistryAddress'')) (\<lambda>componentRegistry.
     jbind (getContractAt ''AgentRegistry'' (getf g ''agentRegistryAddress'')) (\<lambda>agentRegistry.
     jbind (getContractAt ''ServiceRegistry'' (getf g ''serviceRegistryAddress'')) (\<lambda>serviceRegistry.
     jbind (getContractAt ''ServiceRegistryTokenUtility'' (getf g ''serviceRegistryTokenUtilityAddress''))
       (\<lambda>serviceRegistryTokenUtility.
     jthen (signed_tx EOA ''You are signing the following transaction: componentRegistry.connect(EOA).changeManager()''
       componentRegistry (addr_arg ChangeManager (getf g ''registriesManagerAddress'')) None
       (Some ''ComponentRegistry'') (getf g ''componentRegistryAddress'')) (
     jthen (signed_tx EOA ''You are signing the following transaction: agentRegistry.connect(EOA).changeManager()''
       agentRegistry (addr_arg ChangeManager (getf g ''registriesManagerAddress'')) None
       (Some ''AgentRegistry'') (getf g ''agentRegistryAddress'')) (
     jthen (signed_tx EOA ''You are signing the following transaction: serviceRegistry.connect(EOA).changeManager()''
       serviceRegistry (addr_arg ChangeManager (getf g ''serviceManagerProxyAddress'')) None
       (Some ''ServiceRegistry'') (getf g ''serviceRegistryAddress'')) (
     jthen (signed_tx EOA
       ''You are signing the following transaction: serviceRegistryTokenUtility.connect(EOA).changeManager(serviceManagerProxyAddress)''
       serviceRegistryTokenUtility (addr_arg ChangeManager (getf g ''serviceManagerProxyAddress'')) None
       (Some ''ServiceRegistryTokenUtility'') (getf g ''serviceRegistryTokenUtilityAddress'')) (
     jthen (signed_tx EOA ''9. You are signing the following transaction: serviceRegistry.connect(EOA).changeMultisigPermission()''
       serviceRegistry (addr_arg (\<lambda>a. ChangeMultisigPermission a True) (getf g ''gnosisSafeMultisigImplementationAddress'')) None
       None (getf g ''serviceRegistryAddress'')) (
     signed_tx EOA ''10. You are signing the following transaction: serviceRegistry.connect(EOA).changeMultisigPermission()''
       serviceRegistry (addr_arg (\<lambda>a. ChangeMultisigPermission a True) (getf g ''gnosisSafeSameAddressMultisigImplementationAddress'')) None
       None (getf g ''serviceRegistryAddress''))))))))))))"

definition deploy_15_20_change_ownerships :: script where
  "deploy_15_20_change_ownerships = run_main (
   L1_preamble (\<lambda>g EOA.
     let timelockAddress = getf g ''timelockAddress'' in
     jbind (getContractAt ''ComponentRegistry'' (getf g ''componentRegistryAddress'')) (\<lambda>componentRegistry.
     jbind (getContractAt ''AgentRegistry'' (getf g ''agentRegistryAddress'')) (\<lambda>agentRegistry.
     jbind (getContractAt ''ServiceRegistry'' (getf g ''serviceRegistryAddress'')) (\<lambda>serviceRegistry.
     jbind (getContractAt ''ServiceRegistryTokenUtility'' (getf g ''serviceRegistryTokenUtilityAddress''))
       (\<lambda>serviceRegistryTokenUtility.
     jbind (getContractAt ''RegistriesManager'' (getf g ''registriesManagerAddress'')) (\<lambda>registriesManager.
     jbind (getContractAt ''ServiceManager'' (getf g ''serviceManagerProxyAddress'')) (\<lambda>serviceManager.
     jthen (signed_tx EOA ''You are signing the following transaction: componentRegistry.connect(EOA).changeOwner()''
       componentRegistry (addr_arg ChangeOwner timelockAddress) None
       (Some ''ComponentRegistry'') (getf g ''componentRegistryAddress'')) (
     jthen (signed_tx EOA ''You are signing the following transaction: agentRegistry.connect(EOA).changeOwner()''
       agentRegistry (addr_arg ChangeOwner timelockAddress) None
       (Some ''AgentRegistry'') (getf g ''agentRegistryAddress'')) (
     jthen (signed_tx EOA ''You are signing the following transaction: serviceRegistry.connect(EOA).changeOwner()''
       serviceRegistry (addr_arg ChangeOwner timelockAddress) None
       (Some ''ServiceRegistry'') (getf g ''serviceRegistryAddress'')) (
     jthen (signed_tx EOA ''You are signing the following transaction: ServiceRegistryTokenUtility.connect(EOA).changeOwner()''
       serviceRegistryTokenUtility (addr_arg ChangeOwner timelockAddress) None
       (Some ''ServiceRegistryTokenUtility'') (getf g ''serviceRegistryTokenUtilityAddress'')) (
     jthen (signed_tx EOA ''You are signing the following transaction: registriesManager.connect(EOA).changeOwner()''
       registriesManager (addr_arg ChangeOwner timelockAddress) None
       (Some ''RegistriesManager'') (getf g ''registriesManagerAddress'')) (
     jthen (signed_tx EOA ''You are signing the following transaction: serviceManager.connect(EOA).changeOwner()''
       serviceManager (addr_arg ChangeOwner timelockAddress) None
       (Some ''ServiceManagerProxy'') (getf g ''serviceManagerProxyAddress'')) (
     jthen (expect_owner componentRegistry timelockAddress) (
     jthen (expect_owner agentRegistry timelockAddress) (
     jthen (expect_owner serviceRegistry timelockAddress) (
     jthen (expect_owner registriesManager timelockAddress) (
     jthen (expect_owner serviceManager timelockAddress) (
     say ''Successful verification'')))))))))))))))))))"

definition deploy_21_service_staking_factory :: script where
  "deploy_21_service_staking_factory = run_main (
   L1_preamble (\<lambda>g EOA.
     jthen (say ''21. EOA to deploy ServiceStakingFactory'') (
     jthen (getContractFactory ''ServiceStakingFactory'') (
     jthen (say ''You are signing the following transaction: ServiceStakingFactory.connect(EOA).deploy(serviceRegistryAddress)'') (
     jbind (deploy_logged EOA ''ServiceStakingFactory'' ''ServiceStakingFactory''
        [] None) (\<lambda>a.
     jthen (sepolia_sleep g) (
     jthen (write_globals (putf ''stakingFactoryAddress'' (JAddr a) g)) (
     verify_contract g None a))))))))"

end
