(* ===== verification/Deployment_L2.thy ===== *)
theory Deployment_L2
  imports Deployment_L1
begin

text \<open>
  The deployment on the other chains: \<^verbatim>\<open>scripts/deployment/l2/deploy_*.js\<close>, one definition per script in the
  order of their numbers.
\<close>

section \<open>The endpoint\<close>

text \<open>
  \<^verbatim>\<open>networkURL += process.env.KEY\<close>, where the right operand is a string or undefined: a concatenation when
  one operand is a string, and otherwise not a number.
\<close>

definition js_plus :: "json \<Rightarrow> json \<Rightarrow> json" where
  "js_plus a b = (if is_str a \<or> is_str b then JStr (to_str a @ to_str b) else JStr ''NaN'')"

text \<open>
  One branch of the chain of conditions: without the key the script says so and, only on the test
  networks, returns (\<open>None\<close>).
\<close>

definition add_key :: "string \<Rightarrow> bool \<Rightarrow> json \<Rightarrow> (world, json option) js" where
  "add_key key returns url =
     jbind (env_var key) (\<lambda>v.
     if \<not> truthy v then jthen (say (''set '' @ key @ '' env variable''))
       (if returns then jret None else jret (Some (js_plus url v)))
     else jret (Some (js_plus url v)))"

definition polygon_url :: "json \<Rightarrow> json \<Rightarrow> (world, json option) js" where
  "polygon_url providerName url =
     (if providerName = JStr ''polygon'' then add_key ''ALCHEMY_API_KEY_MATIC'' False url
      else if providerName = JStr ''polygonAmoy'' then add_key ''ALCHEMY_API_KEY_AMOY'' True url
      else jret (Some url))"

text \<open>Scripts 16 to 19 also run on the main chain and its test network.\<close>

definition staking_url :: "json \<Rightarrow> json \<Rightarrow> (world, json option) js" where
  "staking_url providerName url =
     (if providerName = JStr ''mainnet'' then add_key ''ALCHEMY_API_KEY_MAINNET'' False url
      else if providerName = JStr ''sepolia'' then add_key ''ALCHEMY_API_KEY_SEPOLIA'' True url
      else polygon_url providerName url)"

text \<open>Scripts 20 and 21-22: a condition of its own for the main chain, then the polygon chain.\<close>

definition verifier_url :: "json \<Rightarrow> json \<Rightarrow> (world, json option) js" where
  "verifier_url providerName url =
     jbind (if providerName = JStr ''mainnet'' then add_key ''ALCHEMY_API_KEY_MAINNET'' False url else jret (Some url))
       (\<lambda>u. case u of None \<Rightarrow> jret None | Some url' \<Rightarrow> polygon_url providerName url')"

definition preamble ::
  "(json \<Rightarrow> json \<Rightarrow> (world, json option) js) \<Rightarrow> (globals \<Rightarrow> signer \<Rightarrow> (world, unit) js) \<Rightarrow> (world, unit) js" where
  "preamble url body =
     jbind read_globals (\<lambda>g.
     jbind (url (getf g ''providerName'') (getf g ''networkURL'')) (\<lambda>u.
     case u of None \<Rightarrow> jret ()
     | Some networkURL \<Rightarrow> jbind (get_EOA g (to_str networkURL)) (\<lambda>EOA. body g EOA)))"

definition L2_preamble :: "(globals \<Rightarrow> signer \<Rightarrow> (world, unit) js) \<Rightarrow> (world, unit) js" where
  "L2_preamble = preamble polygon_url"

definition staking_preamble :: "(globals \<Rightarrow> signer \<Rightarrow> (world, unit) js) \<Rightarrow> (world, unit) js" where
  "staking_preamble = preamble staking_url"

definition verifier_preamble :: "(globals \<Rightarrow> signer \<Rightarrow> (world, unit) js) \<Rightarrow> (world, unit) js" where
  "verifier_preamble = preamble verifier_url"

section \<open>The scripts\<close>

definition l2_deploy_01_service_registry_l2 :: script where
  "l2_deploy_01_service_registry_l2 = run_main (
   L2_preamble (\<lambda>g EOA.
     jthen (say ''1. EOA to deploy ServiceRegistryL2'') (
     jbind (parse_gas (getf g ''gasPriceInGwei'')) (\<lambda>gasPrice.
     jthen (getContractFactory ''ServiceRegistryL2'') (
     jthen (say ''You are signing the following transaction: ServiceRegistryL2.connect(EOA).deploy()'') (
     jbind (deploy_logged EOA ''ServiceRegistryL2'' ''ServiceRegistryL2''
        [getf g ''serviceRegistryName'', getf g ''serviceRegistrySymbol'', getf g ''baseURI''] (Some gasPrice)) (\<lambda>a.
     jthen (sleep 30000) (
     jthen (write_globals (putf ''serviceRegistryAddress'' (JAddr a) g)) (
     verify_contract g (Some ''scripts/deployment/l2/verify_01_service_registry_l2.js'') a)))))))))"

definition l2_deploy_02_operator_whitelist :: script where
  "l2_deploy_02_operator_whitelist = run_main (
   L2_preamble (\<lambda>g EOA.
     jbind (parse_gas (getf g ''gasPriceInGwei'')) (\<lambda>gasPrice.
     jthen (say ''2. EOA to deploy OperatorWhitelist'') (
     jthen (getContractFactory ''OperatorWhitelist'') (
     jthen (say ''You are signing the following transaction: OperatorWhitelist.connect(EOA).deploy(serviceRegistryAddress)'') (
     jbind (deploy_logged EOA ''OperatorWhitelist'' ''OperatorWhitelist''
        [getf g ''serviceRegistryAddress''] (Some gasPrice)) (\<lambda>a.
     jthen (sleep 30000) (
     jthen (write_globals (putf ''operatorWhitelistAddress'' (JAddr a) g)) (
     verify_contract g (Some ''scripts/deployment/l2/verify_02_operator_whitelist.js'') a)))))))))"

definition l2_deploy_03_service_registry_token_utility :: script where
  "l2_deploy_03_service_registry_token_utility = run_main (
   L2_preamble (\<lambda>g EOA.
     jbind (parse_gas (getf g ''gasPriceInGwei'')) (\<lambda>gasPrice.
     jthen (say ''3. EOA to deploy ServiceRegistryTokenUtility'') (
     jthen (getContractFactory ''ServiceRegistryTokenUtility'') (
     jthen (say ''You are signing the following transaction: ServiceRegistryTokenUtility.connect(EOA).deploy(serviceRegistryAddress)'') (
     jbind (deploy_logged EOA ''ServiceRegistryTokenUtility'' ''ServiceRegistryTokenUtility''
        [getf g ''serviceRegistryAddress''] (Some gasPrice)) (\<lambda>a.
     jthen (sleep 30000) (
     jthen (write_globals (putf ''serviceRegistryTokenUtilityAddress'' (JAddr a) g)) (
     verify_contract g (Some ''scripts/deployment/l2/verify_03_service_registry_token_utility.js'') a)))))))))"

definition l2_deploy_04_service_manager :: script where
  "l2_deploy_04_service_manager = run_main (
   L2_preamble (\<lambda>g EOA.
     jbind (parse_gas (getf g ''gasPriceInGwei'')) (\<lambda>gasPrice.
     jthen (say ''4. EOA to deploy ServiceManager'') (
     jthen (getContractFactory ''ServiceManager'') (
     jthen (say ''You are signing the following transaction: ServiceManager.connect(EOA).deploy()'') (
     jbind (deploy_logged EOA ''ServiceManager'' ''ServiceManager''
        [getf g ''serviceRegistryAddress'', getf g ''serviceRegistryTokenUtilityAddress''] (Some gasPrice)) (\<lambda>a.
     jthen (sleep 30000) (
     jthen (write_globals (putf ''serviceManagerAddress'' (JAddr a) g)) (
     verify_contract g (Some ''scripts/deployment/l2/verify_04_service_manager.js'') a)))))))))"

text \<open>\<^verbatim>\<open>l2/deploy_05_service_manager_proxy.sh\<close> is the script of the main chain, with the file of its own directory.\<close>

definition l2_deploy_05_service_manager_proxy :: "string \<Rightarrow> script" where
  "l2_deploy_05_service_manager_proxy network = proxy_script (network_path ''scripts/deployment/l2'' network)"

definition l2_deploy_06a_gnosis_safe_multisig :: script where
  "l2_deploy_06a_gnosis_safe_multisig = run_main (
   L2_preamble (\<lambda>g EOA.
     jthen (say ''5. EOA to deploy GnosisSafeMultisig'') (
     jbind (parse_gas (getf g ''gasPriceInGwei'')) (\<lambda>gasPrice.
     jthen (getContractFactory ''GnosisSafeMultisig'') (
     jthen (say ''You are signing the following transaction: GnosisSafeMultisig.connect(EOA).deploy()'') (
     jbind (deploy_logged EOA ''GnosisSafeMultisig'' ''GnosisSafeMultisig''
        [getf g ''gnosisSafeAddress'', getf g ''gnosisSafeProxyFactoryAddress''] (Some gasPrice)) (\<lambda>a.
     jthen (sleep 30000) (
     jthen (write_globals (putf ''gnosisSafeMultisigImplementationAddress'' (JAddr a) g)) (
     verify_contract g (Some ''scripts/deployment/l2/verify_05_gnosis_safe_multisig.js'') a)))))))))"

definition l2_deploy_06b_gnosis_safe_same_address_multisig :: script where
  "l2_deploy_06b_gnosis_safe_same_address_multisig = run_main (
   L2_preamble (\<lambda>g EOA.
     jthen (say ''6. EOA to deploy GnosisSafeSameAddressMultisig'') (
     jbind (parse_gas (getf g ''gasPriceInGwei'')) (\<lambda>gasPrice.
     jthen (getContractFactory ''GnosisSafeSameAddressMultisig'') (
     jthen (say ''You are signing the following transaction: GnosisSafeSameAddressMultisig.connect(EOA).deploy(multisigProxyHash130)'') (
     jbind (deploy_logged EOA ''GnosisSafeSameAddressMultisig'' ''GnosisSafeSameAddressMultisig''
        [getf g ''multisigProxyHash130''] (Some gasPrice)) (\<lambda>a.
     jthen (sleep 30000) (
     jthen (write_globals (putf ''gnosisSafeSameAddressMultisigImplementationAddress'' (JAddr a) g)) (
     verify_contract g (Some ''scripts/deployment/l2/verify_06_gnosis_safe_same_address_multisig.js'') a)))))))))"

definition l2_deploy_07_10_change_managers_and_permissions :: script where
  "l2_deploy_07_10_change_managers_and_permissions = run_main (
   L2_preamble (\<lambda>g EOA.
     jbind (getContractAt ''ServiceRegistryL2'' (getf g ''serviceRegistryAddress'')) (\<lambda>serviceRegistry.
     jbind (getContractAt ''ServiceRegistryTokenUtility'' (getf g ''serviceRegistryTokenUtilityAddress''))
       (\<lambda>serviceRegistryTokenUtility.
     jbind (parse_gas (getf g ''gasPriceInGwei'')) (\<lambda>gasPrice.
     jthen (signed_tx EOA ''7. You are signing the following transaction: serviceRegistry.connect(EOA).changeManager()''
       serviceRegistry (addr_arg ChangeManager (getf g ''serviceManagerProxyAddress'')) (Some gasPrice)
       None (getf g ''serviceRegistryAddress'')) (
     jthen (signed_tx EOA
       ''8. You are signing the following transaction: serviceRegistryTokenUtility.connect(EOA).changeManager(serviceManagerProxyAddress)''
       serviceRegistryTokenUtility (addr_arg ChangeManager (getf g ''serviceManagerProxyAddress'')) (Some gasPrice)
       None (getf g ''serviceRegistryTokenUtilityAddress'')) (
     jthen (signed_tx EOA ''9. You are signing the following transaction: serviceRegistry.connect(EOA).changeMultisigPermission()''
       serviceRegistry (addr_arg (\<lambda>a. ChangeMultisigPermission a True) (getf g ''gnosisSafeMultisigImplementationAddress'')) (Some gasPrice)
       None (getf g ''serviceRegistryAddress'')) (
     signed_tx EOA ''10. You are signing the following transaction: serviceRegistry.connect(EOA).changeMultisigPermission()''
       serviceRegistry (addr_arg (\<lambda>a. ChangeMultisigPermission a True) (getf g ''gnosisSafeSameAddressMultisigImplementationAddress'')) (Some gasPrice)
       None (getf g ''serviceRegistryAddress'')))))))))"

definition l2_deploy_11_12_change_drainers :: script where
  "l2_deploy_11_12_change_drainers = run_main (
   L2_preamble (\<lambda>g EOA.
     let bridgeMediatorAddress = getf g ''bridgeMediatorAddress'' in
     jbind (parse_gas (getf g ''gasPriceInGwei'')) (\<lambda>gasPrice.
     jbind (getContractAt ''ServiceRegistryL2'' (getf g ''serviceRegistryAddress'')) (\<lambda>serviceRegistry.
     jbind (getContractAt ''ServiceRegistryTokenUtility'' (getf g ''serviceRegistryTokenUtilityAddress''))
       (\<lambda>serviceRegistryTokenUtility.
     jthen (signed_tx EOA
       ''You are signing the following transaction: serviceRegistry.connect(EOA).changeDrainer(bridgeMediatorAddress)''
       serviceRegistry (addr_arg ChangeDrainer bridgeMediatorAddress) (Some gasPrice)
       None (getf g ''serviceRegistryAddress'')) (
     signed_tx EOA
       ''You are signing the following transaction: serviceRegistryTokenUtility.connect(EOA).changeDrainer(bridgeMediatorAddress)''
       serviceRegistryTokenUtility (addr_arg ChangeDrainer bridgeMediatorAddress) (Some gasPrice)
       None (getf g ''serviceRegistryTokenUtilityAddress'')))))))"

definition l2_deploy_13_15_change_ownerships :: script where
  "l2_deploy_13_15_change_ownerships = run_main (
   L2_preamble (\<lambda>g EOA.
     let bridgeMediatorAddress = getf g ''bridgeMediatorAddress'' in
     jbind (getContractAt ''ServiceRegistryL2'' (getf g ''serviceRegistryAddress'')) (\<lambda>serviceRegistry.
     jbind (getContractAt ''ServiceRegistryTokenUtility'' (getf g ''serviceRegistryTokenUtilityAddress''))
       (\<lambda>serviceRegistryTokenUtility.
     jbind (getContractAt ''ServiceManager'' (getf g ''serviceManagerProxyAddress'')) (\<lambda>serviceManager.
     jbind (parse_gas (getf g ''gasPriceInGwei'')) (\<lambda>gasPrice.
     jthen (signed_tx EOA ''13. You are signing the following transaction: serviceRegistry.connect(EOA).changeOwner()''
       serviceRegistry (addr_arg ChangeOwner bridgeMediatorAddress) (Some gasPrice)
       None (getf g ''serviceRegistryAddress'')) (
     jthen (signed_tx EOA ''14. You are signing the following transaction: ServiceRegistryTokenUtility.connect(EOA).changeOwner()''
       serviceRegistryTokenUtility (addr_arg ChangeOwner bridgeMediatorAddress) (Some gasPrice)
       None (getf g ''serviceRegistryTokenUtilityAddress'')) (
     signed_tx EOA ''15. You are signing the following transaction: serviceManager.connect(EOA).changeOwner()''
       serviceManager (addr_arg ChangeOwner bridgeMediatorAddress) (Some gasPrice)
       None (getf g ''serviceManagerProxyAddress'')))))))))"

definition l2_deploy_16_service_staking_token :: script where
  "l2_deploy_16_service_staking_token = run_main (
   staking_preamble (\<lambda>g EOA.
     jthen (say ''16. EOA to deploy StakingToken'') (
     jbind (parse_gas (getf g ''gasPriceInGwei'')) (\<lambda>gasPrice.
     jthen (getContractFactory ''StakingToken'') (
     jthen (say ''You are signing the following transaction: StakingToken.connect(EOA).deploy()'') (
     jbind (deploy_logged EOA ''StakingToken'' ''StakingToken''
        [] (Some gasPrice)) (\<lambda>a.
     jthen (sleep 30000) (
     jthen (write_globals (putf ''stakingTokenAddress'' (JAddr a) g)) (
     verify_contract g None a)))))))))"

definition l2_deploy_17_service_staking_native_token :: script where
  "l2_deploy_17_service_staking_native_token = run_main (
   staking_preamble (\<lambda>g EOA.
     jthen (say ''17. EOA to deploy StakingNativeToken'') (
     jbind (parse_gas (getf g ''gasPriceInGwei'')) (\<lambda>gasPrice.
     jthen (getContractFactory ''StakingNativeToken'') (
     jthen (say ''You are signing the following transaction: StakingNativeToken.connect(EOA).deploy()'') (
     jbind (deploy_logged EOA ''StakingNativeToken'' ''StakingNativeToken''
        [] (Some gasPrice)) (\<lambda>a.
     jthen (sleep 30000) (
     jthen (write_globals (putf ''stakingNativeTokenAddress'' (JAddr a) g)) (
     verify_contract g None a)))))))))"

definition l2_deploy_18_service_staking_verifier :: script where
  "l2_deploy_18_service_staking_verifier = run_main (
   staking_preamble (\<lambda>g EOA.
     jthen (say ''18. EOA to deploy StakingVerifier'') (
     jthen (getContractFactory ''StakingVerifier'') (
     jthen (say ''You are signing the following transaction: StakingVerifier.connect(EOA).deploy()'') (
     jbind (parse_gas (getf g ''gasPriceInGwei'')) (\<lambda>gasPrice.
     jbind (deploy_logged EOA ''StakingVerifier'' ''StakingVerifier''
        [getf g ''olasAddress'', getf g ''serviceRegistryAddress'', getf g ''serviceRegistryTokenUtilityAddress'',
         getf g ''minStakingDepositLimit'', getf g ''timeForEmissionsLimit'',
         getf g ''numServicesLimit'', getf g ''apyLimit''] (Some gasPrice)) (\<lambda>a.
     jthen (sleep 30000) (
     jthen (write_globals (putf ''stakingVerifierAddress'' (JAddr a) g)) (
     verify_contract g (Some ''scripts/deployment/l2/verify_18_service_staking_verifier.js'') a)))))))))"

definition l2_deploy_19_service_staking_factory :: script where
  "l2_deploy_19_service_staking_factory = run_main (
   staking_preamble (\<lambda>g EOA.
     jthen (say ''19. EOA to deploy StakingFactory'') (
     jthen (getContractFactory ''StakingFactory'') (
     jthen (say ''You are signing the following transaction: StakingFactory.connect(EOA).deploy()'') (
     jbind (parse_gas (getf g ''gasPriceInGwei'')) (\<lambda>gasPrice.
     jbind (deploy_logged EOA ''StakingFactory'' ''StakingFactory''
        [getf g ''stakingVerifierAddress''] (Some gasPrice)) (\<lambda>a.
     jthen (sleep 30000) (
     jthen (write_globals (putf ''stakingFactoryAddress'' (JAddr a) g)) (
     verify_contract g (Some ''scripts/deployment/l2/verify_19_service_staking_factory.js'') a)))))))))"

definition l2_deploy_20_staking_verifier_set_implementations :: script where
  "l2_deploy_20_staking_verifier_set_implementations = run_main (
   verifier_preamble (\<lambda>g EOA.
     jbind (getContractAt ''StakingVerifier'' (getf g ''stakingVerifierAddress'')) (\<lambda>stakingVerifier.
     jbind (parse_gas (getf g ''gasPriceInGwei'')) (\<lambda>gasPrice.
     signed_tx EOA ''20. You are signing the following transaction: StakingVerifier.connect(EOA).setImplementationsStatuses()''
       stakingVerifier
       (case (as_addr (getf g ''stakingTokenAddress''), as_addr (getf g ''stakingNativeTokenAddress'')) of
          (Some a, Some b) \<Rightarrow> Some (SetImplementationsStatuses [a, b] [True, True] True) | _ \<Rightarrow> None)
       (Some gasPrice) None (getf g ''stakingVerifierAddress'')))))"

definition l2_deploy_21_22_service_staking_change_ownerships :: script where
  "l2_deploy_21_22_service_staking_change_ownerships = run_main (
   verifier_preamble (\<lambda>g EOA.
     let bridgeMediatorAddress = getf g ''bridgeMediatorAddress'' in
     jbind (getContractAt ''StakingVerifier'' (getf g ''stakingVerifierAddress'')) (\<lambda>stakingVerifier.
     jbind (getContractAt ''StakingFactory'' (getf g ''stakingFactoryAddress'')) (\<lambda>stakingFactory.
     jbind (parse_gas (getf g ''gasPriceInGwei'')) (\<lambda>gasPrice.
     jthen (signed_tx EOA ''21. You are signing the following transaction: StakingVerifier.connect(EOA).changeOwner()''
       stakingVerifier (addr_arg ChangeOwner bridgeMediatorAddress) (Some gasPrice)
       None (getf g ''stakingVerifierAddress'')) (
     signed_tx EOA ''22. You are signing the following transaction: StakingFactory.connect(EOA).changeOwner()''
       stakingFactory (addr_arg ChangeOwner bridgeMediatorAddress) (Some gasPrice)
       None (getf g ''stakingFactoryAddress'')))))))"

definition l2_deploy_23_hash_checkpoint_l2 :: script where
  "l2_deploy_23_hash_checkpoint_l2 = run_main (
   L2_preamble (\<lambda>g EOA.
     jthen (say ''23. EOA to deploy HashCheckpoint'') (
     jbind (parse_gas (getf g ''gasPriceInGwei'')) (\<lambda>gasPrice.
     jthen (getContractFactory ''HashCheckpoint'') (
     jthen (say ''You are signing the following transaction: HashCheckpoint.connect(EOA).deploy()'') (
     jbind (deploy_logged EOA ''ServiceRegistryL2'' ''HashCheckpoint''
        [getf g ''baseURI''] (Some gasPrice)) (\<lambda>a.
     jthen (sleep 30000) (
     jthen (write_globals (putf ''hashCheckpointAddress'' (JAddr a) g)) (
     verify_contract g (Some ''scripts/deployment/l2/verify_23_hash_checkpoint.js'') a)))))))))"


end
