(* ===== verification/Deployment_Refinement.thy ===== *)
theory Deployment_Refinement
  imports Deployment_L2
begin

text \<open>
  What a deployment script promises, and that the scripts keep it. The abstract state of a deployment is
  the globals file, the contracts once everything sent is mined, and the number of transactions sent;
  \<open>install\<close> deploys one contract with arguments named by keys of the file and records its address.
\<close>

section \<open>The abstract deployment\<close>

type_synonym view = "globals \<times> (address \<Rightarrow> contract option) \<times> nat"

definition view :: "world \<Rightarrow> view" where
  "view w = (globals_file w, code (settle w), length (sent w))"

fun install ::
  "(nat \<Rightarrow> address) \<Rightarrow> address \<Rightarrow> string \<Rightarrow> (globals \<Rightarrow> json list) \<Rightarrow> string \<Rightarrow> view \<Rightarrow> view option" where
  "install fresh sender kind args key (g, cs, n) =
     (case construct cs sender kind (args g) of
        Inl _ \<Rightarrow> None
      | Inr c \<Rightarrow> Some (putf key (JAddr (fresh n)) g, cs(fresh n := Some c), Suc n))"

definition fields :: "string list \<Rightarrow> globals \<Rightarrow> json list" where
  "fields keys g = map (getf g) keys"

text \<open>What no script changes.\<close>

definition env where
  "env w = (envvar w, ledger_address w, signer_address w, private_key_address w, fresh_address w, automine w, rpc_up w,
     parseUnits w, explorer_accepts w)"

section \<open>Running the effects\<close>

lemma settle_simps [simp]:
  "settle (w\<lparr>console := x\<rparr>) = (settle w)\<lparr>console := x\<rparr>"
  "settle (w\<lparr>globals_file := g\<rparr>) = (settle w)\<lparr>globals_file := g\<rparr>"
  "settle (w\<lparr>network_files := f\<rparr>) = (settle w)\<lparr>network_files := f\<rparr>"
  "settle (w\<lparr>submitted := y\<rparr>) = (settle w)\<lparr>submitted := y\<rparr>"
  "settle (w\<lparr>sent := z\<rparr>) = (settle w)\<lparr>sent := z\<rparr>"
  "settle ((settle w)\<lparr>code := c\<rparr>) = (settle w)\<lparr>code := c\<rparr>"
  "settle (settle w) = settle w"
  by (simp_all add: settle_def)

lemma settle_fields [simp]:
  "globals_file (settle w) = globals_file w" "network_files (settle w) = network_files w" "sent (settle w) = sent w" "console (settle w) = console w"
  "submitted (settle w) = submitted w" "pending (settle w) = []" "fresh_address (settle w) = fresh_address w"
  "tx_hash (settle w) = tx_hash w" "automine (settle w) = automine w" "rpc_up (settle w) = rpc_up w"
  "explorer_accepts (settle w) = explorer_accepts w" "ledger_address (settle w) = ledger_address w"
  "signer_address (settle w) = signer_address w" "private_key_address (settle w) = private_key_address w"
  "envvar (settle w) = envvar w" "parseUnits (settle w) = parseUnits w"
  by (simp_all add: settle_def)

lemma settle_idle: "pending w = [] \<Longrightarrow> settle w = w"
  by (simp add: settle_def)

lemma reachable_simps [simp]:
  "reachable (w\<lparr>console := x\<rparr>) EOA = reachable w EOA"
  "reachable (w\<lparr>code := cs\<rparr>) EOA = reachable w EOA"
  "reachable (w\<lparr>sent := z\<rparr>) EOA = reachable w EOA"
  "reachable (w\<lparr>pending := ps\<rparr>) EOA = reachable w EOA"
  by (cases EOA; simp)+

lemmas log_defs = console_log_def say_def

lemmas step_defs = log_defs read_globals_def write_globals_def getContractFactory_def sleep_def
  sepolia_sleep_def verify_contract_def jbind_def jthen_apply

lemma view_console [simp]: "view (w\<lparr>console := x\<rparr>) = view w" "view (w\<lparr>network_files := f\<rparr>) = view w"
  by (simp_all add: view_def)

lemma run_main_view: "view (snd (run_main m w)) = view (snd (m w))"
  by (simp add: run_main_def split: prod.split sum.split)

lemma run_main_code: "fst (run_main m w) = (case fst (m w) of Inl _ \<Rightarrow> 1 | Inr _ \<Rightarrow> 0)"
  by (simp add: run_main_def split: prod.split sum.split)

lemma deploy_logged_apply:
  assumes "reachable w EOA"
  shows "deploy_logged EOA label kind args gas w =
    (case construct (code (settle w)) (signer_addr EOA) kind args of
       Inl _ \<Rightarrow> (Inl ''deployment reverted'', w)
     | Inr c \<Rightarrow> let a = fresh_address w (length (sent w)) in
        (Inr a, (settle w)\<lparr>code := (code (settle w))(a := Some c), sent := sent w @ [(signer_addr EOA, gas)],
            console := console w @ [[JStr (''Contract deployment: '' @ label)],
              [JStr ''Contract address:'', JAddr a], [JStr ''Transaction:'', JStr (tx_hash w (length (sent w)))]]\<rparr>))"
  using assms by (simp add: deploy_logged_def deploy_contract_def step_defs Let_def split: sum.split)

lemma getContractFactory_artifact [simp]: "kind \<in> set ARTIFACTS \<Longrightarrow> getContractFactory kind w = (Inr (), w)"
  by (simp add: getContractFactory_def)

text \<open>The signer a script of the main chain works with.\<close>

definition L1_signer :: "world \<Rightarrow> signer" where
  "L1_signer w = (if truthy (getf (globals_file w) ''useLedger'')
     then Ledger (ledger_address w) (to_str (getf (globals_file w) ''providerName'')) else Hardhat (signer_address w))"

lemma L1_preamble_apply:
  "L1_preamble body w = body (globals_file w) (L1_signer w)
     (w\<lparr>console := console w @ [[JStr ''EOA is:'', JAddr (signer_addr (L1_signer w))]]\<rparr>)"
  by (simp add: L1_preamble_def get_EOA_def step_defs L1_signer_def Let_def)

section \<open>Two shapes of scripts\<close>

text \<open>
  What a script does once it has its signer: \<open>verify_first\<close> records the address after the verification,
  \<open>record_first\<close> before it.
\<close>

definition verify_first where
  "verify_first g EOA label kind args gas path key =
     jbind (deploy_logged EOA label kind (args g) gas) (\<lambda>a.
     jthen (verify_contract g path a) (write_globals (putf key (JAddr a) g)))"

definition record_first where
  "record_first g EOA label kind args gas path key =
     jbind (deploy_logged EOA label kind (args g) gas) (\<lambda>a.
     jthen (write_globals (putf key (JAddr a) g)) (verify_contract g path a))"

lemma view_deployed:
  "view ((settle w)\<lparr>code := cs, sent := zs, console := xs, globals_file := g\<rparr>) = (g, cs, length zs)"
  by (simp add: view_def)

lemma verify_contract_view: "view (snd (verify_contract g path a w)) = view w"
  by (auto simp: verify_contract_def hardhat_verify_def view_def Let_def split: option.split)

lemma verify_contract_env: "env (snd (verify_contract g path a w)) = env w"
  by (auto simp: verify_contract_def hardhat_verify_def env_def Let_def split: option.split)

lemma verify_contract_off [simp]: "\<not> truthy (getf g ''contractVerification'') \<Longrightarrow> verify_contract g path a w = (Inr (), w)"
  by (simp add: verify_contract_def)

text \<open>
  The promise of a script with its exit code and world: with the deployment refused nothing is changed,
  and otherwise the contracts are those of \<open>install\<close>, and the globals file too when nothing is to be
  verified.
\<close>

definition installs ::
  "string \<Rightarrow> (globals \<Rightarrow> json list) \<Rightarrow> string \<Rightarrow> signer \<Rightarrow> world \<Rightarrow> nat \<times> world \<Rightarrow> bool" where
  "installs kind args key EOA w r \<longleftrightarrow>
     env (snd r) = env w \<and>
     (case install (fresh_address w) (signer_addr EOA) kind args key (view w) of
        None \<Rightarrow> view (snd r) = view w
      | Some v \<Rightarrow> snd (view (snd r)) = snd v \<and>
          (\<not> truthy (getf (globals_file w) ''contractVerification'') \<longrightarrow> fst r = 0 \<and> view (snd r) = v))"

definition refuses :: "string \<Rightarrow> (globals \<Rightarrow> json list) \<Rightarrow> string \<Rightarrow> signer \<Rightarrow> world \<Rightarrow> nat \<times> world \<Rightarrow> bool" where
  "refuses kind args key EOA w r \<longleftrightarrow>
     (install (fresh_address w) (signer_addr EOA) kind args key (view w) = None \<longrightarrow> fst r = 1)"

lemma verify_first_installs:
  assumes "reachable w EOA" "globals_file w = g"
  shows "installs kind args key EOA w (run_main (verify_first g EOA label kind args gas path key) w)"
    and "refuses kind args key EOA w (run_main (verify_first g EOA label kind args gas path key) w)"
  using assms by (auto simp: installs_def refuses_def verify_first_def deploy_logged_apply jbind_def jthen_apply
      write_globals_def Let_def run_main_def env_def verify_contract_def hardhat_verify_def view_def settle_def
      split: sum.split option.split)

lemma record_first_installs:
  assumes "reachable w EOA" "globals_file w = g"
  shows "installs kind args key EOA w (run_main (record_first g EOA label kind args gas path key) w)"
    and "refuses kind args key EOA w (run_main (record_first g EOA label kind args gas path key) w)"
  using assms by (auto simp: installs_def refuses_def record_first_def deploy_logged_apply jbind_def jthen_apply
      write_globals_def Let_def run_main_def env_def verify_contract_def hardhat_verify_def view_def settle_def
      split: sum.split option.split)

lemma env_console [simp]: "env (w\<lparr>console := x\<rparr>) = env w"
  by (simp add: env_def)

lemma fresh_console [simp]: "fresh_address (w\<lparr>console := x\<rparr>) = fresh_address w"
  by simp

lemma installs_console [simp]:
  "installs kind args key EOA (w\<lparr>console := x\<rparr>) r = installs kind args key EOA w r"
  "refuses kind args key EOA (w\<lparr>console := x\<rparr>) r = refuses kind args key EOA w r"
  by (simp_all add: installs_def refuses_def split: option.split)

lemma run_main_cong: "m w = m' w' \<Longrightarrow> run_main m w = run_main m' w'"
  by (simp add: run_main_def)

lemma say_then: "jthen (say s) m w = m (w\<lparr>console := console w @ [[JStr s]]\<rparr>)"
  by (simp add: jthen_apply log_defs)

lemma factory_then: "kind \<in> set ARTIFACTS \<Longrightarrow> jthen (getContractFactory kind) m w = m w"
  by (simp add: jthen_apply)

lemma sleep_then [simp]: "jthen (sleep n) m = m" "jthen (sepolia_sleep g) m = m"
  by (auto simp: jthen_apply sleep_def sepolia_sleep_def)

lemma return_then [simp]: "jthen (Pair (Inr ())) m = m"
  by (rule ext) (simp add: jthen_apply)

section \<open>The interface of a deployment script\<close>

text \<open>
  What the rest of a deployment may rely on: \<open>EOA\<close> is the signer the script ends up with, if it does, and \<open>ready\<close>
  what else it needs of the world.
\<close>

locale installer =
  fixes script :: script
    and EOA :: "world \<Rightarrow> signer option"
    and ready :: "world \<Rightarrow> bool"
    and kind :: string
    and args :: "globals \<Rightarrow> json list"
    and key :: string
  assumes law: "EOA w = Some e \<Longrightarrow> ready w \<Longrightarrow> reachable w e \<Longrightarrow> installs kind args key e w (script w)"

locale js_installer = installer +
  assumes refusal: "EOA w = Some e \<Longrightarrow> ready w \<Longrightarrow> reachable w e \<Longrightarrow> refuses kind args key e w (script w)"

lemma new_contract_records [simp]: "c_kind (new_contract kind args own) = kind" "c_args (new_contract kind args own) = args"
  by (simp_all add: new_contract_def)

lemma bad_args_not_Inr [simp]: "bad_args \<noteq> Inr c"
  by (simp add: bad_args_def)

lemma if_InrE:
  "(if P then x else y) = Inr c \<Longrightarrow> (P \<Longrightarrow> x = Inr c \<Longrightarrow> Q) \<Longrightarrow> (\<not> P \<Longrightarrow> y = Inr c \<Longrightarrow> Q) \<Longrightarrow> Q"
  by (simp split: if_split_asm)

lemma construct_registry_records: "construct_registry sender kind args = Inr c \<Longrightarrow> c_kind c = kind \<and> c_args c = args"
  by (auto simp: construct_registry_def split: list.splits if_split_asm)

lemma construct_address_records:
  "construct_one_address sender kind args chk own = Inr c \<Longrightarrow> c_kind c = kind \<and> c_args c = args"
  "construct_two_addresses sender kind args chk own = Inr c \<Longrightarrow> c_kind c = kind \<and> c_args c = args"
  by (auto simp: construct_one_address_def construct_two_addresses_def split: list.splits option.splits if_split_asm)

lemma construct_proxy_records:
  "construct_proxy cs sender args = Inr c \<Longrightarrow> c_kind c = ''ServiceManagerProxy'' \<and> c_args c = args"
  by (auto simp: construct_proxy_def split: list.splits option.splits if_split_asm)

lemma construct_verifier_records:
  "construct_verifier sender args = Inr c \<Longrightarrow> c_kind c = ''StakingVerifier'' \<and> c_args c = args"
  unfolding construct_verifier_def by (auto split: list.split_asm prod.split_asm option.split_asm if_split_asm)

lemma construct_same_address_records:
  "construct_same_address args = Inr c \<Longrightarrow> c_kind c = ''GnosisSafeSameAddressMultisig'' \<and> c_args c = args"
  by (auto simp: construct_same_address_def split: list.splits option.splits if_split_asm)

lemma construct_records:
  assumes "construct cs sender kind args = Inr c"
  shows "c_kind c = kind \<and> c_args c = args"
proof -
  have staking: "Inr (new_contract kind args 0) = (Inr c :: contract res) \<Longrightarrow> ?thesis" "bad_args = Inr c \<Longrightarrow> ?thesis"
    by auto
  have hash_checkpoint: "(case args of [u] \<Rightarrow> if is_str u then Inr (new_contract kind args sender) else bad_args | _ \<Rightarrow> bad_args) =
      Inr c \<Longrightarrow> ?thesis"
    by (auto split: list.split_asm if_split_asm)
  show ?thesis
    using assms unfolding construct_def
  proof (elim if_InrE)
  qed (rule construct_registry_records construct_address_records staking hash_checkpoint, assumption
      | drule construct_proxy_records construct_verifier_records construct_same_address_records, simp)+
qed

context installer
begin

lemma step:
  assumes "EOA w = Some e" "ready w" "reachable w e" "\<not> truthy (getf (globals_file w) ''contractVerification'')"
    and "install (fresh_address w) (signer_addr e) kind args key (view w) = Some v"
  shows "fst (script w) = 0" "view (snd (script w)) = v" "env (snd (script w)) = env w"
  using law [OF assms(1-3)] assms(4,5) by (simp_all add: installs_def)

lemma keeps_fields:
  assumes "EOA w = Some e" "ready w" "reachable w e" "\<not> truthy (getf (globals_file w) ''contractVerification'')"
    and "k \<noteq> key"
  shows "getf (globals_file (snd (script w))) k = getf (globals_file w) k"
  using law [OF assms(1-3)] assms(4,5)
  by (auto simp: installs_def view_def split: option.splits sum.splits dest!: sym [where t = "globals_file _"] sym [where t = "code _"])

lemma keeps_contracts:
  assumes "EOA w = Some e" "ready w" "reachable w e" "\<not> truthy (getf (globals_file w) ''contractVerification'')"
    and "a \<noteq> fresh_address w (length (sent w))"
  shows "code (settle (snd (script w))) a = code (settle w) a"
  using law [OF assms(1-3)] assms(4,5)
  by (auto simp: installs_def view_def split: option.splits sum.splits dest!: sym [where t = "globals_file _"] sym [where t = "code _"])

end

section \<open>The scripts keep the promise\<close>

text \<open>The contract each script deploys: its name, the keys of its arguments and the key of its address.\<close>

definition L1_EARLY :: "(script \<times> string \<times> string list \<times> string) list" where
  "L1_EARLY =
    [(deploy_01_component_registry, ''ComponentRegistry'',
      [''componentRegistryName'', ''componentRegistrySymbol'', ''baseURI''], ''componentRegistryAddress''),
     (deploy_02_agent_registry, ''AgentRegistry'',
      [''agentRegistryName'', ''agentRegistrySymbol'', ''baseURI'', ''componentRegistryAddress''], ''agentRegistryAddress''),
     (deploy_03_registries_manager, ''RegistriesManager'',
      [''componentRegistryAddress'', ''agentRegistryAddress''], ''registriesManagerAddress''),
     (deploy_04_service_registry, ''ServiceRegistry'',
      [''serviceRegistryName'', ''serviceRegistrySymbol'', ''baseURI'', ''agentRegistryAddress''], ''serviceRegistryAddress'')]"

definition L1_LATE :: "(script \<times> string \<times> string list \<times> string) list" where
  "L1_LATE =
    [(deploy_05_operator_whitelist, ''OperatorWhitelist'',
      [''serviceRegistryAddress''], ''operatorWhitelistAddress''),
     (deploy_06_service_registry_token_utility, ''ServiceRegistryTokenUtility'',
      [''serviceRegistryAddress''], ''serviceRegistryTokenUtilityAddress''),
     (deploy_07_service_manager, ''ServiceManager'',
      [''serviceRegistryAddress'', ''serviceRegistryTokenUtilityAddress''], ''serviceManagerAddress''),
     (deploy_09a_gnosis_safe_multisig, ''GnosisSafeMultisig'',
      [''gnosisSafeAddress'', ''gnosisSafeProxyFactoryAddress''], ''gnosisSafeMultisigImplementationAddress''),
     (deploy_09b_gnosis_safe_same_address_multisig, ''GnosisSafeSameAddressMultisig'',
      [''multisigProxyHash130''], ''gnosisSafeSameAddressMultisigImplementationAddress'')]"

definition L1_DEPLOYMENTS :: "(script \<times> string \<times> string list \<times> string) list" where
  "L1_DEPLOYMENTS = L1_EARLY @ L1_LATE"

lemmas L1_tables = L1_DEPLOYMENTS_def L1_EARLY_def L1_LATE_def

definition L2_DEPLOYMENTS :: "(script \<times> (json \<Rightarrow> json \<Rightarrow> (world, json option) js) \<times> string \<times> string list \<times> string) list" where
  "L2_DEPLOYMENTS =
    [(l2_deploy_01_service_registry_l2, polygon_url, ''ServiceRegistryL2'',
      [''serviceRegistryName'', ''serviceRegistrySymbol'', ''baseURI''], ''serviceRegistryAddress''),
     (l2_deploy_02_operator_whitelist, polygon_url, ''OperatorWhitelist'',
      [''serviceRegistryAddress''], ''operatorWhitelistAddress''),
     (l2_deploy_03_service_registry_token_utility, polygon_url, ''ServiceRegistryTokenUtility'',
      [''serviceRegistryAddress''], ''serviceRegistryTokenUtilityAddress''),
     (l2_deploy_04_service_manager, polygon_url, ''ServiceManager'',
      [''serviceRegistryAddress'', ''serviceRegistryTokenUtilityAddress''], ''serviceManagerAddress''),
     (l2_deploy_06a_gnosis_safe_multisig, polygon_url, ''GnosisSafeMultisig'',
      [''gnosisSafeAddress'', ''gnosisSafeProxyFactoryAddress''], ''gnosisSafeMultisigImplementationAddress''),
     (l2_deploy_06b_gnosis_safe_same_address_multisig, polygon_url, ''GnosisSafeSameAddressMultisig'',
      [''multisigProxyHash130''], ''gnosisSafeSameAddressMultisigImplementationAddress''),
     (l2_deploy_16_service_staking_token, staking_url, ''StakingToken'',
      [], ''stakingTokenAddress''),
     (l2_deploy_17_service_staking_native_token, staking_url, ''StakingNativeToken'',
      [], ''stakingNativeTokenAddress''),
     (l2_deploy_18_service_staking_verifier, staking_url, ''StakingVerifier'',
      [''olasAddress'', ''serviceRegistryAddress'', ''serviceRegistryTokenUtilityAddress'', ''minStakingDepositLimit'', ''timeForEmissionsLimit'', ''numServicesLimit'', ''apyLimit''], ''stakingVerifierAddress''),
     (l2_deploy_19_service_staking_factory, staking_url, ''StakingFactory'',
      [''stakingVerifierAddress''], ''stakingFactoryAddress''),
     (l2_deploy_23_hash_checkpoint_l2, polygon_url, ''HashCheckpoint'',
      [''baseURI''], ''hashCheckpointAddress'')]"

text \<open>The signer of a script of the other chains: none when the script returns for want of a key.\<close>

definition L2_signer :: "(json \<Rightarrow> json \<Rightarrow> (world, json option) js) \<Rightarrow> world \<Rightarrow> signer option" where
  "L2_signer url w =
     (case fst (url (getf (globals_file w) ''providerName'') (getf (globals_file w) ''networkURL'') w) of
        Inr (Some u) \<Rightarrow> Some (if truthy (getf (globals_file w) ''useLedger'')
          then Ledger (ledger_address w) (to_str u) else Hardhat (signer_address w))
      | _ \<Rightarrow> None)"

definition gas_ready :: "world \<Rightarrow> bool" where
  "gas_ready w \<longleftrightarrow> parseUnits w (getf (globals_file w) ''gasPriceInGwei'') \<noteq> None"

definition quiet where
  "quiet url \<longleftrightarrow> (\<forall>p n w. \<exists>u x. url p n w = (Inr u, w\<lparr>console := x\<rparr>))"

lemma add_key_quiet: "\<exists>u x. add_key key r n w = (Inr u, w\<lparr>console := x\<rparr>)"
proof -
  have "\<exists>x. w = w\<lparr>console := x\<rparr>" by (rule exI [of _ "console w"]) simp
  then show ?thesis by (auto simp: add_key_def jbind_def jthen_apply env_var_def log_defs)
qed

lemma polygon_url_quiet: "quiet polygon_url"
proof -
  have "\<exists>x. w = w\<lparr>console := x\<rparr>" for w :: world by (rule exI [of _ "console w"]) simp
  then show ?thesis by (auto simp: quiet_def polygon_url_def intro: add_key_quiet)
qed

lemma staking_url_quiet: "quiet staking_url"
  using polygon_url_quiet by (auto simp: quiet_def staking_url_def intro: add_key_quiet)

lemma verifier_url_quiet: "quiet verifier_url"
proof -
  have "\<exists>u x. verifier_url p n w = (Inr u, w\<lparr>console := x\<rparr>)" for p n w
  proof (cases "p = JStr ''mainnet''")
    case True
    obtain u x where "add_key ''ALCHEMY_API_KEY_MAINNET'' False n w = (Inr u, w\<lparr>console := x\<rparr>)"
      using add_key_quiet by blast
    with True show ?thesis by (auto simp: verifier_url_def polygon_url_def split: option.split)
  next
    case False
    then show ?thesis using polygon_url_quiet by (simp add: verifier_url_def jbind_def quiet_def)
  qed
  then show ?thesis by (simp add: quiet_def)
qed

lemma preamble_apply:
  assumes "quiet url" "L2_signer url w = Some e"
  shows "\<exists>x. preamble url body w = body (globals_file w) e (w\<lparr>console := x\<rparr>)"
proof -
  obtain u x where u: "url (getf (globals_file w) ''providerName'') (getf (globals_file w) ''networkURL'') w =
      (Inr u, w\<lparr>console := x\<rparr>)"
    using assms(1) unfolding quiet_def by blast
  with assms(2) obtain v where v: "u = Some v" by (auto simp: L2_signer_def split: option.splits)
  have "preamble url body w = body (globals_file w) e (w\<lparr>console := x @ [[JStr ''EOA is:'', JAddr (signer_addr e)]]\<rparr>)"
    using assms(2) u v by (auto simp: L2_signer_def preamble_def get_EOA_def step_defs Let_def)
  then show ?thesis ..
qed

lemma preamble_returns:
  assumes "quiet url" "L2_signer url w = None"
  shows "\<exists>x. preamble url body w = (Inr (), w\<lparr>console := x\<rparr>)"
proof -
  obtain u x where u: "url (getf (globals_file w) ''providerName'') (getf (globals_file w) ''networkURL'') w =
      (Inr u, w\<lparr>console := x\<rparr>)"
    using assms(1) unfolding quiet_def by blast
  with assms(2) have "u = None" by (simp add: L2_signer_def split: option.splits)
  with u have "preamble url body w = (Inr (), w\<lparr>console := x\<rparr>)"
    by (simp add: preamble_def read_globals_def jbind_def)
  then show ?thesis ..
qed

lemma gas_then:
  "jbind (parse_gas j) f w = (case parseUnits w j of None \<Rightarrow> (Inl ''invalid decimal value'', w) | Some n \<Rightarrow> f n w)"
  by (simp add: jbind_def parse_gas_def split: option.split)

lemma fields_simps [simp]: "fields [] g = []" "fields (k # ks) g = getf g k # fields ks g"
  by (simp_all add: fields_def)

lemma preamble_shape:
  assumes "quiet url" "L2_signer url w = Some e"
    and "\<And>x. \<exists>y. body (globals_file w) e (w\<lparr>console := x\<rparr>) = m (w\<lparr>console := y\<rparr>)"
  shows "\<exists>x. preamble url body w = m (w\<lparr>console := x\<rparr>)"
  using preamble_apply [OF assms(1,2), of body] assms(3) by metis

text \<open>
  What a script hands to the explorer: at most one entry, for the new contract and with the arguments it
  was built from. The module named in the command has to give these, also once the address is recorded.
\<close>

definition submits :: "(globals \<Rightarrow> json list) \<Rightarrow> world \<Rightarrow> nat \<times> world \<Rightarrow> bool" where
  "submits args w r \<longleftrightarrow> submitted (snd r) = submitted w \<or>
     submitted (snd r) = submitted w @ [(fresh_address w (length (sent w)), args (globals_file w))]"

definition honest :: "string option \<Rightarrow> (globals \<Rightarrow> json list) \<Rightarrow> string \<Rightarrow> bool" where
  "honest path args key \<longleftrightarrow>
     (case (case path of None \<Rightarrow> Some (\<lambda>_. []) | Some p \<Rightarrow> map_of VERIFY_MODULES p) of
        None \<Rightarrow> True
      | Some f \<Rightarrow> \<forall>g v. f g = args g \<and> args (putf key v g) = args g)"

lemma verify_first_submits:
  assumes "reachable w EOA" "globals_file w = g" "honest path args key"
  shows "submits args w (run_main (verify_first g EOA label kind args gas path key) w)"
  using assms by (auto simp: submits_def honest_def verify_first_def deploy_logged_apply jbind_def jthen_apply
      write_globals_def Let_def run_main_def verify_contract_def hardhat_verify_def split: sum.split option.split)

lemma record_first_submits:
  assumes "reachable w EOA" "globals_file w = g" "honest path args key"
  shows "submits args w (run_main (record_first g EOA label kind args gas path key) w)"
  using assms by (auto simp: submits_def honest_def record_first_def deploy_logged_apply jbind_def jthen_apply
      write_globals_def Let_def run_main_def verify_contract_def hardhat_verify_def split: sum.split option.split)

lemma submits_console [simp]: "submits args (w\<lparr>console := x\<rparr>) r = submits args w r"
  by (simp add: submits_def)

locale honest_installer = js_installer +
  assumes honesty: "EOA w = Some e \<Longrightarrow> ready w \<Longrightarrow> reachable w e \<Longrightarrow> submits args w (script w)"

lemma verify_shape_laws:
  assumes "\<exists>x. r = run_main (verify_first (globals_file w) e label kind args gas path key) (w\<lparr>console := x\<rparr>)"
    and "reachable w e" and "honest path args key"
  shows "installs kind args key e w r" "refuses kind args key e w r" "submits args w r"
proof -
  obtain x where x: "r = run_main (verify_first (globals_file w) e label kind args gas path key) (w\<lparr>console := x\<rparr>)"
    using assms(1) by blast
  show "installs kind args key e w r" "refuses kind args key e w r"
    using verify_first_installs [of "w\<lparr>console := x\<rparr>" e "globals_file w"] assms(2) x by simp_all
  show "submits args w r"
    using verify_first_submits [of "w\<lparr>console := x\<rparr>" e "globals_file w"] assms(2,3) x by simp
qed

lemma record_shape_laws:
  assumes "\<exists>x. r = run_main (record_first (globals_file w) e label kind args gas path key) (w\<lparr>console := x\<rparr>)"
    and "reachable w e" and "honest path args key"
  shows "installs kind args key e w r" "refuses kind args key e w r" "submits args w r"
proof -
  obtain x where x: "r = run_main (record_first (globals_file w) e label kind args gas path key) (w\<lparr>console := x\<rparr>)"
    using assms(1) by blast
  show "installs kind args key e w r" "refuses kind args key e w r"
    using record_first_installs [of "w\<lparr>console := x\<rparr>" e "globals_file w"] assms(2) x by simp_all
  show "submits args w r"
    using record_first_submits [of "w\<lparr>console := x\<rparr>" e "globals_file w"] assms(2,3) x by simp
qed

lemma run_main_shape:
  "(\<exists>x. main w = m (w\<lparr>console := x\<rparr>)) \<Longrightarrow> (\<exists>x. run_main main w = run_main m (w\<lparr>console := x\<rparr>))"
  by (blast intro: run_main_cong)

lemmas honest_simps = honest_def VERIFY_MODULES_def verify_module_defs

lemmas shape_simps = L1_preamble_apply say_then factory_then ARTIFACTS_def verify_first_def record_first_def

lemma deploy_01_component_registry_shape:
  "\<exists>x. deploy_01_component_registry w = run_main (verify_first (globals_file w) (L1_signer w) ''ComponentRegistry'' ''ComponentRegistry''
     (fields [''componentRegistryName'', ''componentRegistrySymbol'', ''baseURI'']) None
     (Some ''scripts/deployment/verify_01_component_registry.js'') ''componentRegistryAddress'') (w\<lparr>console := x\<rparr>)"
  unfolding deploy_01_component_registry_def by (rule run_main_shape) (simp add: shape_simps, rule exI, rule refl)

interpretation i01: honest_installer deploy_01_component_registry "\<lambda>w. Some (L1_signer w)" "\<lambda>_. True"
  "''ComponentRegistry''" "fields [''componentRegistryName'', ''componentRegistrySymbol'', ''baseURI'']" "''componentRegistryAddress''"
  by unfold_locales
    (auto intro!: verify_shape_laws [OF deploy_01_component_registry_shape] simp: honest_simps)

lemma deploy_02_agent_registry_shape:
  "\<exists>x. deploy_02_agent_registry w = run_main (verify_first (globals_file w) (L1_signer w) ''AgentRegistry'' ''AgentRegistry''
     (fields [''agentRegistryName'', ''agentRegistrySymbol'', ''baseURI'', ''componentRegistryAddress'']) None
     (Some ''scripts/deployment/verify_02_agent_registry.js'') ''agentRegistryAddress'') (w\<lparr>console := x\<rparr>)"
  unfolding deploy_02_agent_registry_def by (rule run_main_shape) (simp add: shape_simps, rule exI, rule refl)

interpretation i02: honest_installer deploy_02_agent_registry "\<lambda>w. Some (L1_signer w)" "\<lambda>_. True"
  "''AgentRegistry''" "fields [''agentRegistryName'', ''agentRegistrySymbol'', ''baseURI'', ''componentRegistryAddress'']" "''agentRegistryAddress''"
  by unfold_locales
    (auto intro!: verify_shape_laws [OF deploy_02_agent_registry_shape] simp: honest_simps)

lemma deploy_03_registries_manager_shape:
  "\<exists>x. deploy_03_registries_manager w = run_main (verify_first (globals_file w) (L1_signer w) ''RegistriesManager'' ''RegistriesManager''
     (fields [''componentRegistryAddress'', ''agentRegistryAddress'']) None
     (Some ''scripts/deployment/verify_03_registries_manager.js'') ''registriesManagerAddress'') (w\<lparr>console := x\<rparr>)"
  unfolding deploy_03_registries_manager_def by (rule run_main_shape) (simp add: shape_simps, rule exI, rule refl)

interpretation i03: honest_installer deploy_03_registries_manager "\<lambda>w. Some (L1_signer w)" "\<lambda>_. True"
  "''RegistriesManager''" "fields [''componentRegistryAddress'', ''agentRegistryAddress'']" "''registriesManagerAddress''"
  by unfold_locales
    (auto intro!: verify_shape_laws [OF deploy_03_registries_manager_shape] simp: honest_simps)

lemma deploy_04_service_registry_shape:
  "\<exists>x. deploy_04_service_registry w = run_main (verify_first (globals_file w) (L1_signer w) ''ServiceRegistry'' ''ServiceRegistry''
     (fields [''serviceRegistryName'', ''serviceRegistrySymbol'', ''baseURI'', ''agentRegistryAddress'']) None
     (Some ''scripts/deployment/verify_04_service_registry.js'') ''serviceRegistryAddress'') (w\<lparr>console := x\<rparr>)"
  unfolding deploy_04_service_registry_def by (rule run_main_shape) (simp add: shape_simps, rule exI, rule refl)

interpretation i04: honest_installer deploy_04_service_registry "\<lambda>w. Some (L1_signer w)" "\<lambda>_. True"
  "''ServiceRegistry''" "fields [''serviceRegistryName'', ''serviceRegistrySymbol'', ''baseURI'', ''agentRegistryAddress'']" "''serviceRegistryAddress''"
  by unfold_locales
    (auto intro!: verify_shape_laws [OF deploy_04_service_registry_shape] simp: honest_simps)

lemma deploy_05_operator_whitelist_shape:
  "\<exists>x. deploy_05_operator_whitelist w = run_main (record_first (globals_file w) (L1_signer w) ''OperatorWhitelist'' ''OperatorWhitelist''
     (fields [''serviceRegistryAddress'']) None
     (Some ''scripts/deployment/verify_15_operator_whitelist.js'') ''operatorWhitelistAddress'') (w\<lparr>console := x\<rparr>)"
  unfolding deploy_05_operator_whitelist_def by (rule run_main_shape) (simp add: shape_simps, rule exI, rule refl)

interpretation i05: honest_installer deploy_05_operator_whitelist "\<lambda>w. Some (L1_signer w)" "\<lambda>_. True"
  "''OperatorWhitelist''" "fields [''serviceRegistryAddress'']" "''operatorWhitelistAddress''"
  by unfold_locales
    (auto intro!: record_shape_laws [OF deploy_05_operator_whitelist_shape] simp: honest_simps)

lemma deploy_06_service_registry_token_utility_shape:
  "\<exists>x. deploy_06_service_registry_token_utility w = run_main (record_first (globals_file w) (L1_signer w) ''ServiceRegistryTokenUtility'' ''ServiceRegistryTokenUtility''
     (fields [''serviceRegistryAddress'']) None
     (Some ''scripts/deployment/verify_16_service_registry_token_utility.js'') ''serviceRegistryTokenUtilityAddress'') (w\<lparr>console := x\<rparr>)"
  unfolding deploy_06_service_registry_token_utility_def by (rule run_main_shape) (simp add: shape_simps, rule exI, rule refl)

interpretation i06: honest_installer deploy_06_service_registry_token_utility "\<lambda>w. Some (L1_signer w)" "\<lambda>_. True"
  "''ServiceRegistryTokenUtility''" "fields [''serviceRegistryAddress'']" "''serviceRegistryTokenUtilityAddress''"
  by unfold_locales
    (auto intro!: record_shape_laws [OF deploy_06_service_registry_token_utility_shape] simp: honest_simps)

lemma deploy_07_service_manager_shape:
  "\<exists>x. deploy_07_service_manager w = run_main (record_first (globals_file w) (L1_signer w) ''ServiceManager'' ''ServiceManager''
     (fields [''serviceRegistryAddress'', ''serviceRegistryTokenUtilityAddress'']) None
     (Some ''scripts/deployment/verify_07_service_manager.js'') ''serviceManagerAddress'') (w\<lparr>console := x\<rparr>)"
  unfolding deploy_07_service_manager_def by (rule run_main_shape) (simp add: shape_simps, rule exI, rule refl)

interpretation i07: honest_installer deploy_07_service_manager "\<lambda>w. Some (L1_signer w)" "\<lambda>_. True"
  "''ServiceManager''" "fields [''serviceRegistryAddress'', ''serviceRegistryTokenUtilityAddress'']" "''serviceManagerAddress''"
  by unfold_locales
    (auto intro!: record_shape_laws [OF deploy_07_service_manager_shape] simp: honest_simps)

lemma deploy_09a_gnosis_safe_multisig_shape:
  "\<exists>x. deploy_09a_gnosis_safe_multisig w = run_main (record_first (globals_file w) (L1_signer w) ''GnosisSafeMultisig'' ''GnosisSafeMultisig''
     (fields [''gnosisSafeAddress'', ''gnosisSafeProxyFactoryAddress'']) None
     (Some ''scripts/deployment/verify_06a_gnosis_safe_multisig.js'') ''gnosisSafeMultisigImplementationAddress'') (w\<lparr>console := x\<rparr>)"
  unfolding deploy_09a_gnosis_safe_multisig_def by (rule run_main_shape) (simp add: shape_simps, rule exI, rule refl)

interpretation i09a: honest_installer deploy_09a_gnosis_safe_multisig "\<lambda>w. Some (L1_signer w)" "\<lambda>_. True"
  "''GnosisSafeMultisig''" "fields [''gnosisSafeAddress'', ''gnosisSafeProxyFactoryAddress'']" "''gnosisSafeMultisigImplementationAddress''"
  by unfold_locales
    (auto intro!: record_shape_laws [OF deploy_09a_gnosis_safe_multisig_shape] simp: honest_simps)

lemma deploy_09b_gnosis_safe_same_address_multisig_shape:
  "\<exists>x. deploy_09b_gnosis_safe_same_address_multisig w = run_main (record_first (globals_file w) (L1_signer w) ''GnosisSafeSameAddressMultisig'' ''GnosisSafeSameAddressMultisig''
     (fields [''multisigProxyHash130'']) None
     (Some ''scripts/deployment/verify_06b_gnosis_safe_same_address_multisig.js'') ''gnosisSafeSameAddressMultisigImplementationAddress'') (w\<lparr>console := x\<rparr>)"
  unfolding deploy_09b_gnosis_safe_same_address_multisig_def by (rule run_main_shape) (simp add: shape_simps, rule exI, rule refl)

interpretation i09b: honest_installer deploy_09b_gnosis_safe_same_address_multisig "\<lambda>w. Some (L1_signer w)" "\<lambda>_. True"
  "''GnosisSafeSameAddressMultisig''" "fields [''multisigProxyHash130'']" "''gnosisSafeSameAddressMultisigImplementationAddress''"
  by unfold_locales
    (auto intro!: record_shape_laws [OF deploy_09b_gnosis_safe_same_address_multisig_shape] simp: honest_simps)

lemma l2_deploy_01_service_registry_l2_shape:
  assumes "L2_signer polygon_url w = Some e" "parseUnits w (getf (globals_file w) ''gasPriceInGwei'') = Some n"
  shows "\<exists>x. l2_deploy_01_service_registry_l2 w = run_main (record_first (globals_file w) e ''ServiceRegistryL2'' ''ServiceRegistryL2''
     (fields [''serviceRegistryName'', ''serviceRegistrySymbol'', ''baseURI'']) (Some n)
     (Some ''scripts/deployment/l2/verify_01_service_registry_l2.js'') ''serviceRegistryAddress'') (w\<lparr>console := x\<rparr>)"
  unfolding l2_deploy_01_service_registry_l2_def L2_preamble_def staking_preamble_def
  by (rule run_main_shape, rule preamble_shape [OF polygon_url_quiet assms(1)])
    (simp add: shape_simps gas_then assms(2); rule exI; rule refl)

interpretation l01: honest_installer l2_deploy_01_service_registry_l2 "L2_signer polygon_url" gas_ready
  "''ServiceRegistryL2''" "fields [''serviceRegistryName'', ''serviceRegistrySymbol'', ''baseURI'']" "''serviceRegistryAddress''"
  by unfold_locales
    (auto intro!: record_shape_laws [OF l2_deploy_01_service_registry_l2_shape] simp: honest_simps gas_ready_def)

lemma l2_deploy_02_operator_whitelist_shape:
  assumes "L2_signer polygon_url w = Some e" "parseUnits w (getf (globals_file w) ''gasPriceInGwei'') = Some n"
  shows "\<exists>x. l2_deploy_02_operator_whitelist w = run_main (record_first (globals_file w) e ''OperatorWhitelist'' ''OperatorWhitelist''
     (fields [''serviceRegistryAddress'']) (Some n)
     (Some ''scripts/deployment/l2/verify_02_operator_whitelist.js'') ''operatorWhitelistAddress'') (w\<lparr>console := x\<rparr>)"
  unfolding l2_deploy_02_operator_whitelist_def L2_preamble_def staking_preamble_def
  by (rule run_main_shape, rule preamble_shape [OF polygon_url_quiet assms(1)])
    (simp add: shape_simps gas_then assms(2); rule exI; rule refl)

interpretation l02: honest_installer l2_deploy_02_operator_whitelist "L2_signer polygon_url" gas_ready
  "''OperatorWhitelist''" "fields [''serviceRegistryAddress'']" "''operatorWhitelistAddress''"
  by unfold_locales
    (auto intro!: record_shape_laws [OF l2_deploy_02_operator_whitelist_shape] simp: honest_simps gas_ready_def)

lemma l2_deploy_03_service_registry_token_utility_shape:
  assumes "L2_signer polygon_url w = Some e" "parseUnits w (getf (globals_file w) ''gasPriceInGwei'') = Some n"
  shows "\<exists>x. l2_deploy_03_service_registry_token_utility w = run_main (record_first (globals_file w) e ''ServiceRegistryTokenUtility'' ''ServiceRegistryTokenUtility''
     (fields [''serviceRegistryAddress'']) (Some n)
     (Some ''scripts/deployment/l2/verify_03_service_registry_token_utility.js'') ''serviceRegistryTokenUtilityAddress'') (w\<lparr>console := x\<rparr>)"
  unfolding l2_deploy_03_service_registry_token_utility_def L2_preamble_def staking_preamble_def
  by (rule run_main_shape, rule preamble_shape [OF polygon_url_quiet assms(1)])
    (simp add: shape_simps gas_then assms(2); rule exI; rule refl)

interpretation l03: honest_installer l2_deploy_03_service_registry_token_utility "L2_signer polygon_url" gas_ready
  "''ServiceRegistryTokenUtility''" "fields [''serviceRegistryAddress'']" "''serviceRegistryTokenUtilityAddress''"
  by unfold_locales
    (auto intro!: record_shape_laws [OF l2_deploy_03_service_registry_token_utility_shape] simp: honest_simps gas_ready_def)

lemma l2_deploy_04_service_manager_shape:
  assumes "L2_signer polygon_url w = Some e" "parseUnits w (getf (globals_file w) ''gasPriceInGwei'') = Some n"
  shows "\<exists>x. l2_deploy_04_service_manager w = run_main (record_first (globals_file w) e ''ServiceManager'' ''ServiceManager''
     (fields [''serviceRegistryAddress'', ''serviceRegistryTokenUtilityAddress'']) (Some n)
     (Some ''scripts/deployment/l2/verify_04_service_manager.js'') ''serviceManagerAddress'') (w\<lparr>console := x\<rparr>)"
  unfolding l2_deploy_04_service_manager_def L2_preamble_def staking_preamble_def
  by (rule run_main_shape, rule preamble_shape [OF polygon_url_quiet assms(1)])
    (simp add: shape_simps gas_then assms(2); rule exI; rule refl)

interpretation l04: honest_installer l2_deploy_04_service_manager "L2_signer polygon_url" gas_ready
  "''ServiceManager''" "fields [''serviceRegistryAddress'', ''serviceRegistryTokenUtilityAddress'']" "''serviceManagerAddress''"
  by unfold_locales
    (auto intro!: record_shape_laws [OF l2_deploy_04_service_manager_shape] simp: honest_simps gas_ready_def)

lemma l2_deploy_06a_gnosis_safe_multisig_shape:
  assumes "L2_signer polygon_url w = Some e" "parseUnits w (getf (globals_file w) ''gasPriceInGwei'') = Some n"
  shows "\<exists>x. l2_deploy_06a_gnosis_safe_multisig w = run_main (record_first (globals_file w) e ''GnosisSafeMultisig'' ''GnosisSafeMultisig''
     (fields [''gnosisSafeAddress'', ''gnosisSafeProxyFactoryAddress'']) (Some n)
     (Some ''scripts/deployment/l2/verify_05_gnosis_safe_multisig.js'') ''gnosisSafeMultisigImplementationAddress'') (w\<lparr>console := x\<rparr>)"
  unfolding l2_deploy_06a_gnosis_safe_multisig_def L2_preamble_def staking_preamble_def
  by (rule run_main_shape, rule preamble_shape [OF polygon_url_quiet assms(1)])
    (simp add: shape_simps gas_then assms(2); rule exI; rule refl)

interpretation l06a: honest_installer l2_deploy_06a_gnosis_safe_multisig "L2_signer polygon_url" gas_ready
  "''GnosisSafeMultisig''" "fields [''gnosisSafeAddress'', ''gnosisSafeProxyFactoryAddress'']" "''gnosisSafeMultisigImplementationAddress''"
  by unfold_locales
    (auto intro!: record_shape_laws [OF l2_deploy_06a_gnosis_safe_multisig_shape] simp: honest_simps gas_ready_def)

lemma l2_deploy_06b_gnosis_safe_same_address_multisig_shape:
  assumes "L2_signer polygon_url w = Some e" "parseUnits w (getf (globals_file w) ''gasPriceInGwei'') = Some n"
  shows "\<exists>x. l2_deploy_06b_gnosis_safe_same_address_multisig w = run_main (record_first (globals_file w) e ''GnosisSafeSameAddressMultisig'' ''GnosisSafeSameAddressMultisig''
     (fields [''multisigProxyHash130'']) (Some n)
     (Some ''scripts/deployment/l2/verify_06_gnosis_safe_same_address_multisig.js'') ''gnosisSafeSameAddressMultisigImplementationAddress'') (w\<lparr>console := x\<rparr>)"
  unfolding l2_deploy_06b_gnosis_safe_same_address_multisig_def L2_preamble_def staking_preamble_def
  by (rule run_main_shape, rule preamble_shape [OF polygon_url_quiet assms(1)])
    (simp add: shape_simps gas_then assms(2); rule exI; rule refl)

interpretation l06b: honest_installer l2_deploy_06b_gnosis_safe_same_address_multisig "L2_signer polygon_url" gas_ready
  "''GnosisSafeSameAddressMultisig''" "fields [''multisigProxyHash130'']" "''gnosisSafeSameAddressMultisigImplementationAddress''"
  by unfold_locales
    (auto intro!: record_shape_laws [OF l2_deploy_06b_gnosis_safe_same_address_multisig_shape] simp: honest_simps gas_ready_def)

lemma l2_deploy_16_service_staking_token_shape:
  assumes "L2_signer staking_url w = Some e" "parseUnits w (getf (globals_file w) ''gasPriceInGwei'') = Some n"
  shows "\<exists>x. l2_deploy_16_service_staking_token w = run_main (record_first (globals_file w) e ''StakingToken'' ''StakingToken''
     (fields []) (Some n)
     None ''stakingTokenAddress'') (w\<lparr>console := x\<rparr>)"
  unfolding l2_deploy_16_service_staking_token_def L2_preamble_def staking_preamble_def
  by (rule run_main_shape, rule preamble_shape [OF staking_url_quiet assms(1)])
    (simp add: shape_simps gas_then assms(2); rule exI; rule refl)

interpretation l16: honest_installer l2_deploy_16_service_staking_token "L2_signer staking_url" gas_ready
  "''StakingToken''" "fields []" "''stakingTokenAddress''"
  by unfold_locales
    (auto intro!: record_shape_laws [OF l2_deploy_16_service_staking_token_shape] simp: honest_simps gas_ready_def)

lemma l2_deploy_17_service_staking_native_token_shape:
  assumes "L2_signer staking_url w = Some e" "parseUnits w (getf (globals_file w) ''gasPriceInGwei'') = Some n"
  shows "\<exists>x. l2_deploy_17_service_staking_native_token w = run_main (record_first (globals_file w) e ''StakingNativeToken'' ''StakingNativeToken''
     (fields []) (Some n)
     None ''stakingNativeTokenAddress'') (w\<lparr>console := x\<rparr>)"
  unfolding l2_deploy_17_service_staking_native_token_def L2_preamble_def staking_preamble_def
  by (rule run_main_shape, rule preamble_shape [OF staking_url_quiet assms(1)])
    (simp add: shape_simps gas_then assms(2); rule exI; rule refl)

interpretation l17: honest_installer l2_deploy_17_service_staking_native_token "L2_signer staking_url" gas_ready
  "''StakingNativeToken''" "fields []" "''stakingNativeTokenAddress''"
  by unfold_locales
    (auto intro!: record_shape_laws [OF l2_deploy_17_service_staking_native_token_shape] simp: honest_simps gas_ready_def)

lemma l2_deploy_18_service_staking_verifier_shape:
  assumes "L2_signer staking_url w = Some e" "parseUnits w (getf (globals_file w) ''gasPriceInGwei'') = Some n"
  shows "\<exists>x. l2_deploy_18_service_staking_verifier w = run_main (record_first (globals_file w) e ''StakingVerifier'' ''StakingVerifier''
     (fields [''olasAddress'', ''serviceRegistryAddress'', ''serviceRegistryTokenUtilityAddress'', ''minStakingDepositLimit'', ''timeForEmissionsLimit'', ''numServicesLimit'', ''apyLimit'']) (Some n)
     (Some ''scripts/deployment/l2/verify_18_service_staking_verifier.js'') ''stakingVerifierAddress'') (w\<lparr>console := x\<rparr>)"
  unfolding l2_deploy_18_service_staking_verifier_def L2_preamble_def staking_preamble_def
  by (rule run_main_shape, rule preamble_shape [OF staking_url_quiet assms(1)])
    (simp add: shape_simps gas_then assms(2); rule exI; rule refl)

interpretation l18: honest_installer l2_deploy_18_service_staking_verifier "L2_signer staking_url" gas_ready
  "''StakingVerifier''" "fields [''olasAddress'', ''serviceRegistryAddress'', ''serviceRegistryTokenUtilityAddress'', ''minStakingDepositLimit'', ''timeForEmissionsLimit'', ''numServicesLimit'', ''apyLimit'']" "''stakingVerifierAddress''"
  by unfold_locales
    (auto intro!: record_shape_laws [OF l2_deploy_18_service_staking_verifier_shape] simp: honest_simps gas_ready_def)

lemma l2_deploy_19_service_staking_factory_shape:
  assumes "L2_signer staking_url w = Some e" "parseUnits w (getf (globals_file w) ''gasPriceInGwei'') = Some n"
  shows "\<exists>x. l2_deploy_19_service_staking_factory w = run_main (record_first (globals_file w) e ''StakingFactory'' ''StakingFactory''
     (fields [''stakingVerifierAddress'']) (Some n)
     (Some ''scripts/deployment/l2/verify_19_service_staking_factory.js'') ''stakingFactoryAddress'') (w\<lparr>console := x\<rparr>)"
  unfolding l2_deploy_19_service_staking_factory_def L2_preamble_def staking_preamble_def
  by (rule run_main_shape, rule preamble_shape [OF staking_url_quiet assms(1)])
    (simp add: shape_simps gas_then assms(2); rule exI; rule refl)

interpretation l19: honest_installer l2_deploy_19_service_staking_factory "L2_signer staking_url" gas_ready
  "''StakingFactory''" "fields [''stakingVerifierAddress'']" "''stakingFactoryAddress''"
  by unfold_locales
    (auto intro!: record_shape_laws [OF l2_deploy_19_service_staking_factory_shape] simp: honest_simps gas_ready_def)

lemma l2_deploy_23_hash_checkpoint_l2_shape:
  assumes "L2_signer polygon_url w = Some e" "parseUnits w (getf (globals_file w) ''gasPriceInGwei'') = Some n"
  shows "\<exists>x. l2_deploy_23_hash_checkpoint_l2 w = run_main (record_first (globals_file w) e ''ServiceRegistryL2'' ''HashCheckpoint''
     (fields [''baseURI'']) (Some n)
     (Some ''scripts/deployment/l2/verify_23_hash_checkpoint.js'') ''hashCheckpointAddress'') (w\<lparr>console := x\<rparr>)"
  unfolding l2_deploy_23_hash_checkpoint_l2_def L2_preamble_def staking_preamble_def
  by (rule run_main_shape, rule preamble_shape [OF polygon_url_quiet assms(1)])
    (simp add: shape_simps gas_then assms(2); rule exI; rule refl)

interpretation l23: honest_installer l2_deploy_23_hash_checkpoint_l2 "L2_signer polygon_url" gas_ready
  "''HashCheckpoint''" "fields [''baseURI'']" "''hashCheckpointAddress''"
  by unfold_locales
    (auto intro!: record_shape_laws [OF l2_deploy_23_hash_checkpoint_l2_shape] simp: honest_simps gas_ready_def)

end
