(* ===== verification/Deployment_Proxy.thy ===== *)
theory Deployment_Proxy
  imports Deployment_Refinement
begin

text \<open>
  The shell scripts that deploy the proxy of the service manager, against the abstract deployment: they install the proxy on the file
  of the network they are called with, in every other case they do nothing, and they always exit with 0.
\<close>

section \<open>The key and the signer\<close>

text \<open>The signer the script ends up with; none when a key is missing.\<close>

definition file_signer :: "globals \<Rightarrow> world \<Rightarrow> signer option" where
  "file_signer g w = (case fst (shell_key g w) of Inr (Some k) \<Rightarrow> Some (proxy_signer g k w) | _ \<Rightarrow> None)"

definition proxy_args :: "globals \<Rightarrow> json list" where
  "proxy_args g = [getf g ''serviceManagerAddress'', JStr ''initialize()'']"

lemma same_console: "\<exists>x. w = w\<lparr>console := x\<rparr>"
  by (rule exI [of _ "console w"]) simp

lemma shell_key_quiet: "\<exists>k x. shell_key g w = (Inr k, w\<lparr>console := x\<rparr>)"
  using same_console [of w]
  by (auto simp: shell_key_def jbind_def jthen_apply env_var_def log_defs split: option.split)

lemma say_private_key_quiet: "\<exists>x. say_private_key g w = (Inr (), w\<lparr>console := x\<rparr>)"
  using same_console [of w] by (auto simp: say_private_key_def jbind_def env_var_def log_defs)

lemma proxy_signer_console [simp]: "proxy_signer g k (w\<lparr>console := x\<rparr>) = proxy_signer g k w"
  by (simp add: proxy_signer_def)

section \<open>What a script does\<close>

definition untouched :: "world \<Rightarrow> world \<Rightarrow> bool" where
  "untouched w w' \<longleftrightarrow> view w' = view w \<and> network_files w' = network_files w"

lemma untouched_console [simp]: "untouched (w\<lparr>console := x\<rparr>) w' = untouched w w'"
  by (simp add: untouched_def)

definition proxy_installs :: "string \<Rightarrow> world \<Rightarrow> nat \<times> world \<Rightarrow> bool" where
  "proxy_installs path w r \<longleftrightarrow> fst r = 0 \<and> env (snd r) = env w \<and> globals_file (snd r) = globals_file w \<and>
     (case network_files w path of None \<Rightarrow> untouched w (snd r)
      | Some g \<Rightarrow> (case file_signer g w of None \<Rightarrow> untouched w (snd r)
        | Some e \<Rightarrow> if \<not> reachable w e then untouched w (snd r)
          else (case install (fresh_address w) (signer_addr e) ''ServiceManagerProxy'' proxy_args ''serviceManagerProxyAddress'' (g, snd (view w)) of
              None \<Rightarrow> untouched w (snd r)
            | Some v \<Rightarrow> snd (view (snd r)) = snd v \<and> network_files (snd r) = (network_files w)(path := Some (fst v)))))"

lemma proxy_verify_quiet:
  "\<exists>x y. proxy_verify g a args w = (Inr (), w\<lparr>console := x, submitted := y\<rparr>)"
proof -
  have "\<exists>x y. w = w\<lparr>console := x, submitted := y\<rparr>" by (rule exI [of _ "console w"], rule exI [of _ "submitted w"]) simp
  then show ?thesis by (auto simp: proxy_verify_def jthen_apply log_defs forge_verify_def)
qed

lemma env_network [simp]: "env (w\<lparr>network_files := f\<rparr>) = env w" "env (w\<lparr>submitted := y\<rparr>) = env w"
  by (simp_all add: env_def)

text \<open>The body, once there is a signer \<open>e\<close>.\<close>

lemma proxy_body_effect:
  "\<exists>w'. proxy_body path g e w = (Inr (), w') \<and> env w' = env w \<and> globals_file w' = globals_file w \<and>
     (if \<not> reachable w e then untouched w w'
      else case install (fresh_address w) (signer_addr e) ''ServiceManagerProxy'' proxy_args ''serviceManagerProxyAddress'' (g, snd (view w)) of
         None \<Rightarrow> untouched w w'
       | Some v \<Rightarrow> snd (view w') = snd v \<and> network_files w' = (network_files w)(path := Some (fst v)))"
proof -
  obtain x where x: "say_private_key g w = (Inr (), w\<lparr>console := x\<rparr>)" using say_private_key_quiet by blast
  let ?args = "[getf g ''serviceManagerAddress'', JStr ''initialize()'']"
  show ?thesis
  proof (cases "reachable w e \<and> (\<exists>c. construct (code (settle w)) (signer_addr e) ''ServiceManagerProxy'' ?args = Inr c)")
    case False
    then show ?thesis
      by (cases "construct (code (settle w)) (signer_addr e) ''ServiceManagerProxy'' ?args")
        (auto simp: proxy_body_def x jthen_apply jbind_def jtry_def log_defs deploy_contract_def untouched_def env_def view_def proxy_args_def Let_def)
  next
    case True
    then obtain c where c: "reachable w e" "construct (code (settle w)) (signer_addr e) ''ServiceManagerProxy'' ?args = Inr c" by blast
    have "\<exists>x y. proxy_verify g a args w' = (Inr (), w'\<lparr>console := x, submitted := y\<rparr>)" for a args w'
      by (rule proxy_verify_quiet)
    then obtain p q where pv: "\<And>a args w'. proxy_verify g a args w' = (Inr (), w'\<lparr>console := p a args w', submitted := q a args w'\<rparr>)" by metis
    from c show ?thesis
      by (simp add: proxy_body_def x jthen_apply jbind_def jtry_def log_defs deploy_contract_def write_network_def pv env_def view_def
          proxy_args_def Let_def)
  qed
qed

lemma proxy_script_installs: "proxy_installs path w (proxy_script path w)"
proof (cases "network_files w path")
  case None
  then show ?thesis by (simp add: proxy_installs_def proxy_script_def run_main_def log_defs untouched_def env_def)
next
  case (Some g)
  obtain k x where k: "shell_key g w = (Inr k, w\<lparr>console := x\<rparr>)" using shell_key_quiet by blast
  show ?thesis
  proof (cases k)
    case None
    then show ?thesis by (simp add: proxy_installs_def proxy_script_def run_main_def Some k file_signer_def untouched_def env_def)
  next
    case key: (Some API_KEY)
    let ?e = "proxy_signer g API_KEY w"
    obtain w' where w': "proxy_body path g ?e (w\<lparr>console := x\<rparr>) = (Inr (), w')"
        "env w' = env w" "globals_file w' = globals_file w"
        "if \<not> reachable w ?e then untouched w w'
         else case install (fresh_address w) (signer_addr ?e) ''ServiceManagerProxy'' proxy_args ''serviceManagerProxyAddress'' (g, snd (view w)) of
           None \<Rightarrow> untouched w w'
         | Some v \<Rightarrow> snd (view w') = snd v \<and> network_files w' = (network_files w)(path := Some (fst v))"
      using proxy_body_effect [of path g ?e "w\<lparr>console := x\<rparr>"] by (auto split: if_splits option.splits)
    then have "proxy_script path w = (0, w')" by (simp add: proxy_script_def run_main_def Some k key)
    with w'(2-4) show ?thesis by (auto simp: proxy_installs_def Some file_signer_def k key split: if_splits option.splits)
  qed
qed

end
