(* ===== verification/Deployment_Properties.thy ===== *)
theory Deployment_Properties
  imports Deployment_Proxy
begin

text \<open>
  The properties of the scripts that deploy a contract: each deploys what it names and records it; what a failed
  verification leaves; what happens without an API key.
\<close>

section \<open>A sample world\<close>

definition sample_hash :: string where
  "sample_hash = ''0x'' @ replicate 64 (CHR ''1'')"

definition sample_globals :: globals where
  "sample_globals =
    [(''useLedger'', JBool False), (''providerName'', JStr ''goerli''), (''contractVerification'', JBool False),
     (''gasPriceInGwei'', JStr ''5''), (''networkURL'', JStr ''http://node''),
     (''componentRegistryName'', JStr ''Component Registry''), (''componentRegistrySymbol'', JStr ''MECH-COMPONENT''),
     (''agentRegistryName'', JStr ''Agent Registry''), (''agentRegistrySymbol'', JStr ''MECH-AGENT''),
     (''serviceRegistryName'', JStr ''Service Registry''), (''serviceRegistrySymbol'', JStr ''AUTONOLAS-SERVICE''),
     (''baseURI'', JStr ''https://gateway.autonolas.tech/ipfs/''), (''gnosisSafeAddress'', JAddr 501),
     (''gnosisSafeProxyFactoryAddress'', JAddr 502), (''multisigProxyHash130'', JStr sample_hash),
     (''timelockAddress'', JAddr 900), (''bridgeMediatorAddress'', JAddr 901), (''olasAddress'', JAddr 902),
     (''minStakingDepositLimit'', JNum 10), (''timeForEmissionsLimit'', JNum 20), (''numServicesLimit'', JNum 30),
     (''apyLimit'', JNum 40), (''recoveryModuleAddress'', JAddr 950), (''safeMultisigWithRecoveryModuleAddress'', JAddr 951)]"

definition sample_world :: world where
  "sample_world = \<lparr>globals_file = sample_globals, network_files = (\<lambda>_. None), envvar = (\<lambda>_. None), ledger_address = 10, signer_address = 11,
     private_key_address = 11, code = (\<lambda>_. None), pending = [], sent = [], submitted = [], console = [],
     fresh_address = (\<lambda>n. 1000 + of_nat n), tx_hash = (\<lambda>_. ''0x''), automine = True, rpc_up = (\<lambda>_. True),
     parseUnits = (\<lambda>j. map_option (\<lambda>n. n * 1000000000) (as_num j)), explorer_accepts = (\<lambda>_ _ _. True)\<rparr>"

lemma sample_L1_signer [simp]: "L1_signer sample_world = Hardhat 11"
  by (simp add: L1_signer_def sample_world_def sample_globals_def getf_def)


lemma sample_unverified [simp]: "\<not> truthy (getf (globals_file sample_world) ''contractVerification'')"
  by (simp add: sample_world_def sample_globals_def getf_def)


section \<open>One deployment\<close>

lemmas L1_laws =
  i01.law i01.refusal i02.law i02.refusal i03.law i03.refusal i04.law i04.refusal 
  i05.law i05.refusal i06.law i06.refusal i07.law i07.refusal i09a.law i09a.refusal i09b.law i09b.refusal





lemmas L2_laws =
  l01.law l01.refusal l02.law l02.refusal l03.law l03.refusal l04.law l04.refusal 
  l06a.law l06a.refusal l06b.law l06b.refusal l16.law l16.refusal l17.law l17.refusal l18.law l18.refusal l19.law l19.refusal l23.law l23.refusal




section \<open>Verification on the explorer\<close>

lemmas L1_honesty = i01.honesty i02.honesty i03.honesty i04.honesty i05.honesty i06.honesty i07.honesty i09a.honesty i09b.honesty

lemmas L2_honesty = l01.honesty l02.honesty l03.honesty l04.honesty l06a.honesty l06b.honesty l16.honesty l17.honesty l18.honesty l19.honesty l23.honesty

lemma table_laws:
  assumes "(\<exists>url. (script, url, kind, keys, key) \<in> set L2_DEPLOYMENTS \<and> L2_signer url w = Some e \<and> gas_ready w) \<or>
      (script, kind, keys, key) \<in> set L1_DEPLOYMENTS \<and> e = L1_signer w"
    and "reachable w e"
  shows "installs kind (fields keys) key e w (script w)" "submits (fields keys) w (script w)"
proof -
  have "installs kind (fields keys) key e w (script w) \<and> submits (fields keys) w (script w)"
    using assms(1)
  proof
    assume "(script, kind, keys, key) \<in> set L1_DEPLOYMENTS \<and> e = L1_signer w"
    then show ?thesis using assms(2) unfolding L1_tables append.simps
      by (simp only: list.set insert_iff empty_iff prod.inject simp_thms)
        (elim disjE conjE; hypsubst; blast intro: L1_laws L1_honesty)
  next
    assume "\<exists>url. (script, url, kind, keys, key) \<in> set L2_DEPLOYMENTS \<and> L2_signer url w = Some e \<and> gas_ready w"
    then show ?thesis using assms(2) unfolding L2_DEPLOYMENTS_def
      by (simp only: list.set insert_iff empty_iff prod.inject simp_thms)
        (elim exE disjE conjE; hypsubst; blast intro: L2_laws L2_honesty)
  qed
  then show "installs kind (fields keys) key e w (script w)" "submits (fields keys) w (script w)" by simp_all
qed

text \<open>C28. Whatever a deployment script hands to the explorer is about a contract that is on the chain, of the
  kind the script deploys, and carries exactly the arguments this contract was built from: the modules
  of constructor arguments agree with the scripts, also when they run after the globals file was
  rewritten, and whether or not the explorer accepts.\<close>

theorem submissions_match_deployment:
  assumes "(\<exists>url. (script, url, kind, keys, key) \<in> set L2_DEPLOYMENTS \<and> L2_signer url w = Some e \<and> gas_ready w) \<or>
      (script, kind, keys, key) \<in> set L1_DEPLOYMENTS \<and> e = L1_signer w"
    and "reachable w e"
    and "(a, args) \<in> set (drop (length (submitted w)) (submitted (snd (script w))))"
    and "install (fresh_address w) (signer_addr e) kind (fields keys) key (view w) \<noteq> None"
  shows "\<exists>c. code (settle (snd (script w))) a = Some c \<and> c_kind c = kind \<and> c_args c = args"
proof -
  have a: "a = fresh_address w (length (sent w))" "args = fields keys (globals_file w)"
    using table_laws(2) [OF assms(1,2)] assms(3) by (auto simp: submits_def)
  obtain c where c: "construct (code (settle w)) (signer_addr e) kind (fields keys (globals_file w)) = Inr c"
    using assms(4) by (auto simp: view_def split: sum.splits)
  then have "code (settle (snd (script w))) = (code (settle w))(a \<mapsto> c)"
    using table_laws(1) [OF assms(1,2)] a(1) by (simp add: installs_def view_def)
  with construct_records [OF c] a(2) show ?thesis by simp
qed

definition sample_verified :: world where
  "sample_verified = sample_world\<lparr>globals_file := putf ''contractVerification'' (JBool True) sample_globals\<rparr>"

theorem submissions_match_deployment_witness:
  "submitted (snd (deploy_01_component_registry sample_verified)) =
     [(1000, [JStr ''Component Registry'', JStr ''MECH-COMPONENT'', JStr ''https://gateway.autonolas.tech/ipfs/''])] \<and>
   (\<exists>c. code (settle (snd (deploy_01_component_registry sample_verified))) 1000 = Some c \<and> c_kind c = ''ComponentRegistry'' \<and>
      c_args c = [JStr ''Component Registry'', JStr ''MECH-COMPONENT'', JStr ''https://gateway.autonolas.tech/ipfs/''])"
proof -
  have e: "L1_signer sample_verified = Hardhat 11"
    by (simp add: L1_signer_def sample_verified_def sample_world_def sample_globals_def getf_def)
  have m: "(deploy_01_component_registry, ''ComponentRegistry'', [''componentRegistryName'', ''componentRegistrySymbol'', ''baseURI''],
      ''componentRegistryAddress'') \<in> set L1_DEPLOYMENTS"
    by (simp add: L1_tables)
  have s: "submitted sample_verified = []" by (simp add: sample_verified_def sample_world_def)
  have n: "install (fresh_address sample_verified) 11 ''ComponentRegistry''
       (fields [''componentRegistryName'', ''componentRegistrySymbol'', ''baseURI'']) ''componentRegistryAddress'' (view sample_verified) \<noteq> None"
    by (simp add: view_def settle_def sample_verified_def sample_world_def sample_globals_def construct_def construct_registry_def getf_def)
  have r: "submitted (snd (deploy_01_component_registry sample_verified)) =
     [(1000, [JStr ''Component Registry'', JStr ''MECH-COMPONENT'', JStr ''https://gateway.autonolas.tech/ipfs/''])]"
    by (simp add: deploy_01_component_registry_def shape_simps deploy_logged_apply e log_defs jbind_def jthen_apply verify_contract_def
        hardhat_verify_def VERIFY_MODULES_def verify_module_defs construct_def construct_registry_def run_main_def
        write_globals_def sample_verified_def sample_world_def sample_globals_def getf_def settle_def L1_signer_def)
  show ?thesis
    using submissions_match_deployment [of deploy_01_component_registry "''ComponentRegistry''" _ _ sample_verified "Hardhat 11", OF disjI2, OF conjI, OF m e [symmetric]] n
    by (simp add: r s)
qed

lemmas record_shapes = deploy_05_operator_whitelist_shape deploy_06_service_registry_token_utility_shape
  deploy_07_service_manager_shape deploy_09a_gnosis_safe_multisig_shape deploy_09b_gnosis_safe_same_address_multisig_shape

lemmas verify_shapes = deploy_01_component_registry_shape deploy_02_agent_registry_shape deploy_03_registries_manager_shape
  deploy_04_service_registry_shape

lemma record_first_view:
  assumes "reachable w EOA" "globals_file w = g"
    and "install (fresh_address w) (signer_addr EOA) kind args key (view w) = Some v"
  shows "view (snd (run_main (record_first g EOA label kind args gas path key) w)) = v"
  using assms by (auto simp: run_main_view record_first_def deploy_logged_apply jbind_def jthen_apply write_globals_def Let_def
      verify_contract_view view_deployed view_def [of w] split: sum.splits)

text \<open>Scripts 05 to 09b record the address before they verify: once the constructor accepted, the globals
  file names the new contract whatever the explorer or the command says.\<close>

theorem recorded_before_verification:
  assumes "(script, kind, keys, key) \<in> set L1_LATE" and "reachable w (L1_signer w)"
    and "install (fresh_address w) (signer_addr (L1_signer w)) kind (fields keys) key (view w) = Some v"
  shows "view (snd (script w)) = v \<and> globals_file (snd (script w)) =
     putf key (JAddr (fresh_address w (length (sent w)))) (globals_file w)"
proof -
  have "\<exists>label path x. script w = run_main (record_first (globals_file w) (L1_signer w) label kind (fields keys) None path key)
      (w\<lparr>console := x\<rparr>)"
    using assms(1) unfolding L1_LATE_def
    by (simp only: list.set insert_iff empty_iff prod.inject simp_thms)
      (elim disjE conjE; hypsubst; rule exI, rule exI, rule record_shapes)
  then obtain x label path where s: "script w =
      run_main (record_first (globals_file w) (L1_signer w) label kind (fields keys) None path key) (w\<lparr>console := x\<rparr>)"
    by blast
  show ?thesis
    using assms(2,3) record_first_view [of "w\<lparr>console := x\<rparr>" "L1_signer w" "globals_file w" kind "fields keys" key v label None path]
    by (auto simp: s view_def split: sum.splits)
qed

theorem recorded_before_verification_witness:
  "getf (globals_file (snd (deploy_09a_gnosis_safe_multisig sample_verified))) ''gnosisSafeMultisigImplementationAddress'' = JAddr 1000"
proof -
  have e: "L1_signer sample_verified = Hardhat 11"
    by (simp add: L1_signer_def sample_verified_def sample_world_def sample_globals_def getf_def)
  have m: "(deploy_09a_gnosis_safe_multisig, ''GnosisSafeMultisig'', [''gnosisSafeAddress'', ''gnosisSafeProxyFactoryAddress''],
      ''gnosisSafeMultisigImplementationAddress'') \<in> set L1_LATE"
    by (simp add: L1_LATE_def)
  obtain v where v: "install (fresh_address sample_verified) 11 ''GnosisSafeMultisig''
       (fields [''gnosisSafeAddress'', ''gnosisSafeProxyFactoryAddress'']) ''gnosisSafeMultisigImplementationAddress''
       (view sample_verified) = Some v"
    by (auto simp: view_def settle_def sample_verified_def sample_world_def sample_globals_def construct_def
        construct_two_addresses_def getf_def)
  have "fresh_address sample_verified (length (sent sample_verified)) = 1000"
    by (simp add: sample_verified_def sample_world_def)
  then show ?thesis
    using recorded_before_verification [OF m, of sample_verified v] v by (simp add: e)
qed

lemma verify_first_refused:
  assumes "reachable w EOA" "globals_file w = g"
    and "install (fresh_address w) (signer_addr EOA) kind args key (view w) = Some v"
    and "honest path args key" "case path of None \<Rightarrow> True | Some p \<Rightarrow> map_of VERIFY_MODULES p \<noteq> None"
    and "truthy (getf g ''contractVerification'')"
    and "\<not> explorer_accepts w (getf g ''providerName'') (fresh_address w (length (sent w))) (args g)"
  shows "fst (run_main (verify_first g EOA label kind args gas path key) w) = 1"
    and "view (snd (run_main (verify_first g EOA label kind args gas path key) w)) = (g, snd v)"
  using assms by (auto simp: run_main_def verify_first_def deploy_logged_apply jbind_def jthen_apply verify_contract_def
      hardhat_verify_def honest_def Let_def view_def split: sum.splits option.splits)

lemma ex_conjI1: "\<exists>x. R x \<Longrightarrow> P \<Longrightarrow> \<exists>x. P \<and> R x"
  by blast

lemma ex_conjI2: "\<exists>x. R x \<Longrightarrow> P \<Longrightarrow> Q \<Longrightarrow> \<exists>x. P \<and> Q \<and> R x"
  by blast

text \<open>Scripts 01 to 04 verify first. When the explorer refuses, they exit with 1 with the contract on the chain
  and its address in no file: the globals file is as it was.\<close>

theorem verification_loses_address:
  assumes "(script, kind, keys, key) \<in> set L1_EARLY" and "reachable w (L1_signer w)"
    and "install (fresh_address w) (signer_addr (L1_signer w)) kind (fields keys) key (view w) = Some v"
    and "truthy (getf (globals_file w) ''contractVerification'')"
    and "\<not> explorer_accepts w (getf (globals_file w) ''providerName'') (fresh_address w (length (sent w)))
           (fields keys (globals_file w))"
  shows "fst (script w) = 1 \<and> view (snd (script w)) = (globals_file w, snd v)"
proof -
  have "\<exists>label path x. honest path (fields keys) key \<and> (case path of None \<Rightarrow> True | Some p \<Rightarrow> map_of VERIFY_MODULES p \<noteq> None) \<and>
      script w = run_main (verify_first (globals_file w) (L1_signer w) label kind (fields keys) None path key)
      (w\<lparr>console := x\<rparr>)"
    using assms(1) unfolding L1_EARLY_def
    by (simp only: list.set insert_iff empty_iff prod.inject simp_thms)
      (elim disjE conjE; hypsubst; rule exI, rule exI, rule ex_conjI2, rule verify_shapes; simp add: honest_simps)
  then obtain x label path where p: "honest path (fields keys) key" "case path of None \<Rightarrow> True | Some p \<Rightarrow> map_of VERIFY_MODULES p \<noteq> None"
    and s: "script w =
      run_main (verify_first (globals_file w) (L1_signer w) label kind (fields keys) None path key) (w\<lparr>console := x\<rparr>)"
    by blast
  show ?thesis
    using assms(2-5) p verify_first_refused [of "w\<lparr>console := x\<rparr>" "L1_signer w" "globals_file w" kind "fields keys" key v path label None]
    by (auto simp: s view_def)
qed

definition sample_refused :: world where
  "sample_refused = sample_verified\<lparr>explorer_accepts := (\<lambda>_ _ _. False)\<rparr>"

theorem verification_loses_address_witness:
  "fst (deploy_01_component_registry sample_refused) = 1 \<and>
   globals_file (snd (deploy_01_component_registry sample_refused)) = globals_file sample_refused \<and>
   code (settle (snd (deploy_01_component_registry sample_refused))) 1000 \<noteq> None"
proof -
  have e: "L1_signer sample_refused = Hardhat 11"
    by (simp add: L1_signer_def sample_refused_def sample_verified_def sample_world_def sample_globals_def getf_def)
  have m: "(deploy_01_component_registry, ''ComponentRegistry'', [''componentRegistryName'', ''componentRegistrySymbol'', ''baseURI''],
      ''componentRegistryAddress'') \<in> set L1_EARLY"
    by (simp add: L1_EARLY_def)
  have f: "fresh_address sample_refused (length (sent sample_refused)) = 1000" "explorer_accepts sample_refused = (\<lambda>_ _ _. False)"
    "truthy (getf (globals_file sample_refused) ''contractVerification'')"
    by (simp_all add: sample_refused_def sample_verified_def sample_world_def)
  obtain c where c: "construct (code (settle sample_refused)) 11 ''ComponentRegistry''
       (fields [''componentRegistryName'', ''componentRegistrySymbol'', ''baseURI''] (globals_file sample_refused)) = Inr c"
    by (simp add: settle_def sample_refused_def sample_verified_def sample_world_def sample_globals_def construct_def
        construct_registry_def getf_def)
  then have v: "install (fresh_address sample_refused) 11 ''ComponentRegistry''
       (fields [''componentRegistryName'', ''componentRegistrySymbol'', ''baseURI'']) ''componentRegistryAddress''
       (view sample_refused) = Some (putf ''componentRegistryAddress'' (JAddr 1000) (globals_file sample_refused),
         (code (settle sample_refused))(1000 \<mapsto> c), Suc (length (sent sample_refused)))"
    by (simp add: view_def f)
  show ?thesis
    using verification_loses_address [OF m _ _ f(3), of _] v by (simp add: e f view_def)
qed

text \<open>Scripts 05, 06, 09a and 09b name modules of constructor arguments that the repository does not have: with
  verification switched on they exit with 1 after every successful deployment, whatever the explorer does.\<close>

theorem missing_modules_fail:
  assumes "script \<in> {deploy_05_operator_whitelist, deploy_06_service_registry_token_utility,
      deploy_09a_gnosis_safe_multisig, deploy_09b_gnosis_safe_same_address_multisig}"
    and "reachable w (L1_signer w)" and "truthy (getf (globals_file w) ''contractVerification'')"
  shows "fst (script w) = 1"
proof -
  have "\<exists>label kind args path key x. (case path of None \<Rightarrow> False | Some p \<Rightarrow> map_of VERIFY_MODULES p = None) \<and>
      script w = run_main (record_first (globals_file w) (L1_signer w) label kind args None path key) (w\<lparr>console := x\<rparr>)"
    using assms(1)
    by (simp only: insert_iff empty_iff simp_thms)
      (elim disjE; hypsubst; rule exI, rule exI, rule exI, rule exI, rule exI, rule ex_conjI1, rule record_shapes;
        simp add: VERIFY_MODULES_def)
  then obtain label kind args path key x where "case path of None \<Rightarrow> False | Some p \<Rightarrow> map_of VERIFY_MODULES p = None"
    and s: "script w = run_main (record_first (globals_file w) (L1_signer w) label kind args None path key) (w\<lparr>console := x\<rparr>)"
    by blast
  then show ?thesis
    using assms(2,3) by (auto simp: s run_main_code record_first_def deploy_logged_apply jbind_def jthen_apply
        write_globals_def Let_def verify_contract_def hardhat_verify_def split: sum.split option.splits)
qed

theorem missing_modules_fail_witness: "fst (deploy_09a_gnosis_safe_multisig sample_verified) = 1"
proof -
  have "L1_signer sample_verified = Hardhat 11"
    by (simp add: L1_signer_def sample_verified_def sample_world_def sample_globals_def getf_def)
  then show ?thesis
    using missing_modules_fail [of deploy_09a_gnosis_safe_multisig sample_verified]
    by (simp add: sample_verified_def)
qed

lemmas L2_script_defs = l2_deploy_01_service_registry_l2_def l2_deploy_02_operator_whitelist_def
  l2_deploy_03_service_registry_token_utility_def l2_deploy_04_service_manager_def
  l2_deploy_06a_gnosis_safe_multisig_def l2_deploy_06b_gnosis_safe_same_address_multisig_def
  l2_deploy_16_service_staking_token_def l2_deploy_17_service_staking_native_token_def
  l2_deploy_18_service_staking_verifier_def l2_deploy_19_service_staking_factory_def
  l2_deploy_23_hash_checkpoint_l2_def

text \<open>The missing API key. On the test networks a script of the other chains without its key exits with 0 and
  has done nothing.\<close>

theorem missing_key_on_testnet:
  assumes "(script, url, kind, keys, key) \<in> set L2_DEPLOYMENTS" and "L2_signer url w = None"
  shows "fst (script w) = 0 \<and> view (snd (script w)) = view w \<and> submitted (snd (script w)) = submitted w"
proof -
  have q: "quiet url" using assms(1)
    by (auto simp: L2_DEPLOYMENTS_def polygon_url_quiet staking_url_quiet)
  obtain body where s: "script = run_main (preamble url body)"
    using assms(1) unfolding L2_DEPLOYMENTS_def
    by (simp only: list.set insert_iff empty_iff prod.inject simp_thms L2_script_defs L2_preamble_def staking_preamble_def) blast
  obtain x where "preamble url body w = (Inr (), w\<lparr>console := x\<rparr>)"
    using preamble_returns [OF q assms(2)] by blast
  then show ?thesis by (simp add: s run_main_def)
qed

theorem missing_key_on_testnet_witness:
  "L2_signer polygon_url (sample_world\<lparr>globals_file := putf ''providerName'' (JStr ''polygonAmoy'') sample_globals\<rparr>) = None \<and>
   fst (l2_deploy_01_service_registry_l2 (sample_world\<lparr>globals_file := putf ''providerName'' (JStr ''polygonAmoy'') sample_globals\<rparr>)) = 0"
proof -
  have n: "L2_signer polygon_url (sample_world\<lparr>globals_file := putf ''providerName'' (JStr ''polygonAmoy'') sample_globals\<rparr>) = None"
    by (simp add: L2_signer_def polygon_url_def add_key_def env_var_def jbind_def jthen_apply log_defs sample_world_def)
  have m: "(l2_deploy_01_service_registry_l2, polygon_url, ''ServiceRegistryL2'',
      [''serviceRegistryName'', ''serviceRegistrySymbol'', ''baseURI''], ''serviceRegistryAddress'') \<in> set L2_DEPLOYMENTS"
    by (simp add: L2_DEPLOYMENTS_def)
  show ?thesis using missing_key_on_testnet [OF m n] n by simp
qed

text \<open>On polygon and on the main chain the script goes on without its key: the signer it ends up with
  sends to the URL of the globals file with the word undefined at its end, so a ledger deployment asks
  an endpoint nobody meant, and a deployment with the other signer goes through.\<close>

theorem missing_key_on_mainnets:
  assumes "(script, url, kind, keys, key) \<in> set L2_DEPLOYMENTS"
    and "getf (globals_file w) ''providerName'' = JStr ''polygon'' \<and> envvar w ''ALCHEMY_API_KEY_MATIC'' = None \<or>
      url = staking_url \<and> getf (globals_file w) ''providerName'' = JStr ''mainnet'' \<and> envvar w ''ALCHEMY_API_KEY_MAINNET'' = None"
    and "getf (globals_file w) ''networkURL'' = JStr u"
  shows "L2_signer url w = Some (if truthy (getf (globals_file w) ''useLedger'')
      then Ledger (ledger_address w) (u @ ''undefined'') else Hardhat (signer_address w))"
proof -
  have "url = polygon_url \<or> url = staking_url"
    using assms(1) by (auto simp: L2_DEPLOYMENTS_def)
  then consider (staking) "url = staking_url" | (polygon) "url = polygon_url" "url \<noteq> staking_url" by blast
  then show ?thesis
  proof cases
    case staking
    with assms(2,3) show ?thesis
      by (auto simp: L2_signer_def polygon_url_def staking_url_def add_key_def env_var_def jbind_def jthen_apply log_defs js_plus_def)
  next
    case polygon
    with assms(2) have "getf (globals_file w) ''providerName'' = JStr ''polygon''" "envvar w ''ALCHEMY_API_KEY_MATIC'' = None"
      by simp_all
    with assms(3) polygon(1) show ?thesis
      by (simp add: L2_signer_def polygon_url_def add_key_def env_var_def jbind_def jthen_apply log_defs js_plus_def)
  qed
qed

theorem missing_key_on_mainnets_witness:
  "L2_signer polygon_url (sample_world\<lparr>globals_file := putf ''providerName'' (JStr ''polygon'') sample_globals\<rparr>) = Some (Hardhat 11)"
proof -
  have m: "(l2_deploy_01_service_registry_l2, polygon_url, ''ServiceRegistryL2'',
      [''serviceRegistryName'', ''serviceRegistrySymbol'', ''baseURI''], ''serviceRegistryAddress'') \<in> set L2_DEPLOYMENTS"
    by (simp add: L2_DEPLOYMENTS_def)
  show ?thesis
    using missing_key_on_mainnets [OF m, of "sample_world\<lparr>globals_file := putf ''providerName'' (JStr ''polygon'') sample_globals\<rparr>" "''http://node''"]
    by (simp add: sample_world_def sample_globals_def getf_def)
qed

end
