(* ===== verification/Deployment_Handover.thy ===== *)
theory Deployment_Handover
  imports Deployment_Properties
begin

text \<open>
  The scripts that send transactions to the deployed contracts: managers, multisig permissions, drainers, staking
  implementations and owners, on the main chain and on the others.
\<close>

section \<open>Handing over the contracts\<close>

text \<open>
  One transaction of a script, when the gas estimation accepts it: mined at once, or appended to what
  is pending.
\<close>

definition tx_lines :: "string \<Rightarrow> string option \<Rightarrow> json \<Rightarrow> string \<Rightarrow> json list list" where
  "tx_lines signing name addr h = [[JStr signing]] @
     (case name of None \<Rightarrow> [] | Some n \<Rightarrow> [[JStr (''Contract name: '' @ n)]]) @
     [[JStr ''Contract address:'', addr], [JStr ''Transaction:'', JStr h]]"

definition tx_effect :: "signer \<Rightarrow> address \<Rightarrow> meth \<Rightarrow> contract \<Rightarrow> nat option \<Rightarrow> json list list \<Rightarrow> world \<Rightarrow> world" where
  "tx_effect EOA a m c' gas ls w =
     (if automine w then w\<lparr>code := (code w)(a \<mapsto> c')\<rparr> else w\<lparr>pending := pending w @ [(signer_addr EOA, a, m)]\<rparr>)
       \<lparr>sent := sent w @ [(signer_addr EOA, gas)], console := console w @ ls\<rparr>"

lemma signed_tx_apply:
  "signed_tx EOA signing a (Some m) gas name addr w =
     (if \<not> reachable w EOA then (Inl ''could not detect network'', w\<lparr>console := console w @ [[JStr signing]]\<rparr>)
      else case code w a of None \<Rightarrow> (Inl ''call to a non-contract'', w\<lparr>console := console w @ [[JStr signing]]\<rparr>)
      | Some c \<Rightarrow> (case exec_meth (signer_addr EOA) m c of
           Inl _ \<Rightarrow> (Inl ''transaction reverted'', w\<lparr>console := console w @ [[JStr signing]]\<rparr>)
         | Inr c' \<Rightarrow> (Inr (), tx_effect EOA a m c' gas (tx_lines signing name addr (tx_hash w (length (sent w)))) w)))"
  by (cases name) (auto simp: signed_tx_def transact_def jbind_def jthen_apply log_defs tx_lines_def tx_effect_def
      split: option.split sum.split)

lemma getContractAt_bind:
  "kind \<in> set ARTIFACTS \<Longrightarrow> j = JAddr a \<Longrightarrow> jbind (getContractAt kind j) f w = f a w"
  by (simp add: getContractAt_def jbind_def jthen_apply)

text \<open>
  A contract before it is handed over: the address in the globals file is that of a contract of the right
  kind, owned by the sender.
\<close>

definition owned :: "world \<Rightarrow> address \<Rightarrow> string \<Rightarrow> string \<Rightarrow> address \<Rightarrow> contract \<Rightarrow> bool" where
  "owned w sender key kind a c \<longleftrightarrow>
     getf (globals_file w) key = JAddr a \<and> code w a = Some c \<and> c_kind c = kind \<and> c_owner c = sender"

lemma change_managers_L1:
  assumes cr: "owned w (signer_addr (L1_signer w)) ''componentRegistryAddress'' ''ComponentRegistry'' cr c1"
    and ar: "owned w (signer_addr (L1_signer w)) ''agentRegistryAddress'' ''AgentRegistry'' ar c2"
    and sr: "owned w (signer_addr (L1_signer w)) ''serviceRegistryAddress'' ''ServiceRegistry'' sr c3"
    and tu: "owned w (signer_addr (L1_signer w)) ''serviceRegistryTokenUtilityAddress'' ''ServiceRegistryTokenUtility'' tu c4"
    and args: "getf (globals_file w) ''registriesManagerAddress'' = JAddr rm" "rm \<noteq> 0"
      "getf (globals_file w) ''serviceManagerProxyAddress'' = JAddr sm" "sm \<noteq> 0"
      "getf (globals_file w) ''gnosisSafeMultisigImplementationAddress'' = JAddr m1" "m1 \<noteq> 0"
      "getf (globals_file w) ''gnosisSafeSameAddressMultisigImplementationAddress'' = JAddr m2" "m2 \<noteq> 0"
    and w: "reachable w (L1_signer w)" "pending w = []"
  shows "fst (deploy_10_14_change_managers w) = 0"
    and "view (snd (deploy_10_14_change_managers w)) = (globals_file w, (code w)
      (cr \<mapsto> c1\<lparr>c_manager := rm\<rparr>, ar \<mapsto> c2\<lparr>c_manager := rm\<rparr>, tu \<mapsto> c4\<lparr>c_manager := sm\<rparr>,
       sr \<mapsto> c3\<lparr>c_manager := sm, c_multisigs := (c_multisigs c3)(m1 := True, m2 := True)\<rparr>), length (sent w) + 6)"
    and "env (snd (deploy_10_14_change_managers w)) = env w"
proof -
  have ne: "cr \<noteq> ar" "cr \<noteq> sr" "cr \<noteq> tu" "ar \<noteq> sr" "ar \<noteq> tu" "sr \<noteq> tu"
    using cr ar sr tu by (auto simp: owned_def)
  note sim = deploy_10_14_change_managers_def L1_preamble_apply getContractAt_bind ARTIFACTS_def addr_arg_def
    signed_tx_apply jthen_apply tx_effect_def run_main_def has_manager_def has_multisigs_def owned_def settle_def view_def env_def
  have "fst (deploy_10_14_change_managers w) = 0 \<and> view (snd (deploy_10_14_change_managers w)) = (globals_file w, (code w)
      (cr \<mapsto> c1\<lparr>c_manager := rm\<rparr>, ar \<mapsto> c2\<lparr>c_manager := rm\<rparr>, tu \<mapsto> c4\<lparr>c_manager := sm\<rparr>,
       sr \<mapsto> c3\<lparr>c_manager := sm, c_multisigs := (c_multisigs c3)(m1 := True, m2 := True)\<rparr>), length (sent w) + 6) \<and> env (snd (deploy_10_14_change_managers w)) = env w"
    using assms ne ne [symmetric] by (cases "automine w") (simp_all add: sim fun_upd_twist)
  then show "fst (deploy_10_14_change_managers w) = 0" "view (snd (deploy_10_14_change_managers w)) = (globals_file w, (code w)
      (cr \<mapsto> c1\<lparr>c_manager := rm\<rparr>, ar \<mapsto> c2\<lparr>c_manager := rm\<rparr>, tu \<mapsto> c4\<lparr>c_manager := sm\<rparr>,
       sr \<mapsto> c3\<lparr>c_manager := sm, c_multisigs := (c_multisigs c3)(m1 := True, m2 := True)\<rparr>), length (sent w) + 6)"
    "env (snd (deploy_10_14_change_managers w)) = env w" by simp_all
qed

lemma expect_owner_apply:
  "expect_owner a u w = (case code w a of
      None \<Rightarrow> (Inl ''call to a non-contract'', w)
    | Some c \<Rightarrow> (if \<not> has_owner (c_kind c) then (Inl ''call reverted'', w)
        else if u = JAddr (c_owner c) then (Inr (), w) else (Inl ''AssertionError'', w)))"
  by (simp add: expect_owner_def owner_def expect_equal_def jbind_def split: option.split)

lemma change_ownerships_L1:
  assumes cr: "owned w (signer_addr (L1_signer w)) ''componentRegistryAddress'' ''ComponentRegistry'' cr c1"
    and ar: "owned w (signer_addr (L1_signer w)) ''agentRegistryAddress'' ''AgentRegistry'' ar c2"
    and sr: "owned w (signer_addr (L1_signer w)) ''serviceRegistryAddress'' ''ServiceRegistry'' sr c3"
    and tu: "owned w (signer_addr (L1_signer w)) ''serviceRegistryTokenUtilityAddress'' ''ServiceRegistryTokenUtility'' tu c4"
    and rm: "owned w (signer_addr (L1_signer w)) ''registriesManagerAddress'' ''RegistriesManager'' rm c5"
    and sm: "owned w (signer_addr (L1_signer w)) ''serviceManagerProxyAddress'' ''ServiceManagerProxy'' sm c6"
    and args: "getf (globals_file w) ''timelockAddress'' = JAddr t" "t \<noteq> 0" "t \<noteq> signer_addr (L1_signer w)"
    and w: "reachable w (L1_signer w)" "pending w = []"
  shows "fst (deploy_15_20_change_ownerships w) = (if automine w then 0 else 1)"
    and "view (snd (deploy_15_20_change_ownerships w)) = (globals_file w, (code w)
      (cr \<mapsto> c1\<lparr>c_owner := t\<rparr>, ar \<mapsto> c2\<lparr>c_owner := t\<rparr>, sr \<mapsto> c3\<lparr>c_owner := t\<rparr>,
       tu \<mapsto> c4\<lparr>c_owner := t\<rparr>, rm \<mapsto> c5\<lparr>c_owner := t\<rparr>, sm \<mapsto> c6\<lparr>c_owner := t\<rparr>), length (sent w) + 6)"
    and "env (snd (deploy_15_20_change_ownerships w)) = env w"
proof -
  have ne: "cr \<noteq> ar" "cr \<noteq> sr" "cr \<noteq> tu" "cr \<noteq> rm" "cr \<noteq> sm" "ar \<noteq> sr" "ar \<noteq> tu" "ar \<noteq> rm" "ar \<noteq> sm" "sr \<noteq> tu" "sr \<noteq> rm" "sr \<noteq> sm"
    "tu \<noteq> rm" "tu \<noteq> sm" "rm \<noteq> sm"
    using cr ar sr tu rm sm by (auto simp: owned_def)
  note sim = deploy_15_20_change_ownerships_def L1_preamble_apply getContractAt_bind ARTIFACTS_def addr_arg_def
    signed_tx_apply jthen_apply tx_effect_def run_main_def has_owner_def expect_owner_apply log_defs Let_def owned_def settle_def view_def env_def
  have "fst (deploy_15_20_change_ownerships w) = (if automine w then 0 else 1) \<and> view (snd (deploy_15_20_change_ownerships w)) = (globals_file w, (code w)
      (cr \<mapsto> c1\<lparr>c_owner := t\<rparr>, ar \<mapsto> c2\<lparr>c_owner := t\<rparr>, sr \<mapsto> c3\<lparr>c_owner := t\<rparr>,
       tu \<mapsto> c4\<lparr>c_owner := t\<rparr>, rm \<mapsto> c5\<lparr>c_owner := t\<rparr>, sm \<mapsto> c6\<lparr>c_owner := t\<rparr>), length (sent w) + 6) \<and> env (snd (deploy_15_20_change_ownerships w)) = env w"
    using assms ne ne [symmetric] by (cases "automine w") (simp_all add: sim)
  then show "fst (deploy_15_20_change_ownerships w) = (if automine w then 0 else 1)" "view (snd (deploy_15_20_change_ownerships w)) = (globals_file w, (code w)
      (cr \<mapsto> c1\<lparr>c_owner := t\<rparr>, ar \<mapsto> c2\<lparr>c_owner := t\<rparr>, sr \<mapsto> c3\<lparr>c_owner := t\<rparr>,
       tu \<mapsto> c4\<lparr>c_owner := t\<rparr>, rm \<mapsto> c5\<lparr>c_owner := t\<rparr>, sm \<mapsto> c6\<lparr>c_owner := t\<rparr>), length (sent w) + 6)"
    "env (snd (deploy_15_20_change_ownerships w)) = env w" by simp_all
qed

definition sample_contract :: "string \<Rightarrow> contract" where
  "sample_contract kind = new_contract kind [] 11"

definition handover_world :: "bool \<Rightarrow> world" where
  "handover_world auto = sample_world\<lparr>automine := auto,
     globals_file := [(''useLedger'', JBool False), (''componentRegistryAddress'', JAddr 1), (''agentRegistryAddress'', JAddr 2),
       (''serviceRegistryAddress'', JAddr 3), (''serviceRegistryTokenUtilityAddress'', JAddr 4), (''registriesManagerAddress'', JAddr 5),
       (''serviceManagerProxyAddress'', JAddr 6), (''timelockAddress'', JAddr 900),
       (''gnosisSafeMultisigImplementationAddress'', JAddr 7), (''gnosisSafeSameAddressMultisigImplementationAddress'', JAddr 8)],
     code := [1 \<mapsto> sample_contract ''ComponentRegistry'', 2 \<mapsto> sample_contract ''AgentRegistry'', 3 \<mapsto> sample_contract ''ServiceRegistry'',
       4 \<mapsto> sample_contract ''ServiceRegistryTokenUtility'', 5 \<mapsto> sample_contract ''RegistriesManager'',
       6 \<mapsto> sample_contract ''ServiceManagerProxy'']\<rparr>"

lemma handover_owned:
  "owned (handover_world auto) (signer_addr (L1_signer (handover_world auto))) ''componentRegistryAddress'' ''ComponentRegistry'' 1 (sample_contract ''ComponentRegistry'')"
  "owned (handover_world auto) (signer_addr (L1_signer (handover_world auto))) ''agentRegistryAddress'' ''AgentRegistry'' 2 (sample_contract ''AgentRegistry'')"
  "owned (handover_world auto) (signer_addr (L1_signer (handover_world auto))) ''serviceRegistryAddress'' ''ServiceRegistry'' 3 (sample_contract ''ServiceRegistry'')"
  "owned (handover_world auto) (signer_addr (L1_signer (handover_world auto))) ''serviceRegistryTokenUtilityAddress'' ''ServiceRegistryTokenUtility'' 4 (sample_contract ''ServiceRegistryTokenUtility'')"
  "owned (handover_world auto) (signer_addr (L1_signer (handover_world auto))) ''registriesManagerAddress'' ''RegistriesManager'' 5 (sample_contract ''RegistriesManager'')"
  "owned (handover_world auto) (signer_addr (L1_signer (handover_world auto))) ''serviceManagerProxyAddress'' ''ServiceManagerProxy'' 6 (sample_contract ''ServiceManagerProxy'')"
  by (simp_all add: owned_def handover_world_def sample_world_def sample_contract_def new_contract_def getf_def L1_signer_def)

lemma handover_facts:
  "getf (globals_file (handover_world auto)) ''timelockAddress'' = JAddr 900"
  "getf (globals_file (handover_world auto)) ''registriesManagerAddress'' = JAddr 5"
  "getf (globals_file (handover_world auto)) ''serviceManagerProxyAddress'' = JAddr 6"
  "getf (globals_file (handover_world auto)) ''gnosisSafeMultisigImplementationAddress'' = JAddr 7"
  "getf (globals_file (handover_world auto)) ''gnosisSafeSameAddressMultisigImplementationAddress'' = JAddr 8"
  "L1_signer (handover_world auto) = Hardhat 11" "pending (handover_world auto) = []" "automine (handover_world auto) = auto"
  by (simp_all add: handover_world_def sample_world_def getf_def L1_signer_def)

text \<open>Scripts 10 to 14 make the registries manager the manager of the component and agent registries and the
  service manager proxy the manager of the service registry and the token utility, and allow the two
  multisig implementations: with exit code 0, and in the state once the transactions are mined, whether
  they are mined one by one or only after the script ended.\<close>

theorem change_managers:
  assumes cr: "owned w (signer_addr (L1_signer w)) ''componentRegistryAddress'' ''ComponentRegistry'' cr c1"
    and ar: "owned w (signer_addr (L1_signer w)) ''agentRegistryAddress'' ''AgentRegistry'' ar c2"
    and sr: "owned w (signer_addr (L1_signer w)) ''serviceRegistryAddress'' ''ServiceRegistry'' sr c3"
    and tu: "owned w (signer_addr (L1_signer w)) ''serviceRegistryTokenUtilityAddress'' ''ServiceRegistryTokenUtility'' tu c4"
    and args: "getf (globals_file w) ''registriesManagerAddress'' = JAddr rm" "rm \<noteq> 0"
      "getf (globals_file w) ''serviceManagerProxyAddress'' = JAddr sm" "sm \<noteq> 0"
      "getf (globals_file w) ''gnosisSafeMultisigImplementationAddress'' = JAddr m1" "m1 \<noteq> 0"
      "getf (globals_file w) ''gnosisSafeSameAddressMultisigImplementationAddress'' = JAddr m2" "m2 \<noteq> 0"
    and w: "reachable w (L1_signer w)" "pending w = []"
  shows "fst (deploy_10_14_change_managers w) = 0 \<and>
    code (settle (snd (deploy_10_14_change_managers w))) = (code w)
      (cr \<mapsto> c1\<lparr>c_manager := rm\<rparr>, ar \<mapsto> c2\<lparr>c_manager := rm\<rparr>, tu \<mapsto> c4\<lparr>c_manager := sm\<rparr>,
       sr \<mapsto> c3\<lparr>c_manager := sm, c_multisigs := (c_multisigs c3)(m1 := True, m2 := True)\<rparr>)"
  using change_managers_L1 [OF assms] by (simp add: view_def)

theorem change_managers_witness:
  "code (settle (snd (deploy_10_14_change_managers (handover_world False)))) 2 =
     Some (sample_contract ''AgentRegistry''\<lparr>c_manager := 5\<rparr>)"
  using change_managers [OF handover_owned(1-4) handover_facts(2) _ handover_facts(3) _ handover_facts(4) _ handover_facts(5) _ _ handover_facts(7)]
  by (simp add: handover_facts)

text \<open>C29. Scripts 15 to 20 hand the six contracts to the timelock. Once the transactions are mined the timelock owns
  all six. The script exits with 0 exactly when the chain mines a transaction as soon as it is sent:
  otherwise the check of the owners at the end of the script, which does not wait for the receipts, fails,
  although every transfer goes through.\<close>

theorem change_ownerships:
  assumes cr: "owned w (signer_addr (L1_signer w)) ''componentRegistryAddress'' ''ComponentRegistry'' cr c1"
    and ar: "owned w (signer_addr (L1_signer w)) ''agentRegistryAddress'' ''AgentRegistry'' ar c2"
    and sr: "owned w (signer_addr (L1_signer w)) ''serviceRegistryAddress'' ''ServiceRegistry'' sr c3"
    and tu: "owned w (signer_addr (L1_signer w)) ''serviceRegistryTokenUtilityAddress'' ''ServiceRegistryTokenUtility'' tu c4"
    and rm: "owned w (signer_addr (L1_signer w)) ''registriesManagerAddress'' ''RegistriesManager'' rm c5"
    and sm: "owned w (signer_addr (L1_signer w)) ''serviceManagerProxyAddress'' ''ServiceManagerProxy'' sm c6"
    and args: "getf (globals_file w) ''timelockAddress'' = JAddr t" "t \<noteq> 0" "t \<noteq> signer_addr (L1_signer w)"
    and w: "reachable w (L1_signer w)" "pending w = []"
  shows "fst (deploy_15_20_change_ownerships w) = (if automine w then 0 else 1) \<and>
    code (settle (snd (deploy_15_20_change_ownerships w))) = (code w)
      (cr \<mapsto> c1\<lparr>c_owner := t\<rparr>, ar \<mapsto> c2\<lparr>c_owner := t\<rparr>, sr \<mapsto> c3\<lparr>c_owner := t\<rparr>,
       tu \<mapsto> c4\<lparr>c_owner := t\<rparr>, rm \<mapsto> c5\<lparr>c_owner := t\<rparr>, sm \<mapsto> c6\<lparr>c_owner := t\<rparr>)"
  using change_ownerships_L1 [OF assms] by (simp add: view_def)

theorem change_ownerships_witness:
  "fst (deploy_15_20_change_ownerships (handover_world True)) = 0 \<and> fst (deploy_15_20_change_ownerships (handover_world False)) = 1 \<and>
   code (settle (snd (deploy_15_20_change_ownerships (handover_world False)))) 6 =
     Some (sample_contract ''ServiceManagerProxy''\<lparr>c_owner := 900\<rparr>)"
  using change_ownerships [OF handover_owned handover_facts(1) _ _ _ handover_facts(7), of True]
    change_ownerships [OF handover_owned handover_facts(1) _ _ _ handover_facts(7), of False]
  by (simp add: handover_facts)

subsection \<open>The other chains\<close>

text \<open>Running a script of transactions from its preamble on.\<close>

definition L2_console :: "(json \<Rightarrow> json \<Rightarrow> (world, json option) js) \<Rightarrow> world \<Rightarrow> signer \<Rightarrow> json list list" where
  "L2_console url w e =
     console (snd (url (getf (globals_file w) ''providerName'') (getf (globals_file w) ''networkURL'') w)) @
     [[JStr ''EOA is:'', JAddr (signer_addr e)]]"

lemma preamble_eq:
  assumes "quiet url" "L2_signer url w = Some e"
  shows "preamble url body w = body (globals_file w) e (w\<lparr>console := L2_console url w e\<rparr>)"
proof -
  obtain u x where u: "url (getf (globals_file w) ''providerName'') (getf (globals_file w) ''networkURL'') w =
      (Inr u, w\<lparr>console := x\<rparr>)"
    using assms(1) unfolding quiet_def by blast
  with assms(2) obtain v where v: "u = Some v" by (auto simp: L2_signer_def split: option.splits)
  show ?thesis
    using assms(2) u v by (auto simp: L2_signer_def L2_console_def preamble_def get_EOA_def step_defs Let_def)
qed

lemmas tx_simps = getContractAt_bind ARTIFACTS_def addr_arg_def signed_tx_apply jthen_apply tx_effect_def run_main_def
  has_manager_def has_multisigs_def has_drainer_def has_owner_def gas_then Let_def

lemma change_managers_L2:
  assumes sr: "owned w (signer_addr e) ''serviceRegistryAddress'' ''ServiceRegistryL2'' sr c3"
    and tu: "owned w (signer_addr e) ''serviceRegistryTokenUtilityAddress'' ''ServiceRegistryTokenUtility'' tu c4"
    and args: "getf (globals_file w) ''serviceManagerProxyAddress'' = JAddr sm" "sm \<noteq> 0"
      "getf (globals_file w) ''gnosisSafeMultisigImplementationAddress'' = JAddr m1" "m1 \<noteq> 0"
      "getf (globals_file w) ''gnosisSafeSameAddressMultisigImplementationAddress'' = JAddr m2" "m2 \<noteq> 0"
    and w: "L2_signer polygon_url w = Some e" "reachable w e" "pending w = []"
      "parseUnits w (getf (globals_file w) ''gasPriceInGwei'') = Some n"
  shows "fst (l2_deploy_07_10_change_managers_and_permissions w) = 0"
    and "view (snd (l2_deploy_07_10_change_managers_and_permissions w)) = (globals_file w, (code w)
      (tu \<mapsto> c4\<lparr>c_manager := sm\<rparr>,
       sr \<mapsto> c3\<lparr>c_manager := sm, c_multisigs := (c_multisigs c3)(m1 := True, m2 := True)\<rparr>), length (sent w) + 4)"
    and "env (snd (l2_deploy_07_10_change_managers_and_permissions w)) = env w"
proof -
  let ?r = "l2_deploy_07_10_change_managers_and_permissions w"
  have ne: "sr \<noteq> tu" "tu \<noteq> sr" using sr tu by (auto simp: owned_def)
  have "fst ?r = 0 \<and> view (snd ?r) = (globals_file w, (code w)(tu \<mapsto> c4\<lparr>c_manager := sm\<rparr>,
       sr \<mapsto> c3\<lparr>c_manager := sm, c_multisigs := (c_multisigs c3)(m1 := True, m2 := True)\<rparr>), length (sent w) + 4) \<and> env (snd ?r) = env w"
    using assms ne unfolding l2_deploy_07_10_change_managers_and_permissions_def L2_preamble_def
    by (cases "automine w") (simp_all add: preamble_eq polygon_url_quiet tx_simps owned_def settle_def view_def env_def
        fun_upd_twist [OF ne(1)])
  then show "fst ?r = 0" "view (snd ?r) = (globals_file w, (code w)(tu \<mapsto> c4\<lparr>c_manager := sm\<rparr>,
       sr \<mapsto> c3\<lparr>c_manager := sm, c_multisigs := (c_multisigs c3)(m1 := True, m2 := True)\<rparr>), length (sent w) + 4)"
    "env (snd ?r) = env w" by simp_all
qed

lemma change_drainers_L2:
  assumes sr: "owned w (signer_addr e) ''serviceRegistryAddress'' ''ServiceRegistryL2'' sr c3"
    and tu: "owned w (signer_addr e) ''serviceRegistryTokenUtilityAddress'' ''ServiceRegistryTokenUtility'' tu c4"
    and args: "getf (globals_file w) ''bridgeMediatorAddress'' = JAddr b" "b \<noteq> 0"
    and w: "L2_signer polygon_url w = Some e" "reachable w e" "pending w = []"
      "parseUnits w (getf (globals_file w) ''gasPriceInGwei'') = Some n"
  shows "fst (l2_deploy_11_12_change_drainers w) = 0"
    and "view (snd (l2_deploy_11_12_change_drainers w)) =
      (globals_file w, (code w)(sr \<mapsto> c3\<lparr>c_drainer := b\<rparr>, tu \<mapsto> c4\<lparr>c_drainer := b\<rparr>), length (sent w) + 2)"
    and "env (snd (l2_deploy_11_12_change_drainers w)) = env w"
proof -
  have ne: "sr \<noteq> tu" "tu \<noteq> sr" using sr tu by (auto simp: owned_def)
  note sim = l2_deploy_11_12_change_drainers_def L2_preamble_def preamble_eq polygon_url_quiet tx_simps owned_def settle_def
    view_def env_def
  show "fst (l2_deploy_11_12_change_drainers w) = 0"
    and "view (snd (l2_deploy_11_12_change_drainers w)) =
      (globals_file w, (code w)(sr \<mapsto> c3\<lparr>c_drainer := b\<rparr>, tu \<mapsto> c4\<lparr>c_drainer := b\<rparr>), length (sent w) + 2)"
    and "env (snd (l2_deploy_11_12_change_drainers w)) = env w"
    using assms ne by (cases "automine w"; simp add: sim)+
qed

lemma change_ownerships_L2:
  assumes sr: "owned w (signer_addr e) ''serviceRegistryAddress'' ''ServiceRegistryL2'' sr c3"
    and tu: "owned w (signer_addr e) ''serviceRegistryTokenUtilityAddress'' ''ServiceRegistryTokenUtility'' tu c4"
    and sm: "owned w (signer_addr e) ''serviceManagerProxyAddress'' ''ServiceManagerProxy'' sm c6"
    and args: "getf (globals_file w) ''bridgeMediatorAddress'' = JAddr b" "b \<noteq> 0"
    and w: "L2_signer polygon_url w = Some e" "reachable w e" "pending w = []"
      "parseUnits w (getf (globals_file w) ''gasPriceInGwei'') = Some n"
  shows "fst (l2_deploy_13_15_change_ownerships w) = 0"
    and "view (snd (l2_deploy_13_15_change_ownerships w)) =
      (globals_file w, (code w)(sr \<mapsto> c3\<lparr>c_owner := b\<rparr>, tu \<mapsto> c4\<lparr>c_owner := b\<rparr>, sm \<mapsto> c6\<lparr>c_owner := b\<rparr>), length (sent w) + 3)"
    and "env (snd (l2_deploy_13_15_change_ownerships w)) = env w"
proof -
  have ne: "sr \<noteq> tu" "tu \<noteq> sr" "sr \<noteq> sm" "sm \<noteq> sr" "tu \<noteq> sm" "sm \<noteq> tu" using sr tu sm by (auto simp: owned_def)
  note sim = l2_deploy_13_15_change_ownerships_def L2_preamble_def preamble_eq polygon_url_quiet tx_simps owned_def settle_def
    view_def env_def
  show "fst (l2_deploy_13_15_change_ownerships w) = 0"
    and "view (snd (l2_deploy_13_15_change_ownerships w)) =
      (globals_file w, (code w)(sr \<mapsto> c3\<lparr>c_owner := b\<rparr>, tu \<mapsto> c4\<lparr>c_owner := b\<rparr>, sm \<mapsto> c6\<lparr>c_owner := b\<rparr>), length (sent w) + 3)"
    and "env (snd (l2_deploy_13_15_change_ownerships w)) = env w"
    using assms ne by (cases "automine w"; simp add: sim)+
qed

lemma set_implementations_L2:
  assumes sv: "owned w (signer_addr e) ''stakingVerifierAddress'' ''StakingVerifier'' sv c7"
    and args: "getf (globals_file w) ''stakingTokenAddress'' = JAddr s1" "s1 \<noteq> 0"
      "getf (globals_file w) ''stakingNativeTokenAddress'' = JAddr s2" "s2 \<noteq> 0"
    and w: "L2_signer verifier_url w = Some e" "reachable w e" "pending w = []"
      "parseUnits w (getf (globals_file w) ''gasPriceInGwei'') = Some n"
  shows "fst (l2_deploy_20_staking_verifier_set_implementations w) = 0"
    and "view (snd (l2_deploy_20_staking_verifier_set_implementations w)) =
      (globals_file w, (code w)(sv \<mapsto> c7\<lparr>c_impls := (c_impls c7)(s1 := True, s2 := True), c_check := True\<rparr>), length (sent w) + 1)"
    and "env (snd (l2_deploy_20_staking_verifier_set_implementations w)) = env w"
proof -
  note sim = l2_deploy_20_staking_verifier_set_implementations_def verifier_preamble_def preamble_eq verifier_url_quiet tx_simps
    owned_def settle_def view_def env_def rbind_def
  show "fst (l2_deploy_20_staking_verifier_set_implementations w) = 0"
    and "view (snd (l2_deploy_20_staking_verifier_set_implementations w)) =
      (globals_file w, (code w)(sv \<mapsto> c7\<lparr>c_impls := (c_impls c7)(s1 := True, s2 := True), c_check := True\<rparr>), length (sent w) + 1)"
    and "env (snd (l2_deploy_20_staking_verifier_set_implementations w)) = env w"
    using assms by (cases "automine w"; simp add: sim)+
qed

lemma staking_ownerships_L2:
  assumes sv: "owned w (signer_addr e) ''stakingVerifierAddress'' ''StakingVerifier'' sv c7"
    and sf: "owned w (signer_addr e) ''stakingFactoryAddress'' ''StakingFactory'' sf c8"
    and args: "getf (globals_file w) ''bridgeMediatorAddress'' = JAddr b" "b \<noteq> 0"
    and w: "L2_signer verifier_url w = Some e" "reachable w e" "pending w = []"
      "parseUnits w (getf (globals_file w) ''gasPriceInGwei'') = Some n"
  shows "fst (l2_deploy_21_22_service_staking_change_ownerships w) = 0"
    and "view (snd (l2_deploy_21_22_service_staking_change_ownerships w)) =
      (globals_file w, (code w)(sv \<mapsto> c7\<lparr>c_owner := b\<rparr>, sf \<mapsto> c8\<lparr>c_owner := b\<rparr>), length (sent w) + 2)"
    and "env (snd (l2_deploy_21_22_service_staking_change_ownerships w)) = env w"
proof -
  have ne: "sv \<noteq> sf" "sf \<noteq> sv" using sv sf by (auto simp: owned_def)
  note sim = l2_deploy_21_22_service_staking_change_ownerships_def verifier_preamble_def preamble_eq verifier_url_quiet tx_simps
    owned_def settle_def view_def env_def
  show "fst (l2_deploy_21_22_service_staking_change_ownerships w) = 0"
    and "view (snd (l2_deploy_21_22_service_staking_change_ownerships w)) =
      (globals_file w, (code w)(sv \<mapsto> c7\<lparr>c_owner := b\<rparr>, sf \<mapsto> c8\<lparr>c_owner := b\<rparr>), length (sent w) + 2)"
    and "env (snd (l2_deploy_21_22_service_staking_change_ownerships w)) = env w"
    using assms ne by (cases "automine w"; simp add: sim)+
qed

end
