(* ===== verification/Deployment_Run.thy ===== *)
theory Deployment_Run
  imports Deployment_Handover
begin

text \<open>
  The whole deployment of a chain: the scripts one after another, each started when the transactions of the one
  before are mined. Against the abstract plan, a list of installations, the final state follows by
  computing the plan.
\<close>

section \<open>Sequences of scripts\<close>













section \<open>The proxy of the service manager\<close>









section \<open>New addresses\<close>





section \<open>The main chain\<close>























section \<open>The other chains\<close>

























end
