(* ===== verification/Audit_Reference.thy ===== *)
theory Audit_Reference
  imports Audit_Setup
begin

text \<open>
  What the audit is meant to check, as a table: for every contract the list of its expectations, each with the
  value it compares and the message it prints. The script is shown to print exactly what the table gives.
\<close>

section \<open>The table\<close>

datatype item =
    Const string json
  | Global string string string
  | Decimal string string
  | Number string nat
  | Enabled string string
  | Owner bool

definition ownable_registry :: "item list" where
  "ownable_registry = [Const ''VERSION'' (JStr ''1.0.0''),
     Const ''baseURI'' (JStr ''https://gateway.autonolas.tech/ipfs/''), Owner True]"

definition same_name :: "string \<Rightarrow> item" where
  "same_name fn = Global fn (fn @ ''Address'') fn"

text \<open>The table of a chain, by contract name; \<open>m\<close> says whether it is the main chain.\<close>

definition items :: "bool \<Rightarrow> string \<Rightarrow> item list" where
  "items m name = (case map_of [
     (''ComponentRegistry'', ownable_registry @ [Global ''manager'' ''registriesManagerAddress'' ''manager'']),
     (''AgentRegistry'', ownable_registry @ [Global ''manager'' ''registriesManagerAddress'' ''manager'', same_name ''componentRegistry'']),
     (''ServiceManagerProxy'', [Owner False, Const ''paused'' (JBool False), same_name ''serviceRegistry'',
        same_name ''serviceRegistryTokenUtility'', same_name ''operatorWhitelist'',
        Global ''identityRegistryBridger'' ''identityRegistryBridgerProxyAddress'' ''identityRegistryBridger'']),
     (''IdentityRegistryBridgerProxy'', [Owner False, same_name ''serviceRegistry'',
        Global ''serviceManager'' ''serviceManagerProxyAddress'' ''serviceManager'', same_name ''identityRegistry'']),
     (''ServiceRegistryTokenUtility'', [Owner False, Global ''manager'' ''serviceManagerProxyAddress'' ''manager'',
        Global ''drainer'' (if m then ''timelockAddress'' else ''bridgeMediatorAddress'') ''drainer'', same_name ''serviceRegistry'']),
     (''OperatorWhitelist'', [same_name ''serviceRegistry'']),
     (''GnosisSafeMultisig'', [Number ''DEFAULT_DATA_LENGTH'' 144, Const ''GNOSIS_SAFE_SETUP_SELECTOR'' (JStr ''0xb63e800d'')]),
     (''GnosisSafeSameAddressMultisig'', [Number ''DEFAULT_DATA_LENGTH'' 20]),
     (''StakingVerifier'', [Owner False, same_name ''olas'', same_name ''serviceRegistry'', same_name ''serviceRegistryTokenUtility'',
        Decimal ''minStakingDepositLimit'' ''minStakingDepositLimit'', Decimal ''timeForEmissionsLimit'' ''timeForEmissionsLimit'',
        Decimal ''numServicesLimit'' ''numServicesLimit'', Decimal ''apyLimit'' ''apyLimit'', Const ''implementationsCheck'' (JBool True)]),
     (''StakingFactory'', [Owner False, Global ''verifier'' ''stakingVerifierAddress'' ''verifier'']),
     (''RecoveryModule'', [Number ''DEFAULT_DATA_LENGTH'' 32, Number ''RECOVER_THRESHOLD'' 1,
        Global ''multiSend'' ''multiSendCallOnlyAddress'' ''multiSend'', same_name ''serviceRegistry'']),
     (''SafeMultisigWithRecoveryModule'', [Number ''DEFAULT_DATA_LENGTH'' 64, Const ''SAFE_SETUP_SELECTOR'' (JStr ''0xb63e800d''),
        Const ''ENABLE_MODULE_SELECTOR'' (JStr ''0x24292962''), Global ''safe'' ''gnosisSafeAddress'' ''safe'',
        Global ''safeProxyFactory'' ''gnosisSafeProxyFactoryAddress'' ''safeProxyFactory'', Global ''recoveryModule'' ''recoveryModuleAddress'' ''safe'']),
     (''PolySafeCreatorWithRecoveryModule'', [same_name ''polySafeProxyFactory'',
        Global ''polySafeProxyBytecodeHash'' ''polySafeProxyBytecodeHash'' ''polySafeProxyBytecodeHash'', Global ''recoveryModule'' ''recoveryModuleAddress'' ''safe''])] name of
     Some its \<Rightarrow> its
   | None \<Rightarrow> ownable_registry @ [Global ''manager'' ''serviceManagerProxyAddress'' ''manager'',
        Global ''drainer'' (if m then ''treasuryAddress'' else ''bridgeMediatorAddress'') ''drainer'']
        @ (if m then [same_name ''agentRegistry''] else [])
        @ [Enabled ''gnosisSafeMultisigImplementationAddress'' ''safeMultisig'',
           Enabled ''gnosisSafeSameAddressMultisigImplementationAddress'' ''safeSameAddressMultisig'',
           Enabled ''recoveryModuleAddress'' ''recoveryModule'',
           Enabled ''safeMultisigWithRecoveryModuleAddress'' ''safeMultisigWithRecoveryModule''])"

definition audited :: "nat \<Rightarrow> string \<Rightarrow> string list" where
  "audited i name =
     (if i = 0 then [''ComponentRegistry'', ''AgentRegistry'', ''ServiceRegistry''] else [''ServiceRegistryL2''])
     @ [''ServiceManagerProxy'', ''ServiceRegistryTokenUtility'', ''OperatorWhitelist'', ''GnosisSafeMultisig'',
        ''GnosisSafeSameAddressMultisig'', ''StakingVerifier'', ''StakingFactory'', ''RecoveryModule'',
        ''SafeMultisigWithRecoveryModule'']
     @ (if name = ''polygon'' then [''PolySafeCreatorWithRecoveryModule''] else [])
     @ [''IdentityRegistryBridgerProxy'']"

section \<open>What an expectation means\<close>

text \<open>The contract of that name with the one before it in the list of the configuration.\<close>

definition located :: "config_contract list \<Rightarrow> string \<Rightarrow> (config_contract option \<times> config_contract) option" where
  "located cs name = find (\<lambda>(p, c). cc_name c = name) (zip (None # map Some cs) cs)"

definition functions_of :: "audit_env \<Rightarrow> string \<Rightarrow> config_contract option \<Rightarrow> config_contract \<Rightarrow> string list option" where
  "functions_of E name p c =
     (if name \<in> {''ServiceManagerProxy'', ''IdentityRegistryBridgerProxy''}
      then Option.bind p (\<lambda>p. map_option abi (read_artifact E (cc_artifact p)))
      else map_option abi (read_artifact E (cc_artifact c)))"

fun code_of :: "deployed_bytecode \<Rightarrow> string option" where
  "code_of (Forge b) = Some b"
| "code_of (HardhatCode b) = Some b"
| "code_of NoBytecode = None"

definition repo_code :: "audit_env \<Rightarrow> config_contract \<Rightarrow> string option" where
  "repo_code E c = Option.bind (read_artifact E (cc_artifact c)) (\<lambda>a. code_of (deployedBytecode a))"

definition same_code :: "audit_env \<Rightarrow> string \<Rightarrow> config_contract \<Rightarrow> bool" where
  "same_code E url c = contains (last_chars 86 (the (repo_code E c))) (the (getCode E url (cc_address c)))"

text \<open>The owner a contract should have.\<close>

definition dao_key :: "json \<Rightarrow> string" where
  "dao_key chainId = (if to_str chainId = ''1'' then ''timelockAddress'' else ''bridgeMediatorAddress'')"

definition normal :: "audit_env \<Rightarrow> json \<Rightarrow> json option" where
  "normal E v = (if truthy v then map_option JAddr (read_address E v) else Some v)"

fun answers :: "audit_env \<Rightarrow> json \<Rightarrow> string \<Rightarrow> globals \<Rightarrow> json \<Rightarrow> string list \<Rightarrow> item \<Rightarrow> bool" where
  "answers E chainId url g a fns (Const fn v) = (fn \<in> set fns \<and> call E url a fn [] \<noteq> None)"
| "answers E chainId url g a fns (Global fn k l) = (fn \<in> set fns \<and> call E url a fn [] \<noteq> None)"
| "answers E chainId url g a fns (Decimal fn k) =
     (fn \<in> set fns \<and> call E url a fn [] \<notin> {None, Some JUndef, Some JNull})"
| "answers E chainId url g a fns (Number fn n) = (fn \<in> set fns \<and> call E url a fn [] \<noteq> None)"
| "answers E chainId url g a fns (Enabled k l) = (''mapMultisigs'' \<in> set fns \<and> call E url a ''mapMultisigs'' [getf g k] \<noteq> None)"
| "answers E chainId url g a fns (Owner b) =
     (''owner'' \<in> set fns \<and> Option.bind (call E url a ''owner'' []) (normal E) \<noteq> None \<and> normal E (getf g (dao_key chainId)) \<noteq> None)"

fun holds :: "audit_env \<Rightarrow> json \<Rightarrow> string \<Rightarrow> globals \<Rightarrow> json \<Rightarrow> item \<Rightarrow> bool" where
  "holds E chainId url g a (Const fn v) = (call E url a fn [] = Some v)"
| "holds E chainId url g a (Global fn k l) = (call E url a fn [] = Some (getf g k))"
| "holds E chainId url g a (Decimal fn k) = (map_option (\<lambda>v. JStr (to_str v)) (call E url a fn []) = Some (getf g k))"
| "holds E chainId url g a (Number fn n) = (map_option toNumber (call E url a fn []) = Some (JNum n))"
| "holds E chainId url g a (Enabled k l) = (call E url a ''mapMultisigs'' [getf g k] = Some (JBool True))"
| "holds E chainId url g a (Owner b) = (Option.bind (call E url a ''owner'' []) (normal E) = normal E (getf g (dao_key chainId)))"

text \<open>The message of a failed expectation, for the message \<open>m\<close> of the contract at the address \<open>a\<close>.\<close>

fun message :: "string \<Rightarrow> json \<Rightarrow> item \<Rightarrow> string" where
  "message m a (Const fn v) = labelled (m @ '', address: '' @ to_str a) fn"
| "message m a (Global fn k l) = labelled (m @ '', address: '' @ to_str a) l"
| "message m a (Decimal fn k) = labelled (m @ '', address: '' @ to_str a) fn"
| "message m a (Number fn n) = labelled (m @ '', address: '' @ to_str a) fn"
| "message m a (Enabled k l) = m @ '', address: '' @ to_str a @ '', function: mapMultisigs('' @ l @ '')''"
| "message m a (Owner b) = labelled (if b then m @ '', address: '' @ to_str a else m) ''owner''"

definition failure :: "string \<Rightarrow> line list" where
  "failure m = [Log m, Err ''AssertionError'', Log NL]"

definition owner_row :: "audit_env \<Rightarrow> json \<Rightarrow> string \<Rightarrow> globals \<Rightarrow> string \<Rightarrow> json \<Rightarrow> ownership_row" where
  "owner_row E chainId url g name a =
     (let own = the (Option.bind (call E url a ''owner'' []) (normal E)); dao = the (normal E (getf g (dao_key chainId))) in
      \<lparr>r_chainId = JStr (to_str chainId), r_contractName = JStr name, r_contractAddress = the (normal E a),
       r_ownerAddress = own,
       r_ownerCategory = JStr (if own = JAddr AUTONOLAS_DEPLOYER then ''autonolas_deployer'' else if own = dao then ''dao_executor'' else ''other''),
       r_expectedDaoExecutor = dao, r_ownershipChangeRequired = JStr (if own = dao then ''no'' else ''yes'')\<rparr>)"

definition item_rows :: "audit_env \<Rightarrow> json \<Rightarrow> string \<Rightarrow> globals \<Rightarrow> string \<Rightarrow> json \<Rightarrow> item \<Rightarrow> ownership_row list" where
  "item_rows E chainId url g name a it = (case it of Owner b \<Rightarrow> [owner_row E chainId url g name a] | _ \<Rightarrow> [])"

definition item_lines :: "audit_env \<Rightarrow> json \<Rightarrow> string \<Rightarrow> globals \<Rightarrow> string \<Rightarrow> json \<Rightarrow> item \<Rightarrow> line list" where
  "item_lines E chainId url g m a it = (if holds E chainId url g a it then [] else failure (message m a it))"


section \<open>The script prints what the table gives\<close>

definition reported :: "line list \<Rightarrow> ownership_row list \<Rightarrow> audit \<Rightarrow> audit" where
  "reported ls rows s = s\<lparr>lines := lines s @ ls, ownershipRows := ownershipRows s @ rows\<rparr>"

definition reports :: "(audit, unit) js \<Rightarrow> line list \<Rightarrow> ownership_row list \<Rightarrow> bool" where
  "reports m ls rows \<longleftrightarrow> (\<forall>s. m s = (Inr (), reported ls rows s))"

lemma reported_reported [simp]: "reported ls' rows' (reported ls rows s) = reported (ls @ ls') (rows @ rows') s"
  by (simp add: reported_def)

lemma reports_jret [simp, intro!]: "reports (jret ()) [] []" "reports (Pair (Inr ())) [] []"
  by (simp_all add: reports_def reported_def)

lemma reports_print: "reports (print ls) ls []"
  by (simp add: reports_def reported_def print_def)

lemma reports_jthen:
  "reports m ls rows \<Longrightarrow> reports k ls' rows' \<Longrightarrow> reports (jthen m k) (ls @ ls') (rows @ rows')"
  by (simp add: reports_def jthen_apply)

lemma reports_jseq_map:
  "(\<And>x. x \<in> set xs \<Longrightarrow> reports (f x) (ls x) (rows x))
   \<Longrightarrow> reports (jseq (map f xs)) (concat (map ls xs)) (concat (map rows xs))"
  by (induction xs) (auto intro!: reports_jthen)

lemma reports_jseq_lines:
  "(\<And>x. reports (f x) (ls x) []) \<Longrightarrow> reports (jseq (map f xs)) (concat (map ls xs)) []"
  using reports_jthen [where rows = "[]" and rows' = "[]"] by (induction xs) auto

lemma reports_print_then: "reports k ls' rows \<Longrightarrow> reports (jthen (print ls) k) (ls @ ls') rows"
  using reports_jthen [OF reports_print] by fastforce

lemma reports_customExpect:
  "reports (customExpect x y m) (if x = y then [] else failure m) []"
  by (auto simp: customExpect_def failure_def intro: reports_print)

lemma reports_customExpectContain:
  "reports (customExpectContain x y m) (if contains y x then [] else failure m) []"
  by (auto simp: customExpectContain_def failure_def intro: reports_print)

text \<open>A computation that answers without changing the state.\<close>

definition gives :: "(audit, 'a) js \<Rightarrow> 'a \<Rightarrow> bool" where
  "gives m x \<longleftrightarrow> (\<forall>s. m s = (Inr x, s))"

lemma gives_jret [simp]: "gives (jret x) y \<longleftrightarrow> x = y" "gives (Pair (Inr x)) y \<longleftrightarrow> x = y"
  by (simp_all add: gives_def)

lemma jbind_jret [simp]: "jbind (jret x) f = f x" "jbind (Pair (Inr x)) f = f x"
  by (simp_all add: fun_eq_iff)

lemma reports_jbind: "gives m x \<Longrightarrow> reports (f x) ls rows \<Longrightarrow> reports (jbind m f) ls rows"
  by (simp add: gives_def reports_def)

lemma gives_jbind: "gives m x \<Longrightarrow> gives (f x) y \<Longrightarrow> gives (jbind m f) y"
  by (simp add: gives_def)

lemma gives_norm_address: "normal E v = Some x \<Longrightarrow> gives (norm_address E v) x"
  by (auto simp: normal_def norm_address_def split: if_splits)

lemma gives_gget: "gives (gget (Some g) k) (getf g k)"
  by (simp add: gget_def)

lemma gives_invoke:
  "fn \<in> set (i_abi c) \<Longrightarrow> i_provider c = Some url \<Longrightarrow> call E url (i_address c) fn args = Some v
   \<Longrightarrow> gives (invoke E c fn args) v"
  by (simp add: invoke_def)

fun step :: "audit_env \<Rightarrow> json \<Rightarrow> string \<Rightarrow> globals option \<Rightarrow> string \<Rightarrow> instance_of \<Rightarrow> item \<Rightarrow> (audit, unit) js" where
  "step E chainId name g m c (Const fn v) = expect_const E c fn v (at_address m c)"
| "step E chainId name g m c (Global fn k l) = expect_global_as E c fn g k l (at_address m c)"
| "step E chainId name g m c (Decimal fn k) = expect_global_string E c fn g k (at_address m c)"
| "step E chainId name g m c (Number fn n) = expect_number E c fn n (at_address m c)"
| "step E chainId name g m c (Enabled k l) = expect_enabled E c g k l (at_address m c)"
| "step E chainId name g m c (Owner b) = checkOwnerRecorded E chainId name c g (if b then at_address m c else m)"

lemma reports_owner:
  assumes "''owner'' \<in> set (i_abi c)" and "i_provider c = Some url"
    and "Option.bind (call E url (i_address c) ''owner'' []) (normal E) = Some own"
    and "normal E (getf g (dao_key chainId)) = Some dao" and "normal E (i_address c) = Some a"
  shows "reports (checkOwnerRecorded E chainId name c (Some g) m)
           (if own = dao then [] else failure (labelled m ''owner'')) [owner_row E chainId url g name (i_address c)]"
proof -
  obtain r where r: "call E url (i_address c) ''owner'' [] = Some r" "normal E r = Some own"
    using assms(3) by (auto simp: bind_eq_Some_conv)
  have "gives (invoke E c ''owner'' []) r" "gives (norm_address E r) own"
    "gives (gget (Some g) (dao_key chainId)) (getf g (dao_key chainId))"
    "gives (norm_address E (getf g (dao_key chainId))) dao" "gives (norm_address E (i_address c)) a"
    using assms r by (auto intro: gives_invoke gives_norm_address gives_gget)
  moreover have "reports (customExpect own dao (labelled m ''owner'')) (if own = dao then [] else failure (labelled m ''owner'')) []"
    by (rule reports_customExpect)
  ultimately show ?thesis
    using assms(3-5)
    by (simp add: reports_def gives_def checkOwnerRecorded_def checkOwner_def recordOwnershipRow_def jthen_def jbind_def
        reported_def owner_row_def Let_def flip: dao_key_def)
qed


lemma reports_step:
  assumes "answers E chainId url g (i_address c) (i_abi c) it" and "i_provider c = Some url"
    and "normal E (i_address c) \<noteq> None"
  shows "reports (step E chainId name (Some g) m c it)
           (item_lines E chainId url g m (i_address c) it) (item_rows E chainId url g name (i_address c) it)"
proof (cases it)
  case (Owner b)
  then obtain own dao a where "Option.bind (call E url (i_address c) ''owner'' []) (normal E) = Some own"
    "normal E (getf g (dao_key chainId)) = Some dao" "normal E (i_address c) = Some a"
    using assms by auto
  with reports_owner [OF _ assms(2) this, of name "if b then at_address m c else m"] assms(1) Owner show ?thesis
    by (cases "own = dao"; cases b) (simp_all add: item_lines_def item_rows_def at_address_def)
next
  case (Decimal fn k)
  then obtain r where "call E url (i_address c) fn [] = Some r" "r \<noteq> JUndef" "r \<noteq> JNull"
    using assms by auto
  with Decimal assms(1,2) show ?thesis
    by (auto simp: expect_global_string_def toString_def item_lines_def item_rows_def at_address_def failure_def
        customExpect_def intro!: reports_jbind [OF gives_invoke] reports_jbind [OF gives_gget] reports_print)
qed (use assms(1,2) in \<open>auto simp: expect_const_def expect_global_as_def expect_number_def expect_enabled_def
    item_lines_def item_rows_def at_address_def failure_def customExpect_def
    intro!: reports_jbind [OF gives_invoke] reports_jbind [OF gives_gget] reports_print\<close>)

definition table_check :: "audit_env \<Rightarrow> json \<Rightarrow> string option \<Rightarrow> globals option \<Rightarrow> config_contract list \<Rightarrow> string \<Rightarrow> string \<Rightarrow> (audit, unit) js" where
  "table_check E chainId p g cs name m =
     contract_check E p cs name m (\<lambda>c. jseq (map (step E chainId name g m c) (items (chainId = JStr ''1'') name)))"

lemma jthen_jret_unit [simp]: "jthen (jret ()) k = k" "jthen (Pair (Inr ())) k = k"
  by (simp_all add: fun_eq_iff jthen_apply)

lemmas table_simps = table_check_def items_def ownable_registry_def same_name_def expect_global_def Let_def

lemma checks_are_table_checks:
  "checkComponentRegistry E chainId p g cs ''ComponentRegistry'' m = table_check E chainId p g cs ''ComponentRegistry'' m"
  "checkAgentRegistry E chainId p g cs ''AgentRegistry'' m = table_check E chainId p g cs ''AgentRegistry'' m"
  "checkServiceRegistry E chainId p g cs ''ServiceRegistry'' m = table_check E chainId p g cs ''ServiceRegistry'' m"
  "checkServiceRegistry E chainId p g cs ''ServiceRegistryL2'' m = table_check E chainId p g cs ''ServiceRegistryL2'' m"
  "checkServiceManagerProxy E chainId p g cs ''ServiceManagerProxy'' m = table_check E chainId p g cs ''ServiceManagerProxy'' m"
  "checkIdentityRegistryBridgerProxy E chainId p g cs ''IdentityRegistryBridgerProxy'' m = table_check E chainId p g cs ''IdentityRegistryBridgerProxy'' m"
  "checkServiceRegistryTokenUtility E chainId p g cs ''ServiceRegistryTokenUtility'' m = table_check E chainId p g cs ''ServiceRegistryTokenUtility'' m"
  "checkOperatorWhitelist E chainId p g cs ''OperatorWhitelist'' m = table_check E chainId p g cs ''OperatorWhitelist'' m"
  "checkGnosisSafeMultisig E chainId p g cs ''GnosisSafeMultisig'' m = table_check E chainId p g cs ''GnosisSafeMultisig'' m"
  "checkGnosisSafeSameAddressMultisig E chainId p g cs ''GnosisSafeSameAddressMultisig'' m = table_check E chainId p g cs ''GnosisSafeSameAddressMultisig'' m"
  "checkStakingVerifier E chainId p g cs ''StakingVerifier'' m = table_check E chainId p g cs ''StakingVerifier'' m"
  "checkStakingFactory E chainId p g cs ''StakingFactory'' m = table_check E chainId p g cs ''StakingFactory'' m"
  "checkRecoveryModule E chainId p g cs ''RecoveryModule'' m = table_check E chainId p g cs ''RecoveryModule'' m"
  "checkSafeMultisigWithRecoveryModule E chainId p g cs ''SafeMultisigWithRecoveryModule'' m = table_check E chainId p g cs ''SafeMultisigWithRecoveryModule'' m"
  "checkPolySafeCreatorWithRecoveryModule E chainId p g cs ''PolySafeCreatorWithRecoveryModule'' m = table_check E chainId p g cs ''PolySafeCreatorWithRecoveryModule'' m"
  by (simp_all add: table_simps checkComponentRegistry_def checkAgentRegistry_def checkServiceRegistry_def
      checkServiceManagerProxy_def checkIdentityRegistryBridgerProxy_def checkServiceRegistryTokenUtility_def
      checkOperatorWhitelist_def checkGnosisSafeMultisig_def checkGnosisSafeSameAddressMultisig_def
      checkStakingVerifier_def checkStakingFactory_def checkRecoveryModule_def
      checkSafeMultisigWithRecoveryModule_def checkPolySafeCreatorWithRecoveryModule_def)


section \<open>One contract\<close>

definition auditable_contract :: "audit_env \<Rightarrow> json \<Rightarrow> string \<Rightarrow> globals \<Rightarrow> config_contract list \<Rightarrow> string \<Rightarrow> bool" where
  "auditable_contract E chainId url g cs name =
     (case located cs name of
        None \<Rightarrow> False
      | Some (p, c) \<Rightarrow> repo_code E c \<noteq> None \<and> getCode E url (cc_address c) \<noteq> None \<and> read_address E (cc_address c) \<noteq> None \<and>
          (case functions_of E name p c of
             None \<Rightarrow> False
           | Some fns \<Rightarrow> list_all (answers E chainId url g (cc_address c) fns) (items (chainId = JStr ''1'') name)))"

definition contract_lines :: "audit_env \<Rightarrow> json \<Rightarrow> string \<Rightarrow> globals \<Rightarrow> config_contract list \<Rightarrow> string \<Rightarrow> string \<Rightarrow> line list" where
  "contract_lines E chainId url g cs m name =
     (case located cs name of
        None \<Rightarrow> []
      | Some (p, c) \<Rightarrow>
          (if same_code E url c then []
           else failure (m @ '', address: '' @ to_str (cc_address c) @ '', failed bytecode comparison''))
          @ concat (map (item_lines E chainId url g m (cc_address c)) (items (chainId = JStr ''1'') name)))"

definition contract_rows :: "audit_env \<Rightarrow> json \<Rightarrow> string \<Rightarrow> globals \<Rightarrow> config_contract list \<Rightarrow> string \<Rightarrow> ownership_row list" where
  "contract_rows E chainId url g cs name =
     (case located cs name of
        None \<Rightarrow> []
      | Some (p, c) \<Rightarrow> concat (map (item_rows E chainId url g name (cc_address c)) (items (chainId = JStr ''1'') name)))"

definition contract_ok :: "audit_env \<Rightarrow> json \<Rightarrow> string \<Rightarrow> globals \<Rightarrow> config_contract list \<Rightarrow> string \<Rightarrow> bool" where
  "contract_ok E chainId url g cs name =
     (case located cs name of
        None \<Rightarrow> False
      | Some (p, c) \<Rightarrow> same_code E url c \<and> list_all (holds E chainId url g (cc_address c)) (items (chainId = JStr ''1'') name))"

lemma find_contract_offset: "find_contract cs name (Suc k) = map_option Suc (find_contract cs name k)"
  by (induction cs arbitrary: k) auto

lemma located_from:
  "find (\<lambda>(p, c). cc_name c = name) (zip (p0 # map Some cs) cs) =
     map_option (\<lambda>i. (if i = 0 then p0 else Some (cs ! (i - 1)), cs ! i)) (find_contract cs name 0)"
proof (induction cs arbitrary: p0)
  case (Cons c cs)
  show ?case
  proof (cases "cc_name c = name")
    case False
    then show ?thesis
      using Cons [of "Some c"] by (auto simp: find_contract_offset option.map_comp comp_def nth_Cons' intro!: option.map_cong)
  qed simp
qed simp

lemma located_find_contract:
  "located cs name = map_option (\<lambda>i. (if i = 0 then None else Some (cs ! (i - 1)), cs ! i)) (find_contract cs name 0)"
  unfolding located_def by (rule located_from)

lemma reports_checkBytecode:
  assumes "located cs name = Some (p, c)" and "repo_code E c = Some b" and "getCode E url (cc_address c) \<noteq> None"
  shows "reports (checkBytecode E (Some url) cs name m)
    (if same_code E url c then [] else failure (m @ '', address: '' @ to_str (cc_address c) @ '', failed bytecode comparison'')) []"
proof -
  obtain i where i: "find_contract cs name 0 = Some i" "c = cs ! i"
    using assms(1) by (auto simp: located_find_contract)
  obtain a where a: "read_artifact E (cc_artifact c) = Some a" "code_of (deployedBytecode a) = Some b"
    using assms(2) by (auto simp: repo_code_def bind_eq_Some_conv)
  obtain code where code: "getCode E url (cc_address c) = Some code"
    using assms(3) by auto
  have "reports (compare_code E (Some url) c b m)
      (if same_code E url c then [] else failure (m @ '', address: '' @ to_str (cc_address c) @ '', failed bytecode comparison'')) []"
    using reports_customExpectContain [of code "last_chars 86 b"
        "m @ '', address: '' @ to_str (cc_address c) @ '', failed bytecode comparison''"] code assms(2)
    by (simp only: compare_code_def same_code_def option.case option.sel bind.bind_lunit)
  then show ?thesis
    using i a by (cases "deployedBytecode a") (simp_all add: checkBytecode_def load_artifact_def)
qed

lemma gives_findContractInstance:
  assumes "located cs name = Some (p, c)" and "repo_code E c = Some b" and "read_address E (cc_address c) \<noteq> None"
    and "functions_of E name p c = Some fns"
  shows "gives (findContractInstance E (Some url) cs name) \<lparr>i_address = cc_address c, i_abi = fns, i_provider = Some url\<rparr>"
proof -
  obtain i where i: "find_contract cs name 0 = Some i" "c = cs ! i" "p = (if i = 0 then None else Some (cs ! (i - 1)))"
    using assms(1) by (auto simp: located_find_contract)
  obtain a where a: "read_artifact E (cc_artifact c) = Some a"
    using assms(2) by (auto simp: repo_code_def bind_eq_Some_conv)
  have "cc_address c \<noteq> JUndef" "cc_address c \<noteq> JNull"
    using assms(3) by auto
  then show ?thesis
    using i a assms(4)
    by (auto simp: findContractInstance_def functions_of_def load_artifact_def bind_eq_Some_conv split: if_splits)
qed

lemma normal_read_address: "read_address E a \<noteq> None \<Longrightarrow> normal E a \<noteq> None"
  by (auto simp: normal_def)

lemma reports_table_check:
  assumes "auditable_contract E chainId url g cs name"
  shows "reports (table_check E chainId (Some url) (Some g) cs name m)
           (contract_lines E chainId url g cs m name) (contract_rows E chainId url g cs name)"
proof -
  from assms obtain p c fns b where l: "located cs name = Some (p, c)" and b: "repo_code E c = Some b"
    and k: "getCode E url (cc_address c) \<noteq> None" and a: "read_address E (cc_address c) \<noteq> None"
    and f: "functions_of E name p c = Some fns"
    and ans: "list_all (answers E chainId url g (cc_address c) fns) (items (chainId = JStr ''1'') name)"
    by (auto simp: auditable_contract_def split: option.splits)
  let ?c = "\<lparr>i_address = cc_address c, i_abi = fns, i_provider = Some url\<rparr>"
  let ?k = "\<lambda>c. jseq (map (step E chainId name (Some g) m c) (items (chainId = JStr ''1'') name))"
  have "reports (?k ?c)
     (concat (map (item_lines E chainId url g m (cc_address c)) (items (chainId = JStr ''1'') name)))
     (concat (map (item_rows E chainId url g name (cc_address c)) (items (chainId = JStr ''1'') name)))"
    by (rule reports_jseq_map) (use ans reports_step [of E chainId url g ?c] normal_read_address [OF a] in \<open>auto simp: list_all_iff\<close>)
  from reports_jthen [OF reports_checkBytecode [OF l b k, of m] reports_jbind [of _ ?c ?k, OF gives_findContractInstance [OF l b a f] this]]
  show ?thesis
    by (simp add: table_check_def contract_check_def contract_lines_def contract_rows_def l)
qed

end
