(* ===== verification/Audit_Properties.thy ===== *)
theory Audit_Properties
  imports Audit_Reference
begin

text \<open>
  The run of the audit over all chains: what it prints and writes is what the table gives, and it fails as a whole,
  without the CSV file, as soon as one contract or one answer is missing.
\<close>

section \<open>One chain\<close>

lemma jthen_assoc [simp]: "jthen (jthen a b) c = jthen a (jthen b c)"
  by (simp add: fun_eq_iff jthen_apply split: prod.splits sum.splits)

lemma jthen_unit [simp]: "jthen a (jret ()) = a" "jthen a (Pair (Inr ())) = a"
  by (simp_all add: fun_eq_iff jthen_apply split: prod.splits sum.splits)

definition chain_message :: "chain_config \<Rightarrow> string \<Rightarrow> string" where
  "chain_message cfg name = initLog cfg @ '', contract: '' @ name"

lemma verify_setup_chain_table:
  assumes "cfg_name cfg \<noteq> ''mode''"
  shows "verify_setup_chain E i p g cfg =
    jseq (print [Log (NL @ ''######## Verifying setup on CHAIN ID '' @ to_str (cfg_chainId cfg))]
      # map (\<lambda>name. table_check E (cfg_chainId cfg) p g (cfg_contracts cfg) name (chain_message cfg name)) (audited i (cfg_name cfg)))"
  using assms
  by (cases "i = 0"; cases "cfg_name cfg = ''polygon''")
     (simp_all add: verify_setup_chain_def audited_def run_check_def checks_are_table_checks chain_message_def)

lemma verify_setup_chain_mode: "cfg_name cfg = ''mode'' \<Longrightarrow> verify_setup_chain E i p g cfg = jret ()"
  by (simp add: verify_setup_chain_def)

definition chain_url :: "audit_env \<Rightarrow> chain_config \<Rightarrow> string" where
  "chain_url E cfg = (case providerLinks E (cfg_name cfg) of None \<Rightarrow> DEFAULT_ENDPOINT | Some u \<Rightarrow> u)"

definition chain_globals :: "audit_env \<Rightarrow> chain_config \<Rightarrow> globals option" where
  "chain_globals E cfg = Option.bind (globalNames (cfg_name cfg)) (read_globals_file E)"

definition over_contracts ::
  "(json \<Rightarrow> string \<Rightarrow> globals \<Rightarrow> config_contract list \<Rightarrow> string \<Rightarrow> 'a) \<Rightarrow> audit_env \<Rightarrow> nat \<Rightarrow> chain_config \<Rightarrow> 'a list" where
  "over_contracts f E i cfg =
     map (f (cfg_chainId cfg) (chain_url E cfg) (the (chain_globals E cfg)) (cfg_contracts cfg)) (audited i (cfg_name cfg))"

definition auditable_chain :: "audit_env \<Rightarrow> nat \<times> chain_config \<Rightarrow> bool" where
  "auditable_chain E = (\<lambda>(i, cfg). chain_globals E cfg \<noteq> None \<and> list_all id (over_contracts (auditable_contract E) E i cfg))"

definition chain_ok :: "audit_env \<Rightarrow> nat \<times> chain_config \<Rightarrow> bool" where
  "chain_ok E = (\<lambda>(i, cfg). list_all id (over_contracts (contract_ok E) E i cfg))"

definition chain_lines :: "audit_env \<Rightarrow> nat \<times> chain_config \<Rightarrow> line list" where
  "chain_lines E = (\<lambda>(i, cfg). Log (NL @ ''######## Verifying setup on CHAIN ID '' @ to_str (cfg_chainId cfg))
     # concat (over_contracts (\<lambda>ch url g cs name. contract_lines E ch url g cs (chain_message cfg name) name) E i cfg))"

definition chain_rows :: "audit_env \<Rightarrow> nat \<times> chain_config \<Rightarrow> ownership_row list" where
  "chain_rows E = (\<lambda>(i, cfg). concat (over_contracts (contract_rows E) E i cfg))"

lemma reports_verify_setup_chain:
  assumes "cfg_name cfg \<noteq> ''mode''" and "auditable_chain E (i, cfg)"
  shows "reports (verify_setup_chain E i (Some (chain_url E cfg)) (chain_globals E cfg) cfg)
           (chain_lines E (i, cfg)) (chain_rows E (i, cfg))"
proof -
  obtain g where g: "chain_globals E cfg = Some g"
    using assms(2) by (auto simp: auditable_chain_def)
  let ?t = "\<lambda>name. table_check E (cfg_chainId cfg) (Some (chain_url E cfg)) (Some g) (cfg_contracts cfg) name (chain_message cfg name)"
  have "reports (jseq (map ?t (audited i (cfg_name cfg))))
     (concat (map (\<lambda>name. contract_lines E (cfg_chainId cfg) (chain_url E cfg) g (cfg_contracts cfg) (chain_message cfg name) name)
        (audited i (cfg_name cfg))))
     (concat (map (contract_rows E (cfg_chainId cfg) (chain_url E cfg) g (cfg_contracts cfg)) (audited i (cfg_name cfg))))"
    by (rule reports_jseq_map, rule reports_table_check)
      (use assms(2) g in \<open>auto simp: auditable_chain_def over_contracts_def list_all_iff\<close>)
  from reports_jthen [OF reports_print [of "[Log (NL @ ''######## Verifying setup on CHAIN ID '' @ to_str (cfg_chainId cfg))]"] this]
  show ?thesis
    by (simp add: verify_setup_chain_table [OF assms(1)] chain_lines_def chain_rows_def over_contracts_def g)
qed

section \<open>All chains\<close>

text \<open>The chains before the first one called "mode"; the others are all called so when it is the last one.\<close>

definition live :: "chain_config list \<Rightarrow> chain_config list" where
  "live cfgs = takeWhile (\<lambda>c. cfg_name c \<noteq> ''mode'') cfgs"

definition mode_last :: "chain_config list \<Rightarrow> bool" where
  "mode_last cfgs = list_all (\<lambda>c. cfg_name c = ''mode'') (dropWhile (\<lambda>c. cfg_name c \<noteq> ''mode'') cfgs)"

lemma gives_process_globals:
  "mode_last cfgs \<Longrightarrow> list_all (\<lambda>c. chain_globals E c \<noteq> None) (live cfgs)
   \<Longrightarrow> gives (process_globals E cfgs) (map (\<lambda>c. the (chain_globals E c)) (live cfgs), map (chain_url E) (live cfgs))"
proof (induction cfgs)
  case (Cons c cfgs)
  show ?case
  proof (cases "cfg_name c = ''mode''")
    case True
    with Cons.prems(1) have "mode_last cfgs" "live cfgs = []"
      by (cases cfgs; auto simp: mode_last_def live_def)+
    with Cons.IH True show ?thesis by (simp add: live_def)
  next
    case False
    with Cons.prems have "mode_last cfgs" "list_all (\<lambda>c. chain_globals E c \<noteq> None) (live cfgs)"
      by (simp_all add: mode_last_def live_def)
    with False Cons.prems(2) Cons.IH show ?thesis
      by (auto simp: live_def gives_def load_globals_def chain_url_def simp flip: chain_globals_def)
  qed
qed (simp add: live_def)

lemma verify_setup_modes: "list_all (\<lambda>c. cfg_name c = ''mode'') cfgs \<Longrightarrow> verify_setup_from E gs ps i cfgs = jret ()"
  by (induction cfgs arbitrary: i) (simp_all add: verify_setup_chain_mode)

lemma reports_verify_setup_from:
  "mode_last cfgs \<Longrightarrow> list_all (auditable_chain E) (enumerate (length gs) (live cfgs)) \<Longrightarrow> length ps = length gs
   \<Longrightarrow> reports (verify_setup_from E (gs @ map (\<lambda>c. the (chain_globals E c)) (live cfgs)) (ps @ map (chain_url E) (live cfgs)) (length gs) cfgs)
         (concat (map (chain_lines E) (enumerate (length gs) (live cfgs))))
         (concat (map (chain_rows E) (enumerate (length gs) (live cfgs))))"
proof (induction cfgs arbitrary: gs ps)
  case (Cons c cfgs)
  show ?case
  proof (cases "cfg_name c = ''mode''")
    case True
    with Cons.prems(1) have "list_all (\<lambda>c. cfg_name c = ''mode'') (c # cfgs)" "live (c # cfgs) = []"
      by (simp_all add: mode_last_def live_def)
    then show ?thesis by (simp only: verify_setup_modes) simp
  next
    case False
    then have l: "live (c # cfgs) = c # live cfgs" "mode_last (c # cfgs) = mode_last cfgs"
      by (simp_all add: live_def mode_last_def)
    with Cons.prems have c: "auditable_chain E (length gs, c)" by simp
    then obtain g where g: "chain_globals E c = Some g" by (auto simp: auditable_chain_def)
    have "reports (verify_setup_from E ((gs @ [g]) @ map (\<lambda>c. the (chain_globals E c)) (live cfgs))
          ((ps @ [chain_url E c]) @ map (chain_url E) (live cfgs)) (length (gs @ [g])) cfgs)
         (concat (map (chain_lines E) (enumerate (length (gs @ [g])) (live cfgs))))
         (concat (map (chain_rows E) (enumerate (length (gs @ [g])) (live cfgs))))"
      using Cons.prems l by (intro Cons.IH) simp_all
    from reports_jthen [OF reports_verify_setup_chain [OF False c] this] show ?thesis
      using Cons.prems(3) g by (simp add: l(1) elem_at_def nth_append)
  qed
qed (simp add: live_def)


section \<open>The whole run\<close>

definition repo_lines :: "audit_env \<Rightarrow> chain_config \<Rightarrow> line list" where
  "repo_lines E cfg = [Log (NL @ NL @ ''Network: '' @ cfg_name cfg), Log (''chainId '' @ to_str (cfg_chainId cfg))]
     @ concat (map (\<lambda>c. [Log (''Checking '' @ cc_name c),
         Child (sh_stderr E (''scripts/audit_chains/audit_repo_contract.sh '' @ to_str (cfg_chainId cfg) @ '' '' @ cc_name c @ '' '' @ to_str (cc_address c)))])
         (cfg_contracts cfg))"

definition auditable :: "audit_env \<Rightarrow> chain_config list \<Rightarrow> bool" where
  "auditable E cfgs \<longleftrightarrow> mode_last cfgs \<and> list_all (auditable_chain E) (enumerate 0 (live cfgs))"

definition as_configured :: "audit_env \<Rightarrow> chain_config list \<Rightarrow> bool" where
  "as_configured E cfgs \<longleftrightarrow> list_all (chain_ok E) (enumerate 0 (live cfgs))"

definition ownership_table :: "audit_env \<Rightarrow> chain_config list \<Rightarrow> ownership_row list" where
  "ownership_table E cfgs = concat (map (chain_rows E) (enumerate 0 (live cfgs)))"

definition audit_lines :: "audit_env \<Rightarrow> chain_config list \<Rightarrow> line list" where
  "audit_lines E cfgs =
     Log (NL @ ''Verifying deployed contracts vs the repo... If no error is output, then the contracts are correct.'')
     # concat (map (repo_lines E) cfgs)
     @ Log (NL @ ''Verifying deployed contracts setup... If no error is output, then the contracts are correct.'')
     # concat (map (chain_lines E) (enumerate 0 (live cfgs)))
     @ [Log (NL @ ''[CSV] Wrote '' @ nat_str (length (ownership_table E cfgs)) @ '' rows to '' @ OWNERSHIP_CSV_PATH @ NL)]"

text \<open>The contracts whose owner is written to the file, in the order of the checks.\<close>

definition owned_contracts :: "nat \<Rightarrow> string list" where
  "owned_contracts i =
     (if i = 0 then [''ComponentRegistry'', ''AgentRegistry'', ''ServiceRegistry''] else [''ServiceRegistryL2''])
     @ [''ServiceManagerProxy'', ''ServiceRegistryTokenUtility'', ''StakingVerifier'', ''StakingFactory'', ''IdentityRegistryBridgerProxy'']"

definition listed_address :: "chain_config \<Rightarrow> string \<Rightarrow> json" where
  "listed_address cfg name = cc_address (snd (the (located (cfg_contracts cfg) name)))"

definition owner_rows :: "audit_env \<Rightarrow> nat \<times> chain_config \<Rightarrow> ownership_row list" where
  "owner_rows E = (\<lambda>(i, cfg). map (\<lambda>name. owner_row E (cfg_chainId cfg) (chain_url E cfg) (the (chain_globals E cfg)) name
     (listed_address cfg name)) (owned_contracts i))"

lemma contract_rows_listed:
  assumes "auditable_contract E chainId url g (cfg_contracts cfg) name"
  shows "contract_rows E chainId url g (cfg_contracts cfg) name =
    concat (map (item_rows E chainId url g name (listed_address cfg name)) (items (chainId = JStr ''1'') name))"
  using assms by (auto simp: contract_rows_def auditable_contract_def listed_address_def split: option.splits)

lemma item_rows_simps [simp]:
  "item_rows E chainId url g name a (Owner b) = [owner_row E chainId url g name a]"
  "item_rows E chainId url g name a (Const f v) = []" "item_rows E chainId url g name a (Global f k l) = []"
  "item_rows E chainId url g name a (Decimal f k) = []" "item_rows E chainId url g name a (Number f n) = []"
  "item_rows E chainId url g name a (Enabled k l) = []" "item_rows E chainId url g name a (same_name f) = []"
  by (simp_all add: item_rows_def same_name_def)

lemma chain_rows_owners:
  assumes "auditable_chain E x"
  shows "chain_rows E x = owner_rows E x"
proof (cases x)
  case (Pair i cfg)
  with assms have "chain_rows E x = concat (map (\<lambda>name. concat (map (item_rows E (cfg_chainId cfg) (chain_url E cfg)
      (the (chain_globals E cfg)) name (listed_address cfg name)) (items (cfg_chainId cfg = JStr ''1'') name))) (audited i (cfg_name cfg)))"
    by (auto simp: chain_rows_def auditable_chain_def over_contracts_def list_all_iff contract_rows_listed
        intro!: arg_cong [where f = concat])
  also have "\<dots> = owner_rows E x"
    by (simp add: Pair audited_def owner_rows_def owned_contracts_def items_def ownable_registry_def)
  finally show ?thesis .
qed

lemma ownership_table_owners:
  assumes "auditable E cfgs"
  shows "ownership_table E cfgs = concat (map (owner_rows E) (enumerate 0 (live cfgs)))"
  using assms by (auto simp: ownership_table_def auditable_def list_all_iff chain_rows_owners intro!: arg_cong [where f = concat])

lemma reports_verify_repo_chain: "reports (verify_repo_chain E cfg) (repo_lines E cfg) []"
  unfolding verify_repo_chain_def repo_lines_def jseq.simps verify_repo_contract_def
  by (intro reports_print_then reports_jseq_lines reports_print)

lemma auditable_globals:
  assumes "list_all (auditable_chain E) (enumerate n cfgs)"
  shows "list_all (\<lambda>c. chain_globals E c \<noteq> None) cfgs"
  using assms by (induction cfgs arbitrary: n) (auto simp: auditable_chain_def)

lemma audit_main_table:
  assumes "keys_set E" and "configs E = Some cfgs" and "auditable E cfgs"
  shows "audit_main E = (0, \<lparr>lines = audit_lines E cfgs, ownershipRows = ownership_table E cfgs,
           csv = Some (OWNERSHIP_CSV_PATH, csv_text (ownership_table E cfgs))\<rparr>)"
proof -
  have "reports (jseq (map (verify_repo_chain E) cfgs)) (concat (map (repo_lines E) cfgs)) []"
    by (intro reports_jseq_lines reports_verify_repo_chain)
  moreover have "gives (process_globals E cfgs) (map (\<lambda>c. the (chain_globals E c)) (live cfgs), map (chain_url E) (live cfgs))"
    using assms(3) by (intro gives_process_globals auditable_globals [of E 0]) (simp_all add: auditable_def)
  moreover have "reports (verify_setup_from E (map (\<lambda>c. the (chain_globals E c)) (live cfgs)) (map (chain_url E) (live cfgs)) 0 cfgs)
      (concat (map (chain_lines E) (enumerate 0 (live cfgs)))) (ownership_table E cfgs)"
    using reports_verify_setup_from [of cfgs E "[]" "[]"] assms(3) by (simp add: auditable_def ownership_table_def)
  ultimately show ?thesis
    by (simp add: audit_main_def audit_script_def assms(1,2) jthen_apply reports_def gives_def print_def reported_def
        writeOwnershipCsv_def audit_lines_def)
qed


fun is_error :: "line \<Rightarrow> bool" where
  "is_error (Err e) = True"
| "is_error _ = False"

definition has_error :: "line list \<Rightarrow> bool" where
  "has_error ls = list_ex is_error ls"

lemma has_error_simps [simp]:
  "\<not> has_error []" "has_error (l # ls) \<longleftrightarrow> is_error l \<or> has_error ls" "has_error (ls @ ls') \<longleftrightarrow> has_error ls \<or> has_error ls'"
  "has_error (concat (map f xs)) \<longleftrightarrow> (\<exists>x \<in> set xs. has_error (f x))"
  by (auto simp: has_error_def list_ex_iff)

lemma has_error_failure [simp]: "has_error (failure m)"
  by (simp add: failure_def)

lemma has_error_item [simp]: "has_error (item_lines E chainId url g m a it) \<longleftrightarrow> \<not> holds E chainId url g a it"
  by (simp add: item_lines_def)

lemma has_error_contract:
  assumes "auditable_contract E chainId url g cs name"
  shows "has_error (contract_lines E chainId url g cs m name) \<longleftrightarrow> \<not> contract_ok E chainId url g cs name"
proof -
  obtain p c where "located cs name = Some (p, c)"
    using assms by (auto simp: auditable_contract_def split: option.splits)
  then show ?thesis
    by (simp add: contract_lines_def contract_ok_def list_all_iff)
qed

lemma has_error_chain:
  assumes "auditable_chain E x"
  shows "has_error (chain_lines E x) \<longleftrightarrow> \<not> chain_ok E x"
  using assms
  by (cases x) (simp add: auditable_chain_def chain_lines_def chain_ok_def over_contracts_def list_all_iff has_error_contract)

lemma has_error_repo [simp]: "\<not> has_error (repo_lines E cfg)"
  by (simp add: repo_lines_def)

lemma has_error_audit:
  assumes "auditable E cfgs"
  shows "has_error (audit_lines E cfgs) \<longleftrightarrow> \<not> as_configured E cfgs"
  using assms by (auto simp: audit_lines_def auditable_def as_configured_def list_all_iff has_error_chain)


section \<open>Runs that stop\<close>

text \<open>Nothing but the last step writes the file.\<close>

definition keeps_csv :: "(audit, 'a) js \<Rightarrow> bool" where
  "keeps_csv m \<longleftrightarrow> (\<forall>s. csv (snd (m s)) = csv s)"

lemma keeps_csv_basic [simp, intro]:
  "keeps_csv (jret x)" "keeps_csv (Pair r)" "keeps_csv (jthrow e)" "keeps_csv (print ls)"
  by (simp_all add: keeps_csv_def print_def)

lemma keeps_csv_jbind [intro]: "keeps_csv m \<Longrightarrow> (\<And>x. keeps_csv (f x)) \<Longrightarrow> keeps_csv (jbind m f)"
  by (auto simp: keeps_csv_def jbind_def split: prod.splits sum.splits) (metis snd_conv)+

lemma keeps_csv_jthen [intro]: "keeps_csv m \<Longrightarrow> keeps_csv k \<Longrightarrow> keeps_csv (jthen m k)"
  unfolding jthen_def by blast

lemma keeps_csv_jseq: "(\<And>m. m \<in> set ms \<Longrightarrow> keeps_csv m) \<Longrightarrow> keeps_csv (jseq ms)"
  by (induction ms) auto


lemmas steps_keep = expect_const_def expect_global_as_def expect_global_string_def expect_number_def expect_enabled_def
  checkOwnerRecorded_def checkOwner_def

lemma keeps_csv_parts [simp, intro]:
  "keeps_csv (customExpect x y m)" "keeps_csv (customExpectContain u v m)" "keeps_csv (gget g k)"
  "keeps_csv (load_artifact E path)" "keeps_csv (norm_address E a)" "keeps_csv (invoke E c fn args)"
  "keeps_csv (toString r)" "keeps_csv (recordOwnershipRow E ch name a oi)" "keeps_csv (load_globals E name)"
  by (auto simp: customExpect_def customExpectContain_def gget_def load_artifact_def norm_address_def invoke_def
      toString_def recordOwnershipRow_def load_globals_def keeps_csv_def print_def jbind_def
      split: option.splits sum.splits prod.splits if_splits)

lemma keeps_csv_step: "keeps_csv (step E chainId name g m c it)"
  by (cases it) (auto simp: steps_keep intro!: keeps_csv_jbind keeps_csv_jthen)

lemma keeps_csv_table_check: "keeps_csv (table_check E chainId p g cs name m)"
proof -
  have "keeps_csv (checkBytecode E p cs name m)" "keeps_csv (findContractInstance E p cs name)"
    by (auto simp: checkBytecode_def findContractInstance_def compare_code_def intro!: keeps_csv_jbind
        split: option.splits deployed_bytecode.splits)
  then show ?thesis
    by (auto simp: table_check_def contract_check_def keeps_csv_step intro!: keeps_csv_jthen keeps_csv_jbind keeps_csv_jseq)
qed

lemma keeps_csv_verify_setup: "keeps_csv (verify_setup_from E gs ps i cfgs)"
proof (induction cfgs arbitrary: i)
  case (Cons c cfgs)
  have "keeps_csv (verify_setup_chain E i (elem_at ps i) (elem_at gs i) c)"
    by (cases "cfg_name c = ''mode''")
      (auto simp: verify_setup_chain_table verify_setup_chain_mode keeps_csv_table_check intro!: keeps_csv_jthen keeps_csv_jseq)
  with Cons show ?case by auto
qed simp

lemma keeps_csv_process_globals: "keeps_csv (process_globals E cfgs)"
  by (induction cfgs) (auto intro!: keeps_csv_jbind split: prod.splits)

definition audit_body :: "audit_env \<Rightarrow> chain_config list \<Rightarrow> (audit, unit) js" where
  "audit_body E cfgs = jseq [
     print [Log (NL @ ''Verifying deployed contracts vs the repo... If no error is output, then the contracts are correct.'')],
     jseq (map (verify_repo_chain E) cfgs),
     jbind (process_globals E cfgs) (\<lambda>(gs, ps).
       jthen (print [Log (NL @ ''Verifying deployed contracts setup... If no error is output, then the contracts are correct.'')])
         (verify_setup_from E gs ps 0 cfgs))]"

lemma keeps_csv_audit_body: "keeps_csv (audit_body E cfgs)"
proof -
  have "keeps_csv (verify_repo_chain E cfg)" for cfg
    by (auto simp: verify_repo_chain_def verify_repo_contract_def intro!: keeps_csv_jthen keeps_csv_jseq)
  then show ?thesis
    by (auto simp: audit_body_def intro!: keeps_csv_jthen keeps_csv_jseq keeps_csv_jbind keeps_csv_process_globals
        keeps_csv_verify_setup)
qed

lemma audit_script_body:
  assumes "keys_set E" and "configs E = Some cfgs"
  shows "audit_script E = jthen (audit_body E cfgs) (\<lambda>s. writeOwnershipCsv (ownershipRows s) OWNERSHIP_CSV_PATH s)"
  using assms by (simp add: audit_script_def audit_body_def)

text \<open>A run ends with 0 exactly when the body does not throw, and writes the file exactly then.\<close>

lemma audit_main_exit:
  assumes "keys_set E" and "configs E = Some cfgs" and "s0 = \<lparr>lines = [], ownershipRows = [], csv = None\<rparr>"
  shows "fst (audit_main E) = 0 \<longleftrightarrow> (\<exists>s. audit_body E cfgs s0 = (Inr (), s))"
    and "fst (audit_main E) \<in> {0, 1}" and "csv (snd (audit_main E)) = None \<longleftrightarrow> fst (audit_main E) = 1"
proof -
  have c: "csv (snd (audit_body E cfgs s0)) = None"
    using keeps_csv_audit_body [of E cfgs] assms(3) by (simp add: keeps_csv_def)
  show "fst (audit_main E) = 0 \<longleftrightarrow> (\<exists>s. audit_body E cfgs s0 = (Inr (), s))"
    and "fst (audit_main E) \<in> {0, 1}" and "csv (snd (audit_main E)) = None \<longleftrightarrow> fst (audit_main E) = 1"
    using c by (auto simp: audit_main_def audit_script_body [OF assms(1,2)] assms(3) jthen_apply writeOwnershipCsv_def
        print_def split: prod.splits sum.splits)
qed


lemma jseq_Inr:
  assumes "jseq ms s = (Inr (), s')" and "m \<in> set ms"
  obtains s1 s2 where "m s1 = (Inr (), s2)"
  using assms
proof (induction ms arbitrary: s)
  case (Cons a ms)
  then show ?case by (auto simp: jthen_apply split: prod.splits sum.splits)
qed simp

lemma table_check_Inr:
  assumes "table_check E chainId p g cs name m s = (Inr (), s')"
  obtains q c where "located cs name = Some (q, c)" and "repo_code E c \<noteq> None" and "p \<noteq> None"
proof -
  obtain s1 s2 s3 c0 where b: "checkBytecode E p cs name m s = (Inr (), s1)"
    and f: "findContractInstance E p cs name s2 = (Inr c0, s3)"
    using assms by (auto simp: table_check_def contract_check_def jthen_def)
  then obtain i where i: "find_contract cs name 0 = Some i"
    by (cases "find_contract cs name 0") (auto simp: findContractInstance_def)
  with b have "repo_code E (cs ! i) \<noteq> None \<and> p \<noteq> None"
    by (auto simp: checkBytecode_def repo_code_def load_artifact_def compare_code_def bind_eq_Some_conv
        split: option.splits deployed_bytecode.splits)
  with i show ?thesis by (intro that [of _ "cs ! i"]) (auto simp: located_find_contract)
qed

lemma verify_setup_chain_Inr:
  assumes "verify_setup_chain E i p g cfg s = (Inr (), s')" and "cfg_name cfg \<noteq> ''mode''" and "name \<in> set (audited i (cfg_name cfg))"
  obtains q c where "located (cfg_contracts cfg) name = Some (q, c)" and "repo_code E c \<noteq> None" and "p \<noteq> None"
proof -
  have "table_check E (cfg_chainId cfg) p g (cfg_contracts cfg) name (chain_message cfg name)
      \<in> set (map (\<lambda>name. table_check E (cfg_chainId cfg) p g (cfg_contracts cfg) name (chain_message cfg name)) (audited i (cfg_name cfg)))"
    using assms(3) by simp
  from jseq_Inr [OF assms(1) [unfolded verify_setup_chain_table [OF assms(2)]] list.set_intros(2) [OF this]] show ?thesis
    using table_check_Inr that by metis
qed

lemma verify_setup_from_Inr:
  assumes "verify_setup_from E gs ps i cfgs s = (Inr (), s')" and "j < length cfgs"
  obtains s1 s2 where "verify_setup_chain E (i + j) (elem_at ps (i + j)) (elem_at gs (i + j)) (cfgs ! j) s1 = (Inr (), s2)"
  using assms
proof (induction cfgs arbitrary: i j s)
  case (Cons c cfgs)
  from Cons.prems(2) obtain s3 where h: "verify_setup_chain E i (elem_at ps i) (elem_at gs i) c s = (Inr (), s3)"
    and t: "verify_setup_from E gs ps (Suc i) cfgs s3 = (Inr (), s')"
    by (auto simp: jthen_def)
  show ?case
  proof (cases j)
    case 0
    with h Cons.prems(1) show ?thesis by simp
  next
    case (Suc k)
    with Cons.IH [OF _ t, of k] Cons.prems(1,3) show ?thesis by simp
  qed
qed simp

lemma process_globals_length:
  "process_globals E cfgs s = (Inr (gs, ps), s') \<Longrightarrow> length ps = length (filter (\<lambda>c. cfg_name c \<noteq> ''mode'') cfgs)"
  by (induction cfgs arbitrary: gs ps s) (auto split: if_splits)

lemma audit_body_Inr:
  assumes "audit_body E cfgs s = (Inr (), s')" and "j < length cfgs" and "cfg_name (cfgs ! j) \<noteq> ''mode''"
    and "name \<in> set (audited j (cfg_name (cfgs ! j)))"
  obtains q c where "located (cfg_contracts (cfgs ! j)) name = Some (q, c)" and "repo_code E c \<noteq> None"
    and "j < length (filter (\<lambda>c. cfg_name c \<noteq> ''mode'') cfgs)"
proof -
  obtain gs ps s1 s2 s3 where pg: "process_globals E cfgs s1 = (Inr (gs, ps), s2)"
    and v: "verify_setup_from E gs ps 0 cfgs s3 = (Inr (), s')"
    using assms(1) by (auto simp: audit_body_def jthen_def)
  obtain s4 s5 where c: "verify_setup_chain E j (elem_at ps j) (elem_at gs j) (cfgs ! j) s4 = (Inr (), s5)"
    using verify_setup_from_Inr [OF v assms(2)] by auto
  from verify_setup_chain_Inr [OF c assms(3,4)] obtain q c where "located (cfg_contracts (cfgs ! j)) name = Some (q, c)"
    "repo_code E c \<noteq> None" "elem_at ps j \<noteq> None" .
  with that process_globals_length [OF pg] show ?thesis
    by (auto simp: elem_at_def split: if_splits)
qed


section \<open>Properties\<close>

definition demo_functions :: "string list" where
  "demo_functions = [''VERSION'', ''baseURI'', ''owner'', ''manager'', ''componentRegistry'', ''drainer'', ''agentRegistry'',
     ''mapMultisigs'', ''paused'', ''serviceRegistry'', ''serviceRegistryTokenUtility'', ''operatorWhitelist'',
     ''identityRegistryBridger'', ''serviceManager'', ''identityRegistry'', ''DEFAULT_DATA_LENGTH'', ''GNOSIS_SAFE_SETUP_SELECTOR'',
     ''olas'', ''minStakingDepositLimit'', ''timeForEmissionsLimit'', ''numServicesLimit'', ''apyLimit'', ''implementationsCheck'',
     ''verifier'', ''RECOVER_THRESHOLD'', ''multiSend'', ''SAFE_SETUP_SELECTOR'', ''ENABLE_MODULE_SELECTOR'', ''safe'',
     ''safeProxyFactory'', ''recoveryModule'', ''polySafeProxyFactory'', ''polySafeProxyBytecodeHash'']"

definition demo_globals :: globals where
  "demo_globals = [(''timelockAddress'', JAddr 1), (''bridgeMediatorAddress'', JAddr 1), (''treasuryAddress'', JAddr 2),
     (''registriesManagerAddress'', JAddr 3), (''serviceManagerProxyAddress'', JAddr 3), (''componentRegistryAddress'', JAddr 4),
     (''agentRegistryAddress'', JAddr 5), (''serviceRegistryAddress'', JAddr 6), (''serviceRegistryTokenUtilityAddress'', JAddr 7),
     (''operatorWhitelistAddress'', JAddr 8), (''identityRegistryBridgerProxyAddress'', JAddr 9), (''identityRegistryAddress'', JAddr 10),
     (''olasAddress'', JAddr 11), (''minStakingDepositLimit'', JStr ''12''), (''timeForEmissionsLimit'', JStr ''13''),
     (''numServicesLimit'', JStr ''14''), (''apyLimit'', JStr ''15''), (''stakingVerifierAddress'', JAddr 16),
     (''multiSendCallOnlyAddress'', JAddr 17), (''gnosisSafeAddress'', JAddr 18), (''gnosisSafeProxyFactoryAddress'', JAddr 19),
     (''recoveryModuleAddress'', JAddr 20)]"

definition demo_call :: "string \<Rightarrow> json \<Rightarrow> string \<Rightarrow> json list \<Rightarrow> json option" where
  "demo_call url a fn args = (case map_of [(''VERSION'', JStr ''1.0.0''), (''baseURI'', JStr ''https://gateway.autonolas.tech/ipfs/''),
     (''owner'', JAddr 1), (''manager'', JAddr 3), (''componentRegistry'', JAddr 4), (''drainer'', JAddr (if a = JAddr 106 then 2 else 1)),
     (''agentRegistry'', JAddr 5), (''mapMultisigs'', JBool True), (''paused'', JBool False), (''serviceManager'', JAddr 3),
     (''DEFAULT_DATA_LENGTH'', JNum (if a = JAddr 101 then 144 else if a = JAddr 102 then 20 else if a = JAddr 103 then 32 else 64)),
     (''GNOSIS_SAFE_SETUP_SELECTOR'', JStr ''0xb63e800d''), (''minStakingDepositLimit'', JNum 12), (''timeForEmissionsLimit'', JNum 13),
     (''numServicesLimit'', JNum 14), (''apyLimit'', JNum 15), (''implementationsCheck'', JBool True), (''verifier'', JAddr 16),
     (''RECOVER_THRESHOLD'', JNum 1), (''multiSend'', JAddr 17), (''SAFE_SETUP_SELECTOR'', JStr ''0xb63e800d''),
     (''ENABLE_MODULE_SELECTOR'', JStr ''0x24292962''), (''safe'', JAddr 18), (''safeProxyFactory'', JAddr 19),
     (''identityRegistryBridger'', JAddr 9)] fn of
     Some v \<Rightarrow> Some v
   | None \<Rightarrow> Some (getf demo_globals (fn @ ''Address'')))"

definition demo_contract :: "string \<times> address \<Rightarrow> config_contract" where
  "demo_contract x = \<lparr>cc_name = fst x, cc_artifact = ''artifact.json'', cc_address = JAddr (snd x)\<rparr>"

definition demo_chain :: "string \<Rightarrow> chain_config" where
  "demo_chain name = \<lparr>cfg_name = name, cfg_chainId = JStr ''1'', cfg_contracts = map demo_contract [(''ComponentRegistry'', 4),
     (''AgentRegistry'', 5), (''ServiceRegistry'', 106), (''ServiceManager'', 120), (''ServiceManagerProxy'', 3),
     (''ServiceRegistryTokenUtility'', 7), (''OperatorWhitelist'', 8), (''GnosisSafeMultisig'', 101),
     (''GnosisSafeSameAddressMultisig'', 102), (''StakingVerifier'', 16), (''StakingFactory'', 121), (''RecoveryModule'', 103),
     (''SafeMultisigWithRecoveryModule'', 122), (''IdentityRegistryBridger'', 123), (''IdentityRegistryBridgerProxy'', 9)]\<rparr>"

definition demo_env :: "chain_config list \<Rightarrow> audit_env" where
  "demo_env cfgs = \<lparr>aenv = (\<lambda>_. Some ''key''), configs = Some cfgs,
     read_artifact = (\<lambda>p. Some \<lparr>abi = demo_functions, deployedBytecode = Forge ''60806040''\<rparr>),
     read_globals_file = (\<lambda>p. Some demo_globals), sh_stderr = (\<lambda>_. []), getAddress = (\<lambda>_. None),
     getCode = (\<lambda>url a. Some ''0x60806040''), call = demo_call\<rparr>"

text \<open>
  C30. The audit does what its table says: when every contract is listed and every question is answered, and the
  decommissioned chain is the last one, the run ends with exit code 0, prints exactly the lines of the table, one failure
  for each expectation that does not hold and nothing else, and so an error appears exactly when some contract of some
  chain is not as configured. The file has one row, with the owner the chain reports, for each registry, the proxy of the
  service manager, the token utility, the staking verifier, the staking factory and the proxy of the identity bridger of each
  chain, and no others: the registries manager and the hash checkpoints, which the configuration lists and which have
  an owner too, are not in it.
\<close>
theorem audit_reports_the_table:
  assumes "keys_set E" and "configs E = Some cfgs" and "auditable E cfgs"
  shows "\<exists>s. audit_main E = (0, s) \<and> lines s = audit_lines E cfgs \<and> (has_error (lines s) \<longleftrightarrow> \<not> as_configured E cfgs)
           \<and> ownershipRows s = concat (map (owner_rows E) (enumerate 0 (live cfgs)))
           \<and> csv s = Some (OWNERSHIP_CSV_PATH, csv_text (ownershipRows s))"
  using audit_main_table [OF assms] has_error_audit [OF assms(3)] by (simp add: ownership_table_owners [OF assms(3)])

theorem audit_reports_the_table_witness:
  "let cfgs = [demo_chain ''mainnet'', demo_chain ''mode'']; E = demo_env cfgs in
   auditable E cfgs \<and> as_configured E cfgs \<and> (\<exists>s. audit_main E = (0, s) \<and> \<not> has_error (lines s)
     \<and> map r_contractName (ownershipRows s) = map JStr (owned_contracts 0))"
proof -
  let ?cfgs = "[demo_chain ''mainnet'', demo_chain ''mode'']"
  have a: "auditable (demo_env ?cfgs) ?cfgs" by code_simp
  have c: "as_configured (demo_env ?cfgs) ?cfgs" by code_simp
  have k: "keys_set (demo_env ?cfgs)" "configs (demo_env ?cfgs) = Some ?cfgs"
    by (simp_all add: keys_set_def demo_env_def)
  have r: "map r_contractName (concat (map (owner_rows (demo_env ?cfgs)) (enumerate 0 (live ?cfgs)))) = map JStr (owned_contracts 0)"
    by (simp add: live_def demo_chain_def owner_rows_def owner_row_def owned_contracts_def Let_def)
  obtain s where "audit_main (demo_env ?cfgs) = (0, s)" "\<not> has_error (lines s)"
    "ownershipRows s = concat (map (owner_rows (demo_env ?cfgs)) (enumerate 0 (live ?cfgs)))"
    using audit_reports_the_table [OF k a] c by blast
  with a c r show ?thesis unfolding Let_def by metis
qed

text \<open>
  A contract that is missing from the list of its chain, or whose artifact has no code, makes the whole run fail:
  the exit code is 1 and no file is written, whatever the other contracts answer.
\<close>
theorem audit_incomplete_fails:
  assumes "keys_set E" and "configs E = Some cfgs" and "j < length cfgs" and "cfg_name (cfgs ! j) \<noteq> ''mode''"
    and "name \<in> set (audited j (cfg_name (cfgs ! j)))"
    and "Option.bind (located (cfg_contracts (cfgs ! j)) name) (\<lambda>(q, c). repo_code E c) = None"
  shows "fst (audit_main E) = 1 \<and> csv (snd (audit_main E)) = None"
  using audit_main_exit [OF assms(1,2) refl] assms(6)
  by (auto elim!: audit_body_Inr [OF _ assms(3-5)])

theorem audit_incomplete_fails_witness:
  "let cfgs = [(demo_chain ''mainnet'')\<lparr>cfg_contracts := []\<rparr>]; E = demo_env cfgs in
   fst (audit_main E) = 1 \<and> csv (snd (audit_main E)) = None"
  unfolding Let_def
  by (rule audit_incomplete_fails [where j = 0 and name = "''ServiceRegistry''" and cfgs = "[(demo_chain ''mainnet'')\<lparr>cfg_contracts := []\<rparr>]"])
    (simp_all add: keys_set_def demo_env_def demo_chain_def audited_def located_def)

text \<open>
  The globals and endpoints are collected without the decommissioned chain, but looked up by the position in the whole
  configuration. A configuration in which that chain is not the last one makes the run fail with exit code 1
  and without the file, whatever the chains answer.
\<close>
theorem audit_needs_mode_last:
  assumes "keys_set E" and "configs E = Some cfgs" and "cfgs \<noteq> []" and "\<exists>c \<in> set cfgs. cfg_name c = ''mode''"
    and "cfg_name (last cfgs) \<noteq> ''mode''"
  shows "fst (audit_main E) = 1 \<and> csv (snd (audit_main E)) = None"
proof -
  let ?j = "length cfgs - 1"
  have j: "?j < length cfgs" "cfg_name (cfgs ! ?j) \<noteq> ''mode''" "''OperatorWhitelist'' \<in> set (audited ?j (cfg_name (cfgs ! ?j)))"
    using assms(3,5) by (simp_all add: last_conv_nth audited_def)
  have "length (filter (\<lambda>c. cfg_name c \<noteq> ''mode'') cfgs) < length cfgs"
    using assms(4) by (auto intro: length_filter_less)
  then show ?thesis
    using audit_main_exit [OF assms(1,2) refl] by (auto elim!: audit_body_Inr [OF _ j])
qed

theorem audit_needs_mode_last_witness:
  "let cfgs = [demo_chain ''mainnet'', demo_chain ''mode'', demo_chain ''celo'']; E = demo_env cfgs in
   fst (audit_main E) = 1 \<and> csv (snd (audit_main E)) = None"
  unfolding Let_def
  by (rule audit_needs_mode_last [where cfgs = "[demo_chain ''mainnet'', demo_chain ''mode'', demo_chain ''celo'']"])
    (simp_all add: keys_set_def demo_env_def demo_chain_def)

end
