(* ===== verification/Proposals.thy ===== *)
theory Proposals
  imports Deployment_World
begin

text \<open>
  The scripts of \<^verbatim>\<open>scripts/proposals\<close> (01 to 23): each reads the globals file of a chain, encodes the calls that the owner of
  the contracts there is to make, and prints the proposal the governance of the main chain votes on. For the other chains
  the calls are packed into one message that a bridge carries to the mediator contract, the owner on that chain.

  The files, the endpoints, the encoder and packer of the library, the quote of the relayer and the estimator of
  the arbitrum library are fields of \<open>proposal_env\<close>; \<open>None\<close> is a call that throws. A hex string is kept as its bytes, so
  that \<^verbatim>\<open>data += encoded.slice(2)\<close> appends the bytes.
\<close>

section \<open>Environment and state\<close>

type_synonym bytes = "8 word list"

datatype arg = Val json | Vals "json list" | Bytes bytes

record gas_params =
  maxSubmissionCost :: nat
  gasLimit :: nat
  deposit :: nat

record gas_overrides =
  min_gasLimit :: nat
  gasLimit_percentIncrease :: nat
  maxSubmissionFee_percentIncrease :: nat
  maxFeePerGas_percentIncrease :: nat

record proposal_env =
  penv :: "string \<Rightarrow> string option"
  read_json :: "string \<Rightarrow> globals option"
  has_abi :: "string \<Rightarrow> bool"
  first_signer :: "address option"
  blockNumber :: "string \<Rightarrow> nat option"
  encodeFunctionData :: "string \<Rightarrow> string \<Rightarrow> arg list \<Rightarrow> bytes option"
  solidityPack :: "json \<Rightarrow> nat \<Rightarrow> nat \<Rightarrow> bytes \<Rightarrow> bytes option"
  quoteEVMDeliveryPrice :: "nat \<Rightarrow> nat \<Rightarrow> nat \<Rightarrow> nat option"
  l2_inbox :: "string \<Rightarrow> json option"
  baseFee :: "string \<Rightarrow> nat option"
  gasPrice :: "string \<Rightarrow> nat option"
  estimateAll :: "json \<Rightarrow> json \<Rightarrow> nat \<Rightarrow> json \<Rightarrow> json \<Rightarrow> bytes \<Rightarrow> nat \<Rightarrow> gas_overrides \<Rightarrow> gas_params option"

text \<open>What is printed, and the proposal a script ends with.\<close>

datatype shown = Line string | Item string arg | Items string "arg list"

type_synonym 'a script = "(shown list, 'a) js"

record proposal =
  p_targets :: "json list"
  p_values :: "json list"
  p_callDatas :: "bytes list"
  p_description :: string

definition print_lines :: "shown list \<Rightarrow> unit script" where
  "print_lines ls s = (Inr (), s @ ls)"

definition answer :: "string \<Rightarrow> 'a option \<Rightarrow> 'a script" where
  "answer e v = (case v of None \<Rightarrow> jthrow e | Some x \<Rightarrow> jret x)"

section \<open>The steps the scripts share\<close>

definition open_globals :: "proposal_env \<Rightarrow> string \<Rightarrow> globals script" where
  "open_globals E path = answer ''ENOENT'' (read_json E path)"

definition env_text :: "proposal_env \<Rightarrow> string \<Rightarrow> string" where
  "env_text E k = (case penv E k of None \<Rightarrow> ''undefined'' | Some v \<Rightarrow> v)"

definition mainnet_url :: "proposal_env \<Rightarrow> string" where
  "mainnet_url E = ''https://eth-mainnet.g.alchemy.com/v2/'' @ env_text E ''ALCHEMY_API_KEY_MAINNET''"

definition show_block :: "proposal_env \<Rightarrow> string \<Rightarrow> string \<Rightarrow> unit script" where
  "show_block E url label =
     jbind (answer ''could not detect network'' (blockNumber E url)) (\<lambda>n.
       print_lines [Line (''Current block number '' @ label @ '': '' @ nat_str n)])"

text \<open>\<^verbatim>\<open>new JsonRpcProvider(url)\<close> has a default for an undefined URL.\<close>

definition provider_url :: "json \<Rightarrow> string" where
  "provider_url v = (if v = JUndef then ''http://localhost:8545'' else to_str v)"

text \<open>\<^verbatim>\<open>new ethers.Contract(address, abi, provider)\<close>, with the ABI read from a file; only the interface is used.\<close>

definition contract_abi :: "proposal_env \<Rightarrow> string \<Rightarrow> json \<Rightarrow> string script" where
  "contract_abi E path address =
     (if \<not> has_abi E path then jthrow ''ENOENT''
      else if address \<in> {JUndef, JNull} then jthrow ''invalid contract address'' else jret path)"

definition encode :: "proposal_env \<Rightarrow> string \<Rightarrow> string \<Rightarrow> arg list \<Rightarrow> bytes script" where
  "encode E abi_path fn args = answer ''invalid argument'' (encodeFunctionData E abi_path fn args)"

definition pack_call :: "proposal_env \<Rightarrow> json \<Rightarrow> bytes \<Rightarrow> bytes script" where
  "pack_call E target payload = answer ''invalid argument'' (solidityPack E target 0 (length payload) payload)"

text \<open>The loop over raw payloads and local targets.\<close>

fun pack_loop :: "proposal_env \<Rightarrow> (json \<times> bytes) list \<Rightarrow> bytes \<Rightarrow> bytes script" where
  "pack_loop E [] data = jret data"
| "pack_loop E ((target, payload) # rest) data =
     jbind (pack_call E target payload) (\<lambda>encoded. pack_loop E rest (data @ encoded))"

text \<open>Encode and pack one more call.\<close>

definition add_call :: "proposal_env \<Rightarrow> string \<Rightarrow> string \<Rightarrow> arg list \<Rightarrow> json \<Rightarrow> bytes \<Rightarrow> bytes script" where
  "add_call E abi_path fn args target data =
     jbind (encode E abi_path fn args) (\<lambda>raw. jbind (pack_call E target raw) (\<lambda>encoded. jret (data @ encoded)))"

definition SERVICE_REGISTRY_L2 :: string where
  "SERVICE_REGISTRY_L2 = ''artifacts/contracts/ServiceRegistryL2.sol/ServiceRegistryL2.json''"

definition STAKING_VERIFIER :: string where
  "STAKING_VERIFIER = ''artifacts/contracts/staking/StakingVerifier.sol/StakingVerifier.json''"

definition STAKING_FACTORY :: string where
  "STAKING_FACTORY = ''artifacts/contracts/staking/StakingFactory.sol/StakingFactory.json''"

definition limits :: "globals \<Rightarrow> arg list" where
  "limits g = map (\<lambda>k. Val (getf g k)) [''minStakingDepositLimit'', ''timeForEmissionsLimit'', ''numServicesLimit'', ''apyLimit'']"

definition statuses :: "globals \<Rightarrow> arg list" where
  "statuses g = [Vals [getf g ''stakingTokenAddress''], Vals [JBool True], Val (JBool True)]"

definition field :: "globals \<Rightarrow> string \<Rightarrow> arg" where
  "field g k = Val (getf g k)"

definition one_call :: "json \<Rightarrow> json \<Rightarrow> bytes \<Rightarrow> string \<Rightarrow> proposal" where
  "one_call target v callData desc = \<lparr>p_targets = [target], p_values = [v], p_callDatas = [callData], p_description = desc\<rparr>"

text \<open>The details printed at the end; two scripts use the singular.\<close>

definition details :: "string \<Rightarrow> string \<Rightarrow> string \<Rightarrow> proposal \<Rightarrow> proposal script" where
  "details lt lv lc p =
     jthen (print_lines [Items lt (map Val (p_targets p)), Items lv (map Val (p_values p)), Items lc (map Bytes (p_callDatas p)),
       Item ''description:'' (Val (JStr (p_description p)))]) (jret p)"

definition details_pl :: "proposal \<Rightarrow> proposal script" where
  "details_pl = details ''targets:'' ''values:'' ''call datas:''"

definition details_sg :: "proposal \<Rightarrow> proposal script" where
  "details_sg = details ''target:'' ''value:'' ''call data:''"

definition NLs :: string where
  "NLs = [CHR 0x0A]"

section \<open>Polygon\<close>

definition polygon_start :: "proposal_env \<Rightarrow> string \<Rightarrow> (globals \<times> string) script" where
  "polygon_start E path =
     jbind (open_globals E path) (\<lambda>g.
     jthen (show_block E (mainnet_url E) ''mainnet'') (
     jthen (show_block E (''https://polygon-mainnet.g.alchemy.com/v2/'' @ env_text E ''ALCHEMY_API_KEY_MATIC'') ''polygon'') (
     jbind (contract_abi E ''abis/bridges/polygon/FxRoot.json'' (getf g ''fxRootAddress'')) (\<lambda>fxRoot.
     jret (g, fxRoot)))))"

definition polygon_message :: "proposal_env \<Rightarrow> globals \<Rightarrow> string \<Rightarrow> string \<Rightarrow> bytes \<Rightarrow> string \<Rightarrow> proposal script" where
  "polygon_message E g fxRoot label data desc =
     jthen (print_lines [Item (''Polygon side payload from the fxChild to check on the '' @ label @ '' in processMessageFromRoot function:'') (Bytes data)]) (
     jbind (encode E fxRoot ''sendMessageToChild'' [field g ''bridgeMediatorAddress'', Bytes data]) (\<lambda>timelockPayload.
     jret (one_call (getf g ''fxRootAddress'') (JNum 0) timelockPayload desc)))"

definition POLYGON_GLOBALS :: string where
  "POLYGON_GLOBALS = ''scripts/deployment/l2/globals_polygon_mainnet.json''"

definition proposal_01 :: "proposal_env \<Rightarrow> proposal script" where
  "proposal_01 E =
     jbind (polygon_start E ''globals.json'') (\<lambda>(g, fxRoot).
     jbind (contract_abi E SERVICE_REGISTRY_L2 (getf g ''serviceRegistryAddress'')) (\<lambda>sr.
     jthen (print_lines [Line (''Proposal 1. Change drainer for polygon ServiceRegistryL2'' @ NLs)]) (
     jbind (add_call E sr ''changeDrainer'' [field g ''bridgeMediatorAddress''] (getf g ''serviceRegistryAddress'') []) (\<lambda>data.
     jbind (polygon_message E g fxRoot ''fxGovernorTunnelAddress'' data ''Change Drainer in ServiceRegistryL2 on polygon'') details_pl))))"

text \<open>Two permissions of the service registry, encoded first and then packed.\<close>

definition permission_calls :: "proposal_env \<Rightarrow> string \<Rightarrow> globals \<Rightarrow> string \<Rightarrow> string \<Rightarrow> bytes \<Rightarrow> bytes script" where
  "permission_calls E sr g k1 k2 data =
     jbind (encode E sr ''changeMultisigPermission'' [field g k1, Val (JBool True)]) (\<lambda>p1.
     jbind (encode E sr ''changeMultisigPermission'' [field g k2, Val (JBool True)]) (\<lambda>p2.
     pack_loop E [(getf g ''serviceRegistryAddress'', p1), (getf g ''serviceRegistryAddress'', p2)] data))"

text \<open>The manager of the service registry and of the token utility, both encoded with the interface of the registry.\<close>

definition manager_calls :: "proposal_env \<Rightarrow> string \<Rightarrow> globals \<Rightarrow> bytes \<Rightarrow> bytes script" where
  "manager_calls E sr g data =
     jbind (encode E sr ''changeManager'' [field g ''serviceManagerProxyAddress'']) (\<lambda>p1.
     jbind (encode E sr ''changeManager'' [field g ''serviceManagerProxyAddress'']) (\<lambda>p2.
     pack_loop E [(getf g ''serviceRegistryAddress'', p1), (getf g ''serviceRegistryTokenUtilityAddress'', p2)] data))"

definition proposal_06 :: "proposal_env \<Rightarrow> proposal script" where
  "proposal_06 E =
     jbind (polygon_start E POLYGON_GLOBALS) (\<lambda>(g, fxRoot).
     jbind (contract_abi E SERVICE_REGISTRY_L2 (getf g ''serviceRegistryAddress'')) (\<lambda>sr.
     jthen (print_lines [Line (''Proposal 6. Change multisig implementation statuses in ServiceRegistryL2 on on polygon'' @ NLs)]) (
     jbind (permission_calls E sr g ''recoveryModuleAddress'' ''safeMultisigWithRecoveryModuleAddress'' []) (\<lambda>data.
     jbind (polygon_message E g fxRoot ''fxGovernorTunnelAddress'' data
       ''Change GnosisSafeSameAddressMultisig implementation addresses in ServiceRegistryL2 on polygon'') details_pl))))"

definition proposal_08 :: "proposal_env \<Rightarrow> proposal script" where
  "proposal_08 E =
     jbind (polygon_start E POLYGON_GLOBALS) (\<lambda>(g, fxRoot).
     jbind (contract_abi E SERVICE_REGISTRY_L2 (getf g ''serviceRegistryAddress'')) (\<lambda>sr.
     jthen (print_lines [Line (''Proposal 8. Change manager for polygon ServiceRegistryL2'' @ NLs)]) (
     jbind (manager_calls E sr g []) (\<lambda>data.
     jbind (polygon_message E g fxRoot ''bridgeMediatorAddress'' data
       ''Change manager in ServiceRegistryL2 and in ServiceRegistryTokenUtility on polygon'') details_sg))))"

definition staking_calls :: "proposal_env \<Rightarrow> string \<Rightarrow> globals \<Rightarrow> bytes script" where
  "staking_calls E sv g =
     jbind (add_call E sv ''changeStakingLimits'' (limits g) (getf g ''stakingVerifierAddress'') []) (\<lambda>data.
     add_call E sv ''setImplementationsStatuses'' (statuses g) (getf g ''stakingVerifierAddress'') data)"

definition proposal_11 :: "proposal_env \<Rightarrow> proposal script" where
  "proposal_11 E =
     jbind (polygon_start E ''globals.json'') (\<lambda>(g, fxRoot).
     jbind (contract_abi E STAKING_VERIFIER (getf g ''stakingVerifierAddress'')) (\<lambda>sv.
     jthen (print_lines [Line (''Proposal 11. Change staking limits on polygon in StakingVerifier and whitelist StakingTokenImplementation in StakingFactory'' @ NLs)]) (
     jbind (staking_calls E sv g) (\<lambda>data.
     jbind (polygon_message E g fxRoot ''fxGovernorTunnelAddress'' data
       ''Change staking limits on polygon in StakingVerifier and whitelist StakingTokenImplementation in StakingFactory'') details_pl))))"

definition proposal_22 :: "proposal_env \<Rightarrow> proposal script" where
  "proposal_22 E =
     jbind (polygon_start E POLYGON_GLOBALS) (\<lambda>(g, fxRoot).
     jbind (contract_abi E STAKING_VERIFIER (getf g ''stakingVerifierAddress'')) (\<lambda>sv.
     jbind (contract_abi E SERVICE_REGISTRY_L2 (getf g ''serviceRegistryAddress'')) (\<lambda>sr.
     jthen (print_lines [Line (''Proposal 22. Change staking limits on polygon in StakingVerifier and whitelist PolySafe creator implementation addresses in ServiceRegistryL2 on polygon'' @ NLs)]) (
     jbind (add_call E sv ''changeStakingLimits'' (limits g) (getf g ''stakingVerifierAddress'') []) (\<lambda>data0.
     jbind (permission_calls E sr g ''polySafeCreatorWithRecoveryModuleAddress'' ''polySafeSameAddressMultisigAddress'' data0) (\<lambda>data.
     jbind (polygon_message E g fxRoot ''fxGovernorTunnelAddress'' data
       ''Change staking limits on polygon in StakingVerifier and whitelist PolySafe creator implementation addresses in ServiceRegistryL2 on polygon'') details_pl))))))"

section \<open>Gnosis\<close>

definition gnosis_start :: "proposal_env \<Rightarrow> string \<Rightarrow> (globals \<times> string \<times> string) script" where
  "gnosis_start E path =
     jbind (open_globals E path) (\<lambda>g.
     jthen (show_block E (mainnet_url E) ''mainnet'') (
     jthen (show_block E ''https://rpc.gnosischain.com'' ''gnosis'') (
     jbind (contract_abi E ''abis/bridges/gnosis/EternalStorageProxy.json'' (getf g ''AMBContractProxyForeignAddress'')) (\<lambda>amb.
     jbind (contract_abi E ''abis/bridges/gnosis/HomeMediator.json'' (getf g ''bridgeMediatorAddress'')) (\<lambda>med.
     jret (g, amb, med))))))"

definition gnosis_message :: "proposal_env \<Rightarrow> globals \<Rightarrow> string \<Rightarrow> string \<Rightarrow> string \<Rightarrow> bytes \<Rightarrow> string \<Rightarrow> proposal script" where
  "gnosis_message E g amb med title data desc =
     jthen (print_lines [Line (title @ NLs)]) (
     jbind (encode E med ''processMessageFromForeign'' [Bytes data]) (\<lambda>mediatorPayload.
     jthen (print_lines [Item (''AMBContractProxyHomeAddress to call homeMediator'' @ [CHR 0x27] @ ''s processMessageFromForeign function with the data:'') (Bytes data)]) (
     jbind (encode E amb ''requireToPassMessage'' [field g ''bridgeMediatorAddress'', Bytes mediatorPayload, Val (JStr ''2000000'')]) (\<lambda>timelockPayload.
     jret (one_call (getf g ''AMBContractProxyForeignAddress'') (JNum 0) timelockPayload desc)))))"

definition GNOSIS_GLOBALS :: string where
  "GNOSIS_GLOBALS = ''scripts/deployment/l2/globals_gnosis_mainnet.json''"

definition proposal_02 :: "proposal_env \<Rightarrow> proposal script" where
  "proposal_02 E =
     jbind (gnosis_start E ''globals.json'') (\<lambda>(g, amb, med).
     jbind (contract_abi E SERVICE_REGISTRY_L2 (getf g ''serviceRegistryAddress'')) (\<lambda>sr.
     jbind (add_call E sr ''changeDrainer'' [field g ''bridgeMediatorAddress''] (getf g ''serviceRegistryAddress'') []) (\<lambda>data.
     jbind (gnosis_message E g amb med ''Proposal 2. Change drainer for gnosis ServiceRegistryL2'' data
       ''Change Drainer in ServiceRegistryL2 on gnosis'') details_pl)))"

definition proposal_04 :: "proposal_env \<Rightarrow> proposal script" where
  "proposal_04 E =
     jbind (gnosis_start E GNOSIS_GLOBALS) (\<lambda>(g, amb, med).
     jbind (contract_abi E SERVICE_REGISTRY_L2 (getf g ''serviceRegistryAddress'')) (\<lambda>sr.
     jbind (manager_calls E sr g []) (\<lambda>data.
     jbind (gnosis_message E g amb med ''Proposal 4. Change manager for gnosis ServiceRegistryL2 and ServiceRegistryTokenUtility'' data
       ''Change Manager in ServiceRegistryL2 and in ServiceRegistryTokenUtility on gnosis'') details_sg)))"

definition proposal_05 :: "proposal_env \<Rightarrow> proposal script" where
  "proposal_05 E =
     jbind (gnosis_start E GNOSIS_GLOBALS) (\<lambda>(g, amb, med).
     jbind (contract_abi E SERVICE_REGISTRY_L2 (getf g ''serviceRegistryAddress'')) (\<lambda>sr.
     jbind (permission_calls E sr g ''recoveryModuleAddress'' ''safeMultisigWithRecoveryModuleAddress'' []) (\<lambda>data.
     jbind (gnosis_message E g amb med ''Proposal 5. Change multisig implementation statuses in ServiceRegistryL2 on gnosis'' data
       ''Change GnosisSafeSameAddressMultisig implementation addresses in ServiceRegistryL2 on gnosis'') details_pl)))"

definition proposal_09 :: "proposal_env \<Rightarrow> proposal script" where
  "proposal_09 E =
     jbind (gnosis_start E ''globals.json'') (\<lambda>(g, amb, med).
     jbind (contract_abi E STAKING_VERIFIER (getf g ''stakingVerifierAddress'')) (\<lambda>sv.
     jbind (add_call E sv ''changeStakingLimits'' (limits g) (getf g ''stakingVerifierAddress'') []) (\<lambda>data.
     jbind (gnosis_message E g amb med ''Proposal 9. Change staking limits for gnosis StakingVerifier'' data
       ''Change Manager in StakingVerifier on gnosis'') details_pl)))"

definition proposal_10 :: "proposal_env \<Rightarrow> proposal script" where
  "proposal_10 E =
     jbind (gnosis_start E ''globals.json'') (\<lambda>(g, amb, med).
     jbind (contract_abi E STAKING_VERIFIER (getf g ''stakingVerifierAddress'')) (\<lambda>sv.
     jbind (add_call E sv ''setImplementationsStatuses'' (statuses g) (getf g ''stakingVerifierAddress'') []) (\<lambda>data.
     jbind (gnosis_message E g amb med ''Proposal 10. Whitelist StakingTokenImplementation in StakingFactory on gnosis'' data
       ''Whitelist StakingTokenImplementation in StakingFactory on gnosis'') details_pl)))"

section \<open>Optimism and the chains like it\<close>

definition messenger_contracts :: "proposal_env \<Rightarrow> globals \<Rightarrow> (string \<times> string) script" where
  "messenger_contracts E g =
     jbind (contract_abi E ''abis/bridges/optimism/L1CrossDomainMessenger.json'' (getf g ''L1CrossDomainMessengerProxyAddress'')) (\<lambda>cdm.
     jbind (contract_abi E ''abis/bridges/optimism/OptimismMessenger.json'' (getf g ''bridgeMediatorAddress'')) (\<lambda>msg.
     jret (cdm, msg)))"

definition optimism_start :: "proposal_env \<Rightarrow> string \<Rightarrow> string \<Rightarrow> (globals \<times> string \<times> string) script" where
  "optimism_start E path label =
     jbind (open_globals E path) (\<lambda>g.
     jthen (show_block E (mainnet_url E) ''mainnet'') (
     jthen (show_block E (provider_url (getf g ''networkURL'')) label) (
     jbind (messenger_contracts E g) (\<lambda>(cdm, msg). jret (g, cdm, msg)))))"

definition optimism_message :: "proposal_env \<Rightarrow> globals \<Rightarrow> string \<Rightarrow> string \<Rightarrow> string \<Rightarrow> bytes \<Rightarrow> bytes script" where
  "optimism_message E g cdm msg title data =
     jthen (print_lines [Line title]) (
     jbind (encode E msg ''processMessageFromSource'' [Bytes data]) (\<lambda>messengerPayload.
     encode E cdm ''sendMessage'' [field g ''bridgeMediatorAddress'', Bytes messengerPayload, Val (JStr ''2000000'')]))"

text \<open>The calls of scripts 12 and 13: staking limits and implementations, then the old multisig out and the new one in.\<close>

definition staking_and_multisig_calls :: "proposal_env \<Rightarrow> string \<Rightarrow> string \<Rightarrow> globals \<Rightarrow> address \<Rightarrow> bytes script" where
  "staking_and_multisig_calls E sv sr g old =
     jbind (staking_calls E sv g) (\<lambda>d1.
     jbind (add_call E sr ''changeMultisigPermission'' [Val (JAddr old), Val (JBool False)] (getf g ''serviceRegistryAddress'') d1) (\<lambda>d2.
     add_call E sr ''changeMultisigPermission'' [field g ''gnosisSafeMultisigImplementationAddress'', Val (JBool True)]
       (getf g ''serviceRegistryAddress'') d2))"

definition proposal_12 :: "proposal_env \<Rightarrow> proposal script" where
  "proposal_12 E =
     jbind (optimism_start E ''globals.json'' ''optimism'') (\<lambda>(g, cdm, msg).
     jbind (contract_abi E STAKING_VERIFIER (getf g ''stakingVerifierAddress'')) (\<lambda>sv.
     jbind (contract_abi E SERVICE_REGISTRY_L2 (getf g ''serviceRegistryAddress'')) (\<lambda>sr.
     jbind (staking_and_multisig_calls E sv sr g 0xE43d4F4103b623B61E095E8bEA34e1bc8979e168) (\<lambda>data.
     jbind (optimism_message E g cdm msg
       (''Proposal 12. Change staking limits on optimism in StakingVerifier and whitelist StakingTokenImplementation in StakingFactory'' @ NLs) data) (\<lambda>timelockPayload.
     details_pl (one_call (getf g ''L1CrossDomainMessengerProxyAddress'') (JNum 0) timelockPayload
       ''Change staking limits on optimism in StakingVerifier and whitelist StakingTokenImplementation in StakingFactory''))))))"

definition proposal_17 :: "proposal_env \<Rightarrow> proposal script" where
  "proposal_17 E =
     jbind (optimism_start E ''scripts/deployment/l2/globals_mode_mainnet.json'' ''optimism'') (\<lambda>(g, cdm, msg).
     jbind (contract_abi E SERVICE_REGISTRY_L2 (getf g ''serviceRegistryAddress'')) (\<lambda>sr.
     jbind (permission_calls E sr g ''recoveryModuleAddress'' ''safeMultisigWithRecoveryModuleAddress'' []) (\<lambda>data.
     jbind (optimism_message E g cdm msg
       (''Proposal 17. Change multisig implementation statuses in ServiceRegistryL2 on Optimism / Base / Mode / Celo'' @ NLs) data) (\<lambda>timelockPayload.
     details_pl (one_call (getf g ''L1CrossDomainMessengerProxyAddress'') (JNum 0) timelockPayload
       ''Change multisig implementation statuses in ServiceRegistryL2'')))))"

record chain_calldata =
  l2Label :: string
  targetL1 :: json
  valueL1 :: json
  callDataL1 :: bytes
  descriptionPart :: string

definition buildCalldataForChain :: "proposal_env \<Rightarrow> string \<Rightarrow> string \<Rightarrow> chain_calldata script" where
  "buildCalldataForChain E globalsFile label =
     jbind (open_globals E globalsFile) (\<lambda>g.
     jthen (show_block E (provider_url (getf g ''networkURL'')) label) (
     jbind (messenger_contracts E g) (\<lambda>(cdm, msg).
     jbind (contract_abi E SERVICE_REGISTRY_L2 (getf g ''serviceRegistryAddress'')) (\<lambda>sr.
     jbind (manager_calls E sr g []) (\<lambda>data.
     jbind (optimism_message E g cdm msg
       (''Proposal 19. Change manager in ServiceRegistryL2 and ServiceRegistryTokenUtility on Optimism / Base / Mode / Celo'' @ NLs) data) (\<lambda>timelockPayload.
     jret \<lparr>l2Label = label, targetL1 = getf g ''L1CrossDomainMessengerProxyAddress'', valueL1 = JNum 0,
       callDataL1 = timelockPayload,
       descriptionPart = ''Change manager in ServiceRegistryL2 and in ServiceRegistryTokenUtility on '' @ label\<rparr>))))))"

definition proposal_19 :: "proposal_env \<Rightarrow> proposal script" where
  "proposal_19 E =
     jthen (show_block E (mainnet_url E) ''mainnet'') (
     jbind (buildCalldataForChain E ''scripts/deployment/l2/globals_optimism_mainnet.json'' ''Optimism'') (\<lambda>op.
     jbind (buildCalldataForChain E ''scripts/deployment/l2/globals_base_mainnet.json'' ''Base'') (\<lambda>base.
     jbind (buildCalldataForChain E ''scripts/deployment/l2/globals_mode_mainnet.json'' ''Mode'') (\<lambda>mode.
     let entries = [op, base, mode] in
     jthen (print_lines (map (\<lambda>e. Items (''Proposal. '' @ descriptionPart e) [Val (targetL1 e), Val (valueL1 e), Bytes (callDataL1 e)]) entries)) (
     jthen (print_lines [Line (NLs @ ''=== Aggregated Proposal ==='')]) (
     details_pl \<lparr>p_targets = map targetL1 entries, p_values = map valueL1 entries, p_callDatas = map callDataL1 entries,
       p_description = ''Change manager in ServiceRegistryL2 and in ServiceRegistryTokenUtility on Optimism / Base / Mode / Celo''\<rparr>))))))"

definition proposal_23 :: "proposal_env \<Rightarrow> proposal script" where
  "proposal_23 E =
     jbind (optimism_start E ''scripts/deployment/l2/globals_celo_mainnet.json'' ''celo'') (\<lambda>(g, cdm, msg).
     jbind (contract_abi E SERVICE_REGISTRY_L2 (getf g ''serviceRegistryAddress'')) (\<lambda>sr.
     jbind (contract_abi E STAKING_VERIFIER (getf g ''stakingVerifierAddress'')) (\<lambda>sv.
     jbind (contract_abi E STAKING_FACTORY (getf g ''stakingFactoryAddress'')) (\<lambda>sf.
     jbind (permission_calls E sr g ''recoveryModuleAddress'' ''safeMultisigWithRecoveryModuleAddress'' []) (\<lambda>d1.
     jbind (manager_calls E sr g d1) (\<lambda>d2.
     jbind (add_call E sf ''changeVerifier'' [field g ''stakingVerifierAddress''] (getf g ''stakingFactoryAddress'') d2) (\<lambda>d3.
     jbind (add_call E sv ''setImplementationsStatuses'' (statuses g) (getf g ''stakingVerifierAddress'') d3) (\<lambda>data.
     jthen (print_lines [Item (NLs @ ''Raw data:'') (Bytes data)]) (
     jbind (optimism_message E g cdm msg (NLs @ ''Proposal 23. Protocol alignment on Celo'') data) (\<lambda>timelockPayload.
     details_pl (one_call (getf g ''L1CrossDomainMessengerProxyAddress'') (JNum 0) timelockPayload ''Protocol alignment on Celo'')))))))))))"

section \<open>Celo over the wormhole relayer\<close>

definition WORMHOLE_RELAYER :: string where
  "WORMHOLE_RELAYER = ''abis/bridges/wormhole/WormholeRelayer.json''"

definition wormhole_message :: "proposal_env \<Rightarrow> string \<Rightarrow> json \<Rightarrow> json \<Rightarrow> json \<Rightarrow> bytes \<Rightarrow> bytes script" where
  "wormhole_message E relayer messenger refund gas data =
     encode E relayer ''0x4b5ca6f4'' [Val (JNum 14), Val messenger, Bytes data, Val (JNum 0), Val gas, Val (JNum 14), Val refund]"

definition proposal_13 :: "proposal_env \<Rightarrow> proposal script" where
  "proposal_13 E =
     jbind (open_globals E ''globals.json'') (\<lambda>g.
     jthen (show_block E (mainnet_url E) ''mainnet'') (
     jthen (show_block E ''https://forno.celo.org'' ''celo'') (
     jbind (contract_abi E WORMHOLE_RELAYER (getf g ''wormholeL1MessageRelayerAddress'')) (\<lambda>relayer.
     jbind (contract_abi E STAKING_VERIFIER (getf g ''stakingVerifierAddress'')) (\<lambda>sv.
     jbind (contract_abi E SERVICE_REGISTRY_L2 (getf g ''serviceRegistryAddress'')) (\<lambda>sr.
     jbind (staking_and_multisig_calls E sv sr g 0x63e66d7ad413C01A7b49C7FF4e3Bb765C4E4bd1b) (\<lambda>data.
     jbind (answer ''call reverted'' (quoteEVMDeliveryPrice E 14 0 2000000)) (\<lambda>transferCostFinal.
     jthen (print_lines [Line (''Proposal 13. Change staking limits on celo in StakingVerifier and whitelist StakingTokenImplementation in StakingFactory'' @ NLs)]) (
     jbind (wormhole_message E relayer (getf g ''wormholeMessengerAddress'') (getf g ''wormholeMessengerAddress'') (JStr ''2000000'') data) (\<lambda>timelockPayload.
     details_pl (one_call (getf g ''wormholeL1MessageRelayerAddress'') (JStr (nat_str transferCostFinal)) timelockPayload
       ''Change staking limits on celo in StakingVerifier and whitelist StakingTokenImplementation in StakingFactory'')))))))))))"

text \<open>Script 16 prints three transactions instead of a proposal: it returns what it schedules.\<close>

definition owner_targets :: "globals \<Rightarrow> json list" where
  "owner_targets g = map (getf g) [''serviceRegistryAddress'', ''serviceRegistryTokenUtilityAddress'', ''serviceManagerAddress'',
     ''stakingVerifierAddress'', ''stakingFactoryAddress''] @ [JAddr 0xb4096d181C08DDF75f1A63918cCa0d1023C4e6C7]"

definition HashZero :: json where
  "HashZero = JStr (''0x'' @ replicate 64 (CHR ''0''))"

definition signer_line :: "proposal_env \<Rightarrow> unit script" where
  "signer_line E = jbind (answer ''TypeError: undefined'' (first_signer E)) (\<lambda>a. print_lines [Item ''EOA is:'' (Val (JAddr a))])"

definition proposal_16 :: "proposal_env \<Rightarrow> proposal script" where
  "proposal_16 E =
     jbind (open_globals E ''scripts/deployment/l2/globals_celo_mainnet.json'') (\<lambda>g.
     jthen (signer_line E) (
     jbind (contract_abi E WORMHOLE_RELAYER (getf g ''wormholeL1MessageRelayerAddress'')) (\<lambda>relayer.
     jbind (contract_abi E ''abis/governance/Timelock.json'' (getf g ''timelockAddress'')) (\<lambda>timelock.
     jbind (answer ''call reverted'' (quoteEVMDeliveryPrice E 14 0 2000000)) (\<lambda>quote.
     jbind (contract_abi E ''ServiceRegistryL2'' (JAddr 0x48b6af7B12C71f09e2fC8aF4855De4Ff54e775cA)) (\<lambda>sr.
     jbind (encode E sr ''changeOwner'' [field g ''optimismMessengerAddress'']) (\<lambda>payload.
     jbind (pack_loop E (map (\<lambda>t. (t, payload)) (owner_targets g)) []) (\<lambda>data.
     jthen (print_lines [Item ''Data:'' (Bytes data), Line ''Change contract owners on Celo'']) (
     jbind (wormhole_message E relayer (getf g ''wormholeMessengerAddress'') (getf g ''optimismMessengerAddress'') (JNum 2000000) data) (\<lambda>timelockPayload.
     let whValue = JStr (nat_str quote); to = getf g ''wormholeL1MessageRelayerAddress'' in
     jbind (encode E timelock ''schedule'' [Val to, Val whValue, Bytes timelockPayload, Val HashZero, Val HashZero, Val (JNum 0)]) (\<lambda>schedulePayload.
     jbind (encode E timelock ''execute'' [Val to, Val whValue, Bytes timelockPayload, Val HashZero, Val HashZero]) (\<lambda>executePayload.
     jthen (print_lines [Line (NLs @ ''TX1''), Item ''to:'' (field g ''timelockAddress''), Item ''value:'' (Val (JNum 0)),
       Item ''Schedule payload:'' (Bytes schedulePayload), Line (NLs @ ''TX2''), Item ''to:'' (field g ''timelockAddress''),
       Item ''value:'' (Val whValue), Item ''Execute payload:'' (Bytes executePayload)]) (
     jbind (contract_abi E ''GnosisSafe'' (JAddr 0x04C06323Fe3D53Deb7364c0055E1F68458Cc2570)) (\<lambda>safe.
     jbind (encode E safe ''setGuard'' [Val (JAddr 0x7bB7998b210cFfE10ca1e41f16341Abe53f76f3a)]) (\<lambda>msPayload.
     jthen (print_lines [Item [] (Bytes msPayload), Line (NLs @ ''TX3''), Item ''to:'' (Val (JAddr 0x04C06323Fe3D53Deb7364c0055E1F68458Cc2570)),
       Item ''value:'' (Val (JNum 0)), Item ''Current guard set payload:'' (Bytes msPayload)]) (
     jret (one_call to whValue timelockPayload [])))))))))))))))))"

section \<open>Arbitrum\<close>

definition RetryablesGasOverrides :: gas_overrides where
  "RetryablesGasOverrides = \<lparr>min_gasLimit = 2000000, gasLimit_percentIncrease = 30, maxSubmissionFee_percentIncrease = 1000,
     maxFeePerGas_percentIncrease = 1000\<rparr>"

definition ARBITRUM_URL :: string where
  "ARBITRUM_URL = ''https://arb1.arbitrum.io/rpc''"

definition estimate :: "proposal_env \<Rightarrow> globals \<Rightarrow> json \<Rightarrow> bytes \<Rightarrow> gas_params script" where
  "estimate E g to calldata =
     jbind (answer ''call failed'' (baseFee E (mainnet_url E))) (\<lambda>fee.
     answer ''estimation failed'' (estimateAll E (getf g ''timelockAddress'') to 0 (getf g ''bridgeMediatorAddress'')
       (JAddr 0) calldata fee RetryablesGasOverrides))"

definition ticket :: "proposal_env \<Rightarrow> globals \<Rightarrow> json \<Rightarrow> gas_params \<Rightarrow> nat \<Rightarrow> bytes \<Rightarrow> bytes script" where
  "ticket E g to params gasPriceBid calldata =
     encode E ''function createRetryableTicket'' ''createRetryableTicket'' [Val to, Val (JNum 0), Val (JNum (maxSubmissionCost params)),
       field g ''bridgeMediatorAddress'', Val (JAddr 0), Val (JNum (gasLimit params)), Val (JNum gasPriceBid), Bytes calldata]"

definition arbitrum_start :: "proposal_env \<Rightarrow> string \<Rightarrow> string \<Rightarrow> string \<Rightarrow> (globals \<times> string \<times> json) script" where
  "arbitrum_start E abi_path k title =
     jbind (open_globals E ''scripts/deployment/l2/globals_arbitrum_mainnet.json'') (\<lambda>g.
     jthen (show_block E (mainnet_url E) ''mainnet'') (
     jthen (show_block E ARBITRUM_URL ''arbitrum'') (
     jbind (contract_abi E abi_path (getf g k)) (\<lambda>c.
     jbind (answer ''unknown network'' (l2_inbox E ARBITRUM_URL)) (\<lambda>inbox.
     jthen (print_lines [Line (title @ NLs)]) (jret (g, c, inbox)))))))"

text \<open>
  The two tickets: both carry the submission cost and the gas limit estimated for the first one, while the values sent with
  them are ten times the two estimated deposits.
\<close>

definition first_ticket :: "proposal_env \<Rightarrow> globals \<Rightarrow> json \<Rightarrow> bytes \<Rightarrow> (gas_params \<times> nat \<times> bytes) script" where
  "first_ticket E g to calldata =
     jbind (estimate E g to calldata) (\<lambda>params.
     jbind (answer ''call failed'' (gasPrice E ARBITRUM_URL)) (\<lambda>gasPriceBid.
     jthen (print_lines [Item ''L2 gas price:'' (Val (JStr (nat_str gasPriceBid)))]) (
     jbind (ticket E g to params gasPriceBid calldata) (\<lambda>timelockCalldata.
     jret (params, gasPriceBid, timelockCalldata)))))"

definition second_ticket :: "proposal_env \<Rightarrow> globals \<Rightarrow> json \<Rightarrow> gas_params \<Rightarrow> nat \<Rightarrow> bytes \<Rightarrow> (gas_params \<times> bytes) script" where
  "second_ticket E g to params gasPriceBid calldata2 =
     jbind (estimate E g to calldata2) (\<lambda>params2.
     jbind (ticket E g to params gasPriceBid calldata2) (\<lambda>timelockCalldata2.
     jret (params2, timelockCalldata2)))"

definition two_tickets :: "json \<Rightarrow> gas_params \<Rightarrow> gas_params \<Rightarrow> bytes \<Rightarrow> bytes \<Rightarrow> string \<Rightarrow> proposal" where
  "two_tickets inbox params params2 c1 c2 desc =
     \<lparr>p_targets = [inbox, inbox], p_values = [JNum (deposit params * 10), JNum (deposit params2 * 10)],
      p_callDatas = [c1, c2], p_description = desc\<rparr>"

definition proposal_15 :: "proposal_env \<Rightarrow> proposal script" where
  "proposal_15 E =
     jbind (arbitrum_start E STAKING_VERIFIER ''stakingVerifierAddress''
       ''Proposal 15. Change staking limits on arbitrum in StakingVerifier and whitelist StakingTokenImplementation in StakingFactory'') (\<lambda>(g, sv, inbox).
     jbind (encode E sv ''changeStakingLimits'' (limits g)) (\<lambda>calldata.
     jthen (print_lines [Item ''calldata:'' (Bytes calldata)]) (
     jbind (first_ticket E g (getf g ''stakingVerifierAddress'') calldata) (\<lambda>(params, gasPriceBid, c1).
     jbind (encode E sv ''setImplementationsStatuses'' (statuses g)) (\<lambda>calldata2.
     jbind (second_ticket E g (getf g ''stakingVerifierAddress'') params gasPriceBid calldata2) (\<lambda>(params2, c2).
     details_pl (two_tickets inbox params params2 c1 c2
       ''Change staking limits on arbitrum in StakingVerifier and whitelist StakingTokenImplementation in StakingFactory'')))))))"

definition proposal_18 :: "proposal_env \<Rightarrow> proposal script" where
  "proposal_18 E =
     jbind (arbitrum_start E SERVICE_REGISTRY_L2 ''serviceRegistryAddress''
       ''Proposal 18. Change multisig implementation statuses in ServiceRegistryL2 on Arbitrum'') (\<lambda>(g, sr, inbox).
     jbind (encode E sr ''changeMultisigPermission'' [field g ''recoveryModuleAddress'', Val (JBool True)]) (\<lambda>calldata.
     jbind (first_ticket E g (getf g ''serviceRegistryAddress'') calldata) (\<lambda>(params, gasPriceBid, c1).
     jbind (encode E sr ''changeMultisigPermission'' [field g ''safeMultisigWithRecoveryModuleAddress'', Val (JBool True)]) (\<lambda>calldata2.
     jbind (second_ticket E g (getf g ''serviceRegistryAddress'') params gasPriceBid calldata2) (\<lambda>(params2, c2).
     details_pl (two_tickets inbox params params2 c1 c2 ''Change multisig implementation statuses in ServiceRegistryL2 on arbitrum''))))))"

definition proposal_20 :: "proposal_env \<Rightarrow> proposal script" where
  "proposal_20 E =
     jbind (arbitrum_start E SERVICE_REGISTRY_L2 ''serviceRegistryAddress''
       ''Proposal 20. Change manager in ServiceRegistryL2 and ServiceRegistryTokenUtility on Arbitrum'') (\<lambda>(g, sr, inbox).
     jbind (encode E sr ''changeManager'' [field g ''serviceManagerProxyAddress'']) (\<lambda>calldata.
     jbind (first_ticket E g (getf g ''serviceRegistryAddress'') calldata) (\<lambda>(params, gasPriceBid, c1).
     jbind (second_ticket E g (getf g ''serviceRegistryTokenUtilityAddress'') params gasPriceBid calldata) (\<lambda>(params2, c2).
     details_pl (two_tickets inbox params params2 c1 c2 ''Change manager in ServiceRegistryL2 and ServiceRegistryTokenUtility on arbitrum'')))))"

section \<open>The main chain\<close>

definition mainnet_start :: "proposal_env \<Rightarrow> string \<Rightarrow> globals script" where
  "mainnet_start E path = jbind (open_globals E path) (\<lambda>g. jthen (signer_line E) (jret g))"

definition proposal_03 :: "proposal_env \<Rightarrow> proposal script" where
  "proposal_03 E =
     jbind (mainnet_start E ''globals.json'') (\<lambda>g.
     jbind (contract_abi E ''ServiceRegistry'' (getf g ''serviceRegistryAddress'')) (\<lambda>sr.
     jthen (print_lines [Line ''Proposal 3. ServiceRegistry to change drainer calling `changeDrainer(treasuryAddress)`'']) (
     jbind (encode E sr ''changeDrainer'' [field g ''treasuryAddress'']) (\<lambda>c.
     details_pl (one_call (getf g ''serviceRegistryAddress'') (JNum 0) c ''Change ServiceRegistry drainer'')))))"

definition proposal_07 :: "proposal_env \<Rightarrow> proposal script" where
  "proposal_07 E =
     jbind (mainnet_start E ''scripts/deployment/globals_mainnet.json'') (\<lambda>g.
     jbind (contract_abi E ''ServiceRegistry'' (getf g ''serviceRegistryAddress'')) (\<lambda>sr.
     jthen (print_lines [Line ''Proposal 7. Change multisig implementation statuses in ServiceRegistry'']) (
     jbind (encode E sr ''changeMultisigPermission'' [field g ''recoveryModuleAddress'', Val (JBool True)]) (\<lambda>c1.
     jbind (encode E sr ''changeMultisigPermission'' [field g ''safeMultisigWithRecoveryModuleAddress'', Val (JBool True)]) (\<lambda>c2.
     details_pl \<lparr>p_targets = [getf g ''serviceRegistryAddress'', getf g ''serviceRegistryAddress''], p_values = [JNum 0, JNum 0],
       p_callDatas = [c1, c2], p_description = ''Change GnosisSafeSameAddressMultisig implementation addresses in ServiceRegistry''\<rparr>)))))"

definition proposal_14 :: "proposal_env \<Rightarrow> proposal script" where
  "proposal_14 E =
     jbind (open_globals E ''globals.json'') (\<lambda>g.
     jthen (show_block E (mainnet_url E) ''mainnet'') (
     jbind (contract_abi E STAKING_VERIFIER (getf g ''stakingVerifierAddress'')) (\<lambda>sv.
     jthen (print_lines [Line (''Proposal 14. Change staking limits on mainnet in StakingVerifier and whitelist StakingTokenImplementation in StakingFactory'' @ NLs)]) (
     jbind (encode E sv ''changeStakingLimits'' (limits g)) (\<lambda>c1.
     jbind (encode E sv ''setImplementationsStatuses'' (statuses g)) (\<lambda>c2.
     details_pl \<lparr>p_targets = [getf g ''stakingVerifierAddress'', getf g ''stakingVerifierAddress''], p_values = [JNum 0, JNum 0],
       p_callDatas = [c1, c2],
       p_description = ''Change staking limits on mainnet in StakingVerifier and whitelist StakingTokenImplementation in StakingFactory''\<rparr>))))))"

definition proposal_21 :: "proposal_env \<Rightarrow> proposal script" where
  "proposal_21 E =
     jbind (mainnet_start E ''scripts/deployment/globals_mainnet.json'') (\<lambda>g.
     jbind (contract_abi E ''ServiceRegistry'' (getf g ''serviceRegistryAddress'')) (\<lambda>sr.
     jbind (contract_abi E ''ServiceRegistryTokenUtility'' (getf g ''serviceRegistryTokenUtilityAddress'')) (\<lambda>tu.
     jthen (print_lines [Line ''Proposal 21. Change manager in ServiceRegistry and in serviceRegistryTokenUtility'']) (
     jbind (encode E sr ''changeManager'' [field g ''serviceManagerProxyAddress'']) (\<lambda>c1.
     jbind (encode E tu ''changeManager'' [field g ''serviceManagerProxyAddress'']) (\<lambda>c2.
     details ''targets:'' ''value:'' ''call data:''
       \<lparr>p_targets = [getf g ''serviceRegistryAddress'', getf g ''serviceRegistryTokenUtilityAddress''], p_values = [JNum 0, JNum 0],
        p_callDatas = [c1, c2], p_description = ''Change manager in ServiceRegistry and in serviceRegistryTokenUtility''\<rparr>))))))"

section \<open>Exit codes\<close>

definition proposal_main :: "proposal script \<Rightarrow> nat \<times> shown list" where
  "proposal_main m = (case m [] of (Inr _, s) \<Rightarrow> (0, s) | (Inl e, s) \<Rightarrow> (1, s @ [Line e]))"

end
