(* ===== verification/Proposal_Messages.thy ===== *)
theory Proposal_Messages
  imports Proposals
begin

text \<open>
  The messages the proposals send over the bridges. The mediator contract on the other chain reads a message as a
  sequence of calls: 20 bytes of target, 12 bytes of value, 4 bytes of payload length, and the payload. Reading a message
  gives back exactly the calls the script means to make.
\<close>

section \<open>Big-endian numbers\<close>

fun be :: "nat \<Rightarrow> nat \<Rightarrow> bytes" where
  "be 0 v = []"
| "be (Suc n) v = of_nat (v div 256 ^ n) # be n (v mod 256 ^ n)"

definition unbe :: "bytes \<Rightarrow> nat" where
  "unbe bs = foldl (\<lambda>a b. a * 256 + unat b) 0 bs"

lemma length_be [simp]: "length (be n v) = n"
  by (induction n arbitrary: v) auto

lemma be_eq_Nil [simp]: "be n v = [] \<longleftrightarrow> n = 0"
  by (cases n) auto

lemma foldl_unbe: "foldl (\<lambda>a b. a * 256 + unat (b :: 8 word)) k bs = k * 256 ^ length bs + unbe bs"
proof (induction bs arbitrary: k)
  case (Cons b bs)
  have "unbe (b # bs) = unat b * 256 ^ length bs + unbe bs"
    using Cons [of "unat b"] by (simp add: unbe_def)
  with Cons [of "k * 256 + unat b"] show ?case by (simp add: algebra_simps)
qed (simp add: unbe_def)

lemma unbe_Cons: "unbe (b # bs) = unat b * 256 ^ length bs + unbe bs"
  using foldl_unbe [of "unat b" bs] by (simp add: unbe_def)

lemma unbe_be: "v < 256 ^ n \<Longrightarrow> unbe (be n v) = v"
proof (induction n arbitrary: v)
  case (Suc n)
  then have "v div 256 ^ n < 256" by (simp add: less_mult_imp_div_less mult.commute)
  then have "unat (of_nat (v div 256 ^ n) :: 8 word) = v div 256 ^ n" by (simp add: unat_of_nat)
  with Suc.IH [of "v mod 256 ^ n"] show ?case by (simp add: unbe_Cons div_mult_mod_eq)
qed (simp add: unbe_def)

section \<open>The reader\<close>

text \<open>Payload lengths come from the message; a message that ends too early is refused.\<close>

function read_message :: "bytes \<Rightarrow> (address \<times> nat \<times> bytes) list option" where
  "read_message bs =
     (if bs = [] then Some []
      else if length bs < 36 then None
      else let n = unbe (take 4 (drop 32 bs)); rest = drop 36 bs in
        if length rest < n then None
        else map_option ((#) (of_nat (unbe (take 20 bs)), unbe (take 12 (drop 20 bs)), take n rest)) (read_message (drop n rest)))"
  by pat_completeness auto
termination by (relation "measure length") auto

declare read_message.simps [simp del]

definition entry :: "address \<times> nat \<times> bytes \<Rightarrow> bytes" where
  "entry = (\<lambda>(a, v, p). be 20 (unat a) @ be 12 v @ be 4 (length p) @ p)"

definition fits :: "address \<times> nat \<times> bytes \<Rightarrow> bool" where
  "fits = (\<lambda>(a, v, p). v < 2 ^ 96 \<and> length p < 2 ^ 32)"

lemma read_message_Nil [simp]: "read_message [] = Some []"
  by (simp add: read_message.simps)

lemma read_message_entry:
  assumes "fits c"
  shows "read_message (entry c @ bs) = map_option ((#) c) (read_message bs)"
proof -
  obtain a v p where c: "c = (a, v, p)" by (cases c)
  have "unbe (be 20 (unat a)) = unat a"
    using unsigned_less [of a, where 'a = nat] by (intro unbe_be) simp
  moreover have "unbe (be 12 v) = v" "unbe (be 4 (length p)) = length p"
    using assms by (auto simp: fits_def c intro!: unbe_be)
  ultimately show ?thesis
    by (subst read_message.simps) (simp add: c entry_def Let_def)
qed

lemma read_message_entries: "list_all fits cs \<Longrightarrow> read_message (concat (map entry cs)) = Some cs"
  by (induction cs) (simp_all add: read_message_entry)


section \<open>Packing\<close>

text \<open>
  What the library documents of its packer for an address, a 96-bit number, a 32-bit number and bytes: when it succeeds
  the length fits in 32 bits and the result is the bytes in this order; a checksummed address is that address.
\<close>

definition packs :: "proposal_env \<Rightarrow> bool" where
  "packs E \<longleftrightarrow> (\<forall>t n p b. solidityPack E t 0 n p = Some b \<longrightarrow>
     n < 2 ^ 32 \<and> (\<exists>a. b = be 20 (unat a) @ be 12 0 @ be 4 n @ p \<and> (\<forall>a'. t = JAddr a' \<longrightarrow> a = a')))"

text \<open>A call to be made: the target, the interface, the function and its arguments; and a message that delivers such calls.\<close>

type_synonym l2_call = "json \<times> string \<times> string \<times> arg list"

definition makes :: "proposal_env \<Rightarrow> l2_call \<Rightarrow> address \<times> nat \<times> bytes \<Rightarrow> bool" where
  "makes E = (\<lambda>(t, i, fn, args) (a, v, p).
     v = 0 \<and> encodeFunctionData E i fn args = Some p \<and> (\<forall>a'. t = JAddr a' \<longrightarrow> a = a'))"

definition delivers_calls :: "proposal_env \<Rightarrow> bytes \<Rightarrow> l2_call list \<Rightarrow> bool" where
  "delivers_calls E data cs \<longleftrightarrow> (\<exists>ms. data = concat (map entry ms) \<and> list_all fits ms \<and> list_all2 (makes E) cs ms)"

lemma delivers_calls_Nil: "delivers_calls E [] []"
  by (auto simp: delivers_calls_def)

lemma delivers_calls_read: "delivers_calls E data cs \<Longrightarrow> \<exists>ms. read_message data = Some ms \<and> list_all2 (makes E) cs ms"
  by (auto simp: delivers_calls_def read_message_entries)

lemma answer_Inr [simp]: "answer e v s = (Inr x, s') \<longleftrightarrow> v = Some x \<and> s' = s"
  by (auto simp: answer_def split: option.splits)

lemma encode_Inr [simp]: "encode E i fn args s = (Inr b, s') \<longleftrightarrow> encodeFunctionData E i fn args = Some b \<and> s' = s"
  by (simp add: encode_def)

lemma pack_call_Inr:
  assumes "pack_call E t p s = (Inr b, s')" and "packs E"
  obtains a where "b = entry (a, 0, p)" and "fits (a, 0, p)" and "\<forall>a'. t = JAddr a' \<longrightarrow> a = a'" and "s' = s"
  using assms by (force simp: pack_call_def packs_def entry_def fits_def)

lemma delivers_calls_snoc:
  assumes "delivers_calls E data cs" and "pack_call E t p s = (Inr b, s')" and "packs E" and "encodeFunctionData E i fn args = Some p"
  shows "delivers_calls E (data @ b) (cs @ [(t, i, fn, args)])" and "s' = s"
proof -
  obtain a where b: "b = entry (a, 0, p)" "fits (a, 0, p)" "\<forall>a'. t = JAddr a' \<longrightarrow> a = a'" "s' = s"
    by (rule pack_call_Inr [OF assms(2,3)])
  obtain ms where "data = concat (map entry ms)" "list_all fits ms" "list_all2 (makes E) cs ms"
    using assms(1) by (auto simp: delivers_calls_def)
  with b assms(4) show "delivers_calls E (data @ b) (cs @ [(t, i, fn, args)])"
    unfolding delivers_calls_def by (intro exI [of _ "ms @ [(a, 0, p)]"]) (auto simp: makes_def list_all2_appendI)
  show "s' = s" by (rule b(4))
qed

lemma add_call_delivers:
  assumes "add_call E i fn args t data s = (Inr data', s')" and "packs E" and "delivers_calls E data cs"
  shows "delivers_calls E data' (cs @ [(t, i, fn, args)])" and "s' = s"
  using assms by (auto simp: add_call_def dest: delivers_calls_snoc)

lemma pack_loop_delivers:
  assumes "pack_loop E tps data s = (Inr data', s')" and "packs E" and "delivers_calls E data cs"
    and "list_all2 (\<lambda>(t, i, fn, args) (t', p). t' = t \<and> encodeFunctionData E i fn args = Some p) cs' tps"
  shows "delivers_calls E data' (cs @ cs') \<and> s' = s"
  using assms(1,3,4)
proof (induction tps arbitrary: data cs cs' s)
  case (Cons tp tps)
  obtain t p where tp: "tp = (t, p)" by (cases tp)
  obtain i fn args cs'' where cs': "cs' = (t, i, fn, args) # cs''" "encodeFunctionData E i fn args = Some p"
    "list_all2 (\<lambda>(t, i, fn, args) (t', p). t' = t \<and> encodeFunctionData E i fn args = Some p) cs'' tps"
    using Cons.prems(3) by (auto simp: tp list_all2_Cons2)
  obtain b s1 where b: "pack_call E t p s = (Inr b, s1)" "pack_loop E tps (data @ b) s1 = (Inr data', s')"
    using Cons.prems(1) by (auto simp: tp)
  note d = delivers_calls_snoc [OF Cons.prems(2) b(1) assms(2) cs'(2)]
  from Cons.IH [OF b(2) d(1) cs'(3)] d(2) show ?case by (simp add: cs'(1))
qed auto

definition permission_call :: "globals \<Rightarrow> json \<Rightarrow> bool \<Rightarrow> l2_call" where
  "permission_call g m b = (getf g ''serviceRegistryAddress'', SERVICE_REGISTRY_L2, ''changeMultisigPermission'', [Val m, Val (JBool b)])"

definition manager_call :: "globals \<Rightarrow> string \<Rightarrow> l2_call" where
  "manager_call g k = (getf g k, SERVICE_REGISTRY_L2, ''changeManager'', [field g ''serviceManagerProxyAddress''])"

definition limits_call :: "globals \<Rightarrow> l2_call" where
  "limits_call g = (getf g ''stakingVerifierAddress'', STAKING_VERIFIER, ''changeStakingLimits'', limits g)"

definition statuses_call :: "globals \<Rightarrow> l2_call" where
  "statuses_call g = (getf g ''stakingVerifierAddress'', STAKING_VERIFIER, ''setImplementationsStatuses'', statuses g)"

lemma permission_calls_deliver:
  assumes "permission_calls E SERVICE_REGISTRY_L2 g k1 k2 data s = (Inr data', s')" and "packs E" and "delivers_calls E data cs"
  shows "delivers_calls E data' (cs @ [permission_call g (getf g k1) True, permission_call g (getf g k2) True]) \<and> s' = s"
proof -
  obtain p1 p2 where p: "encodeFunctionData E SERVICE_REGISTRY_L2 ''changeMultisigPermission'' [field g k1, Val (JBool True)] = Some p1"
    "encodeFunctionData E SERVICE_REGISTRY_L2 ''changeMultisigPermission'' [field g k2, Val (JBool True)] = Some p2"
    "pack_loop E [(getf g ''serviceRegistryAddress'', p1), (getf g ''serviceRegistryAddress'', p2)] data s = (Inr data', s')"
    using assms(1) by (auto simp: permission_calls_def simp del: pack_loop.simps)
  show ?thesis
    by (rule pack_loop_delivers [OF p(3) assms(2,3)]) (use p(1,2) in \<open>simp add: permission_call_def field_def\<close>)
qed

lemma manager_calls_deliver:
  assumes "manager_calls E SERVICE_REGISTRY_L2 g data s = (Inr data', s')" and "packs E" and "delivers_calls E data cs"
  shows "delivers_calls E data' (cs @ [manager_call g ''serviceRegistryAddress'', manager_call g ''serviceRegistryTokenUtilityAddress'']) \<and> s' = s"
proof -
  obtain p where p: "encodeFunctionData E SERVICE_REGISTRY_L2 ''changeManager'' [field g ''serviceManagerProxyAddress''] = Some p"
    "pack_loop E [(getf g ''serviceRegistryAddress'', p), (getf g ''serviceRegistryTokenUtilityAddress'', p)] data s = (Inr data', s')"
    using assms(1) by (auto simp: manager_calls_def simp del: pack_loop.simps)
  show ?thesis
    by (rule pack_loop_delivers [OF p(2) assms(2,3)]) (use p(1) in \<open>simp add: manager_call_def\<close>)
qed

lemma staking_calls_deliver:
  assumes "staking_calls E STAKING_VERIFIER g s = (Inr data', s')" and "packs E"
  shows "delivers_calls E data' [limits_call g, statuses_call g] \<and> s' = s"
proof -
  obtain d s1 where d: "add_call E STAKING_VERIFIER ''changeStakingLimits'' (limits g) (getf g ''stakingVerifierAddress'') [] s = (Inr d, s1)"
    "add_call E STAKING_VERIFIER ''setImplementationsStatuses'' (statuses g) (getf g ''stakingVerifierAddress'') d s1 = (Inr data', s')"
    using assms(1) by (auto simp: staking_calls_def)
  note d1 = add_call_delivers [OF d(1) assms(2) delivers_calls_Nil]
  from add_call_delivers [OF d(2) assms(2) d1(1)] d1(2) show ?thesis
    by (simp add: limits_call_def statuses_call_def)
qed

section \<open>Bridges\<close>

datatype bridge = FxRoot | AMB | CrossDomain | Wormhole string json

text \<open>How a message is carried: the call of the main chain that hands it to the bridge.\<close>

definition single :: "json \<Rightarrow> json \<Rightarrow> bytes \<Rightarrow> proposal \<Rightarrow> bool" where
  "single t v c p \<longleftrightarrow> p_targets p = [t] \<and> p_values p = [v] \<and> p_callDatas p = [c]"

fun carried :: "proposal_env \<Rightarrow> bridge \<Rightarrow> globals \<Rightarrow> bytes \<Rightarrow> proposal \<Rightarrow> bool" where
  "carried E FxRoot g data p \<longleftrightarrow> (\<exists>c.
     encodeFunctionData E ''abis/bridges/polygon/FxRoot.json'' ''sendMessageToChild'' [field g ''bridgeMediatorAddress'', Bytes data] = Some c
     \<and> single (getf g ''fxRootAddress'') (JNum 0) c p)"
| "carried E AMB g data p \<longleftrightarrow> (\<exists>m c.
     encodeFunctionData E ''abis/bridges/gnosis/HomeMediator.json'' ''processMessageFromForeign'' [Bytes data] = Some m
     \<and> encodeFunctionData E ''abis/bridges/gnosis/EternalStorageProxy.json'' ''requireToPassMessage''
          [field g ''bridgeMediatorAddress'', Bytes m, Val (JStr ''2000000'')] = Some c
     \<and> single (getf g ''AMBContractProxyForeignAddress'') (JNum 0) c p)"
| "carried E CrossDomain g data p \<longleftrightarrow> (\<exists>m c.
     encodeFunctionData E ''abis/bridges/optimism/OptimismMessenger.json'' ''processMessageFromSource'' [Bytes data] = Some m
     \<and> encodeFunctionData E ''abis/bridges/optimism/L1CrossDomainMessenger.json'' ''sendMessage''
          [field g ''bridgeMediatorAddress'', Bytes m, Val (JStr ''2000000'')] = Some c
     \<and> single (getf g ''L1CrossDomainMessengerProxyAddress'') (JNum 0) c p)"
| "carried E (Wormhole refund gas) g data p \<longleftrightarrow> (\<exists>q c.
     quoteEVMDeliveryPrice E 14 0 2000000 = Some q
     \<and> encodeFunctionData E WORMHOLE_RELAYER ''0x4b5ca6f4'' [Val (JNum 14), field g ''wormholeMessengerAddress'', Bytes data, Val (JNum 0),
          Val gas, Val (JNum 14), field g refund] = Some c
     \<and> single (getf g ''wormholeL1MessageRelayerAddress'') (JStr (nat_str q)) c p)"

text \<open>A script that, when it ends, has prepared a proposal whose message delivers the calls, for the globals of the file.\<close>

definition proposes :: "(proposal_env \<Rightarrow> proposal script) \<Rightarrow> string \<Rightarrow> bridge \<Rightarrow> (globals \<Rightarrow> l2_call list) \<Rightarrow> bool" where
  "proposes script path br calls \<longleftrightarrow> (\<forall>E s p s'. packs E \<longrightarrow> script E s = (Inr p, s') \<longrightarrow>
     (\<exists>g data. read_json E path = Some g \<and> delivers_calls E data (calls g) \<and> carried E br g data p))"

lemma jthen_Inr_elim [elim!]:
  assumes "jthen m k s = (Inr x, s')"
  obtains s1 where "m s = (Inr (), s1)" and "k s1 = (Inr x, s')"
  using assms by (auto simp: jthen_def)

lemma contract_abi_Inr [simp]:
  "contract_abi E path a s = (Inr c, s') \<longleftrightarrow> has_abi E path \<and> a \<notin> {JUndef, JNull} \<and> c = path \<and> s' = s"
  by (auto simp: contract_abi_def)

lemma open_globals_Inr [simp]: "open_globals E path s = (Inr g, s') \<longleftrightarrow> read_json E path = Some g \<and> s' = s"
  by (simp add: open_globals_def)

lemma details_Inr [simp]:
  "details_pl q s = (Inr p, s') \<Longrightarrow> p = q" "details_sg q s = (Inr p, s') \<Longrightarrow> p = q" "details lt lv lc q s = (Inr p, s') \<Longrightarrow> p = q"
  by (auto simp: details_pl_def details_sg_def details_def)

lemma polygon_start_Inr:
  "polygon_start E path s = (Inr (g, fx), s') \<Longrightarrow> read_json E path = Some g \<and> fx = ''abis/bridges/polygon/FxRoot.json''"
  by (auto simp: polygon_start_def)

lemma polygon_message_Inr:
  "polygon_message E g ''abis/bridges/polygon/FxRoot.json'' label data desc s = (Inr p, s') \<Longrightarrow> carried E FxRoot g data p"
  by (auto simp: polygon_message_def one_call_def single_def)

lemma gnosis_start_Inr:
  "gnosis_start E path s = (Inr (g, amb, med), s') \<Longrightarrow> read_json E path = Some g \<and> amb = ''abis/bridges/gnosis/EternalStorageProxy.json''
     \<and> med = ''abis/bridges/gnosis/HomeMediator.json''"
  by (auto simp: gnosis_start_def)

lemma gnosis_message_Inr:
  "gnosis_message E g ''abis/bridges/gnosis/EternalStorageProxy.json'' ''abis/bridges/gnosis/HomeMediator.json'' title data desc s = (Inr p, s')
   \<Longrightarrow> carried E AMB g data p"
  by (auto simp: gnosis_message_def one_call_def single_def)

lemma messenger_contracts_Inr:
  "messenger_contracts E g s = (Inr (cdm, msg), s') \<Longrightarrow> cdm = ''abis/bridges/optimism/L1CrossDomainMessenger.json''
     \<and> msg = ''abis/bridges/optimism/OptimismMessenger.json''"
  by (auto simp: messenger_contracts_def)

lemma optimism_start_Inr:
  "optimism_start E path label s = (Inr (g, cdm, msg), s') \<Longrightarrow> read_json E path = Some g
     \<and> cdm = ''abis/bridges/optimism/L1CrossDomainMessenger.json'' \<and> msg = ''abis/bridges/optimism/OptimismMessenger.json''"
  by (auto simp: optimism_start_def dest!: messenger_contracts_Inr)

lemma optimism_message_Inr:
  "optimism_message E g ''abis/bridges/optimism/L1CrossDomainMessenger.json'' ''abis/bridges/optimism/OptimismMessenger.json'' title data s = (Inr c, s')
   \<Longrightarrow> carried E CrossDomain g data (one_call (getf g ''L1CrossDomainMessengerProxyAddress'') (JNum 0) c desc)"
  by (auto simp: optimism_message_def one_call_def single_def)

end
