(* ===== verification/Proposal_Properties.thy ===== *)
theory Proposal_Properties
  imports Proposal_Messages
begin

text \<open>What the proposals of \<^verbatim>\<open>scripts/proposals\<close> put to the vote.\<close>

section \<open>Messages over the bridges\<close>

lemma call_steps_Inr:
  assumes "packs E"
  shows "add_call E i fn args t [] s = (Inr d, s') \<Longrightarrow> delivers_calls E d [(t, i, fn, args)]"
    and "permission_calls E SERVICE_REGISTRY_L2 g k1 k2 [] s = (Inr d, s') \<Longrightarrow>
      delivers_calls E d [permission_call g (getf g k1) True, permission_call g (getf g k2) True]"
    and "manager_calls E SERVICE_REGISTRY_L2 g [] s = (Inr d, s') \<Longrightarrow>
      delivers_calls E d [manager_call g ''serviceRegistryAddress'', manager_call g ''serviceRegistryTokenUtilityAddress'']"
  using add_call_delivers [OF _ assms delivers_calls_Nil] permission_calls_deliver [OF _ assms delivers_calls_Nil]
    manager_calls_deliver [OF _ assms delivers_calls_Nil] by fastforce+

definition drainer_call :: "globals \<Rightarrow> l2_call" where
  "drainer_call g = (getf g ''serviceRegistryAddress'', SERVICE_REGISTRY_L2, ''changeDrainer'', [field g ''bridgeMediatorAddress''])"

abbreviation recovery_calls :: "globals \<Rightarrow> l2_call list" where
  "recovery_calls g \<equiv> [permission_call g (getf g ''recoveryModuleAddress'') True,
     permission_call g (getf g ''safeMultisigWithRecoveryModuleAddress'') True]"

abbreviation both_managers :: "globals \<Rightarrow> l2_call list" where
  "both_managers g \<equiv> [manager_call g ''serviceRegistryAddress'', manager_call g ''serviceRegistryTokenUtilityAddress'']"

lemma proposes_01: "proposes proposal_01 ''globals.json'' FxRoot (\<lambda>g. [drainer_call g])"
  unfolding proposes_def proposal_01_def drainer_call_def
  by (fastforce dest!: polygon_start_Inr polygon_message_Inr details_Inr dest: call_steps_Inr)

lemma proposes_02: "proposes proposal_02 ''globals.json'' AMB (\<lambda>g. [drainer_call g])"
  unfolding proposes_def proposal_02_def drainer_call_def
  by (fastforce dest!: gnosis_start_Inr gnosis_message_Inr details_Inr dest: call_steps_Inr)

lemma proposes_04: "proposes proposal_04 GNOSIS_GLOBALS AMB (\<lambda>g. both_managers g)"
  unfolding proposes_def proposal_04_def
  by (fastforce dest!: gnosis_start_Inr gnosis_message_Inr details_Inr dest: call_steps_Inr)

lemma proposes_05: "proposes proposal_05 GNOSIS_GLOBALS AMB (\<lambda>g. recovery_calls g)"
  unfolding proposes_def proposal_05_def
  by (fastforce dest!: gnosis_start_Inr gnosis_message_Inr details_Inr dest: call_steps_Inr)

lemma proposes_06: "proposes proposal_06 POLYGON_GLOBALS FxRoot (\<lambda>g. recovery_calls g)"
  unfolding proposes_def proposal_06_def
  by (fastforce dest!: polygon_start_Inr polygon_message_Inr details_Inr dest: call_steps_Inr)

lemma proposes_08: "proposes proposal_08 POLYGON_GLOBALS FxRoot (\<lambda>g. both_managers g)"
  unfolding proposes_def proposal_08_def
  by (fastforce dest!: polygon_start_Inr polygon_message_Inr details_Inr dest: call_steps_Inr)

lemma proposes_09: "proposes proposal_09 ''globals.json'' AMB (\<lambda>g. [limits_call g])"
  unfolding proposes_def proposal_09_def limits_call_def
  by (fastforce dest!: gnosis_start_Inr gnosis_message_Inr details_Inr dest: call_steps_Inr)

lemma proposes_10: "proposes proposal_10 ''globals.json'' AMB (\<lambda>g. [statuses_call g])"
  unfolding proposes_def proposal_10_def statuses_call_def
  by (fastforce dest!: gnosis_start_Inr gnosis_message_Inr details_Inr dest: call_steps_Inr)

lemma proposes_11: "proposes proposal_11 ''globals.json'' FxRoot (\<lambda>g. [limits_call g, statuses_call g])"
  unfolding proposes_def proposal_11_def
  by (fastforce dest!: polygon_start_Inr polygon_message_Inr details_Inr dest: call_steps_Inr staking_calls_deliver)

lemma limits_then_permissions:
  assumes "packs E" and "add_call E STAKING_VERIFIER ''changeStakingLimits'' (limits g) (getf g ''stakingVerifierAddress'') [] s = (Inr d, s1)"
    and "permission_calls E SERVICE_REGISTRY_L2 g k1 k2 d s2 = (Inr data, s3)"
  shows "delivers_calls E data [limits_call g, permission_call g (getf g k1) True, permission_call g (getf g k2) True]"
  using permission_calls_deliver [OF assms(3,1) call_steps_Inr(1) [OF assms(1,2)]] by (simp add: limits_call_def)

lemma proposes_22:
  "proposes proposal_22 POLYGON_GLOBALS FxRoot (\<lambda>g. [limits_call g,
     permission_call g (getf g ''polySafeCreatorWithRecoveryModuleAddress'') True,
     permission_call g (getf g ''polySafeSameAddressMultisigAddress'') True])"
  unfolding proposes_def proposal_22_def
  by (clarsimp dest!: polygon_start_Inr details_Inr simp del: carried.simps)
    (blast dest: polygon_message_Inr limits_then_permissions)

lemma proposes_17:
  "proposes proposal_17 ''scripts/deployment/l2/globals_mode_mainnet.json'' CrossDomain (\<lambda>g. recovery_calls g)"
  unfolding proposes_def proposal_17_def
  by (clarsimp dest!: optimism_start_Inr details_Inr simp del: carried.simps)
    (blast dest: optimism_message_Inr call_steps_Inr)

lemma staking_and_multisig_calls_deliver:
  assumes "staking_and_multisig_calls E STAKING_VERIFIER SERVICE_REGISTRY_L2 g old s = (Inr data, s')" and "packs E"
  shows "delivers_calls E data [limits_call g, statuses_call g, permission_call g (JAddr old) False,
    permission_call g (getf g ''gnosisSafeMultisigImplementationAddress'') True]"
proof -
  obtain d1 s1 d2 s2 where d: "staking_calls E STAKING_VERIFIER g s = (Inr d1, s1)"
    "add_call E SERVICE_REGISTRY_L2 ''changeMultisigPermission'' [Val (JAddr old), Val (JBool False)] (getf g ''serviceRegistryAddress'') d1 s1 = (Inr d2, s2)"
    "add_call E SERVICE_REGISTRY_L2 ''changeMultisigPermission'' [field g ''gnosisSafeMultisigImplementationAddress'', Val (JBool True)]
       (getf g ''serviceRegistryAddress'') d2 s2 = (Inr data, s')"
    using assms(1) by (auto simp: staking_and_multisig_calls_def)
  note d1 = staking_calls_deliver [OF d(1) assms(2), THEN conjunct1]
  note d2 = add_call_delivers(1) [OF d(2) assms(2) d1]
  from add_call_delivers(1) [OF d(3) assms(2) d2] show ?thesis
    by (simp add: permission_call_def field_def)
qed

lemma proposes_12:
  "proposes proposal_12 ''globals.json'' CrossDomain (\<lambda>g. [limits_call g, statuses_call g,
     permission_call g (JAddr 0xE43d4F4103b623B61E095E8bEA34e1bc8979e168) False,
     permission_call g (getf g ''gnosisSafeMultisigImplementationAddress'') True])"
  unfolding proposes_def proposal_12_def
  by (clarsimp dest!: optimism_start_Inr details_Inr simp del: carried.simps)
    (blast dest: optimism_message_Inr staking_and_multisig_calls_deliver)

lemma proposes_13:
  "proposes proposal_13 ''globals.json'' (Wormhole ''wormholeMessengerAddress'' (JStr ''2000000'')) (\<lambda>g. [limits_call g, statuses_call g,
     permission_call g (JAddr 0x63e66d7ad413C01A7b49C7FF4e3Bb765C4E4bd1b) False,
     permission_call g (getf g ''gnosisSafeMultisigImplementationAddress'') True])"
  unfolding proposes_def proposal_13_def wormhole_message_def
  by (fastforce simp: one_call_def single_def field_def dest!: details_Inr dest: staking_and_multisig_calls_deliver)

definition verifier_call :: "globals \<Rightarrow> l2_call" where
  "verifier_call g = (getf g ''stakingFactoryAddress'', STAKING_FACTORY, ''changeVerifier'', [field g ''stakingVerifierAddress''])"

lemma alignment_calls:
  assumes "packs E" and "permission_calls E SERVICE_REGISTRY_L2 g k1 k2 [] s = (Inr d1, s1)"
    and "manager_calls E SERVICE_REGISTRY_L2 g d1 s1 = (Inr d2, s2)"
    and "add_call E STAKING_FACTORY ''changeVerifier'' [field g ''stakingVerifierAddress''] (getf g ''stakingFactoryAddress'') d2 s2 = (Inr d3, s3)"
    and "add_call E STAKING_VERIFIER ''setImplementationsStatuses'' (statuses g) (getf g ''stakingVerifierAddress'') d3 s3 = (Inr data, s4)"
  shows "delivers_calls E data ([permission_call g (getf g k1) True, permission_call g (getf g k2) True] @ both_managers g
    @ [verifier_call g, statuses_call g])"
proof -
  note d1 = call_steps_Inr(2) [OF assms(1,2)]
  note d2 = manager_calls_deliver [OF assms(3,1) d1, THEN conjunct1]
  note d3 = add_call_delivers(1) [OF assms(4,1) d2]
  from add_call_delivers(1) [OF assms(5,1) d3] show ?thesis by (simp add: verifier_call_def statuses_call_def)
qed

lemma proposes_23:
  "proposes proposal_23 ''scripts/deployment/l2/globals_celo_mainnet.json'' CrossDomain
     (\<lambda>g. recovery_calls g @ both_managers g @ [verifier_call g, statuses_call g])"
  unfolding proposes_def proposal_23_def
  by (clarsimp dest!: optimism_start_Inr details_Inr simp del: carried.simps append.simps)
    (blast dest: optimism_message_Inr alignment_calls)

definition owner_calls :: "globals \<Rightarrow> l2_call list" where
  "owner_calls g = map (\<lambda>t. (t, ''ServiceRegistryL2'', ''changeOwner'', [field g ''optimismMessengerAddress''])) (owner_targets g)"

lemma owner_calls_deliver:
  assumes "packs E" and "encodeFunctionData E ''ServiceRegistryL2'' ''changeOwner'' [field g ''optimismMessengerAddress''] = Some payload"
    and "pack_loop E (map (\<lambda>t. (t, payload)) (owner_targets g)) [] s = (Inr data, s')"
  shows "delivers_calls E data (owner_calls g)"
proof -
  have "delivers_calls E data ([] @ owner_calls g) \<and> s' = s"
    by (rule pack_loop_delivers [OF assms(3,1) delivers_calls_Nil])
      (simp add: owner_calls_def list_all2_map1 list_all2_map2 assms(2) list_all2_refl)
  then show ?thesis by simp
qed

lemma proposes_16:
  "proposes proposal_16 ''scripts/deployment/l2/globals_celo_mainnet.json'' (Wormhole ''optimismMessengerAddress'' (JNum 2000000)) owner_calls"
  unfolding proposes_def proposal_16_def wormhole_message_def
  by (clarsimp simp: Let_def one_call_def single_def field_def simp del: append.simps)
    (blast dest: owner_calls_deliver [unfolded field_def])

definition chain_entry :: "proposal_env \<Rightarrow> string \<Rightarrow> json \<Rightarrow> json \<Rightarrow> bytes \<Rightarrow> bool" where
  "chain_entry E path t v c \<longleftrightarrow> (\<exists>g data. read_json E path = Some g \<and> delivers_calls E data (both_managers g)
     \<and> carried E CrossDomain g data (one_call t v c []))"

lemma buildCalldataForChain_Inr:
  "packs E \<Longrightarrow> buildCalldataForChain E path label s = (Inr r, s') \<Longrightarrow> chain_entry E path (targetL1 r) (valueL1 r) (callDataL1 r)"
  unfolding chain_entry_def buildCalldataForChain_def
  by (clarsimp dest!: messenger_contracts_Inr simp del: carried.simps)
    (blast dest: optimism_message_Inr call_steps_Inr(3))

lemma proposal_19_Inr:
  assumes "packs E" and "proposal_19 E s = (Inr p, s')"
  shows "\<exists>t1 t2 t3 v1 v2 v3 c1 c2 c3. p_targets p = [t1, t2, t3] \<and> p_values p = [v1, v2, v3] \<and> p_callDatas p = [c1, c2, c3]
     \<and> chain_entry E ''scripts/deployment/l2/globals_optimism_mainnet.json'' t1 v1 c1
     \<and> chain_entry E ''scripts/deployment/l2/globals_base_mainnet.json'' t2 v2 c2
     \<and> chain_entry E ''scripts/deployment/l2/globals_mode_mainnet.json'' t3 v3 c3"
  using assms(2)
  by (auto simp: proposal_19_def Let_def dest!: buildCalldataForChain_Inr [OF assms(1)] details_Inr simp del: append.simps)

text \<open>A leg of a proposal: the globals file, the bridge and the calls that are to be made on the other side.\<close>

type_synonym leg = "string \<times> bridge \<times> (globals \<Rightarrow> l2_call list)"

definition bridge_scripts :: "((proposal_env \<Rightarrow> proposal script) \<times> leg list) list" where
  "bridge_scripts =
    [(proposal_01, [(''globals.json'', FxRoot, \<lambda>g. [drainer_call g])]),
     (proposal_02, [(''globals.json'', AMB, \<lambda>g. [drainer_call g])]),
     (proposal_04, [(GNOSIS_GLOBALS, AMB, \<lambda>g. both_managers g)]),
     (proposal_05, [(GNOSIS_GLOBALS, AMB, \<lambda>g. recovery_calls g)]),
     (proposal_06, [(POLYGON_GLOBALS, FxRoot, \<lambda>g. recovery_calls g)]),
     (proposal_08, [(POLYGON_GLOBALS, FxRoot, \<lambda>g. both_managers g)]),
     (proposal_09, [(''globals.json'', AMB, \<lambda>g. [limits_call g])]),
     (proposal_10, [(''globals.json'', AMB, \<lambda>g. [statuses_call g])]),
     (proposal_11, [(''globals.json'', FxRoot, \<lambda>g. [limits_call g, statuses_call g])]),
     (proposal_12, [(''globals.json'', CrossDomain, \<lambda>g. [limits_call g, statuses_call g,
        permission_call g (JAddr 0xE43d4F4103b623B61E095E8bEA34e1bc8979e168) False,
        permission_call g (getf g ''gnosisSafeMultisigImplementationAddress'') True])]),
     (proposal_13, [(''globals.json'', Wormhole ''wormholeMessengerAddress'' (JStr ''2000000''), \<lambda>g. [limits_call g, statuses_call g,
        permission_call g (JAddr 0x63e66d7ad413C01A7b49C7FF4e3Bb765C4E4bd1b) False,
        permission_call g (getf g ''gnosisSafeMultisigImplementationAddress'') True])]),
     (proposal_16, [(''scripts/deployment/l2/globals_celo_mainnet.json'', Wormhole ''optimismMessengerAddress'' (JNum 2000000), owner_calls)]),
     (proposal_17, [(''scripts/deployment/l2/globals_mode_mainnet.json'', CrossDomain, \<lambda>g. recovery_calls g)]),
     (proposal_19, map (\<lambda>path. (path, CrossDomain, \<lambda>g. both_managers g))
        [''scripts/deployment/l2/globals_optimism_mainnet.json'', ''scripts/deployment/l2/globals_base_mainnet.json'',
         ''scripts/deployment/l2/globals_mode_mainnet.json'']),
     (proposal_22, [(POLYGON_GLOBALS, FxRoot, \<lambda>g. [limits_call g,
        permission_call g (getf g ''polySafeCreatorWithRecoveryModuleAddress'') True,
        permission_call g (getf g ''polySafeSameAddressMultisigAddress'') True])]),
     (proposal_23, [(''scripts/deployment/l2/globals_celo_mainnet.json'', CrossDomain,
        \<lambda>g. recovery_calls g @ both_managers g @ [verifier_call g, statuses_call g])])]"

definition runs_leg :: "proposal_env \<Rightarrow> leg \<Rightarrow> proposal \<Rightarrow> bool" where
  "runs_leg E = (\<lambda>(path, br, calls) p. \<exists>g data ms. read_json E path = Some g \<and> carried E br g data p
     \<and> read_message data = Some ms \<and> list_all2 (makes E) (calls g) ms)"

text \<open>The calls of a proposal one by one.\<close>

definition split_calls :: "proposal \<Rightarrow> proposal list" where
  "split_calls p = map (\<lambda>(t, v, c). one_call t v c (p_description p)) (zip (p_targets p) (zip (p_values p) (p_callDatas p)))"

definition even_calls :: "proposal \<Rightarrow> bool" where
  "even_calls p \<longleftrightarrow> length (p_targets p) = length (p_values p) \<and> length (p_targets p) = length (p_callDatas p)"

lemma carried_split:
  assumes "carried E br g data p"
  shows "even_calls p" and "split_calls p = [p]"
proof -
  from assms obtain t v c where "single t v c p" by (cases br) auto
  then show "even_calls p" and "split_calls p = [p]"
    by (cases p; simp add: single_def even_calls_def split_calls_def one_call_def)+
qed

lemma carried_description: "carried E br g data (one_call t v c d) = carried E br g data (one_call t v c d')"
  by (cases br) (simp_all add: single_def one_call_def)

abbreviation legs_of :: "proposal_env \<Rightarrow> leg list \<Rightarrow> proposal \<Rightarrow> bool" where
  "legs_of E legs p \<equiv> even_calls p \<and> list_all2 (runs_leg E) legs (split_calls p)"

lemma proposes_legs:
  assumes "proposes script path br calls" and "packs E" and "script E s = (Inr p, s')"
  shows "legs_of E [(path, br, calls)] p"
proof -
  obtain g data where "read_json E path = Some g" "delivers_calls E data (calls g)" "carried E br g data p"
    using assms unfolding proposes_def by blast
  with carried_split [OF this(3)] show ?thesis
    by (auto simp: runs_leg_def simp del: carried.simps dest!: delivers_calls_read)
qed

lemma chain_entry_leg: "chain_entry E path t v c \<Longrightarrow> runs_leg E (path, CrossDomain, \<lambda>g. both_managers g) (one_call t v c d)"
  unfolding chain_entry_def runs_leg_def prod.case by (blast dest: delivers_calls_read carried_description [THEN iffD1])

lemma proposal_19_legs:
  assumes "packs E" and "proposal_19 E s = (Inr p, s')"
  shows "legs_of E (map (\<lambda>path. (path, CrossDomain, \<lambda>g. both_managers g))
    [''scripts/deployment/l2/globals_optimism_mainnet.json'', ''scripts/deployment/l2/globals_base_mainnet.json'',
     ''scripts/deployment/l2/globals_mode_mainnet.json'']) p"
  using proposal_19_Inr [OF assms]
  by (auto simp: even_calls_def split_calls_def chain_entry_leg)

lemmas proposes_table = proposes_01 proposes_02 proposes_04 proposes_05 proposes_06 proposes_08 proposes_09 proposes_10 proposes_11
  proposes_12 proposes_13 proposes_16 proposes_17 proposes_22 proposes_23

text \<open>
  C32. When a proposal script for another chain ends, each call of the proposal hands a message to the bridge of that chain; the
  mediator reads the message as exactly the intended calls, in order: their targets, the value 0 and the encoded
  payloads. The table holds sixteen scripts, with one leg per chain.
\<close>

theorem bridge_proposals_deliver:
  assumes "packs E" and "(script, legs) \<in> set bridge_scripts" and "script E s = (Inr p, s')"
  shows "even_calls p \<and> list_all2 (runs_leg E) legs (split_calls p)"
proof -
  from assms(2) consider path br calls where "legs = [(path, br, calls)]" "proposes script path br calls"
    | "script = proposal_19" "legs = map (\<lambda>path. (path, CrossDomain, \<lambda>g. both_managers g))
        [''scripts/deployment/l2/globals_optimism_mainnet.json'', ''scripts/deployment/l2/globals_base_mainnet.json'',
         ''scripts/deployment/l2/globals_mode_mainnet.json'']"
    using proposes_table unfolding bridge_scripts_def set_simps insert_iff empty_iff prod.inject by blast
  then show ?thesis
  proof cases
    case 1
    from proposes_legs [OF 1(2) assms(1), OF assms(3)] show ?thesis by (simp only: 1(1))
  next
    case 2
    from proposal_19_legs [OF assms(1), of s p s'] assms(3) show ?thesis by (simp only: 2)
  qed
qed

text \<open>A run of script 01 with concrete files and encoders.\<close>

definition vote_globals :: globals where
  "vote_globals = [(''fxRootAddress'', JAddr 1), (''bridgeMediatorAddress'', JAddr 2), (''serviceRegistryAddress'', JAddr 3),
     (''serviceRegistryTokenUtilityAddress'', JAddr 5), (''serviceManagerProxyAddress'', JAddr 6), (''timelockAddress'', JAddr 7)]"

definition vote_env :: proposal_env where
  "vote_env = \<lparr>penv = (\<lambda>_. None), read_json = (\<lambda>_. Some vote_globals), has_abi = (\<lambda>_. True), first_signer = Some 9,
     blockNumber = (\<lambda>_. Some 1), encodeFunctionData = (\<lambda>_ fn args. Some [of_nat (length fn), of_nat (length args)]),
     solidityPack = (\<lambda>t v n p. case t of JAddr a \<Rightarrow> if n < 2 ^ 32 then Some (be 20 (unat a) @ be 12 v @ be 4 n @ p) else None | _ \<Rightarrow> None),
     quoteEVMDeliveryPrice = (\<lambda>_ _ _. Some 7), l2_inbox = (\<lambda>_. Some (JAddr 4)), baseFee = (\<lambda>_. Some 1), gasPrice = (\<lambda>_. Some 1),
     estimateAll = (\<lambda>_ to _ _ _ d _ _. Some \<lparr>maxSubmissionCost = (if to = JAddr 3 then 10 else 20), gasLimit = 2000000, deposit = 5\<rparr>)\<rparr>"

lemma vote_packs: "packs vote_env"
  by (auto simp: packs_def vote_env_def split: json.splits if_splits)

lemma jthen_Inr_iff: "jthen m k s = (Inr x, s') \<longleftrightarrow> (\<exists>s1. m s = (Inr (), s1) \<and> k s1 = (Inr x, s'))"
  by (simp add: jthen_def jbind_Inr_iff)

lemma print_lines_Inr: "print_lines ls s = (Inr u, s') \<longleftrightarrow> s' = s @ ls"
  by (auto simp: print_lines_def)

lemma vote_getf:
  "getf vote_globals ''fxRootAddress'' = JAddr 1" "getf vote_globals ''bridgeMediatorAddress'' = JAddr 2"
  "getf vote_globals ''serviceRegistryAddress'' = JAddr 3"
  by (simp_all add: getf_def vote_globals_def)

lemma vote_fields:
  "read_json vote_env path = Some vote_globals" "has_abi vote_env path" "blockNumber vote_env url = Some 1"
  "encodeFunctionData vote_env i fn args = Some [of_nat (length fn), of_nat (length args)]"
  "solidityPack vote_env (JAddr a) v n p = (if n < 2 ^ 32 then Some (be 20 (unat a) @ be 12 v @ be 4 n @ p) else None)"
  "l2_inbox vote_env url = Some (JAddr 4)" "baseFee vote_env url = Some 1" "gasPrice vote_env url = Some 1"
  by (simp_all add: vote_env_def)

lemmas run_simps = jbind_Inr_iff jthen_Inr_iff print_lines_Inr show_block_def add_call_def pack_call_def details_pl_def details_sg_def details_def
  vote_getf vote_fields

lemma vote_start: "\<exists>s'. polygon_start vote_env path s = (Inr (vote_globals, ''abis/bridges/polygon/FxRoot.json''), s')"
  unfolding polygon_start_def by (simp only: run_simps) (simp add: vote_getf vote_fields)

lemma vote_message: "\<exists>s' p. polygon_message vote_env vote_globals fx label data desc s = (Inr p, s')"
  unfolding polygon_message_def by (simp only: run_simps) (simp add: vote_getf vote_fields)

lemma vote_add_call: "\<exists>d. add_call vote_env i fn args (JAddr a) data s = (Inr d, s)"
  unfolding add_call_def pack_call_def by (simp add: jbind_def vote_fields encode_def answer_def)

lemma vote_01: "\<exists>p s'. proposal_01 vote_env [] = (Inr p, s')"
proof -
  obtain s1 where 1: "polygon_start vote_env ''globals.json'' [] = (Inr (vote_globals, ''abis/bridges/polygon/FxRoot.json''), s1)"
    using vote_start by blast
  obtain s2 where 2: "print_lines [Line (''Proposal 1. Change drainer for polygon ServiceRegistryL2'' @ NLs)] s1 = (Inr (), s2)"
    by (simp add: print_lines_def)
  obtain d where 3: "add_call vote_env SERVICE_REGISTRY_L2 ''changeDrainer'' [field vote_globals ''bridgeMediatorAddress'']
    (getf vote_globals ''serviceRegistryAddress'') [] s2 = (Inr d, s2)"
    unfolding vote_getf using vote_add_call by blast
  obtain p s3 where 4: "polygon_message vote_env vote_globals ''abis/bridges/polygon/FxRoot.json'' ''fxGovernorTunnelAddress'' d
    ''Change Drainer in ServiceRegistryL2 on polygon'' s2 = (Inr p, s3)"
    using vote_message by blast
  have 5: "contract_abi vote_env SERVICE_REGISTRY_L2 (getf vote_globals ''serviceRegistryAddress'') s1 = (Inr SERVICE_REGISTRY_L2, s1)"
    by (simp add: vote_getf vote_fields)
  have "\<exists>s'. details_pl p s3 = (Inr p, s')" by (simp add: details_pl_def details_def jthen_Inr_iff print_lines_Inr)
  then show ?thesis
    by (simp only: proposal_01_def jthen_def 1 2 3 4 5 jbind_simps prod.case) blast
qed

theorem bridge_proposals_deliver_witness:
  "\<exists>p s'. proposal_01 vote_env [] = (Inr p, s') \<and> even_calls p
     \<and> list_all2 (runs_leg vote_env) [(''globals.json'', FxRoot, \<lambda>g. [drainer_call g])] (split_calls p)"
proof -
  obtain p s' where run: "proposal_01 vote_env [] = (Inr p, s')" using vote_01 by blast
  have "(proposal_01, [(''globals.json'', FxRoot, \<lambda>g. [drainer_call g])]) \<in> set bridge_scripts"
    unfolding bridge_scripts_def by (simp only: list.set insert_iff simp_thms)
  from bridge_proposals_deliver [OF vote_packs this run] run show ?thesis by blast
qed

section \<open>Tickets on Arbitrum\<close>

text \<open>
  The two calls of each script that goes over the inbox of Arbitrum, and what one ticket is: the call, sent with a submission cost, a gas
  limit and a gas price.
\<close>

definition arbitrum_scripts :: "((proposal_env \<Rightarrow> proposal script) \<times> (globals \<Rightarrow> l2_call \<times> l2_call)) list" where
  "arbitrum_scripts =
    [(proposal_15, \<lambda>g. (limits_call g, statuses_call g)),
     (proposal_18, \<lambda>g. (permission_call g (getf g ''recoveryModuleAddress'') True,
        permission_call g (getf g ''safeMultisigWithRecoveryModuleAddress'') True)),
     (proposal_20, \<lambda>g. (manager_call g ''serviceRegistryAddress'', manager_call g ''serviceRegistryTokenUtilityAddress''))]"

definition estimated :: "proposal_env \<Rightarrow> globals \<Rightarrow> l2_call \<Rightarrow> gas_params \<Rightarrow> bool" where
  "estimated E g = (\<lambda>(to, i, fn, args) q. \<exists>d fee. encodeFunctionData E i fn args = Some d \<and> baseFee E (mainnet_url E) = Some fee
     \<and> estimateAll E (getf g ''timelockAddress'') to 0 (getf g ''bridgeMediatorAddress'') (JAddr 0) d fee RetryablesGasOverrides = Some q)"

definition ticketed :: "proposal_env \<Rightarrow> globals \<Rightarrow> l2_call \<Rightarrow> gas_params \<Rightarrow> bytes \<Rightarrow> bool" where
  "ticketed E g = (\<lambda>(to, i, fn, args) q c. \<exists>d bid. encodeFunctionData E i fn args = Some d \<and> gasPrice E ARBITRUM_URL = Some bid
     \<and> encodeFunctionData E ''function createRetryableTicket'' ''createRetryableTicket'' [Val to, Val (JNum 0), Val (JNum (maxSubmissionCost q)),
          field g ''bridgeMediatorAddress'', Val (JAddr 0), Val (JNum (gasLimit q)), Val (JNum bid), Bytes d] = Some c)"

definition arbitrum_tickets :: "proposal_env \<Rightarrow> globals \<Rightarrow> l2_call \<times> l2_call \<Rightarrow> proposal \<Rightarrow> bool" where
  "arbitrum_tickets E g = (\<lambda>(call1, call2) p. \<exists>inbox q1 q2 c1 c2. l2_inbox E ARBITRUM_URL = Some inbox
     \<and> estimated E g call1 q1 \<and> estimated E g call2 q2 \<and> ticketed E g call1 q1 c1 \<and> ticketed E g call2 q1 c2
     \<and> p_targets p = [inbox, inbox] \<and> p_values p = [JNum (deposit q1 * 10), JNum (deposit q2 * 10)] \<and> p_callDatas p = [c1, c2])"

lemma arbitrum_start_Inr:
  "arbitrum_start E i k title s = (Inr (g, c, inbox), s') \<Longrightarrow>
     read_json E ''scripts/deployment/l2/globals_arbitrum_mainnet.json'' = Some g \<and> c = i \<and> l2_inbox E ARBITRUM_URL = Some inbox"
  by (auto simp: arbitrum_start_def)

lemma two_tickets_Inr:
  assumes "first_ticket E g to d s = (Inr (q1, bid, c1), s1)" and "second_ticket E g to2 q1 bid d2 s2 = (Inr (q2, c2), s3)"
    and "encodeFunctionData E i fn args = Some d" and "encodeFunctionData E i2 fn2 args2 = Some d2" and "l2_inbox E ARBITRUM_URL = Some inbox"
  shows "arbitrum_tickets E g ((to, i, fn, args), (to2, i2, fn2, args2)) (two_tickets inbox q1 q2 c1 c2 desc)"
proof -
  have "estimated E g (to, i, fn, args) q1" "ticketed E g (to, i, fn, args) q1 c1" "gasPrice E ARBITRUM_URL = Some bid"
    using assms(1,3) by (auto simp: first_ticket_def estimate_def ticket_def estimated_def ticketed_def)
  moreover from this(3) have "estimated E g (to2, i2, fn2, args2) q2" "ticketed E g (to2, i2, fn2, args2) q1 c2"
    using assms(2,4) by (auto simp: second_ticket_def estimate_def ticket_def estimated_def ticketed_def)
  ultimately show ?thesis
    using assms(5) unfolding arbitrum_tickets_def two_tickets_def prod.case by auto
qed

lemma arbitrum_15:
  "proposal_15 E s = (Inr p, s') \<Longrightarrow> \<exists>g. read_json E ''scripts/deployment/l2/globals_arbitrum_mainnet.json'' = Some g
     \<and> arbitrum_tickets E g (limits_call g, statuses_call g) p"
  unfolding proposal_15_def limits_call_def statuses_call_def
  by (clarsimp dest!: arbitrum_start_Inr details_Inr) (blast intro: two_tickets_Inr)

lemma arbitrum_18:
  "proposal_18 E s = (Inr p, s') \<Longrightarrow> \<exists>g. read_json E ''scripts/deployment/l2/globals_arbitrum_mainnet.json'' = Some g
     \<and> arbitrum_tickets E g (permission_call g (getf g ''recoveryModuleAddress'') True,
        permission_call g (getf g ''safeMultisigWithRecoveryModuleAddress'') True) p"
  unfolding proposal_18_def permission_call_def field_def
  by (clarsimp dest!: arbitrum_start_Inr details_Inr) (blast intro: two_tickets_Inr)

lemma arbitrum_20:
  "proposal_20 E s = (Inr p, s') \<Longrightarrow> \<exists>g. read_json E ''scripts/deployment/l2/globals_arbitrum_mainnet.json'' = Some g
     \<and> arbitrum_tickets E g (manager_call g ''serviceRegistryAddress'', manager_call g ''serviceRegistryTokenUtilityAddress'') p"
  unfolding proposal_20_def manager_call_def
  by (clarsimp dest!: arbitrum_start_Inr details_Inr) (blast intro: two_tickets_Inr)

text \<open>
  C33. A proposal for Arbitrum holds two tickets for the inbox of the chain, one for each of its calls, each with ten times the deposit
  estimated for that call; but both tickets state the submission cost and the gas limit that were estimated for the
  first call.
\<close>

theorem arbitrum_second_ticket:
  assumes "(script, calls) \<in> set arbitrum_scripts" and "script E s = (Inr p, s')"
  shows "\<exists>g. read_json E ''scripts/deployment/l2/globals_arbitrum_mainnet.json'' = Some g \<and> arbitrum_tickets E g (calls g) p"
  using assms arbitrum_15 arbitrum_18 arbitrum_20
  unfolding arbitrum_scripts_def set_simps insert_iff empty_iff prod.inject by blast

lemma vote_arbitrum_start:
  "\<exists>s'. arbitrum_start vote_env i ''serviceRegistryAddress'' title s = (Inr (vote_globals, i, JAddr 4), s')"
  unfolding arbitrum_start_def by (simp only: run_simps) (simp add: vote_getf vote_fields)

lemma vote_estimate: "\<exists>q. estimate vote_env g to d s = (Inr q, s)"
  by (simp add: estimate_def jbind_def answer_def vote_env_def)

lemma vote_first_ticket: "\<exists>q bid c s'. first_ticket vote_env g to d s = (Inr (q, bid, c), s')"
  using vote_estimate [of g to d s]
  by (auto simp: first_ticket_def ticket_def jbind_Inr_iff jthen_Inr_iff print_lines_Inr vote_fields)

lemma vote_second_ticket: "\<exists>q2 c s'. second_ticket vote_env g to q bid d s = (Inr (q2, c), s')"
  using vote_estimate [of g to d s] by (auto simp: second_ticket_def ticket_def jbind_Inr_iff vote_fields)

lemma vote_20: "\<exists>p s'. proposal_20 vote_env [] = (Inr p, s')"
proof -
  obtain s1 where 1: "arbitrum_start vote_env SERVICE_REGISTRY_L2 ''serviceRegistryAddress''
    ''Proposal 20. Change manager in ServiceRegistryL2 and ServiceRegistryTokenUtility on Arbitrum'' [] = (Inr (vote_globals, SERVICE_REGISTRY_L2, JAddr 4), s1)"
    using vote_arbitrum_start by blast
  obtain d where 2: "encode vote_env SERVICE_REGISTRY_L2 ''changeManager'' [field vote_globals ''serviceManagerProxyAddress''] s1 = (Inr d, s1)"
    by (simp add: vote_fields)
  obtain q bid c s2 where 3: "first_ticket vote_env vote_globals (getf vote_globals ''serviceRegistryAddress'') d s1 = (Inr (q, bid, c), s2)"
    using vote_first_ticket by blast
  obtain q2 c2 s3 where 4: "second_ticket vote_env vote_globals (getf vote_globals ''serviceRegistryTokenUtilityAddress'') q bid d s2 = (Inr (q2, c2), s3)"
    using vote_second_ticket by blast
  have "\<exists>s'. details_pl r s3 = (Inr r, s')" for r by (simp add: details_pl_def details_def jthen_Inr_iff print_lines_Inr)
  then show ?thesis
    by (simp only: proposal_20_def 1 2 3 4 jbind_simps prod.case) blast
qed

theorem arbitrum_second_ticket_witness:
  "\<exists>p s'. proposal_20 vote_env [] = (Inr p, s')
     \<and> (\<exists>g. read_json vote_env ''scripts/deployment/l2/globals_arbitrum_mainnet.json'' = Some g
       \<and> arbitrum_tickets vote_env g (manager_call g ''serviceRegistryAddress'', manager_call g ''serviceRegistryTokenUtilityAddress'') p)"
proof -
  obtain p s' where run: "proposal_20 vote_env [] = (Inr p, s')" using vote_20 by blast
  have "(proposal_20, \<lambda>g. (manager_call g ''serviceRegistryAddress'', manager_call g ''serviceRegistryTokenUtilityAddress'')) \<in> set arbitrum_scripts"
    unfolding arbitrum_scripts_def by (simp only: list.set insert_iff simp_thms)
  from arbitrum_second_ticket [OF this run] run show ?thesis by blast
qed

section \<open>Calls on the main chain\<close>

definition mainnet_scripts :: "((proposal_env \<Rightarrow> proposal script) \<times> string \<times> (globals \<Rightarrow> l2_call list)) list" where
  "mainnet_scripts =
    [(proposal_03, ''globals.json'', \<lambda>g. [(getf g ''serviceRegistryAddress'', ''ServiceRegistry'', ''changeDrainer'', [field g ''treasuryAddress''])]),
     (proposal_07, ''scripts/deployment/globals_mainnet.json'', \<lambda>g. map (\<lambda>k. (getf g ''serviceRegistryAddress'', ''ServiceRegistry'',
        ''changeMultisigPermission'', [field g k, Val (JBool True)])) [''recoveryModuleAddress'', ''safeMultisigWithRecoveryModuleAddress'']),
     (proposal_14, ''globals.json'', \<lambda>g. [limits_call g, statuses_call g]),
     (proposal_21, ''scripts/deployment/globals_mainnet.json'', \<lambda>g.
       [(getf g ''serviceRegistryAddress'', ''ServiceRegistry'', ''changeManager'', [field g ''serviceManagerProxyAddress'']),
        (getf g ''serviceRegistryTokenUtilityAddress'', ''ServiceRegistryTokenUtility'', ''changeManager'', [field g ''serviceManagerProxyAddress''])])]"

definition direct :: "proposal_env \<Rightarrow> l2_call \<Rightarrow> proposal \<Rightarrow> bool" where
  "direct E = (\<lambda>(t, i, fn, args) p. \<exists>c. encodeFunctionData E i fn args = Some c \<and> single t (JNum 0) c p)"

lemma mainnet_proposals_call:
  assumes "(script, path, calls) \<in> set mainnet_scripts" and "script E s = (Inr p, s')"
  shows "\<exists>g. read_json E path = Some g \<and> even_calls p \<and> list_all2 (direct E) (calls g) (split_calls p)"
  using assms unfolding mainnet_scripts_def set_simps insert_iff empty_iff prod.inject
  by (elim disjE conjE FalseE; hypsubst)
    (clarsimp simp: proposal_03_def proposal_07_def proposal_14_def proposal_21_def mainnet_start_def limits_call_def statuses_call_def
      even_calls_def split_calls_def direct_def single_def one_call_def simp del: append.simps dest!: details_Inr)+

end
