(* ===== verification/Lifecycle.thy ===== *)
theory Lifecycle
  imports Deployment_Run Audit_Properties Proposal_Properties
begin

text \<open>
  The scripts together: a chain is deployed, audited, voted on and audited again. What the audit reads of a contract is what the
  deployment left there, and the calls of a proposal change it.
\<close>

section \<open>Reading a deployed contract\<close>










lemma normal_JAddr [simp]: "normal E (JAddr a) = Some (JAddr a)"
  by (simp add: normal_def)






section \<open>The calls of a proposal\<close>




section \<open>Deployment, vote and audit\<close>









end
