(* ===== verification/Annotate.thy ===== *)
theory Annotate
  imports Proposal_Messages "HOL-Library.Monad_Syntax"
begin

text \<open>
  The scripts \<^verbatim>\<open>annotate.js\<close> of \<^verbatim>\<open>scripts/proposals/proposal_24_dewhitelist_and_guard\<close> and \<^verbatim>\<open>proposal_25_unnominate\<close>: they decode the
  call data of a proposal and write a page of HTML that shows every call with the meaning of its arguments. The two scripts differ in a few
  tables and branches; what they share is defined once and takes the differences as an argument.

  A text is the list of its bytes in UTF-8; the texts that are cut by position are hexadecimal. Values that the decoder of the library gives
  as hexadecimal text of bytes are kept as bytes. The decoder, the checksum of addresses, the hash and the files are fields of
  \<open>annotate_env\<close>; \<open>None\<close> is a call that throws. Nothing is written before the page is complete.
\<close>

section \<open>Environment\<close>

record call_entry =
  e_target :: string
  e_value :: string
  e_calldata :: string

text \<open>The decoder is asked for nine lists of types; addresses and fixed bytes come back as text, numbers as numbers.\<close>

record annotate_env =
  getAddress :: "string \<Rightarrow> string option"
  decode_address_bool :: "string \<Rightarrow> (string \<times> bool) option"
  decode_addresses_bools :: "string \<Rightarrow> (string list \<times> bool list) option"
  decode_bytes32_uint :: "string \<Rightarrow> (string \<times> nat) option"
  decode_guard :: "string \<Rightarrow> (string list \<times> string list \<times> nat list \<times> bool list) option"
  decode_address_bytes_uint :: "string \<Rightarrow> (string \<times> bytes \<times> nat) option"
  decode_address_bytes :: "string \<Rightarrow> (string \<times> bytes) option"
  decode_bytes :: "string \<Rightarrow> bytes option"
  decode_ticket :: "string \<Rightarrow> (string \<times> nat \<times> nat \<times> string \<times> string \<times> nat \<times> nat \<times> bytes) option"
  keccak256 :: "string \<Rightarrow> string option"
  keccak256_utf8 :: "string \<Rightarrow> string"
  encode_proposal :: "string list \<Rightarrow> string list \<Rightarrow> string list \<Rightarrow> string \<Rightarrow> string option"
  decimal_of_hex :: "string \<Rightarrow> string option"
  large_number_text :: "nat \<Rightarrow> string"
  dir_name :: string
  base_name :: string
  read_file :: "string \<Rightarrow> string option"
  parse_entries :: "string \<Rightarrow> call_entry list option"
  argv2 :: "string option"

section \<open>Tables\<close>

definition ADDR :: "(string \<times> string) list" where
  "ADDR =
    [(''0x3c1ff68f5aa342d296d4dee4bb1cacca912d95fe'', ''Timelock (Ethereum) / ServiceRegistryL2 (Base, Mode)''),
     (''0x060d0cbddfb0498d610e2ef55c01516b5b1251e6'', ''GovernorOLAS (live)''),
     (''0x95418b46d5566d3d1ea62c12aea91227e566c5c1'', ''VoteWeighting''),
     (''0xc0b146d61e2a2c17e024477e01978d1fcf598c6b'', ''GuardCM''),
     (''0x4c36d2919e407f0cc2ee3c993ccf8ac26d9ce64e'', ''Gnosis AMB (L1)''),
     (''0xfe5e5d361b2ad62c541bab87c45a0b9b018389a2'', ''Polygon FxRoot (L1)''),
     (''0x4dbd4fc535ac27206064b68ffcf827b0a60bab3f'', ''Arbitrum Inbox (L1)''),
     (''0x25ace71c97b33cc4729cf772ae268934f7ab5fa1'', ''Optimism L1CrossDomainMessenger''),
     (''0x866e82a600a1414e583f7f13623f1ac5d58b0afa'', ''Base L1CrossDomainMessenger''),
     (''0x1ac1181fc4e4f877963680587aeaa2c90d7ebb95'', ''Celo L1CrossDomainMessenger''),
     (''0x95bdca6c8edeb69c98bd5bd17660bacef1298a6f'', ''Mode L1CrossDomainMessenger''),
     (''0x15bd56669f57192a97df41a2aa8f4403e9491776'', ''HomeMediator (Gnosis L2)''),
     (''0x9338b5153ae39bb89f50468e608ed9d764b755fd'', ''FxGovernorTunnel (Polygon) / OptimismMessenger (Mode) / ServiceRegistryL2 (Gnosis)''),
     (''0x4d30f68f5aa342d296d4dee4bb1cacca912da70f'', ''Aliased Timelock / BridgeMediator (Arbitrum L2)''),
     (''0x87c511c8ae3faf0063b3f3cf9c6ab96c4aa5c60c'', ''OptimismMessenger (Optimism L2)''),
     (''0xe49cb081e8d96920c38aa7ab90cb0294ab4bc8ea'', ''OptimismMessenger (Base L2)''),
     (''0xc14e191a64a7fb0e5790a8a0b9a58683dffce04d'', ''OptimismMessenger (Celo L2)''),
     (''0x48b6af7b12c71f09e2fc8af4855de4ff54e775ca'', ''ServiceRegistry (Ethereum)''),
     (''0xe3607b00e75f6405248323a9417ff6b39b244b50'', ''ServiceRegistryL2 (Polygon, Arbitrum, Celo)''),
     (''0x3d77596beb0f130a4415df3d2d8232b3d3d31e44'', ''ServiceRegistryL2 (Optimism)''),
     (''0xfa517d01daa100cb1932fa4345f68874f7e7ef46'', ''GnosisSafeSameAddressMultisig (Ethereum)''),
     (''0x6e7f594f680f7abad18b7a63de50f0fee47dfd06'', ''GnosisSafeSameAddressMultisig (Gnosis)''),
     (''0xd8bcc126ff31d2582018715d5291a508530587b0'', ''GnosisSafeSameAddressMultisig (Polygon)''),
     (''0xbcb1bac84b5bcab350c89c50adc9064ed15a4485'', ''PolySafeSameAddressMultisig (Polygon)''),
     (''0xbb7e1d6cb6f243d6bde81ce92a9f2aff7fbe7eac'', ''GnosisSafeSameAddressMultisig (Arbitrum, Celo)''),
     (''0xb09ccf0dbf0c178806aaee28956c74bd66d21f73'', ''GnosisSafeSameAddressMultisig (Optimism)''),
     (''0xfbbec0c8b13b38a9ac0499694a69a10204c5e2ab'', ''GnosisSafeSameAddressMultisig (Base, Mode)''),
     (''0x5650300fcbab43a0d7d02f8cb5d0f039402593f0'', ''Dispenser''),
     (''0x94a1892d91c05d0c61c3f49f42205d2285b914c9'', ''ServiceManagerProxy (Ethereum)''),
     (''0x9ec9156def5c613b2a7d4c46c383f9b58dfcd6fe'', ''RegistriesManager (Ethereum)''),
     (''0xa5c7fbccff28441b7d250412b0fb87aa1c8b14ad'', ''ServiceManagerProxy (Optimism)''),
     (''0xaea9ef993d8a1a164397642648df43f053d43d85'', ''OptimismTargetDispenserL2 (Optimism)''),
     (''0x068a4f0946cf8c7f9c1b58a3b5243ac8843bf473'', ''ServiceManagerProxy (Gnosis)''),
     (''0x5b6c538c7b2e0b44fa8a3b7a0532ef797b07d0e9'', ''GnosisTargetDispenserL2 (Gnosis)''),
     (''0xe3e5df46060370af5fd37b2aa11e7dac3ccb4bd0'', ''ServiceManagerProxy (Polygon)''),
     (''0x17d96ba4532fe91809326092fe4d5606a7b7a0d8'', ''PolygonTargetDispenserL2 (Polygon)''),
     (''0x1262136cac6a06a782dc94eb3a3df0b4d09ff6a6'', ''ServiceManagerProxy (Base)''),
     (''0x9ec97be9ff55ff11606ce7c589956f7bf3d0b241'', ''BaseTargetDispenserL2 (Base)''),
     (''0xcddd9d9abab36ffa882530d69c73fee5d4001c2d'', ''ServiceManagerProxy (Mode)''),
     (''0xeb5638eefe289691ece01943f768edbf96258a80'', ''ModeTargetDispenserL2 (Mode)''),
     (''0x34c895f302d0b5cf52ec0edd3945321eb0f83dd5'', ''ServiceRegistryTokenUtility (Mode)''),
     (''0xd421f433e36465b3e558b1121f584ac09fc33df8'', ''ServiceManagerProxy (Arbitrum)''),
     (''0x5953f21495bd9af1d78e87bb42accaa55c1e896c'', ''ArbitrumTargetDispenserL2 (Arbitrum)''),
     (''0x84b4da67b37b1ea1dea9c7044042c1d2297b80a0'', ''ServiceManagerProxy (Celo)''),
     (''0x4891f5894634dcd6d11644fe8e56756ef2681582'', ''CeloTargetDispenserL2 (Celo)'')]"

definition SELSIG :: "(string \<times> string) list" where
  "SELSIG =
    [(''0x82694b1d'', ''changeMultisigPermission(address,bool)''),
     (''0x087f08d4'', ''setMechFactoryStatuses(address[],bool[])''),
     (''0xc54dd0d4'', ''removeNominee(bytes32,uint256)''),
     (''0x5d78d469'', ''setTargetSelectorChainIds(address[],bytes4[],uint256[],bool[])''),
     (''0x3dbb202b'', ''sendMessage(address,bytes,uint32)''),
     (''0xd3042d2b'', ''processMessageFromSource(bytes)''),
     (''0xcd9e30d9'', ''processMessageFromForeign(bytes)''),
     (''0xdc8601b3'', ''requireToPassMessage(address,bytes,uint256)''),
     (''0xb4720477'', ''sendMessageToChild(address,bytes)''),
     (''0x679b6ded'', ''createRetryableTicket(address,uint256,uint256,address,address,uint256,uint256,bytes)''),
     (''0x8456cb59'', ''pause()''),
     (''0x63096509'', ''setPauseState(uint8)''),
     (''0x9890220b'', ''drain()''),
     (''0xece53132'', ''drain(address)'')]"

definition CHAIN :: "(nat \<times> string) list" where
  "CHAIN =
    [(1, ''Ethereum''),
     (100, ''Gnosis''),
     (137, ''Polygon''),
     (42161, ''Arbitrum''),
     (10, ''Optimism''),
     (8453, ''Base''),
     (42220, ''Celo''),
     (34443, ''Mode'')]"

definition MSGR2CHAIN :: "(string \<times> nat) list" where
  "MSGR2CHAIN =
    [(''0x87c511c8ae3faf0063b3f3cf9c6ab96c4aa5c60c'', 10),
     (''0xe49cb081e8d96920c38aa7ab90cb0294ab4bc8ea'', 8453),
     (''0xc14e191a64a7fb0e5790a8a0b9a58683dffce04d'', 42220),
     (''0x9338b5153ae39bb89f50468e608ed9d764b755fd'', 34443)]"

definition EXPLORER :: "(nat \<times> string) list" where
  "EXPLORER =
    [(1, ''https://etherscan.io/address/''),
     (100, ''https://gnosisscan.io/address/''),
     (137, ''https://polygonscan.com/address/''),
     (42161, ''https://arbiscan.io/address/''),
     (10, ''https://optimistic.etherscan.io/address/''),
     (8453, ''https://basescan.org/address/''),
     (42220, ''https://celoscan.io/address/''),
     (34443, ''https://explorer.mode.network/address/'')]"

text \<open>The script of proposal 25 does not know the selector of the factories.\<close>

definition SELSIG_25 :: "(string \<times> string) list" where
  "SELSIG_25 = filter (\<lambda>x. fst x \<noteq> ''0x087f08d4'') SELSIG"

section \<open>Text\<close>

definition to_lower :: "char \<Rightarrow> char" where
  "to_lower c = (if c \<in> set ''ABCDEFGHIJKLMNOPQRSTUVWXYZ'' then char_of (of_char c + 32 :: nat) else c)"

definition lc :: "string \<Rightarrow> string" where
  "lc a = map to_lower a"

definition hex :: "bytes \<Rightarrow> string" where
  "hex bs = ''0x'' @ concat (map (\<lambda>b. hex_str 2 (unat b)) bs)"

definition replace_all :: "char \<Rightarrow> string \<Rightarrow> string \<Rightarrow> string" where
  "replace_all c r s = concat (map (\<lambda>d. if d = c then r else [d]) s)"

definition esc :: "string \<Rightarrow> string" where
  "esc s = replace_all CHR ''>'' ''&gt;'' (replace_all CHR ''<'' ''&lt;'' (replace_all CHR ''&'' ''&amp;'' s))"

fun join_with :: "string \<Rightarrow> string list \<Rightarrow> string" where
  "join_with sep [] = []"
| "join_with sep (x # xs) = x @ concat (map (\<lambda>y. sep @ y) xs)"

text \<open>\<^verbatim>\<open>Number\<close> of a number of the library, and its text: beyond \<open>2 ^ 53\<close> it is rounded.\<close>

definition js_Number :: "nat \<Rightarrow> nat" where
  "js_Number n = (if n \<le> 2 ^ 53 then n else nat \<lfloor>fl (of_nat n)\<rfloor>)"

definition number_text :: "annotate_env \<Rightarrow> nat \<Rightarrow> string" where
  "number_text E n = (if n \<le> 2 ^ 53 then nat_str n else large_number_text E n)"

section \<open>Pieces of the page\<close>

definition chain_label :: "annotate_env \<Rightarrow> nat \<Rightarrow> string" where
  "chain_label E cid = (case map_of CHAIN cid of None \<Rightarrow> ''chain '' @ number_text E cid | Some n \<Rightarrow> n)"

definition explorer :: "nat \<Rightarrow> string \<Rightarrow> string" where
  "explorer cid addr = (case map_of EXPLORER cid of None \<Rightarrow> the (map_of EXPLORER 1) | Some u \<Rightarrow> u) @ addr @ ''#code''"

definition addrSpan :: "annotate_env \<Rightarrow> string \<Rightarrow> nat \<Rightarrow> string option" where
  "addrSpan E a cid = do {
     addr \<leftarrow> getAddress E a;
     let label = (case map_of ADDR (lc a) of None \<Rightarrow> [] | Some name \<Rightarrow> name @ '' '' @ [CHR 0xC2, CHR 0xB7] @ '' '') @ chain_label E cid;
     Some (''<a class=\"addr\" href=\"'' @ explorer cid addr @ ''\" target=\"_blank\" rel=\"noopener\" title=\"'' @ esc label @ ''\">'' @ esc addr @ ''</a>''
       @ '' <span class=\"note\">// '' @ esc label @ ''</span>'') }"

definition selSpan :: "(string \<times> string) list \<Rightarrow> string \<Rightarrow> string" where
  "selSpan sigs sel = (let sig = (case map_of sigs (lc sel) of None \<Rightarrow> ''unknown'' | Some s \<Rightarrow> s) in
     ''<span class=\"sel\" title=\"'' @ esc sig @ ''\">'' @ esc sel @ ''</span> <span class=\"note\">// '' @ esc sig @ ''</span>'')"

definition valSpan :: "string \<Rightarrow> string \<Rightarrow> string" where
  "valSpan v note = ''<span class=\"val\">'' @ esc v @ ''</span>''
     @ (if note = [] then [] else '' <span class=\"note\">// '' @ esc note @ ''</span>'')"

definition boolSpan :: "bool \<Rightarrow> string" where
  "boolSpan b = (if b then ''<span class=\"ok\">true (enable)</span>'' else ''<span class=\"bad\">false (disable)</span>'')"

definition row :: "string \<Rightarrow> string \<Rightarrow> string" where
  "row name html = ''<div class=\"row\"><span class=\"key\">'' @ esc name @ ''</span> = '' @ html @ ''</div>''"

definition callBox :: "string \<Rightarrow> string \<Rightarrow> string" where
  "callBox title inner = ''<details class=\"call\" open><summary>'' @ title @ ''</summary><div class=\"body\">'' @ inner @ ''</div></details>''"

definition addr_row :: "annotate_env \<Rightarrow> string \<Rightarrow> string \<Rightarrow> nat \<Rightarrow> string option" where
  "addr_row E name a cid = map_option (row name) (addrSpan E a cid)"

definition arrow_row :: "string \<Rightarrow> string" where
  "arrow_row key = ''<div class=\"row\"><span class=\"key\">'' @ key @ ''</span> &darr;</div>''"

definition addrFromBytes32 :: "annotate_env \<Rightarrow> string \<Rightarrow> string option" where
  "addrFromBytes32 E b32 = getAddress E (''0x'' @ drop (length b32 - 40) b32)"

text \<open>A status that is missing counts as false.\<close>

fun mechFactoryRows :: "annotate_env \<Rightarrow> nat \<Rightarrow> string list \<Rightarrow> bool list \<Rightarrow> nat \<Rightarrow> string option" where
  "mechFactoryRows E i [] sts cid = Some []"
| "mechFactoryRows E i (f # fs) sts cid = do {
     r \<leftarrow> addr_row E (''mechFactory['' @ nat_str i @ ''] (OLAS)'') f cid;
     rest \<leftarrow> mechFactoryRows E (Suc i) fs (drop 1 sts) cid;
     Some (r @ row (''status['' @ nat_str i @ '']'') (boolSpan (sts \<noteq> [] \<and> hd sts)) @ rest) }"

section \<open>Messages\<close>

text \<open>The two scripts: the known selectors, whether the statuses of factories are decoded, the groups, and the group of a call.\<close>

record annotator =
  known_selectors :: "(string \<times> string) list"
  decodes_factories :: bool
  group_order :: "(string \<times> string) list"
  category_of :: "string \<Rightarrow> string"

definition permission_box :: "annotator \<Rightarrow> annotate_env \<Rightarrow> string \<Rightarrow> string \<Rightarrow> nat \<Rightarrow> string option" where
  "permission_box A E sel args cid = do {
     (ms, perm) \<leftarrow> decode_address_bool E args;
     r \<leftarrow> addr_row E ''multisig'' ms cid;
     Some (callBox (selSpan (known_selectors A) sel) (r @ row ''permission'' (boolSpan perm))) }"

definition factories_box :: "annotator \<Rightarrow> annotate_env \<Rightarrow> string \<Rightarrow> string \<Rightarrow> nat \<Rightarrow> string option" where
  "factories_box A E sel args cid = do {
     (facs, sts) \<leftarrow> decode_addresses_bools E args;
     rows \<leftarrow> mechFactoryRows E 0 facs sts cid;
     Some (callBox (selSpan (known_selectors A) sel) rows) }"

definition renderPayload :: "annotator \<Rightarrow> annotate_env \<Rightarrow> bytes \<Rightarrow> nat \<Rightarrow> string option" where
  "renderPayload A E payload cid = (let sel = hex (take 4 payload); args = hex (drop 4 payload) in
     if sel = ''0x82694b1d'' then permission_box A E sel args cid
     else if decodes_factories A \<and> sel = ''0x087f08d4'' then factories_box A E sel args cid
     else Some (callBox (selSpan (known_selectors A) sel) (''<div class=\"row note\">payload: '' @ esc (hex payload) @ ''</div>'')))"

text \<open>\<^verbatim>\<open>BigNumber.from\<close> throws for no digits; \<^verbatim>\<open>parseInt\<close> of no digits is not a number: the payload is then empty and the loop ends.\<close>

definition big_text :: "bytes \<Rightarrow> string option" where
  "big_text bs = (if bs = [] then None else Some (nat_str (unbe bs)))"

definition parseInt16 :: "bytes \<Rightarrow> nat option" where
  "parseInt16 bs = (if bs = [] then None else Some (unbe bs))"

definition plen_text :: "nat option \<Rightarrow> string" where
  "plen_text v = (case v of None \<Rightarrow> ''NaN'' | Some n \<Rightarrow> nat_str n)"

definition tuple_box :: "annotator \<Rightarrow> annotate_env \<Rightarrow> nat \<Rightarrow> nat \<Rightarrow> string \<Rightarrow> string \<Rightarrow> nat option \<Rightarrow> bytes \<Rightarrow> string option" where
  "tuple_box A E cid n target v plen payload = do {
     r \<leftarrow> addr_row E ''target'' target cid;
     p \<leftarrow> renderPayload A E payload cid;
     Some (callBox (''<span class=\"key\">tuple['' @ nat_str n @ '']</span> <span class=\"note\">// target(20)|value(12)|len(4)|payload</span>'')
       (r @ row ''value'' (valSpan v []) @ row ''payloadLength'' (valSpan (plen_text plen @ '' bytes'') [])
         @ arrow_row ''payload'' @ p)) }"

function decodePacked :: "annotator \<Rightarrow> annotate_env \<Rightarrow> nat \<Rightarrow> nat \<Rightarrow> bytes \<Rightarrow> string option" where
  "decodePacked A E cid n pk =
     (if pk = [] then Some []
      else do {
        target \<leftarrow> getAddress E (hex (take 20 pk));
        v \<leftarrow> big_text (take 12 (drop 20 pk));
        let plen = parseInt16 (take 4 (drop 32 pk));
        box \<leftarrow> tuple_box A E cid n target v plen (case plen of None \<Rightarrow> [] | Some k \<Rightarrow> take k (drop 36 pk));
        rest \<leftarrow> (case plen of None \<Rightarrow> Some [] | Some k \<Rightarrow> decodePacked A E cid (Suc n) (drop (36 + k) pk));
        Some (box @ rest) })"
  by pat_completeness auto
termination by (relation "measure (\<lambda>(_, _, _, _, pk). length pk)") (auto simp: length_greater_0_conv [symmetric] simp del: length_greater_0_conv)

declare decodePacked.simps [simp del]

section \<open>Calls\<close>

definition DEWHITELIST_SELS :: "string list" where
  "DEWHITELIST_SELS = [''0x82694b1d'', ''0x3dbb202b'', ''0xdc8601b3'', ''0xb4720477'', ''0x679b6ded'']"

definition category :: "string \<Rightarrow> string" where
  "category calldata = (let sel = take 10 calldata; hasFactory = contains ''087f08d4'' calldata; hasDewl = contains ''82694b1d'' calldata in
     if sel = ''0xc54dd0d4'' then ''nominee''
     else if sel = ''0x5d78d469'' then ''guard''
     else if hasFactory \<and> hasDewl then ''combined''
     else if hasFactory then ''mechfactory''
     else if hasDewl \<or> sel \<in> set DEWHITELIST_SELS then ''dewhitelist''
     else ''other'')"

definition category_25 :: "string \<Rightarrow> string" where
  "category_25 sel =
     (if sel = ''0xc54dd0d4'' then ''nominee''
      else if sel = ''0x5d78d469'' then ''guard''
      else if sel \<in> set DEWHITELIST_SELS then ''dewhitelist''
      else ''other'')"

definition GROUP_ORDER :: "(string \<times> string) list" where
  "GROUP_ORDER =
    [(''dewhitelist'', ''De-whitelist same-address multisigs (single effect: Ethereum direct, Mode + Arbitrum bridged)''),
     (''combined'', ''De-whitelist same-address multisig + OLAS mech factory (one combined message per L2: Gnosis, Polygon, Optimism, Base, Celo)''),
     (''mechfactory'', ''De-whitelist OLAS mech factories (single effect: Ethereum direct + Arbitrum retryable)''),
     (''nominee'', ''Un-nominate retired staking contracts (VoteWeighting.removeNominee, direct L1)''),
     (''guard'', ''Extend GuardCM emergency-pause allowlist''),
     (''other'', ''Other'')]"

definition GROUP_ORDER_25 :: "(string \<times> string) list" where
  "GROUP_ORDER_25 =
    [(''dewhitelist'', ''De-whitelist same-address multisigs (Ethereum direct + L2s bridged)''),
     (''nominee'', ''Un-nominate retired staking contracts (VoteWeighting.removeNominee, direct L1)''),
     (''guard'', ''Extend GuardCM emergency-pause allowlist''),
     (''other'', ''Other'')]"

text \<open>A line of the table of \<^verbatim>\<open>setTargetSelectorChainIds\<close>; the other three lists are indexed by the position in the first, and may end earlier.\<close>

definition explorer_opt :: "nat option \<Rightarrow> string \<Rightarrow> string" where
  "explorer_opt c addr = explorer (case c of None \<Rightarrow> 1 | Some n \<Rightarrow> js_Number n) addr"

definition guard_line :: "annotator \<Rightarrow> annotate_env \<Rightarrow> nat \<Rightarrow> string \<Rightarrow> string option \<Rightarrow> nat option \<Rightarrow> bool \<Rightarrow> string option" where
  "guard_line A E i t s c st = do {
     addr \<leftarrow> getAddress E t;
     let sel = (case s of None \<Rightarrow> ''undefined'' | Some x \<Rightarrow> x);
     let sig = (case s of None \<Rightarrow> [] | Some x \<Rightarrow> (case map_of (known_selectors A) (lc x) of None \<Rightarrow> [] | Some g \<Rightarrow> g));
     let chain = (case c of None \<Rightarrow> [] | Some n \<Rightarrow> (case map_of CHAIN (js_Number n) of None \<Rightarrow> [] | Some x \<Rightarrow> x));
     let cid = (case c of None \<Rightarrow> ''undefined'' | Some n \<Rightarrow> nat_str n);
     Some (''<tr><td class=\"num\">'' @ nat_str i @ ''</td><td>'' @ esc (case map_of ADDR (lc addr) of None \<Rightarrow> ''?'' | Some n \<Rightarrow> n) @ ''</td>''
       @ ''<td><a class=\"addr\" href=\"'' @ explorer_opt c addr @ ''\" target=\"_blank\" rel=\"noopener\">'' @ esc addr @ ''</a></td>''
       @ ''<td class=\"sel\">'' @ esc sel @ ''</td><td>'' @ esc sig @ ''</td>''
       @ ''<td>'' @ cid @ '' <span class=\"note\">'' @ esc chain @ ''</span></td>''
       @ ''<td>'' @ (if st then ''<span class=\"ok\">enable</span>'' else ''<span class=\"bad\">disable</span>'') @ ''</td></tr>'') }"

definition head_opt :: "'a list \<Rightarrow> 'a option" where
  "head_opt xs = (case xs of [] \<Rightarrow> None | x # _ \<Rightarrow> Some x)"

fun guard_lines :: "annotator \<Rightarrow> annotate_env \<Rightarrow> nat \<Rightarrow> string list \<Rightarrow> string list \<Rightarrow> nat list \<Rightarrow> bool list \<Rightarrow> string option" where
  "guard_lines A E i [] ss cs sts = Some []"
| "guard_lines A E i (t # ts) ss cs sts = do {
     l \<leftarrow> guard_line A E i t (head_opt ss) (head_opt cs) (sts \<noteq> [] \<and> hd sts);
     rest \<leftarrow> guard_lines A E (Suc i) ts (drop 1 ss) (drop 1 cs) (drop 1 sts);
     Some (l @ rest) }"

definition message_box :: "annotator \<Rightarrow> annotate_env \<Rightarrow> nat \<Rightarrow> bytes \<Rightarrow> string option" where
  "message_box A E cid message = do {
     packed \<leftarrow> decode_bytes E (hex (drop 4 message));
     inner \<leftarrow> decodePacked A E cid 0 packed;
     Some (callBox (selSpan (known_selectors A) (hex (take 4 message))) inner) }"

definition nominee_box :: "annotator \<Rightarrow> annotate_env \<Rightarrow> string \<Rightarrow> string \<Rightarrow> string option" where
  "nominee_box A E head args = do {
     (acct, cid) \<leftarrow> decode_bytes32_uint E args;
     let c = js_Number cid;
     addr \<leftarrow> addrFromBytes32 E acct;
     r \<leftarrow> addr_row E ''&rarr; address'' addr c;
     Some (callBox head (row ''account (bytes32)'' (''<span class=\"val\">'' @ esc acct @ ''</span>'') @ r
       @ row ''chainId'' (valSpan (nat_str cid) (case map_of CHAIN c of None \<Rightarrow> [] | Some n \<Rightarrow> n)))) }"

definition guard_box :: "annotator \<Rightarrow> annotate_env \<Rightarrow> string \<Rightarrow> string \<Rightarrow> string option" where
  "guard_box A E head args = do {
     (t, s, c, st) \<leftarrow> decode_guard E args;
     rows \<leftarrow> guard_lines A E 0 t s c st;
     Some (callBox head (''<table class=\"al\"><thead><tr><th>#</th><th>target</th><th>address</th><th>selector</th><th>function</th><th>chain</th><th>status</th></tr></thead><tbody>''
       @ rows @ ''</tbody></table>'')) }"

definition send_box :: "annotator \<Rightarrow> annotate_env \<Rightarrow> string \<Rightarrow> string \<Rightarrow> string option" where
  "send_box A E head args = do {
     (target, message, minGas) \<leftarrow> decode_address_bytes_uint E args;
     let cid = (case map_of MSGR2CHAIN (lc target) of None \<Rightarrow> 1 | Some c \<Rightarrow> c);
     procBox \<leftarrow> message_box A E cid message;
     r \<leftarrow> addr_row E ''_target (L2 receiver)'' target cid;
     Some (callBox head (r @ row ''_minGasLimit'' (valSpan (nat_str minGas) []) @ arrow_row ''_message'' @ procBox)) }"

definition pass_box :: "annotator \<Rightarrow> annotate_env \<Rightarrow> string \<Rightarrow> string \<Rightarrow> string option" where
  "pass_box A E head args = do {
     (l2med, data, gas) \<leftarrow> decode_address_bytes_uint E args;
     procBox \<leftarrow> message_box A E 100 data;
     r \<leftarrow> addr_row E ''_contract (HomeMediator, Gnosis L2)'' l2med 100;
     Some (callBox head (r @ row ''_gas'' (valSpan (nat_str gas) []) @ arrow_row ''_data'' @ procBox)) }"

definition child_box :: "annotator \<Rightarrow> annotate_env \<Rightarrow> string \<Rightarrow> string \<Rightarrow> string option" where
  "child_box A E head args = do {
     (tunnel, packed) \<leftarrow> decode_address_bytes E args;
     r \<leftarrow> addr_row E ''_receiver (FxGovernorTunnel, Polygon L2)'' tunnel 137;
     inner \<leftarrow> decodePacked A E 137 0 packed;
     Some (callBox head (r @ arrow_row ''_data (packed)'' @ inner)) }"

definition ticket_box :: "annotator \<Rightarrow> annotate_env \<Rightarrow> string \<Rightarrow> string \<Rightarrow> string option" where
  "ticket_box A E head args = do {
     (to, l2v, maxSub, exRef, cvRef, gasLim, maxFee, data) \<leftarrow> decode_ticket E args;
     r1 \<leftarrow> addr_row E ''to (L2 target)'' to 42161;
     r2 \<leftarrow> addr_row E ''excessFeeRefundAddress'' exRef 42161;
     r3 \<leftarrow> addr_row E ''callValueRefundAddress'' cvRef 1;
     inner \<leftarrow> renderPayload A E data 42161;
     Some (callBox head (r1 @ row ''l2CallValue'' (valSpan (nat_str l2v) []) @ row ''maxSubmissionCost'' (valSpan (nat_str maxSub) ''wei'') @ r2 @ r3
       @ row ''gasLimit'' (valSpan (nat_str gasLim) []) @ row ''maxFeePerGas'' (valSpan (nat_str maxFee) ''wei'') @ arrow_row ''data'' @ inner)) }"

definition decodeEntry :: "annotator \<Rightarrow> annotate_env \<Rightarrow> call_entry \<Rightarrow> string option" where
  "decodeEntry A E e = (let sel = take 10 (e_calldata e); args = ''0x'' @ drop 10 (e_calldata e); head = selSpan (known_selectors A) sel in
     if sel = ''0x82694b1d'' then permission_box A E sel args 1
     else if decodes_factories A \<and> sel = ''0x087f08d4'' then factories_box A E sel args 1
     else if sel = ''0xc54dd0d4'' then nominee_box A E head args
     else if sel = ''0x5d78d469'' then guard_box A E head args
     else if sel = ''0x3dbb202b'' then send_box A E head args
     else if sel = ''0xdc8601b3'' then pass_box A E head args
     else if sel = ''0xb4720477'' then child_box A E head args
     else if sel = ''0x679b6ded'' then ticket_box A E head args
     else Some (callBox head ''<div class=\"row note\">unrecognized selector</div>''))"

section \<open>The page\<close>

definition computeProposalId :: "annotate_env \<Rightarrow> string list \<Rightarrow> string list \<Rightarrow> string list \<Rightarrow> string \<Rightarrow> (string \<times> string) option" where
  "computeProposalId E targets vals calldatas description = do {
     let descHash = keccak256_utf8 E description;
     encoded \<leftarrow> encode_proposal E targets vals calldatas descHash;
     h \<leftarrow> keccak256 E encoded;
     d \<leftarrow> decimal_of_hex E h;
     Some (d, descHash) }"

text \<open>The positions of the calls, by group.\<close>

fun by_category :: "(string \<Rightarrow> string) \<Rightarrow> nat \<Rightarrow> call_entry list \<Rightarrow> (string \<rightharpoonup> nat list) \<Rightarrow> (string \<rightharpoonup> nat list)" where
  "by_category cat i [] m = m"
| "by_category cat i (e # es) m = (let c = cat (e_calldata e) in
     by_category cat (Suc i) es (m(c \<mapsto> (case m c of None \<Rightarrow> [] | Some is \<Rightarrow> is) @ [i])))"

definition jsonArr :: "string list \<Rightarrow> string" where
  "jsonArr a = ''['' @ join_with '','' (map (\<lambda>x. ''\"'' @ x @ ''\"'') a) @ '']''"

definition proposeInputs :: "string list \<Rightarrow> string list \<Rightarrow> string list \<Rightarrow> string \<Rightarrow> string \<Rightarrow> string \<Rightarrow> string" where
  "proposeInputs targets vals calldatas description proposalId descHash =
     ''<h2>propose() inputs '' @ [CHR 0xE2, CHR 0x80, CHR 0x94] @ '' copy into GovernorOLAS</h2>''
     @ ''<div class=\"entry\"><div class=\"pi\"><div class=\"pk\">Targets</div><pre class=\"cp\">'' @ esc (jsonArr targets) @ ''</pre>''
     @ ''<div class=\"pk\">Values</div><pre class=\"cp\">['' @ join_with '','' vals @ '']</pre>''
     @ ''<div class=\"pk\">Calldatas</div><pre class=\"cp\">'' @ esc (jsonArr calldatas) @ ''</pre>''
     @ ''<div class=\"pk\">proposalDescription</div><pre class=\"cp\">'' @ esc description @ ''</pre>''
     @ ''<div class=\"pk\">proposalId (pre-computed)</div><pre class=\"cp\">'' @ esc proposalId @ ''</pre>''
     @ ''<div class=\"pk\">descriptionHash</div><pre class=\"cp\">'' @ esc descHash @ ''</pre></div></div>''"

definition entry_text :: "annotator \<Rightarrow> annotate_env \<Rightarrow> call_entry list \<Rightarrow> nat \<Rightarrow> string option" where
  "entry_text A E es i = (let e = es ! i in do {
     t \<leftarrow> addrSpan E (e_target e) 1;
     d \<leftarrow> decodeEntry A E e;
     Some (''<div class=\"entry\"><div class=\"ehead\"><span class=\"ix\">['' @ nat_str i @ '']</span> target = '' @ t
       @ '' &nbsp; value = <span class=\"val\">'' @ esc (e_value e) @ ''</span></div>'' @ d
       @ ''<details class=\"raw\"><summary>raw calldata</summary><pre>'' @ esc (e_calldata e) @ ''</pre></details></div>'') })"

fun concat_opt :: "('a \<Rightarrow> string option) \<Rightarrow> 'a list \<Rightarrow> string option" where
  "concat_opt f [] = Some []"
| "concat_opt f (x # xs) = do { a \<leftarrow> f x; b \<leftarrow> concat_opt f xs; Some (a @ b) }"

text \<open>A group without calls is left out.\<close>

definition group_text :: "annotator \<Rightarrow> annotate_env \<Rightarrow> call_entry list \<Rightarrow> (string \<rightharpoonup> nat list) \<Rightarrow> string \<times> string \<Rightarrow> string option" where
  "group_text A E es m = (\<lambda>(cat, name). case m cat of None \<Rightarrow> Some [] | Some is \<Rightarrow>
     if is = [] then Some []
     else do { t \<leftarrow> concat_opt (entry_text A E es) is; Some (''<h2>'' @ esc name @ '' ('' @ nat_str (length is) @ '')</h2>'' @ t) })"

definition nonzero :: "call_entry list \<Rightarrow> nat list" where
  "nonzero es = filter (\<lambda>i. e_value (es ! i) \<noteq> ''0'') [0..<length es]"

definition valNote :: "nat list \<Rightarrow> string" where
  "valNote nz = (if nz \<noteq> [] then ''All values are 0 EXCEPT '' @ join_with '', '' (map (\<lambda>i. ''entry ['' @ nat_str i @ '']'') nz)
       @ '' (Arbitrum retryable), which carries a non-zero value (deposit&times;10 buffer) supplied by the executor of execute() and forwarded through the Timelock to the Inbox.''
     else ''Every entry has value 0.'')"

definition STYLE :: "string list" where
  "STYLE =
    [''<style>'',
     '':root{--bg:#0f1115;--fg:#e6e6e6;--mut:#8a93a2;--sel:#c792ea;--addr:#82aaff;--val:#c3e88d;--role:#89ddff;--box:#161922;--bd:#2a2f3a;--ok:#7fd1a0;--bad:#ff8b8b;--cp:#8a93a2}'',
     ''body{background:var(--bg);color:var(--fg);font:13px/1.5 ui-monospace,SFMono-Regular,Menlo,monospace;margin:0;padding:24px}'',
     ''h1{font-size:18px} h2{font-size:14px;margin:26px 0 8px;color:#fff;border-bottom:1px solid var(--bd);padding-bottom:4px}'',
     ''.lead{color:var(--mut);max-width:90ch}'',
     ''.entry{border:1px solid var(--bd);border-radius:8px;margin:10px 0;padding:10px;background:#11141b}'',
     ''.ehead{margin-bottom:6px} .ix{color:var(--mut);margin-right:6px}'',
     ''details.call{border-left:2px solid var(--bd);margin:4px 0 4px 6px;padding-left:8px}'',
     ''details.call>summary{cursor:pointer;color:var(--fg)} .body{padding:4px 0 4px 10px}'',
     ''.row{padding:1px 0} .key{color:var(--mut)}'',
     ''.sel{color:var(--sel)} .addr{color:var(--addr)} .val{color:var(--val)} .role{color:var(--role)}'',
     ''.note{color:var(--mut);font-style:italic} .ok{color:var(--ok)} .bad{color:var(--bad)}'',
     ''table.al{border-collapse:collapse;margin:6px 0;font-size:12px}'',
     ''table.al th,table.al td{border:1px solid var(--bd);padding:3px 7px;text-align:left;white-space:nowrap}'',
     ''table.al th{color:#fff;background:#1b1f29} td.num{color:var(--mut)} td.sel{color:var(--sel)}'',
     ''details.raw{margin-top:6px} details.raw>summary{color:var(--mut);cursor:pointer}'',
     ''details.raw pre{white-space:pre-wrap;word-break:break-all;color:var(--mut);background:#0b0d12;border:1px solid var(--bd);border-radius:6px;padding:8px}'',
     ''.pk{color:#fff;margin:8px 0 2px;font-weight:bold} pre.cp{white-space:pre-wrap;word-break:break-all;background:#0b0d12;border:1px solid var(--bd);border-radius:6px;padding:8px;color:var(--cp)}'',
     ''.pid{color:var(--ok);font-weight:bold} a{color:var(--addr)}'']"

definition page :: "string \<Rightarrow> nat \<Rightarrow> string \<Rightarrow> string \<Rightarrow> string \<Rightarrow> string" where
  "page title n note proposalId body =
     ''<!doctype html><html><head><meta charset=\"utf-8\"><title>'' @ esc title @ ''</title>'' @ NLs
     @ concat (map (\<lambda>l. l @ NLs) STYLE)
     @ ''</style></head><body>'' @ NLs
     @ ''<h1>'' @ esc title @ '' (annotated)</h1>'' @ NLs
     @ ''<p class=\"lead\">Submit via <b>propose()</b> on the live GovernorOLAS (0x060D0C&hellip;251E6), which holds the Timelock'' @ NLs
     @ ''roles. <b>'' @ nat_str n @ '' entries</b>; every call is executed by the Timelock. '' @ note @ '' Decoded directly from'' @ NLs
     @ ''the Forge builder's verified calldata '' @ [CHR 0xE2, CHR 0x80, CHR 0x94] @ '' hover any address/selector for its label; expand nested calls.</p>'' @ NLs
     @ ''<p class=\"lead\">Pre-computed <span class=\"pid\">proposalId = '' @ esc proposalId @ ''</span></p>'' @ NLs
     @ body @ NLs
     @ ''<h2>proposalId</h2>'' @ NLs
     @ ''<div class=\"entry\"><pre class=\"cp pid\">'' @ esc proposalId @ ''</pre>'' @ NLs
     @ ''<div class=\"note\">= uint256(keccak256(abi.encode(targets, values, calldatas, keccak256(bytes(description)))))</div></div>'' @ NLs
     @ ''</body></html>''"

definition drop_newline :: "string \<Rightarrow> string" where
  "drop_newline s = (if s \<noteq> [] \<and> last s = CHR 0x0A then butlast s else s)"

text \<open>The file that is written and what is printed.\<close>

record annotation =
  out_path :: string
  out_html :: string
  out_log :: "string list"

definition annotate :: "annotator \<Rightarrow> annotate_env \<Rightarrow> annotation option" where
  "annotate A E = do {
     let title = (case argv2 E of None \<Rightarrow> ''Proposal (annotated)'' | Some t \<Rightarrow> if t = [] then ''Proposal (annotated)'' else t);
     json \<leftarrow> read_file E (dir_name E @ ''/calldata.json'');
     es \<leftarrow> parse_entries E json;
     desc \<leftarrow> read_file E (dir_name E @ ''/description.txt'');
     let description = drop_newline desc;
     let targets = map e_target es;
     let vals = map e_value es;
     let calldatas = map e_calldata es;
     (proposalId, descHash) \<leftarrow> computeProposalId E targets vals calldatas description;
     groups \<leftarrow> concat_opt (group_text A E es (by_category (category_of A) 0 es Map.empty)) (group_order A);
     let body = proposeInputs targets vals calldatas description proposalId descHash @ groups;
     let outPath = dir_name E @ ''/'' @ base_name E @ ''.html'';
     Some \<lparr>out_path = outPath, out_html = page title (length es) (valNote (nonzero es)) proposalId body,
       out_log = [''Wrote '' @ outPath @ '' ('' @ nat_str (length es) @ '' entries)'', ''proposalId: '' @ proposalId]\<rparr> }"

section \<open>The two scripts\<close>

definition annotator_24 :: annotator where
  "annotator_24 = \<lparr>known_selectors = SELSIG, decodes_factories = True, group_order = GROUP_ORDER, category_of = category\<rparr>"

definition annotator_25 :: annotator where
  "annotator_25 = \<lparr>known_selectors = SELSIG_25, decodes_factories = False, group_order = GROUP_ORDER_25,
     category_of = (\<lambda>calldata. category_25 (take 10 calldata))\<rparr>"

definition annotate_24 :: "annotate_env \<Rightarrow> annotation option" where
  "annotate_24 = annotate annotator_24"

definition renderPayload_25 :: "annotate_env \<Rightarrow> bytes \<Rightarrow> nat \<Rightarrow> string option" where
  "renderPayload_25 = renderPayload annotator_25"

definition decodePacked_25 :: "annotate_env \<Rightarrow> nat \<Rightarrow> nat \<Rightarrow> bytes \<Rightarrow> string option" where
  "decodePacked_25 = decodePacked annotator_25"

definition decodeEntry_25 :: "annotate_env \<Rightarrow> call_entry \<Rightarrow> string option" where
  "decodeEntry_25 = decodeEntry annotator_25"

definition annotate_25 :: "annotate_env \<Rightarrow> annotation option" where
  "annotate_25 = annotate annotator_25"

end
