(* ===== verification/Annotate_Page.thy ===== *)
theory Annotate_Page
  imports Annotate
begin

text \<open>
  A reader of HTML tags, and that the page of an annotated proposal is a well-formed document: every piece of it leaves the open
  elements as they were, whatever the call data and the description hold.
\<close>

section \<open>Tags\<close>

text \<open>Reads the tags of a document and keeps the open elements. Declarations and \<^verbatim>\<open>meta\<close> have no closing tag.\<close>

datatype html_mode = Text | Tag string

definition tag_name :: "string \<Rightarrow> string" where
  "tag_name t = takeWhile (\<lambda>c. c \<noteq> CHR '' '') t"

fun apply_tag :: "string \<Rightarrow> string list \<Rightarrow> string list option" where
  "apply_tag [] stk = None"
| "apply_tag (c # t) stk =
     (if c = CHR ''/'' then (case stk of [] \<Rightarrow> None | s # stk' \<Rightarrow> if s = t then Some stk' else None)
      else if c = CHR ''!'' \<or> tag_name (c # t) = ''meta'' then Some stk
      else Some (tag_name (c # t) # stk))"

fun scan_html :: "html_mode \<Rightarrow> string list \<Rightarrow> string \<Rightarrow> (html_mode \<times> string list) option" where
  "scan_html md stk [] = Some (md, stk)"
| "scan_html Text stk (c # cs) = (if c = CHR ''<'' then scan_html (Tag []) stk cs else scan_html Text stk cs)"
| "scan_html (Tag t) stk (c # cs) =
     (if c = CHR ''>'' then (case apply_tag (rev t) stk of None \<Rightarrow> None | Some stk' \<Rightarrow> scan_html Text stk' cs)
      else if c = CHR ''<'' then None else scan_html (Tag (c # t)) stk cs)"

definition well_formed_html :: "string \<Rightarrow> bool" where
  "well_formed_html s \<longleftrightarrow> scan_html Text [] s = Some (Text, [])"

lemma scan_append: "scan_html md stk (a @ b) = (case scan_html md stk a of None \<Rightarrow> None | Some (md', stk') \<Rightarrow> scan_html md' stk' b)"
  by (induction md stk a rule: scan_html.induct) (auto split: option.splits)

text \<open>A piece of the page that closes what it opens, and text without tags.\<close>

definition neutral :: "string \<Rightarrow> bool" where
  "neutral s \<longleftrightarrow> (\<forall>stk. scan_html Text stk s = Some (Text, stk))"

definition plain :: "string \<Rightarrow> bool" where
  "plain s \<longleftrightarrow> list_all (\<lambda>c. c \<noteq> CHR ''<'' \<and> c \<noteq> CHR ''>'') s"

lemma plain_simps [simp]: "plain []" "plain (a @ b) \<longleftrightarrow> plain a \<and> plain b" "plain (c # s) \<longleftrightarrow> c \<noteq> CHR ''<'' \<and> c \<noteq> CHR ''>'' \<and> plain s"
  by (auto simp: plain_def)

lemma scan_plain [simp]: "plain s \<Longrightarrow> scan_html Text stk s = Some (Text, stk)"
  by (induction s) auto

lemma scan_plain_tag [simp]: "plain s \<Longrightarrow> scan_html (Tag t) stk s = Some (Tag (rev s @ t), stk)"
  by (induction s arbitrary: t) auto

lemma scan_neutral [simp]: "neutral s \<Longrightarrow> scan_html Text stk s = Some (Text, stk)"
  by (simp add: neutral_def)

lemma neutral_plain [simp]: "plain s \<Longrightarrow> neutral s"
  by (simp add: neutral_def)

lemma neutral_append [simp]: "neutral a \<Longrightarrow> neutral b \<Longrightarrow> neutral (a @ b)"
  by (simp add: neutral_def scan_append)

lemma neutral_concat [simp]: "\<forall>x\<in>set xs. neutral x \<Longrightarrow> neutral (concat xs)"
  by (induction xs) auto

lemma esc_plain [simp]: "plain (esc s)"
  by (induction s) (auto simp: esc_def replace_all_def)

lemma nat_str_aux_plain: "0 < base \<Longrightarrow> base \<le> 16 \<Longrightarrow> plain (nat_str_aux base fuel n)"
proof (induction fuel arbitrary: n)
  case (Suc fuel)
  have "plain [''0123456789abcdef'' ! k]" if "k < 16" for k
  proof -
    from that have "''0123456789abcdef'' ! k \<in> set ''0123456789abcdef''" by (intro nth_mem) simp
    then show ?thesis by auto
  qed
  moreover have "n mod base < 16" using Suc.prems by (meson less_le_trans mod_less_divisor)
  ultimately show ?case using Suc by (auto split: if_splits)
qed simp

lemma nat_str_plain [simp]: "plain (nat_str n)"
  unfolding nat_str_def by (rule nat_str_aux_plain) simp_all

lemma join_with_plain [simp]: "plain sep \<Longrightarrow> \<forall>x\<in>set xs. plain x \<Longrightarrow> plain (join_with sep xs)"
proof (cases xs)
  case (Cons y ys)
  have "plain sep \<Longrightarrow> \<forall>x\<in>set ys. plain x \<Longrightarrow> plain (concat (map (\<lambda>y. sep @ y) ys))" by (induction ys) auto
  with Cons show "plain sep \<Longrightarrow> \<forall>x\<in>set xs. plain x \<Longrightarrow> plain (join_with sep xs)" by simp
qed simp

section \<open>Every piece closes what it opens\<close>

text \<open>The addresses the library gives back are hexadecimal.\<close>

definition plain_addresses :: "annotate_env \<Rightarrow> bool" where
  "plain_addresses E \<longleftrightarrow> (\<forall>a r. getAddress E a = Some r \<longrightarrow> plain r)"

definition neutral_opt :: "string option \<Rightarrow> bool" where
  "neutral_opt v \<longleftrightarrow> (\<forall>s. v = Some s \<longrightarrow> neutral s)"

lemma neutral_opt_simps [simp]: "neutral_opt None" "neutral_opt (Some s) \<longleftrightarrow> neutral s"
  by (auto simp: neutral_opt_def)

lemma neutral_opt_bind: "(\<And>x. v = Some x \<Longrightarrow> neutral_opt (f x)) \<Longrightarrow> neutral_opt (Option.bind v f)"
  by (cases v) auto

lemma neutral_optD: "neutral_opt v \<Longrightarrow> v = Some s \<Longrightarrow> neutral s"
  by simp

lemma explorer_plain [simp]: "plain addr \<Longrightarrow> plain (explorer cid addr)"
  by (auto simp: explorer_def EXPLORER_def)

lemma neutral_addr_link:
  assumes "plain addr" "plain label" "neutral s"
  shows "neutral (''<a class=\"addr\" href=\"'' @ explorer cid addr @ ''\" target=\"_blank\" rel=\"noopener\" title=\"'' @ label @ ''\">'' @ s @ ''</a>'')"
    and "neutral (''<a class=\"addr\" href=\"'' @ explorer cid addr @ ''\" target=\"_blank\" rel=\"noopener\">'' @ s @ ''</a>'')"
  using assms by (simp_all add: neutral_def scan_append tag_name_def)

lemma neutral_span:
  "plain s \<Longrightarrow> neutral ('' <span class=\"note\">// '' @ s @ ''</span>'')"
  "plain s \<Longrightarrow> neutral (''<span class=\"val\">'' @ s @ ''</span>'')"
  by (simp_all add: neutral_def scan_append tag_name_def)

lemma addrSpan_neutral:
  assumes "plain_addresses E"
  shows "neutral_opt (addrSpan E a cid)"
proof (cases "getAddress E a")
  case (Some addr)
  with assms have "plain addr" by (simp add: plain_addresses_def)
  from neutral_append [OF neutral_addr_link(1) [OF this esc_plain neutral_plain] neutral_span(1)] show ?thesis
    by (simp add: addrSpan_def Some Let_def)
qed (simp add: addrSpan_def)

lemma selSpan_neutral [simp]: "neutral (selSpan sigs sel)"
  by (simp add: selSpan_def Let_def neutral_def scan_append tag_name_def)

lemma valSpan_neutral [simp]: "neutral (valSpan v note)"
  by (simp add: valSpan_def neutral_def scan_append tag_name_def)

lemma boolSpan_neutral [simp]: "neutral (boolSpan b)"
  by (simp add: boolSpan_def neutral_def tag_name_def)

lemma row_neutral [simp]: "neutral h \<Longrightarrow> neutral (row name h)"
  by (simp add: row_def neutral_def scan_append tag_name_def)

lemma callBox_neutral [simp]: "neutral t \<Longrightarrow> neutral h \<Longrightarrow> neutral (callBox t h)"
  by (simp add: callBox_def neutral_def scan_append tag_name_def)

lemma arrow_row_neutral [simp]: "plain key \<Longrightarrow> neutral (arrow_row key)"
  by (simp add: arrow_row_def neutral_def scan_append tag_name_def)

lemma addr_row_neutral: "plain_addresses E \<Longrightarrow> neutral_opt (addr_row E name a cid)"
  using addrSpan_neutral [of E a cid] by (auto simp: addr_row_def neutral_opt_def)

lemma mechFactoryRows_neutral: "plain_addresses E \<Longrightarrow> neutral_opt (mechFactoryRows E i fs sts cid)"
  by (induction E i fs sts cid rule: mechFactoryRows.induct)
     (auto intro!: neutral_opt_bind dest: addr_row_neutral [THEN neutral_optD])

lemma renderPayload_neutral:
  assumes "plain_addresses E"
  shows "neutral_opt (permission_box A E sel args cid)" and "neutral_opt (factories_box A E sel args cid)"
    and "neutral_opt (renderPayload A E payload cid)"
proof -
  note rows = addr_row_neutral [OF assms, THEN neutral_optD] mechFactoryRows_neutral [OF assms, THEN neutral_optD]
  show p: "neutral_opt (permission_box A E sel args cid)" for sel args
    by (auto simp: permission_box_def intro!: neutral_opt_bind dest: rows)
  show f: "neutral_opt (factories_box A E sel args cid)" for sel args
    by (auto simp: factories_box_def intro!: neutral_opt_bind dest: rows)
  have "neutral (''<div class=\"row note\">payload: '' @ esc (hex payload) @ ''</div>'')"
    by (simp add: neutral_def scan_append tag_name_def)
  with p f show "neutral_opt (renderPayload A E payload cid)" by (simp add: renderPayload_def Let_def)
qed

lemma plen_text_plain: "plain (plen_text v)"
  by (cases v) (simp_all add: plen_text_def)

lemma tuple_box_neutral:
  assumes "plain_addresses E"
  shows "neutral_opt (tuple_box A E cid n target v plen payload)"
proof -
  have t: "neutral (''<span class=\"key\">tuple['' @ nat_str n @ '']</span> <span class=\"note\">// target(20)|value(12)|len(4)|payload</span>'')"
    by (simp add: neutral_def scan_append tag_name_def)
  show ?thesis unfolding tuple_box_def
    by (intro neutral_opt_bind)
       (use t addr_row_neutral [OF assms, THEN neutral_optD] renderPayload_neutral(3) [OF assms, THEN neutral_optD] in simp)
qed

lemma decodePacked_neutral: "plain_addresses E \<Longrightarrow> neutral_opt (decodePacked A E cid n pk)"
proof (induction A E cid n pk rule: decodePacked.induct)
  case (1 A E cid n pk)
  have rest: "neutral_opt (case plen of None \<Rightarrow> Some [] | Some k \<Rightarrow> decodePacked A E cid (Suc n) (drop (36 + k) pk))"
    if "pk \<noteq> []" "getAddress E (hex (take 20 pk)) = Some t" "big_text (take 12 (drop 20 pk)) = Some v" "plen = parseInt16 (take 4 (drop 32 pk))"
      "tuple_box A E cid n t v plen (case plen of None \<Rightarrow> [] | Some k \<Rightarrow> take k (drop 36 pk)) = Some b" for t v plen b
    using "1.IH" [OF that(1-4)] that(5) "1.prems" by (auto split: option.splits)
  show ?case
    by (subst decodePacked.simps)
       (auto simp: Let_def intro!: neutral_opt_bind neutral_append
         intro: tuple_box_neutral [OF "1.prems", THEN neutral_optD] rest [OF _ _ _ refl, THEN neutral_optD])
qed

lemma guard_lines_neutral: "plain_addresses E \<Longrightarrow> neutral_opt (guard_lines A E i ts ss cs sts)"
proof (induction A E i ts ss cs sts rule: guard_lines.induct)
  case (2 A E i t ts ss cs sts)
  have line: "neutral_opt (guard_line A E i t s c st)" for s c st
  proof (cases "getAddress E t")
    case (Some addr)
    with "2.prems" have addr: "plain addr" by (simp add: plain_addresses_def)
    have cid: "plain (case c of None \<Rightarrow> ''undefined'' | Some n \<Rightarrow> nat_str n)" by (simp split: option.split)
    with addr show ?thesis
      by (cases st) (simp_all add: guard_line_def Some explorer_opt_def neutral_def scan_append tag_name_def)
  qed (simp add: guard_line_def)
  from "2.IH" "2.prems" show ?case by (auto intro!: neutral_opt_bind neutral_append intro: line [THEN neutral_optD])
qed simp

lemma decodeEntry_neutral:
  assumes "plain_addresses E"
  shows "neutral_opt (decodeEntry A E e)"
proof -
  note rows = addr_row_neutral [OF assms, THEN neutral_optD] decodePacked_neutral [OF assms, THEN neutral_optD]
    renderPayload_neutral(3) [OF assms, THEN neutral_optD] guard_lines_neutral [OF assms, THEN neutral_optD]
  have message: "neutral_opt (message_box A E cid m)" for cid m
    by (auto simp: message_box_def intro!: neutral_opt_bind dest: rows)
  have val: "neutral (''<span class=\"val\">'' @ esc x @ ''</span>'')" for x by (rule neutral_span(2)) simp
  have table: "neutral (''<table class=\"al\"><thead><tr><th>#</th><th>target</th><th>address</th><th>selector</th><th>function</th><th>chain</th><th>status</th></tr></thead><tbody>''
      @ x @ ''</tbody></table>'')" if "neutral x" for x
    using that by (simp add: neutral_def scan_append tag_name_def)
  have un: "neutral (''<div class=\"row note\">unrecognized selector</div>'')"
    by (simp add: neutral_def tag_name_def)
  have "neutral_opt (nominee_box A E head args)" if "neutral head" for head args
    using that val by (auto simp: nominee_box_def Let_def intro!: neutral_opt_bind dest: rows)
  moreover have "neutral_opt (guard_box A E head args)" if "neutral head" for head args
    using that table by (auto simp: guard_box_def intro!: neutral_opt_bind dest: rows)
  moreover have "neutral_opt (send_box A E head args)" if "neutral head" for head args
    using that by (auto simp: send_box_def Let_def intro!: neutral_opt_bind callBox_neutral neutral_append intro: rows message [THEN neutral_optD])
  moreover have "neutral_opt (pass_box A E head args)" if "neutral head" for head args
    using that by (auto simp: pass_box_def intro!: neutral_opt_bind callBox_neutral neutral_append intro: rows message [THEN neutral_optD])
  moreover have "neutral_opt (child_box A E head args)" if "neutral head" for head args
    using that by (auto simp: child_box_def intro!: neutral_opt_bind callBox_neutral neutral_append intro: rows)
  moreover have "neutral_opt (ticket_box A E head args)" if "neutral head" for head args
    using that by (auto simp: ticket_box_def intro!: neutral_opt_bind callBox_neutral neutral_append intro: rows)
  ultimately show ?thesis
    using renderPayload_neutral(1,2) [OF assms] un by (simp add: decodeEntry_def Let_def)
qed

lemma concat_opt_neutral:
  assumes "\<And>x. neutral_opt (f x)"
  shows "neutral_opt (concat_opt f xs)"
  by (induction xs) (auto intro!: neutral_opt_bind dest: assms [THEN neutral_optD])

lemma entry_text_neutral:
  assumes "plain_addresses E"
  shows "neutral_opt (entry_text A E es i)"
proof -
  have "neutral (''<div class=\"entry\"><div class=\"ehead\"><span class=\"ix\">['' @ nat_str i @ '']</span> target = '' @ t
       @ '' &nbsp; value = <span class=\"val\">'' @ esc v @ ''</span></div>'' @ d
       @ ''<details class=\"raw\"><summary>raw calldata</summary><pre>'' @ esc c @ ''</pre></details></div>'')" if "neutral t" "neutral d" for t d v c
    using that by (simp add: neutral_def scan_append tag_name_def)
  then show ?thesis
    using addrSpan_neutral [OF assms, THEN neutral_optD] decodeEntry_neutral [OF assms, THEN neutral_optD]
    unfolding entry_text_def Let_def by (intro neutral_opt_bind) simp
qed

lemma group_text_neutral:
  assumes "plain_addresses E"
  shows "neutral_opt (group_text A E es m g)"
proof -
  have "neutral (''<h2>'' @ esc name @ '' ('' @ nat_str k @ '')</h2>'' @ t)" if "neutral t" for name k t
    using that by (simp add: neutral_def scan_append tag_name_def)
  then have "neutral_opt (do { t \<leftarrow> concat_opt (entry_text A E es) xs; Some (''<h2>'' @ esc name @ '' ('' @ nat_str k @ '')</h2>'' @ t) })" for xs name k
    using concat_opt_neutral [of "entry_text A E es", OF entry_text_neutral [OF assms], THEN neutral_optD] by (intro neutral_opt_bind) simp
  then show ?thesis by (simp add: group_text_def split: prod.split option.split)
qed

lemma proposeInputs_neutral:
  "\<forall>v\<in>set vals. plain v \<Longrightarrow> neutral (proposeInputs targets vals calldatas description proposalId descHash)"
  by (simp add: proposeInputs_def neutral_def scan_append tag_name_def)

lemma valNote_plain [simp]: "plain (valNote nz)"
  by (simp add: valNote_def)

text \<open>The style sheet has no tags.\<close>

lemma scan_no_open: "CHR ''<'' \<notin> set s \<Longrightarrow> scan_html Text stk s = Some (Text, stk)"
  by (induction s) auto

lemma style_scan: "scan_html Text stk (concat (map (\<lambda>l. l @ NLs) STYLE)) = Some (Text, ''style'' # stk)"
proof -
  obtain css where css: "STYLE = ''<style>'' # css" by (simp add: STYLE_def)
  have "list_all (\<lambda>l. CHR ''<'' \<notin> set l) (tl STYLE)" by code_simp
  then have "CHR ''<'' \<notin> set (concat (map (\<lambda>l. l @ NLs) css))" by (auto simp: NLs_def list_all_iff css)
  then have "scan_html Text stk' (concat (map (\<lambda>l. l @ NLs) css)) = Some (Text, stk')" for stk' by (rule scan_no_open)
  then show ?thesis by (simp add: css NLs_def scan_append tag_name_def)
qed

lemma NLs_plain [simp]: "plain NLs"
  by (simp add: NLs_def)

lemma page_well_formed: "neutral body \<Longrightarrow> plain note \<Longrightarrow> well_formed_html (page title n note proposalId body)"
  by (simp add: well_formed_html_def page_def style_scan scan_append tag_name_def)

end
