(* ===== verification/Annotate_Properties.thy ===== *)
theory Annotate_Properties
  imports Annotate_Page "HOL-Library.Multiset"
begin

text \<open>The properties of the annotated proposals, with a small proposal on which their hypotheses hold.\<close>

section \<open>Reading messages\<close>

lemma unbe_less: "unbe bs < 256 ^ length bs"
proof (induction bs)
  case (Cons b bs)
  have "unat b < 256" using unsigned_less [of b, where 'a = nat] by simp
  then have "unat b * 256 ^ length bs \<le> 255 * 256 ^ length bs" by (intro mult_right_mono) simp_all
  with Cons have "unat b * 256 ^ length bs + unbe bs < 255 * 256 ^ length bs + 256 ^ length bs" by linarith
  then show ?case by (simp add: unbe_Cons)
qed (simp add: unbe_def)

lemma be_unbe: "be (length bs) (unbe bs) = bs"
proof (induction bs)
  case (Cons b bs)
  then show ?case using unbe_less [of bs] by (simp add: unbe_Cons)
qed (simp add: unbe_def)

lemma take_20_address:
  assumes "20 \<le> length bs"
  shows "be 20 (unat (of_nat (unbe (take 20 bs)) :: address)) = take 20 bs"
proof -
  have "unbe (take 20 bs) < 2 ^ 160" using unbe_less [of "take 20 bs"] assms by simp
  then have "unat (of_nat (unbe (take 20 bs)) :: address) = unbe (take 20 bs)" by (simp add: unat_of_nat)
  with be_unbe [of "take 20 bs"] assms show ?thesis by simp
qed

text \<open>The calls of a message, each shown with its target, value, length and payload.\<close>

fun show_calls :: "annotator \<Rightarrow> annotate_env \<Rightarrow> nat \<Rightarrow> nat \<Rightarrow> (address \<times> nat \<times> bytes) list \<Rightarrow> string option" where
  "show_calls A E cid n [] = Some []"
| "show_calls A E cid n ((a, v, p) # cs) = do {
     target \<leftarrow> getAddress E (hex (be 20 (unat a)));
     box \<leftarrow> tuple_box A E cid n target (nat_str v) (Some (length p)) p;
     rest \<leftarrow> show_calls A E cid (Suc n) cs;
     Some (box @ rest) }"

lemma decodePacked_shows: "read_message bs = Some cs \<Longrightarrow> decodePacked A E cid n bs = show_calls A E cid n cs"
proof (induction bs arbitrary: n cs rule: read_message.induct)
  case (1 bs)
  show ?case
  proof (cases "bs = []")
    case True
    with "1.prems" show ?thesis by (simp add: decodePacked.simps)
  next
    case False
    let ?n = "unbe (take 4 (drop 32 bs))" and ?rest = "drop 36 bs"
    from "1.prems" False have len: "36 \<le> length bs" "?n \<le> length ?rest"
      by (auto simp: read_message.simps [of bs] Let_def split: if_splits)
    with "1.prems" False obtain cs' where cs: "read_message (drop ?n ?rest) = Some cs'"
        "cs = (of_nat (unbe (take 20 bs)), unbe (take 12 (drop 20 bs)), take ?n ?rest) # cs'"
      by (auto simp: read_message.simps [of bs] Let_def split: if_splits)
    note IH = "1.IH" [OF False _ refl refl _ cs(1), of "Suc n"]
    have "decodePacked A E cid (Suc n) (drop (36 + ?n) bs) = show_calls A E cid (Suc n) cs'"
      using IH len by (simp add: add.commute)
    with len False show ?thesis
      by (subst decodePacked.simps) (simp add: cs(2) take_20_address big_text_def parseInt16_def Let_def)
  qed
qed

section \<open>Groups\<close>

definition members :: "annotator \<Rightarrow> call_entry list \<Rightarrow> string \<Rightarrow> nat list" where
  "members A es cat = filter (\<lambda>i. category_of A (e_calldata (es ! i)) = cat) [0..<length es]"

lemma by_category_eq:
  "by_category cat i es m c = (let js = filter (\<lambda>j. cat (e_calldata (es ! (j - i))) = c) [i..<i + length es] in
     case m c of None \<Rightarrow> if js = [] then None else Some js | Some xs \<Rightarrow> Some (xs @ js))"
proof (induction cat i es m rule: by_category.induct)
  case (2 cat i e es m)
  let ?m = "m(cat (e_calldata e) \<mapsto> (case m (cat (e_calldata e)) of None \<Rightarrow> [] | Some xs \<Rightarrow> xs) @ [i])"
  define J where "J = filter (\<lambda>j. cat (e_calldata (es ! (j - Suc i))) = c) [Suc i..<Suc i + length es]"
  define K where "K = filter (\<lambda>j. cat (e_calldata ((e # es) ! (j - i))) = c) [i..<i + length (e # es)]"
  have "[i..<i + length (e # es)] = i # [Suc i..<Suc i + length es]"
    using upt_conv_Cons [of i "i + length (e # es)"] by (metis add_Suc add_Suc_right length_Cons less_add_same_cancel1 zero_less_Suc)
  moreover have "filter (\<lambda>j. cat (e_calldata ((e # es) ! (j - i))) = c) [Suc i..<Suc i + length es] = J"
    unfolding J_def by (rule filter_cong) (auto simp: nth_Cons')
  ultimately have K: "K = (if cat (e_calldata e) = c then [i] else []) @ J" unfolding K_def by simp
  have "by_category cat (Suc i) es ?m c = (case ?m c of None \<Rightarrow> if J = [] then None else Some J | Some xs \<Rightarrow> Some (xs @ J))"
    using "2" [OF refl] by (simp only: J_def Let_def)
  then show ?case unfolding K_def [symmetric] by (simp add: K Let_def split: option.split)
qed (simp split: option.split)

lemma by_category_members:
  "by_category (category_of A) 0 es Map.empty c = (if members A es c = [] then None else Some (members A es c))"
  by (simp add: by_category_eq members_def Let_def)

definition covers :: "annotator \<Rightarrow> bool" where
  "covers A \<longleftrightarrow> distinct (map fst (group_order A)) \<and> (\<forall>cd. category_of A cd \<in> fst ` set (group_order A))"

lemma annotators_cover: "covers annotator_24" "covers annotator_25"
  by (auto simp: covers_def annotator_24_def annotator_25_def GROUP_ORDER_def GROUP_ORDER_25_def category_def category_25_def Let_def)

lemma members_all:
  assumes "covers A"
  shows "mset (concat (map (\<lambda>g. members A es (fst g)) (group_order A))) = mset [0..<length es]"
proof -
  let ?c = "\<lambda>i. category_of A (e_calldata (es ! i))"
  have "distinct ks \<Longrightarrow> mset (concat (map (\<lambda>k. filter (\<lambda>i. ?c i = k) xs) ks)) = filter_mset (\<lambda>i. ?c i \<in> set ks) (mset xs)" for ks and xs :: "nat list"
  proof (induction ks)
    case (Cons k ks)
    have "filter_mset (\<lambda>i. ?c i \<in> set (k # ks)) M = filter_mset (\<lambda>i. ?c i = k) M + filter_mset (\<lambda>i. ?c i \<in> set ks) M" for M :: "nat multiset"
      using Cons.prems by (induction M) auto
    with Cons show ?case by simp
  qed simp
  note this [of "map fst (group_order A)" "[0..<length es]"]
  with assms show ?thesis by (simp add: covers_def members_def comp_def)
qed

lemma concat_opt_Some:
  "concat_opt f xs = Some t \<longleftrightarrow> (\<forall>x\<in>set xs. f x \<noteq> None) \<and> t = concat (map (\<lambda>x. the (f x)) xs)"
  by (induction xs arbitrary: t) (auto simp: bind_eq_Some_conv)

text \<open>The section of a group: its name, the number of its calls, and the calls.\<close>

definition group_section :: "(nat \<Rightarrow> string) \<Rightarrow> string \<Rightarrow> nat list \<Rightarrow> string" where
  "group_section f name xs =
     (if xs = [] then [] else ''<h2>'' @ esc name @ '' ('' @ nat_str (length xs) @ '')</h2>'' @ concat (map f xs))"

lemma group_text_section:
  assumes "group_text A E es (by_category (category_of A) 0 es Map.empty) (cat, name) = Some t"
  shows "t = group_section (\<lambda>i. the (entry_text A E es i)) name (members A es cat)"
    and "\<forall>i\<in>set (members A es cat). entry_text A E es i \<noteq> None"
  using assms by (auto simp: group_text_def by_category_members group_section_def concat_opt_Some bind_eq_Some_conv split: if_splits)

lemma annotate_sections:
  assumes "annotate A E = Some r" and "read_file E (dir_name E @ ''/calldata.json'') = Some json" and "parse_entries E json = Some es" and "covers A"
  shows "\<exists>f title nt pid inputs. (\<forall>i<length es. entry_text A E es i = Some (f i)) \<and>
    out_html r = page title (length es) nt pid
      (inputs @ concat (map (\<lambda>(cat, name). group_section f name (members A es cat)) (group_order A)))"
proof -
  let ?g = "group_text A E es (by_category (category_of A) 0 es Map.empty)" and ?f = "\<lambda>i. the (entry_text A E es i)"
  from assms(1-3) obtain desc pid h groups where d: "concat_opt ?g (group_order A) = Some groups"
      "r = \<lparr>out_path = dir_name E @ ''/'' @ base_name E @ ''.html'',
         out_html = page (case argv2 E of None \<Rightarrow> ''Proposal (annotated)'' | Some t \<Rightarrow> if t = [] then ''Proposal (annotated)'' else t)
           (length es) (valNote (nonzero es)) pid
           (proposeInputs (map e_target es) (map e_value es) (map e_calldata es) (drop_newline desc) pid h @ groups),
         out_log = [''Wrote '' @ dir_name E @ ''/'' @ base_name E @ ''.html ('' @ nat_str (length es) @ '' entries)'', ''proposalId: '' @ pid]\<rparr>"
    by (auto simp: annotate_def bind_eq_Some_conv Let_def)
  then obtain title nt inputs where r: "out_html r = page title (length es) nt pid (inputs @ groups)"
      "concat_opt ?g (group_order A) = Some groups"
    by simp
  from r(2) have g: "\<forall>x\<in>set (group_order A). ?g x \<noteq> None" "groups = concat (map (\<lambda>x. the (?g x)) (group_order A))"
    by (auto simp: concat_opt_Some)
  have sec: "the (?g x) = (\<lambda>(cat, name). group_section ?f name (members A es cat)) x" if "x \<in> set (group_order A)" for x
    using g(1) that group_text_section(1) by (cases x) fastforce
  have "entry_text A E es i = Some (?f i)" if "i < length es" for i
  proof -
    from assms(4) obtain cat name where x: "(cat, name) \<in> set (group_order A)" "category_of A (e_calldata (es ! i)) = cat"
      by (force simp: covers_def)
    with that have "i \<in> set (members A es cat)" by (simp add: members_def)
    with x g(1) group_text_section(2) show ?thesis by fastforce
  qed
  moreover have secs: "map (\<lambda>x. the (?g x)) (group_order A) = map (\<lambda>(cat, name). group_section ?f name (members A es cat)) (group_order A)"
    using sec by (intro map_cong) simp_all
  moreover from r(1) have "out_html r = page title (length es) nt pid
      (inputs @ concat (map (\<lambda>(cat, name). group_section ?f name (members A es cat)) (group_order A)))"
    by (simp only: g(2) secs)
  ultimately show ?thesis by (intro exI [of _ ?f] exI [of _ title] exI [of _ nt] exI [of _ pid] exI [of _ inputs]) simp
qed

section \<open>A small proposal\<close>

text \<open>Two calls: a permission of the main chain, and a message to polygon with one permission.\<close>

definition sample_message :: bytes where
  "sample_message = entry (7, 0, [0x82, 0x69, 0x4b, 0x1d])"

definition sample_entries :: "call_entry list" where
  "sample_entries = [\<lparr>e_target = ''0x48b6'', e_value = ''0'', e_calldata = ''0xb472047700''\<rparr>,
     \<lparr>e_target = ''0xfe5e'', e_value = ''0'', e_calldata = ''0x82694b1d00''\<rparr>]"

definition sample_annotate :: annotate_env where
  "sample_annotate = \<lparr>getAddress = (\<lambda>a. if list_all (\<lambda>c. c \<in> set ''0123456789abcdefABCDEFx'') a then Some a else None),
     decode_address_bool = (\<lambda>_. Some (''0xfa51'', False)), decode_addresses_bools = (\<lambda>_. Some ([], [])), decode_bytes32_uint = (\<lambda>_. None),
     decode_guard = (\<lambda>_. None), decode_address_bytes_uint = (\<lambda>_. None), decode_address_bytes = (\<lambda>_. Some (''0x9338'', sample_message)),
     decode_bytes = (\<lambda>_. None), decode_ticket = (\<lambda>_. None), keccak256 = Some, keccak256_utf8 = (\<lambda>_. ''0x01''),
     encode_proposal = (\<lambda>_ _ _ _. Some ''0x02''), decimal_of_hex = (\<lambda>_. Some ''2''), large_number_text = (\<lambda>_. []),
     dir_name = ''p'', base_name = ''proposal'', read_file = (\<lambda>_. Some ''text''), parse_entries = (\<lambda>_. Some sample_entries), argv2 = None\<rparr>"

lemma sample_addresses: "plain_addresses sample_annotate"
proof -
  have "plain a" if "list_all (\<lambda>c. c \<in> set ''0123456789abcdefABCDEFx'') a" for a
    using that by (induction a) auto
  then show ?thesis by (simp add: plain_addresses_def sample_annotate_def)
qed

lemma sample_read: "read_message sample_message = Some [(7, 0, [0x82, 0x69, 0x4b, 0x1d])]"
  using read_message_entry [of "(7, 0, [0x82, 0x69, 0x4b, 0x1d])" "[]"] by (simp add: sample_message_def fits_def)

lemma hex_digits: "list_all (\<lambda>c. c \<in> set ''0123456789abcdefABCDEFx'') (hex bs)"
proof -
  define P where "P c \<longleftrightarrow> c \<in> set ''0123456789abcdefABCDEFx''" for c
  have "P (''0123456789abcdef'' ! k)" if "k < 16" for k
  proof -
    from that have "''0123456789abcdef'' ! k \<in> set ''0123456789abcdef''" by (intro nth_mem) simp
    then show ?thesis by (auto simp: P_def)
  qed
  then have "list_all P (nat_str_aux 16 fuel n)" for fuel n
    by (induction fuel arbitrary: n) (simp_all del: nth_Cons_numeral)
  moreover have "P CHR ''0''" "P CHR ''x''" by (simp_all add: P_def)
  ultimately have "list_all P (hex bs)"
    by (auto simp: hex_def hex_str_def Let_def list_all_iff simp del: nat_str_aux.simps)
  then show ?thesis unfolding P_def .
qed

lemma sample_getAddress: "getAddress sample_annotate (hex bs) = Some (hex bs)" "getAddress sample_annotate ''0xfa51'' = Some ''0xfa51''"
    "getAddress sample_annotate ''0x9338'' = Some ''0x9338''" "getAddress sample_annotate ''0x48b6'' = Some ''0x48b6''"
    "getAddress sample_annotate ''0xfe5e'' = Some ''0xfe5e''"
  using hex_digits [of bs] by (simp_all add: sample_annotate_def)

lemma sample_addrSpan: "getAddress sample_annotate a = Some a \<Longrightarrow> \<exists>t. addrSpan sample_annotate a cid = Some t"
  by (simp add: addrSpan_def Let_def)

lemma sample_addr_row: "getAddress sample_annotate a = Some a \<Longrightarrow> \<exists>t. addr_row sample_annotate name a cid = Some t"
  by (simp add: addr_row_def sample_addrSpan)

lemma sample_decodes: "decode_address_bool sample_annotate x = Some (''0xfa51'', False)" "decode_addresses_bools sample_annotate x = Some ([], [])"
    "decode_address_bytes sample_annotate x = Some (''0x9338'', sample_message)"
  by (simp_all add: sample_annotate_def)

lemma sample_permission: "\<exists>t. permission_box A sample_annotate sel args cid = Some t"
  using sample_addr_row [OF sample_getAddress(2), of "''multisig''" cid] by (auto simp: permission_box_def sample_decodes)

lemma sample_payload: "\<exists>t. renderPayload A sample_annotate p cid = Some t"
  using sample_permission [of A _ _ cid] by (simp add: renderPayload_def factories_box_def sample_decodes Let_def)

lemma sample_call: "\<exists>t. show_calls A sample_annotate cid n [(7, 0, [0x82, 0x69, 0x4b, 0x1d])] = Some t"
proof -
  obtain r where "addr_row sample_annotate ''target'' (hex (be 20 7)) cid = Some r" using sample_addr_row [OF sample_getAddress(1)] by blast
  moreover obtain p where "renderPayload A sample_annotate [0x82, 0x69, 0x4b, 0x1d] cid = Some p" using sample_payload by blast
  ultimately show ?thesis by (simp add: tuple_box_def sample_getAddress(1))
qed

lemma sample_entry: "i < 2 \<Longrightarrow> \<exists>t. entry_text A sample_annotate sample_entries i = Some t"
proof -
  assume "i < 2"
  then consider "i = 0" | "i = 1" by linarith
  then obtain a where a: "e_target (sample_entries ! i) = a" "getAddress sample_annotate a = Some a"
    using sample_getAddress by cases (simp_all add: sample_entries_def)
  obtain r where r: "addr_row sample_annotate ''_receiver (FxGovernorTunnel, Polygon L2)'' ''0x9338'' 137 = Some r"
    using sample_addr_row [OF sample_getAddress(3)] by blast
  obtain m where m: "decodePacked A sample_annotate 137 0 sample_message = Some m"
    using sample_call [of A 137 0] decodePacked_shows [OF sample_read, of A sample_annotate 137 0] by metis
  have "\<exists>t. child_box A sample_annotate h args = Some t" for h args using r m by (simp add: child_box_def sample_decodes)
  moreover note sample_permission
  ultimately have "\<exists>t. decodeEntry A sample_annotate (sample_entries ! i) = Some t"
    using \<open>i < 2\<close> by (cases i) (auto simp: decodeEntry_def sample_entries_def Let_def less_Suc_eq)
  then show ?thesis using a sample_addrSpan [OF a(2), of 1] by (auto simp: entry_text_def Let_def)
qed

lemma sample_annotation: "\<exists>r. annotate_24 sample_annotate = Some r"
proof -
  let ?m = "by_category (category_of annotator_24) 0 sample_entries Map.empty"
  have "group_text annotator_24 sample_annotate sample_entries ?m (cat, name) \<noteq> None" for cat name
  proof -
    have "\<forall>i\<in>set (members annotator_24 sample_entries cat). i < 2" by (auto simp: members_def sample_entries_def)
    then have "concat_opt (entry_text annotator_24 sample_annotate sample_entries) (members annotator_24 sample_entries cat) \<noteq> None"
      using sample_entry concat_opt_Some by (metis option.distinct(1))
    then show ?thesis by (auto simp: group_text_def by_category_members)
  qed
  then obtain t where "concat_opt (group_text annotator_24 sample_annotate sample_entries ?m) (group_order annotator_24) = Some t"
    using concat_opt_Some by (metis surj_pair)
  then show ?thesis by (simp add: annotate_24_def annotate_def computeProposalId_def sample_annotate_def)
qed

section \<open>Properties\<close>

text \<open>
  C35. The page is a well-formed document: every element that is opened is closed, in order, whatever the title, the description, the
  call data, the names and the hashes are, when the library gives hexadecimal addresses and the values have no angle brackets.
\<close>

theorem annotated_page_well_formed:
  assumes "annotate_24 E = Some r \<or> annotate_25 E = Some r" and "plain_addresses E"
    and "read_file E (dir_name E @ ''/calldata.json'') = Some json" and "parse_entries E json = Some es" and "\<forall>e\<in>set es. plain (e_value e)"
  shows "well_formed_html (out_html r)"
proof -
  obtain A where A: "annotate A E = Some r" using assms(1) by (auto simp: annotate_24_def annotate_25_def)
  from A assms(3,4) obtain desc pid h groups title where d:
      "concat_opt (group_text A E es (by_category (category_of A) 0 es Map.empty)) (group_order A) = Some groups"
      "out_html r = page title (length es) (valNote (nonzero es)) pid
         (proposeInputs (map e_target es) (map e_value es) (map e_calldata es) desc pid h @ groups)"
    by (auto simp: annotate_def bind_eq_Some_conv Let_def)
  have "neutral groups" using concat_opt_neutral [OF group_text_neutral [OF assms(2)], THEN neutral_optD, OF d(1)] .
  moreover have "neutral (proposeInputs (map e_target es) (map e_value es) (map e_calldata es) desc pid h)"
    using assms(5) by (intro proposeInputs_neutral) simp
  ultimately show ?thesis using d(2) page_well_formed by simp
qed

theorem annotated_page_well_formed_witness:
  "\<exists>r. annotate_24 sample_annotate = Some r \<and> well_formed_html (out_html r)"
proof -
  obtain r where r: "annotate_24 sample_annotate = Some r" using sample_annotation by blast
  have "read_file sample_annotate (dir_name sample_annotate @ ''/calldata.json'') = Some ''text''"
      "parse_entries sample_annotate ''text'' = Some sample_entries" "\<forall>e\<in>set sample_entries. plain (e_value e)"
    by (simp_all add: sample_annotate_def sample_entries_def)
  from annotated_page_well_formed [OF _ sample_addresses this] r show ?thesis by blast
qed

text \<open>
  C36. Every call of the proposal is shown exactly once: the page has the sections of the groups in their order, each with its name, the number
  of its calls and the calls in the order of the proposal, and the sections together have every call once.
\<close>

theorem annotation_shows_every_call_once:
  assumes "annotate A E = Some r" and "A \<in> {annotator_24, annotator_25}"
    and "read_file E (dir_name E @ ''/calldata.json'') = Some json" and "parse_entries E json = Some es"
  shows "(\<exists>f title nt pid inputs. (\<forall>i<length es. entry_text A E es i = Some (f i)) \<and>
      out_html r = page title (length es) nt pid
        (inputs @ concat (map (\<lambda>(cat, name). group_section f name (members A es cat)) (group_order A))))
    \<and> mset (concat (map (\<lambda>g. members A es (fst g)) (group_order A))) = mset [0..<length es]"
proof -
  have "covers A" using assms(2) annotators_cover by auto
  with annotate_sections [OF assms(1,3,4)] members_all show ?thesis by blast
qed

theorem annotation_shows_every_call_once_witness:
  "\<exists>r f title nt pid inputs. annotate annotator_24 sample_annotate = Some r \<and> out_html r = page title 2 nt pid
     (inputs @ concat (map (\<lambda>(cat, name). group_section f name (members annotator_24 sample_entries cat)) GROUP_ORDER))"
proof -
  obtain r where r: "annotate annotator_24 sample_annotate = Some r" using sample_annotation by (auto simp: annotate_24_def)
  have e: "read_file sample_annotate (dir_name sample_annotate @ ''/calldata.json'') = Some ''text''"
      "parse_entries sample_annotate ''text'' = Some sample_entries"
    by (simp_all add: sample_annotate_def)
  have l: "length sample_entries = 2" "group_order annotator_24 = GROUP_ORDER" by (simp_all add: sample_entries_def annotator_24_def)
  from annotation_shows_every_call_once [OF r _ e] r show ?thesis unfolding l by blast
qed

text \<open>
  C37. A message to another chain is shown as the mediator there reads it: when the mediator reads a sequence of calls, the
  page shows exactly these calls, in order, each with its target, value, length and payload.
\<close>

theorem messages_shown_as_read:
  assumes "read_message packed = Some calls"
  shows "decodePacked annotator_24 E cid 0 packed = show_calls annotator_24 E cid 0 calls
    \<and> decodePacked_25 E cid 0 packed = show_calls annotator_25 E cid 0 calls"
  using assms by (simp add: decodePacked_25_def decodePacked_shows)

theorem messages_shown_as_read_witness:
  "\<exists>t. decodePacked annotator_24 sample_annotate 137 0 sample_message = Some t
     \<and> show_calls annotator_24 sample_annotate 137 0 [(7, 0, [0x82, 0x69, 0x4b, 0x1d])] = Some t"
  using sample_call messages_shown_as_read [OF sample_read, of sample_annotate 137] by metis

end
