(* ===== verification/Multisig_Scripts.thy ===== *)
theory Multisig_Scripts
  imports Proposals
begin

text \<open>
  The scripts of \<^verbatim>\<open>scripts/multisig\<close>: \<^verbatim>\<open>change_service_multisig_owners_data.js\<close> prepares the transaction that hands a service multisig
  from its only owner over to the agent instances, \<^verbatim>\<open>agent_instances_give_up_multisig_ownership.js\<close> the one that hands it back. Both
  encode calls of the multisig to itself, batch them, and print the transaction and its hash.

  The multisig, the batch, the typed hash and the encoder are code of packages: fields of \<open>safe_env\<close>, \<open>None\<close> when they throw. What the multisig
  does with the calls is the argument \<open>run\<close> of the properties, with the documented laws of its list of owners in \<open>owner_manager\<close>.
\<close>

section \<open>Data\<close>

datatype safe_call =
    RemoveOwner json json nat
  | AddOwnerWithThreshold json nat
  | SwapOwner json json json
  | ChangeThreshold json

text \<open>The file \<^verbatim>\<open>multisig_info.json\<close>.\<close>

record multisig_info =
  agentInstances :: "json list option"
  serviceMultisigAddress :: json
  serviceOwnerAddress :: json
  multisendAddress :: json
  mi_threshold :: json
  mi_nonce :: json
  mi_chainId :: json
  approvedHash :: json

record safe_tx =
  st_to :: json
  st_value :: nat
  st_data :: bytes
  st_operation :: nat
  st_nonce :: json

record safe_env =
  read_info :: "multisig_info option"
  deploys :: "string \<Rightarrow> bool"
  encode_call :: "safe_call \<Rightarrow> bytes option"
  buildMultiSendSafeTx :: "(json \<times> bytes) list \<Rightarrow> json \<Rightarrow> safe_tx option"
  safe_tx_hash :: "json \<Rightarrow> json \<Rightarrow> safe_tx \<Rightarrow> string option"
  encode_exec :: "safe_tx \<Rightarrow> string \<Rightarrow> string option"
  pack_address_bytes :: "json \<Rightarrow> string \<Rightarrow> string option"

datatype printed = Say string | ShowTx safe_tx

type_synonym 'a safe_script = "(printed list, 'a) js"

definition put :: "printed list \<Rightarrow> unit safe_script" where
  "put ls s = (Inr (), s @ ls)"

definition ask :: "string \<Rightarrow> 'a option \<Rightarrow> 'a safe_script" where
  "ask e v = (case v of None \<Rightarrow> jthrow e | Some x \<Rightarrow> jret x)"

definition sentinelOwners :: json where
  "sentinelOwners = JAddr 1"

section \<open>What both scripts do\<close>

definition deploy_for_abi :: "safe_env \<Rightarrow> string \<Rightarrow> unit safe_script" where
  "deploy_for_abi E name = (if deploys E name then jret () else jthrow ''HH700'')"

text \<open>One call after the other is encoded and wrapped into a transaction of the multisig.\<close>

definition build_txs :: "safe_env \<Rightarrow> json \<Rightarrow> safe_call list \<Rightarrow> (json \<times> bytes) list safe_script" where
  "build_txs E to calls = jmap (\<lambda>c. jbind (ask ''invalid argument'' (encode_call E c)) (\<lambda>d. jret (to, d))) calls"

text \<open>The batch goes to the address of the file, and its hash is printed for those who sign.\<close>

definition show_batch :: "safe_env \<Rightarrow> multisig_info \<Rightarrow> string \<Rightarrow> safe_call list \<Rightarrow> safe_tx safe_script" where
  "show_batch E i label calls =
     jthen (deploy_for_abi E ''GnosisSafe'') (
     jthen (deploy_for_abi E ''MultiSendCallOnly'') (
     jbind (build_txs E (serviceMultisigAddress i) calls) (\<lambda>txs.
     jbind (ask ''invalid argument'' (buildMultiSendSafeTx E txs (mi_nonce i))) (\<lambda>tx.
     let safeTx = tx\<lparr>st_to := multisendAddress i\<rparr> in
     jbind (ask ''invalid argument'' (safe_tx_hash E (serviceMultisigAddress i) (mi_chainId i) safeTx)) (\<lambda>hash.
     jthen (put [Say (NLs @ ''Full unsigned safeTx:''), ShowTx safeTx, Say (NLs @ label), Say hash]) (jret safeTx))))))"

definition given :: "multisig_info \<Rightarrow> bool" where
  "given i \<longleftrightarrow> agentInstances i \<noteq> None \<and> agentInstances i \<noteq> Some [] \<and> truthy (serviceMultisigAddress i) \<and> truthy (serviceOwnerAddress i)
     \<and> truthy (multisendAddress i) \<and> truthy (mi_nonce i) \<and> truthy (mi_chainId i)"

section \<open>From the agent instances to the owner\<close>

text \<open>The last instance goes first, each time with the sentinel as the one before it; the first is swapped with the owner.\<close>

fun remove_calls :: "json list \<Rightarrow> nat \<Rightarrow> safe_call list" where
  "remove_calls insts 0 = []"
| "remove_calls insts (Suc k) = RemoveOwner sentinelOwners (insts ! Suc k) 1 # remove_calls insts k"

definition give_up_calls :: "json \<Rightarrow> json list \<Rightarrow> safe_call list" where
  "give_up_calls own insts = remove_calls insts (length insts - 1) @ [SwapOwner sentinelOwners (insts ! 0) own]"

definition agent_instances_give_up_multisig_ownership :: "safe_env \<Rightarrow> unit safe_script" where
  "agent_instances_give_up_multisig_ownership E =
     jbind (ask ''ENOENT'' (read_info E)) (\<lambda>i.
     if \<not> given i then jret ()
     else jbind (show_batch E i ''safeTx hash to be signed by agent instances:''
         (give_up_calls (serviceOwnerAddress i) (the (agentInstances i)))) (\<lambda>_. jret ()))"

section \<open>From the owner to the agent instances\<close>

definition change_calls :: "json \<Rightarrow> json list \<Rightarrow> json \<Rightarrow> safe_call list" where
  "change_calls own insts threshold =
     (if length insts > 1
      then map (\<lambda>a. AddOwnerWithThreshold a 1) (drop 1 insts) @ [SwapOwner (insts ! 1) own (insts ! 0)]
      else [SwapOwner sentinelOwners own (insts ! 0)])
     @ [ChangeThreshold threshold]"

definition signature_bytes :: "json \<Rightarrow> string" where
  "signature_bytes own = ''0x000000000000000000000000'' @ drop 2 (to_str own)
     @ ''0000000000000000000000000000000000000000000000000000000000000000'' @ ''01''"

text \<open>What is printed for an approved hash and for one that is to be signed, and the call the registry passes to the multisig.\<close>

definition signature_lines :: "bool \<Rightarrow> printed list" where
  "signature_lines approved = (if approved
     then [Say (NLs @ ''Approved hash signatureBytes value (without initial \"0x\")'')]
     else [Say (NLs @ ''safeTx hash needs to be signed, and the resulting signature has to be assigned to the signatureBytes variable.''),
       Say (''The mock signatureBytes is set to 65 bytes of repeating \"bb\". ''
         @ ''Substitute it with the real signature string in the final safeTx bytecode.'')])"

definition show_exec :: "safe_env \<Rightarrow> multisig_info \<Rightarrow> safe_tx \<Rightarrow> unit safe_script" where
  "show_exec E i safeTx = (
     let approved = (approvedHash i = JBool True \<or> as_num (approvedHash i) = Some 1);
         sig = (if approved then signature_bytes (serviceOwnerAddress i) else ''0x'' @ concat (replicate 65 ''bb''))
     in jthen (put (signature_lines approved)) (
        jthen (put [Say (drop 2 sig)]) (
        jbind (ask ''invalid argument'' (encode_exec E safeTx sig)) (\<lambda>safeExecData.
        jthen (put [Say (NLs @ ''Final safeTx bytecode (please verify the signatureBytes)''), Say safeExecData]) (
        jbind (ask ''invalid argument'' (pack_address_bytes E (serviceMultisigAddress i) safeExecData)) (\<lambda>packedData.
        put [Say (NLs @ ''ServiceRegistry deploy() function bytes data (payload)''), Say packedData]))))))"

definition change_service_multisig_owners_data :: "safe_env \<Rightarrow> unit safe_script" where
  "change_service_multisig_owners_data E =
     jbind (ask ''ENOENT'' (read_info E)) (\<lambda>i.
     if \<not> given i \<or> \<not> truthy (mi_threshold i) then jret ()
     else jbind (show_batch E i ''safeTx hash to sign by the service owner:''
         (change_calls (serviceOwnerAddress i) (the (agentInstances i)) (mi_threshold i))) (show_exec E i))"

section \<open>The owners of a multisig\<close>

text \<open>
  The documented laws of the multisig: its owners form a list that starts after the sentinel address 1. New owners go to the front;
  the owner before the one to be removed or swapped has to be named; the threshold is at least one and at most the
  number of owners. Addresses 0 and 1 and that of the multisig itself cannot be owners.
\<close>

type_synonym owners = "address list \<times> nat"

definition can_own :: "address \<Rightarrow> address \<Rightarrow> bool" where
  "can_own this a \<longleftrightarrow> a \<notin> {0, 1, this}"

definition owner_manager :: "address \<Rightarrow> (safe_call \<Rightarrow> owners \<Rightarrow> owners option) \<Rightarrow> bool" where
  "owner_manager this run \<longleftrightarrow>
     (\<forall>a t os th. can_own this a \<longrightarrow> a \<notin> set os \<longrightarrow> 1 \<le> t \<longrightarrow> t \<le> Suc (length os) \<longrightarrow>
        run (AddOwnerWithThreshold (JAddr a) t) (os, th) = Some (a # os, t)) \<and>
     (\<forall>a t os th. can_own this a \<longrightarrow> 1 \<le> t \<longrightarrow> t \<le> length os \<longrightarrow> run (RemoveOwner (JAddr 1) (JAddr a) t) (a # os, th) = Some (os, t)) \<and>
     (\<forall>a t b os th. a \<noteq> b \<longrightarrow> run (RemoveOwner (JAddr 1) (JAddr a) t) (b # os, th) = None) \<and>
     (\<forall>a b os th. can_own this a \<longrightarrow> can_own this b \<longrightarrow> b \<notin> set (a # os) \<longrightarrow>
        run (SwapOwner (JAddr 1) (JAddr a) (JAddr b)) (a # os, th) = Some (b # os, th)) \<and>
     (\<forall>p a b xs os th. can_own this p \<longrightarrow> can_own this a \<longrightarrow> can_own this b \<longrightarrow> distinct (b # xs @ p # a # os) \<longrightarrow>
        run (SwapOwner (JAddr p) (JAddr a) (JAddr b)) (xs @ p # a # os, th) = Some (xs @ p # b # os, th)) \<and>
     (\<forall>v t os th. as_num v = Some t \<longrightarrow> 1 \<le> t \<longrightarrow> t \<le> length os \<longrightarrow> run (ChangeThreshold v) (os, th) = Some (os, t))"

lemma owner_manager_laws:
  assumes "owner_manager this run"
  shows "can_own this a \<Longrightarrow> a \<notin> set os \<Longrightarrow> 1 \<le> t \<Longrightarrow> t \<le> Suc (length os) \<Longrightarrow> run (AddOwnerWithThreshold (JAddr a) t) (os, th) = Some (a # os, t)"
    and "can_own this a \<Longrightarrow> 1 \<le> t \<Longrightarrow> t \<le> length os \<Longrightarrow> run (RemoveOwner (JAddr 1) (JAddr a) t) (a # os, th) = Some (os, t)"
    and "a \<noteq> b \<Longrightarrow> run (RemoveOwner (JAddr 1) (JAddr a) t) (b # os, th) = None"
    and "can_own this a \<Longrightarrow> can_own this b \<Longrightarrow> b \<notin> set (a # os) \<Longrightarrow> run (SwapOwner (JAddr 1) (JAddr a) (JAddr b)) (a # os, th) = Some (b # os, th)"
    and "can_own this p \<Longrightarrow> can_own this a \<Longrightarrow> can_own this b \<Longrightarrow> distinct (b # xs @ p # a # os) \<Longrightarrow>
      run (SwapOwner (JAddr p) (JAddr a) (JAddr b)) (xs @ p # a # os, th) = Some (xs @ p # b # os, th)"
    and "as_num v = Some t \<Longrightarrow> 1 \<le> t \<Longrightarrow> t \<le> length os \<Longrightarrow> run (ChangeThreshold v) (os, th) = Some (os, t)"
  using assms unfolding owner_manager_def by simp_all

text \<open>The calls of a batch, one after the other; one that fails undoes the batch.\<close>

fun run_all :: "(safe_call \<Rightarrow> owners \<Rightarrow> owners option) \<Rightarrow> safe_call list \<Rightarrow> owners \<Rightarrow> owners option" where
  "run_all run [] st = Some st"
| "run_all run (c # cs) st = Option.bind (run c st) (run_all run cs)"

lemma run_all_append: "run_all run (a @ b) st = Option.bind (run_all run a st) (run_all run b)"
proof (induction a arbitrary: st)
  case (Cons c a)
  then show ?case by (cases "run c st") auto
qed simp

lemma add_owners:
  assumes "owner_manager this run" and "distinct (as @ os)" and "\<forall>a\<in>set as. can_own this a"
  shows "run_all run (map (\<lambda>a. AddOwnerWithThreshold (JAddr a) 1) as) (os, 1) = Some (rev as @ os, 1)"
  using assms(2,3)
proof (induction as arbitrary: os)
  case (Cons a as)
  have "run (AddOwnerWithThreshold (JAddr a) 1) (os, 1) = Some (a # os, 1)"
    using Cons.prems by (intro owner_manager_laws [OF assms(1)]) auto
  with Cons.IH [of "a # os"] Cons.prems show ?case by auto
qed simp

lemma remove_owners:
  assumes "owner_manager this run" and "distinct as" and "\<forall>a\<in>set as. can_own this a" and "k < length as"
  shows "run_all run (remove_calls (map JAddr as) k) (rev (take (Suc k) as), th)
    = Some ([hd as], if k = 0 then th else 1)"
  using assms(4)
proof (induction k arbitrary: th)
  case 0
  then show ?case by (cases as) auto
next
  case (Suc k)
  have "rev (take (Suc (Suc k)) as) = as ! Suc k # rev (take (Suc k) as)" using Suc.prems by (simp add: take_Suc_conv_app_nth)
  moreover have "run (RemoveOwner (JAddr 1) (JAddr (as ! Suc k)) 1) (as ! Suc k # rev (take (Suc k) as), th) = Some (rev (take (Suc k) as), 1)"
    using assms(3) Suc.prems by (intro owner_manager_laws [OF assms(1)]) auto
  ultimately show ?case using Suc.IH [of 1] Suc.prems by (simp add: sentinelOwners_def)
qed

lemma change_calls_run:
  assumes m: "owner_manager this run" and d: "distinct (own # as)" and o: "\<forall>a\<in>set (own # as). can_own this a" and "as \<noteq> []"
    and t: "as_num v = Some t" "1 \<le> t" "t \<le> length as"
  shows "run_all run (change_calls (JAddr own) (map JAddr as) v) ([own], 1) = Some (rev as, t)"
proof -
  have th: "run (ChangeThreshold v) (rev as, 1) = Some (rev as, t)" using t by (intro owner_manager_laws [OF m]) auto
  obtain a as' where as: "as = a # as'" using assms(4) by (cases as) auto
  show ?thesis
  proof (cases as')
    case Nil
    have "run (SwapOwner (JAddr 1) (JAddr own) (JAddr a)) ([own], 1) = Some ([a], 1)"
      using d o by (intro owner_manager_laws [OF m]) (auto simp: as)
    with th show ?thesis by (simp add: change_calls_def as Nil sentinelOwners_def)
  next
    case (Cons b bs)
    have "run_all run (map (\<lambda>a. AddOwnerWithThreshold (JAddr a) 1) as') ([own], 1) = Some (rev as' @ [own], 1)"
      using add_owners [OF m, of as' "[own]"] d o by (auto simp: as)
    then have add: "run_all run (map (\<lambda>a. AddOwnerWithThreshold a 1) (drop 1 (map JAddr as))) ([own], 1) = Some (rev bs @ b # [own], 1)"
      by (simp add: as Cons comp_def)
    have "run (SwapOwner (JAddr b) (JAddr own) (JAddr a)) (rev bs @ b # own # [], 1) = Some (rev bs @ b # a # [], 1)"
      using d o by (intro owner_manager_laws [OF m]) (auto simp: as Cons)
    moreover have eq: "change_calls (JAddr own) (map JAddr as) v = map (\<lambda>a. AddOwnerWithThreshold a 1) (drop 1 (map JAddr as))
        @ [SwapOwner (JAddr b) (JAddr own) (JAddr a), ChangeThreshold v]"
      by (simp add: change_calls_def as Cons)
    ultimately show ?thesis using th unfolding eq run_all_append add by (simp add: as Cons)
  qed
qed

lemma give_up_calls_run:
  assumes m: "owner_manager this run" and d: "distinct (own # as)" and o: "\<forall>a\<in>set (own # as). can_own this a" and "as \<noteq> []"
    and "1 \<le> t" "t \<le> length as"
  shows "run_all run (give_up_calls (JAddr own) (map JAddr as)) (rev as, t) = Some ([own], 1)"
proof -
  from assms(4) have k: "length as - 1 < length as" "Suc (length as - 1) = length as" by simp_all
  have "run_all run (remove_calls (map JAddr as) (length as - 1)) (rev as, t) = Some ([hd as], if length as - 1 = 0 then t else 1)"
    using remove_owners [OF m _ _ k(1), of t] d o unfolding k(2) by simp
  moreover have "(if length as - 1 = 0 then t else 1) = 1" using assms(5,6) k(2) by auto
  moreover have "run (SwapOwner (JAddr 1) (JAddr (hd as)) (JAddr own)) ([hd as], 1) = Some ([own], 1)"
    using d o assms(4) by (intro owner_manager_laws [OF m]) (cases as; auto)+
  ultimately show ?thesis using assms(4) by (cases as) (simp_all add: give_up_calls_def run_all_append sentinelOwners_def)
qed

section \<open>A list of owners\<close>

text \<open>A multisig that follows the laws.\<close>

fun swap_after :: "address \<Rightarrow> address \<Rightarrow> address \<Rightarrow> address list \<Rightarrow> address list option" where
  "swap_after p a b (x # y # xs) = (if x = p then (if y = a then Some (x # b # xs) else None) else map_option ((#) x) (swap_after p a b (y # xs)))"
| "swap_after p a b xs = None"

fun list_safe :: "safe_call \<Rightarrow> owners \<Rightarrow> owners option" where
  "list_safe (AddOwnerWithThreshold a t) (os, th) = (case as_addr a of None \<Rightarrow> None | Some a \<Rightarrow>
     if a \<in> set os \<or> t < 1 \<or> length os + 1 < t then None else Some (a # os, t))"
| "list_safe (RemoveOwner p a t) (os, th) = (case (as_addr p, as_addr a, os) of
     (Some p, Some a, x # xs) \<Rightarrow> if p = 1 \<and> a = x \<and> 1 \<le> t \<and> t \<le> length xs then Some (xs, t) else None | _ \<Rightarrow> None)"
| "list_safe (SwapOwner p a b) (os, th) = (case (as_addr p, as_addr a, as_addr b) of
     (Some p, Some a, Some b) \<Rightarrow> if b \<in> set os then None
       else if p = 1 then (case os of [] \<Rightarrow> None | x # xs \<Rightarrow> if x = a then Some (b # xs, th) else None)
       else map_option (\<lambda>os'. (os', th)) (swap_after p a b os) | _ \<Rightarrow> None)"
| "list_safe (ChangeThreshold v) (os, th) = (case as_num v of None \<Rightarrow> None | Some t \<Rightarrow> if 1 \<le> t \<and> t \<le> length os then Some (os, t) else None)"

lemma swap_after_here: "p \<notin> set xs \<Longrightarrow> swap_after p a b (xs @ p # a # os) = Some (xs @ p # b # os)"
proof (induction xs)
  case (Cons x xs)
  then show ?case by (cases xs) auto
qed simp

lemma list_safe_owner_manager: "owner_manager this list_safe"
  unfolding owner_manager_def by (auto simp: swap_after_here can_own_def split: option.splits)

section \<open>Properties\<close>

text \<open>What a script shows: the transaction of the batch of these calls of the multisig to itself.\<close>

definition shows_batch :: "safe_env \<Rightarrow> multisig_info \<Rightarrow> safe_call list \<Rightarrow> printed list \<Rightarrow> bool" where
  "shows_batch E i calls out \<longleftrightarrow> (\<exists>ds tx. list_all2 (\<lambda>c d. encode_call E c = Some d) calls ds
     \<and> buildMultiSendSafeTx E (map (Pair (serviceMultisigAddress i)) ds) (mi_nonce i) = Some tx
     \<and> ShowTx (tx\<lparr>st_to := multisendAddress i\<rparr>) \<in> set out)"

lemma ask_Inr [simp]: "ask e v s = (Inr x, s') \<longleftrightarrow> v = Some x \<and> s' = s"
  by (auto simp: ask_def split: option.splits)

lemma build_txs_Inr:
  "build_txs E to calls s = (Inr txs, s') \<Longrightarrow> (\<exists>ds. list_all2 (\<lambda>c d. encode_call E c = Some d) calls ds \<and> txs = map (Pair to) ds) \<and> s' = s"
proof (induction calls arbitrary: txs s)
  case Nil
  then show ?case by (simp add: build_txs_def)
next
  case (Cons c calls)
  then obtain d txs' where d: "encode_call E c = Some d" "build_txs E to calls s = (Inr txs', s')" "txs = (to, d) # txs'"
    by (auto simp: build_txs_def)
  from Cons.IH [OF d(2)] obtain ds where "list_all2 (\<lambda>c d. encode_call E c = Some d) calls ds" "txs' = map (Pair to) ds" "s' = s" by blast
  with d(1,3) show ?case by (intro conjI exI [of _ "d # ds"]) simp_all
qed

lemma jthen_put: "jthen (put ls) k s = k (s @ ls)"
  by (simp add: jthen_def jbind_def put_def)

lemma jthen_deploy: "jthen (deploy_for_abi E n) k s = (Inr x, s') \<Longrightarrow> k s = (Inr x, s')"
  by (auto simp: jthen_def jbind_def deploy_for_abi_def jthrow_def jret_def split: if_splits)

lemma show_batch_Inr:
  assumes "show_batch E i label calls s = (Inr tx, s')"
  shows "shows_batch E i calls s'"
proof -
  from jthen_deploy [OF jthen_deploy [OF assms [unfolded show_batch_def]]] obtain txs s1 t hash where
      txs: "build_txs E (serviceMultisigAddress i) calls s = (Inr txs, s1)"
      and t: "buildMultiSendSafeTx E txs (mi_nonce i) = Some t"
      and s': "s' = s1 @ [Say (NLs @ ''Full unsigned safeTx:''), ShowTx (t\<lparr>st_to := multisendAddress i\<rparr>), Say (NLs @ label), Say hash]"
    by (auto simp only: jbind_Inr_iff Let_def ask_Inr jthen_put jret_def prod.inject)
  from build_txs_Inr [OF txs] obtain ds where
      ds: "list_all2 (\<lambda>c d. encode_call E c = Some d) calls ds" "txs = map (Pair (serviceMultisigAddress i)) ds" by blast
  have "ShowTx (t\<lparr>st_to := multisendAddress i\<rparr>) \<in> set s'" by (simp add: s')
  with ds t show ?thesis unfolding shows_batch_def by blast
qed

lemma show_exec_grows: "show_exec E i tx s = (Inr (), s') \<Longrightarrow> set s \<subseteq> set s'"
  by (auto simp only: show_exec_def Let_def jthen_put jbind_Inr_iff ask_Inr put_def prod.inject set_append)

lemma shows_batch_mono: "shows_batch E i calls s \<Longrightarrow> set s \<subseteq> set s' \<Longrightarrow> shows_batch E i calls s'"
  unfolding shows_batch_def by blast

lemma give_up_script:
  assumes "agent_instances_give_up_multisig_ownership E s = (Inr (), s')" and "read_info E = Some i" and "given i"
  shows "shows_batch E i (give_up_calls (serviceOwnerAddress i) (the (agentInstances i))) s'"
  using assms by (auto simp: agent_instances_give_up_multisig_ownership_def dest: show_batch_Inr)

lemma change_script:
  assumes "change_service_multisig_owners_data E s = (Inr (), s')" and "read_info E = Some i" and "given i" and "truthy (mi_threshold i)"
  shows "shows_batch E i (change_calls (serviceOwnerAddress i) (the (agentInstances i)) (mi_threshold i)) s'"
  using assms
  by (auto simp: change_service_multisig_owners_data_def dest!: show_batch_Inr show_exec_grows intro: shows_batch_mono)

text \<open>
  C38. Handing over and back: the first script shows the transaction of a batch that turns a multisig of the owner alone into one of the agent
  instances with the threshold asked for, the second one that of a batch that turns it back into one of the owner alone with threshold one.
\<close>

theorem multisig_handover_roundtrip:
  assumes "owner_manager this run" and "distinct (own # as)" and "\<forall>a\<in>set (own # as). can_own this a" and "as \<noteq> []"
    and "as_num (mi_threshold i) = Some t" and "1 \<le> t" and "t \<le> length as"
    and "read_info E = Some i" and "given i" and "truthy (mi_threshold i)"
    and "serviceOwnerAddress i = JAddr own" and "agentInstances i = Some (map JAddr as)"
    and "change_service_multisig_owners_data E [] = (Inr (), out1)" and "agent_instances_give_up_multisig_ownership E [] = (Inr (), out2)"
  shows "\<exists>calls1 calls2. shows_batch E i calls1 out1 \<and> run_all run calls1 ([own], 1) = Some (rev as, t)
    \<and> shows_batch E i calls2 out2 \<and> run_all run calls2 (rev as, t) = Some ([own], 1)"
  using change_script [OF assms(13,8-10)] give_up_script [OF assms(14,8,9)]
    change_calls_run [OF assms(1-7)] give_up_calls_run [OF assms(1-4,6,7)] assms(11,12) by auto

definition sample_info :: multisig_info where
  "sample_info = \<lparr>agentInstances = Some (map JAddr [5, 6, 7]), serviceMultisigAddress = JAddr 3, serviceOwnerAddress = JAddr 9,
     multisendAddress = JAddr 4, mi_threshold = JStr ''2'', mi_nonce = JStr ''0'', mi_chainId = JStr ''1'', approvedHash = JBool True\<rparr>"

definition sample_safe :: safe_env where
  "sample_safe = \<lparr>read_info = Some sample_info, deploys = (\<lambda>_. True), encode_call = (\<lambda>c. Some [of_nat (size c)]),
     buildMultiSendSafeTx = (\<lambda>txs n. Some \<lparr>st_to = JAddr 0, st_value = 0, st_data = concat (map snd txs), st_operation = 1, st_nonce = n\<rparr>),
     safe_tx_hash = (\<lambda>_ _ _. Some ''0x01''), encode_exec = (\<lambda>_ sig. Some sig), pack_address_bytes = (\<lambda>_ d. Some d)\<rparr>"

lemmas sample_run = sample_safe_def sample_info_def given_def show_batch_def build_txs_def deploy_for_abi_def put_def ask_def
  jthen_def jbind_def Let_def give_up_calls_def change_calls_def

theorem multisig_handover_roundtrip_witness:
  "\<exists>out1 out2 calls1 calls2. change_service_multisig_owners_data sample_safe [] = (Inr (), out1)
    \<and> shows_batch sample_safe sample_info calls1 out1 \<and> run_all list_safe calls1 ([9], 1) = Some ([7, 6, 5], 2)
    \<and> agent_instances_give_up_multisig_ownership sample_safe [] = (Inr (), out2)
    \<and> shows_batch sample_safe sample_info calls2 out2 \<and> run_all list_safe calls2 ([7, 6, 5], 2) = Some ([9], 1)"
proof -
  obtain out1 where 1: "change_service_multisig_owners_data sample_safe [] = (Inr (), out1)"
    by (simp add: change_service_multisig_owners_data_def show_exec_def sample_run)
  obtain out2 where 2: "agent_instances_give_up_multisig_ownership sample_safe [] = (Inr (), out2)"
    by (simp add: agent_instances_give_up_multisig_ownership_def sample_run eval_nat_numeral)
  have "read_info sample_safe = Some sample_info" "given sample_info" "truthy (mi_threshold sample_info)"
      "serviceOwnerAddress sample_info = JAddr 9" "agentInstances sample_info = Some (map JAddr [5, 6, 7])"
    by (simp_all add: sample_safe_def sample_info_def given_def)
  from multisig_handover_roundtrip [OF list_safe_owner_manager, of 9 "[5, 6, 7]" 3 sample_info 2, OF _ _ _ _ _ _ this 1 2] 1 2
  show ?thesis by (simp add: can_own_def sample_info_def is_digit_def decimal_def digit_value_def)
qed

text \<open>
  C39. The second script does not fit a multisig that was created with the agent instances as its owners: the owners are then in the order
  of the instances, and with two or more of them the first call of the batch fails.
\<close>

theorem give_up_fails_in_creation_order:
  assumes "owner_manager this run" and "distinct as" and "2 \<le> length as"
  shows "run_all run (give_up_calls (JAddr own) (map JAddr as)) (as, t) = None"
proof -
  from assms(3) obtain a b os where as: "as = a # b # os" by (cases as; cases "tl as") auto
  let ?z = "last (b # os)"
  have "remove_calls (map JAddr as) (length as - 1) = RemoveOwner (JAddr 1) (JAddr ?z) 1 # remove_calls (map JAddr as) (length os)"
    by (simp add: as sentinelOwners_def last_conv_nth nth_Cons')
  moreover have "?z \<noteq> a" using assms(2) last_in_set [of "b # os"] by (auto simp: as)
  then have "run (RemoveOwner (JAddr 1) (JAddr ?z) 1) (as, t) = None"
    unfolding as by (rule owner_manager_laws(3) [OF assms(1)])
  ultimately show ?thesis unfolding give_up_calls_def by (simp add: as)
qed

theorem give_up_fails_in_creation_order_witness:
  "run_all list_safe (give_up_calls (JAddr 9) (map JAddr [5, 6])) ([5, 6], 2) = None"
  using give_up_fails_in_creation_order [OF list_safe_owner_manager, of "[5, 6]" 9 2] by simp

end
