(* ===== verification/Bridge_Trials.thy ===== *)
theory Bridge_Trials
  imports Proposal_Messages
begin

text \<open>
  The trials of the Gnosis bridge, \<^verbatim>\<open>scripts/deployment/l2/bridges/gnosis/test_*.js\<close>: each packs calls of a contract on the test chain chiado into a
  message, sends it from goerli through the bridge, and looks for the event of its receipt every five minutes until it is there.

  Besides the environment of the proposals, the record \<open>trial_env\<close> has the wallet, the transaction on goerli, and what each look for events gives;
  \<open>None\<close> is a call that throws. A loop that never ends has the value \<open>None\<close>.
\<close>

section \<open>Environment\<close>

record trial_env =
  base :: proposal_env
  eoa_address :: "string \<Rightarrow> address option"
  execute_tx :: "bytes \<Rightarrow> string option"
  tx_mined :: bool
  received_messages :: "nat \<Rightarrow> bytes list option"

definition AMB_PROXY :: address where
  "AMB_PROXY = 0x87A19d769D875964E9Cd41dDBfc397B2543764E6"

definition HOME_MEDIATOR :: address where
  "HOME_MEDIATOR = 0x0a50009D55Ed5700ac8FF713709d5Ad5fa843896"

definition MOCK_TIMELOCK :: address where
  "MOCK_TIMELOCK = 0x5b03476a21e9c7cEB8dB1Bd9F24664e480FDcc43"

definition CHIADO_REGISTRY :: address where
  "CHIADO_REGISTRY = 0x31D3202d8744B16A120117A053459DDFAE93c855"

definition CHIADO_UTILITY :: address where
  "CHIADO_UTILITY = 0xc2c7E40674f1C7Bb99eFe5680Efd79842502bED4"

definition OLD_MULTISIG :: address where
  "OLD_MULTISIG = 0x5BA58970c2Ae16Cf6218783018100aF2dCcFc915"

definition TOKEN_UTILITY :: string where
  "TOKEN_UTILITY = ''artifacts/contracts/ServiceRegistryTokenUtility.sol/ServiceRegistryTokenUtility.json''"

section \<open>Sending\<close>

text \<open>The endpoints, the three contracts of the bridge, the contract under trial, and the wallet.\<close>

definition trial_start :: "trial_env \<Rightarrow> string \<Rightarrow> address \<Rightarrow> (string \<times> string \<times> string) script" where
  "trial_start T target_abi target = (let E = base T in
     jthen (show_block E (''https://eth-goerli.g.alchemy.com/v2/'' @ env_text E ''ALCHEMY_API_KEY_GOERLI'') ''goerli'') (
     jthen (show_block E ''https://rpc.chiadochain.net'' ''chiado'') (
     jbind (contract_abi E ''abis/bridges/gnosis/EternalStorageProxy.json'' (JAddr AMB_PROXY)) (\<lambda>amb.
     jbind (contract_abi E ''abis/bridges/gnosis/HomeMediator.json'' (JAddr HOME_MEDIATOR)) (\<lambda>mediator.
     jbind (contract_abi E ''abis/bridges/gnosis/test/MockTimelock.json'' (JAddr MOCK_TIMELOCK)) (\<lambda>_.
     jbind (contract_abi E target_abi (JAddr target)) (\<lambda>abi.
     jbind (answer ''invalid mnemonic'' (Option.bind (penv E ''TESTNET_MNEMONIC'') (eoa_address T))) (\<lambda>eoa.
     jthen (print_lines [Item ''EOA address'' (Val (JAddr eoa)), Line ''Correct wallet setup'']) (
     jret (amb, mediator, abi))))))))))"

definition trial_send :: "trial_env \<Rightarrow> string \<Rightarrow> string \<Rightarrow> bytes \<Rightarrow> unit script" where
  "trial_send T amb mediator data = (let E = base T in
     jbind (encode E mediator ''processMessageFromForeign'' [Bytes data]) (\<lambda>mediatorPayload.
     jbind (encode E amb ''requireToPassMessage'' [Val (JAddr HOME_MEDIATOR), Bytes mediatorPayload, Val (JStr ''2000000'')]) (\<lambda>timelockPayload.
     jbind (answer ''transaction failed'' (execute_tx T timelockPayload)) (\<lambda>hash.
     jthen (print_lines [Line (''Timelock data execution hash '' @ hash)]) (
     if tx_mined T then jret () else jthrow ''transaction failed'')))))"

section \<open>Waiting\<close>

text \<open>Every event with the message that was sent is printed; the loop ends after a look that found one.\<close>

definition found :: "bytes \<Rightarrow> bytes list \<Rightarrow> shown list" where
  "found data msgs = map (\<lambda>m. Item ''Event MessageReceived. Message in chiado:'' (Bytes m)) (filter (\<lambda>m. m = data) msgs)"

definition waiting :: shown where
  "waiting = Line ''Waiting for the receive event, next update in 5 minutes ...''"

partial_function (option) wait_loop :: "(nat \<Rightarrow> bytes list option) \<Rightarrow> bytes \<Rightarrow> nat \<Rightarrow> shown list \<Rightarrow> ((string + unit) \<times> shown list) option" where
  [code]: "wait_loop look data k s =
     (case look k of None \<Rightarrow> Some (Inl ''query failed'', s)
      | Some msgs \<Rightarrow> if data \<in> set msgs then Some (Inr (), s @ found data msgs) else wait_loop look data (Suc k) (s @ [waiting]))"

definition trial :: "trial_env \<Rightarrow> string \<Rightarrow> address \<Rightarrow> (string \<Rightarrow> bytes script) \<Rightarrow> ((string + unit) \<times> shown list) option" where
  "trial T target_abi target message =
     (case jbind (trial_start T target_abi target) (\<lambda>(amb, mediator, abi).
        jbind (message abi) (\<lambda>data. jbind (trial_send T amb mediator data) (\<lambda>_. jret data))) [] of
       (Inl e, s) \<Rightarrow> Some (Inl e, s)
     | (Inr data, s) \<Rightarrow> wait_loop (received_messages T) data 0 s)"

section \<open>The four trials\<close>

definition drainer_message :: "trial_env \<Rightarrow> address \<Rightarrow> string \<Rightarrow> bytes script" where
  "drainer_message T target abi = add_call (base T) abi ''changeDrainer'' [Val (JAddr HOME_MEDIATOR)] (JAddr target) []"

definition test_service_registry_l2_change_drainer :: "trial_env \<Rightarrow> ((string + unit) \<times> shown list) option" where
  "test_service_registry_l2_change_drainer T = trial T SERVICE_REGISTRY_L2 CHIADO_REGISTRY (drainer_message T CHIADO_REGISTRY)"

definition test_service_registry_token_utility_change_drainer :: "trial_env \<Rightarrow> ((string + unit) \<times> shown list) option" where
  "test_service_registry_token_utility_change_drainer T = trial T TOKEN_UTILITY CHIADO_UTILITY (drainer_message T CHIADO_UTILITY)"

definition manager_message :: "trial_env \<Rightarrow> string \<Rightarrow> bytes script" where
  "manager_message T abi =
     jbind (open_globals (base T) ''globals.json'') (\<lambda>g.
     add_call (base T) abi ''changeManager'' [field g ''serviceManagerAddress''] (JAddr CHIADO_REGISTRY) [])"

definition test_service_registry_l2_change_manager :: "trial_env \<Rightarrow> ((string + unit) \<times> shown list) option" where
  "test_service_registry_l2_change_manager T = trial T SERVICE_REGISTRY_L2 CHIADO_REGISTRY (manager_message T)"

definition permission_message :: "trial_env \<Rightarrow> string \<Rightarrow> bytes script" where
  "permission_message T abi =
     jbind (open_globals (base T) ''globals.json'') (\<lambda>g.
     jbind (encode (base T) abi ''changeMultisigPermission'' [Val (JAddr OLD_MULTISIG), Val (JBool False)]) (\<lambda>p1.
     jbind (encode (base T) abi ''changeMultisigPermission''
         [field g ''gnosisSafeSameAddressMultisigImplementationAddress'', Val (JBool True)]) (\<lambda>p2.
     pack_loop (base T) [(JAddr CHIADO_REGISTRY, p1), (JAddr CHIADO_REGISTRY, p2)] [])))"

definition test_service_registry_l2_change_multisig_permission :: "trial_env \<Rightarrow> ((string + unit) \<times> shown list) option" where
  "test_service_registry_l2_change_multisig_permission T = trial T SERVICE_REGISTRY_L2 CHIADO_REGISTRY (permission_message T)"

section \<open>When a trial ends\<close>

text \<open>A look settles the loop: it throws, or finds the message.\<close>

definition settles :: "bytes \<Rightarrow> bytes list option \<Rightarrow> bool" where
  "settles data v \<longleftrightarrow> (case v of None \<Rightarrow> True | Some msgs \<Rightarrow> data \<in> set msgs)"

lemma wait_loop_skip: "\<not> settles data (look k) \<Longrightarrow> wait_loop look data k s = wait_loop look data (Suc k) (s @ [waiting])"
  by (subst wait_loop.simps) (auto simp: settles_def split: option.splits)

lemma wait_loop_settled:
  "settles data (look k) \<Longrightarrow> wait_loop look data k s
     = Some (case look k of None \<Rightarrow> (Inl ''query failed'', s) | Some msgs \<Rightarrow> (Inr (), s @ found data msgs))"
  by (subst wait_loop.simps) (auto simp: settles_def split: option.splits)

lemma wait_loop_ends:
  assumes "settles data (look (k + n))" and "\<forall>i<n. \<not> settles data (look (k + i))"
  shows "wait_loop look data k s = Some (case look (k + n) of None \<Rightarrow> (Inl ''query failed'', s @ replicate n waiting)
     | Some msgs \<Rightarrow> (Inr (), s @ replicate n waiting @ found data msgs))"
  using assms
proof (induction n arbitrary: k s)
  case 0
  then show ?case by (simp add: wait_loop_settled split: option.split)
next
  case (Suc n)
  have "wait_loop look data k s = wait_loop look data (Suc k) (s @ [waiting])"
    using Suc.prems(2) by (intro wait_loop_skip) force
  moreover have "\<forall>i<n. \<not> settles data (look (Suc k + i))"
    using Suc.prems(2) by (metis Suc_less_eq add_Suc add_Suc_right)
  ultimately show ?case using Suc.IH [of "Suc k" "s @ [waiting]"] Suc.prems(1) by (simp split: option.split)
qed


lemma wait_loop_settles:
  assumes "wait_loop look data k s = Some r"
  shows "\<exists>n. settles data (look (k + n))"
proof (rule wait_loop.raw_induct [of "\<lambda>look data k s r. \<exists>n. settles data (look (k + n))", OF _ assms])
  fix loop :: "(nat \<Rightarrow> bytes list option) \<Rightarrow> bytes \<Rightarrow> nat \<Rightarrow> shown list \<Rightarrow> ((string + unit) \<times> shown list) option"
    and look data k s r
  assume IH: "\<And>look data k s r. loop look data k s = Some r \<Longrightarrow> \<exists>n. settles data (look (k + n))"
    and body: "(case look k of None \<Rightarrow> Some (Inl ''query failed'', s)
      | Some msgs \<Rightarrow> if data \<in> set msgs then Some (Inr (), s @ found data msgs) else loop look data (Suc k) (s @ [waiting])) = Some r"
  show "\<exists>n. settles data (look (k + n))"
  proof (cases "settles data (look k)")
    case True
    then show ?thesis by (intro exI [of _ 0]) simp
  next
    case False
    with body have "loop look data (Suc k) (s @ [waiting]) = Some r" by (auto simp: settles_def split: option.splits)
    from IH [OF this] obtain n where "settles data (look (Suc k + n))" by blast
    then show ?thesis by (intro exI [of _ "Suc n"]) simp
  qed
qed

section \<open>The messages\<close>

text \<open>The calls each trial means to make on the other chain; two of them take an address from \<^verbatim>\<open>globals.json\<close>.\<close>

inductive trial_of :: "trial_env \<Rightarrow> ((string + unit) \<times> shown list) option \<Rightarrow> string \<Rightarrow> address \<Rightarrow> (string \<Rightarrow> bytes script) \<Rightarrow> l2_call list \<Rightarrow> bool"
  for T :: trial_env where
  drainer: "trial_of T (test_service_registry_l2_change_drainer T) SERVICE_REGISTRY_L2 CHIADO_REGISTRY (drainer_message T CHIADO_REGISTRY)
    [(JAddr CHIADO_REGISTRY, SERVICE_REGISTRY_L2, ''changeDrainer'', [Val (JAddr HOME_MEDIATOR)])]"
| utility_drainer: "trial_of T (test_service_registry_token_utility_change_drainer T) TOKEN_UTILITY CHIADO_UTILITY (drainer_message T CHIADO_UTILITY)
    [(JAddr CHIADO_UTILITY, TOKEN_UTILITY, ''changeDrainer'', [Val (JAddr HOME_MEDIATOR)])]"
| manager: "read_json (base T) ''globals.json'' = Some g \<Longrightarrow> trial_of T (test_service_registry_l2_change_manager T) SERVICE_REGISTRY_L2 CHIADO_REGISTRY (manager_message T)
    [(JAddr CHIADO_REGISTRY, SERVICE_REGISTRY_L2, ''changeManager'', [field g ''serviceManagerAddress''])]"
| permission: "read_json (base T) ''globals.json'' = Some g \<Longrightarrow> trial_of T (test_service_registry_l2_change_multisig_permission T) SERVICE_REGISTRY_L2 CHIADO_REGISTRY (permission_message T)
    [(JAddr CHIADO_REGISTRY, SERVICE_REGISTRY_L2, ''changeMultisigPermission'', [Val (JAddr OLD_MULTISIG), Val (JBool False)]),
      (JAddr CHIADO_REGISTRY, SERVICE_REGISTRY_L2, ''changeMultisigPermission'',
        [field g ''gnosisSafeSameAddressMultisigImplementationAddress'', Val (JBool True)])]"

lemma drainer_message_delivers:
  assumes "drainer_message T target abi s = (Inr data, s')" and "packs (base T)"
  shows "delivers_calls (base T) data [(JAddr target, abi, ''changeDrainer'', [Val (JAddr HOME_MEDIATOR)])]"
  using add_call_delivers(1) [OF assms(1) [unfolded drainer_message_def] assms(2) delivers_calls_Nil] by simp

lemma manager_message_delivers:
  assumes "manager_message T abi s = (Inr data, s')" and "packs (base T)" and "read_json (base T) ''globals.json'' = Some g"
  shows "delivers_calls (base T) data [(JAddr CHIADO_REGISTRY, abi, ''changeManager'', [field g ''serviceManagerAddress''])]"
proof -
  from assms(1,3) obtain s1 where "add_call (base T) abi ''changeManager'' [field g ''serviceManagerAddress''] (JAddr CHIADO_REGISTRY) [] s1 = (Inr data, s')"
    by (auto simp: manager_message_def open_globals_def answer_def)
  from add_call_delivers(1) [OF this assms(2) delivers_calls_Nil] show ?thesis by auto
qed

lemma permission_message_delivers:
  assumes "permission_message T abi s = (Inr data, s')" and "packs (base T)" and "read_json (base T) ''globals.json'' = Some g"
  shows "delivers_calls (base T) data
    [(JAddr CHIADO_REGISTRY, abi, ''changeMultisigPermission'', [Val (JAddr OLD_MULTISIG), Val (JBool False)]),
     (JAddr CHIADO_REGISTRY, abi, ''changeMultisigPermission'', [field g ''gnosisSafeSameAddressMultisigImplementationAddress'', Val (JBool True)])]"
proof -
  from assms(1,3) obtain p1 p2 s1 where p:
      "encodeFunctionData (base T) abi ''changeMultisigPermission'' [Val (JAddr OLD_MULTISIG), Val (JBool False)] = Some p1"
      "encodeFunctionData (base T) abi ''changeMultisigPermission''
        [field g ''gnosisSafeSameAddressMultisigImplementationAddress'', Val (JBool True)] = Some p2"
      "pack_loop (base T) [(JAddr CHIADO_REGISTRY, p1), (JAddr CHIADO_REGISTRY, p2)] [] s1 = (Inr data, s')"
    by (auto simp: permission_message_def open_globals_def answer_def simp del: pack_loop.simps)
  have "delivers_calls (base T) data ([] @ [(JAddr CHIADO_REGISTRY, abi, ''changeMultisigPermission'', [Val (JAddr OLD_MULTISIG), Val (JBool False)]),
     (JAddr CHIADO_REGISTRY, abi, ''changeMultisigPermission'', [field g ''gnosisSafeSameAddressMultisigImplementationAddress'', Val (JBool True)])])
     \<and> s' = s1"
    by (rule pack_loop_delivers [OF p(3) assms(2) delivers_calls_Nil]) (use p(1,2) in simp)
  then show ?thesis by auto
qed

lemma trial_of_unfold: "trial_of T r abi target message calls \<Longrightarrow> r = trial T abi target message"
  by (induction rule: trial_of.induct)
     (simp_all add: test_service_registry_l2_change_drainer_def test_service_registry_token_utility_change_drainer_def
       test_service_registry_l2_change_manager_def test_service_registry_l2_change_multisig_permission_def)

lemma trial_of_delivers:
  assumes "trial_of T r abi target message calls" and "message abi s = (Inr data, s')" and "packs (base T)"
  shows "delivers_calls (base T) data calls"
  using assms drainer_message_delivers manager_message_delivers permission_message_delivers by cases metis+

text \<open>The transaction is sent and mined, with this message.\<close>

definition trial_sent :: "trial_env \<Rightarrow> string \<Rightarrow> address \<Rightarrow> (string \<Rightarrow> bytes script) \<Rightarrow> bytes \<Rightarrow> shown list \<Rightarrow> bool" where
  "trial_sent T abi target message data s \<longleftrightarrow>
     jbind (trial_start T abi target) (\<lambda>(amb, mediator, abi). jbind (message abi) (\<lambda>data. jbind (trial_send T amb mediator data) (\<lambda>_. jret data))) []
       = (Inr data, s)"

lemma sent_message: "trial_sent T abi target message data s \<Longrightarrow> \<exists>s1 s2. message abi s1 = (Inr data, s2)"
  by (auto simp: trial_sent_def trial_start_def Let_def) blast

lemma trial_waits: "trial_sent T abi target message data s \<Longrightarrow> trial T abi target message = wait_loop (received_messages T) data 0 s"
  by (simp add: trial_sent_def trial_def)

lemma trial_waits_for:
  assumes "trial_of T r abi target message calls" and "trial_sent T abi target message data s"
  shows "r = wait_loop (received_messages T) data 0 s"
  using trial_of_unfold [OF assms(1)] trial_waits [OF assms(2)] by simp

lemma wait_loop_returns: "(\<exists>x. wait_loop look data 0 s = Some x) \<longleftrightarrow> (\<exists>n. settles data (look n))"
proof
  assume "\<exists>x. wait_loop look data 0 s = Some x"
  then show "\<exists>n. settles data (look n)" using wait_loop_settles [of look data 0 s] by auto
next
  assume "\<exists>n. settles data (look n)"
  then obtain n where "settles data (look n)" "\<forall>i<n. \<not> settles data (look i)"
    using exists_least_iff [of "\<lambda>n. settles data (look n)"] by blast
  then show "\<exists>x. wait_loop look data 0 s = Some x" using wait_loop_ends [of data look 0 n s] by simp
qed

text \<open>
  C40. Each of the four trials, once its transaction is sent and mined, ends exactly when some look for events throws or finds the message that was sent.
  It then ends at the first such look, after one line of waiting per look before it: with an error, or having printed each event with that message. The
  message delivers the calls the trial means to make on the other chain, with the addresses of the file \<^verbatim>\<open>globals.json\<close> it has read.
\<close>

theorem trials_end:
  assumes "trial_of T r abi target message calls" and "trial_sent T abi target message data s" and "packs (base T)"
  shows "((\<exists>x. r = Some x) \<longleftrightarrow> (\<exists>n. settles data (received_messages T n)))
    \<and> (\<forall>n. settles data (received_messages T n) \<and> (\<forall>i<n. \<not> settles data (received_messages T i)) \<longrightarrow>
      r = Some (case received_messages T n of None \<Rightarrow> (Inl ''query failed'', s @ replicate n waiting)
        | Some msgs \<Rightarrow> (Inr (), s @ replicate n waiting @ found data msgs)))
    \<and> delivers_calls (base T) data calls"
proof (intro conjI)
  note r = trial_waits_for [OF assms(1,2)]
  show "(\<exists>x. r = Some x) \<longleftrightarrow> (\<exists>n. settles data (received_messages T n))"
    unfolding r by (rule wait_loop_returns)
  show "\<forall>n. settles data (received_messages T n) \<and> (\<forall>i<n. \<not> settles data (received_messages T i)) \<longrightarrow>
      r = Some (case received_messages T n of None \<Rightarrow> (Inl ''query failed'', s @ replicate n waiting)
        | Some msgs \<Rightarrow> (Inr (), s @ replicate n waiting @ found data msgs))"
    using wait_loop_ends [of data "received_messages T" 0 _ s] by (simp add: r)
  show "delivers_calls (base T) data calls"
    using sent_message [OF assms(2)] trial_of_delivers [OF assms(1) _ assms(3)] by blast
qed

text \<open>A trial whose message arrives before the third look, together with another one.\<close>

definition sample_base :: proposal_env where
  "sample_base = \<lparr>penv = (\<lambda>_. Some ''key''), read_json = (\<lambda>_. None), has_abi = (\<lambda>_. True), first_signer = None,
     blockNumber = (\<lambda>_. Some 1), encodeFunctionData = (\<lambda>_ fn args. Some [of_nat (length fn), of_nat (length args)]),
     solidityPack = (\<lambda>t v n p. case t of JAddr a \<Rightarrow> if n < 2 ^ 32 then Some (be 20 (unat a) @ be 12 v @ be 4 n @ p) else None | _ \<Rightarrow> None),
     quoteEVMDeliveryPrice = (\<lambda>_ _ _. None), l2_inbox = (\<lambda>_. None), baseFee = (\<lambda>_. None), gasPrice = (\<lambda>_. None),
     estimateAll = (\<lambda>_ _ _ _ _ _ _ _. None)\<rparr>"

definition trial_message :: bytes where
  "trial_message = be 20 (unat CHIADO_REGISTRY) @ be 12 0 @ be 4 (length [13, 1 :: 8 word]) @ [13, 1]"

definition sample_trial :: trial_env where
  "sample_trial = \<lparr>base = sample_base, eoa_address = (\<lambda>_. Some 9), execute_tx = (\<lambda>_. Some ''0x1''), tx_mined = True,
     received_messages = (\<lambda>n. if n = 2 then Some [[], trial_message] else Some [])\<rparr>"

lemma sample_packs: "packs (base sample_trial)"
  by (auto simp: packs_def sample_trial_def sample_base_def split: json.splits if_splits)

lemma sample_trial_sent: "\<exists>s. trial_sent sample_trial SERVICE_REGISTRY_L2 CHIADO_REGISTRY (drainer_message sample_trial CHIADO_REGISTRY) trial_message s"
  by (simp add: trial_sent_def trial_start_def trial_send_def drainer_message_def add_call_def pack_call_def sample_trial_def sample_base_def
    trial_message_def show_block_def print_lines_def jthen_def jbind_def encode_def answer_def contract_abi_def Let_def)

theorem trials_end_witness:
  "\<exists>s. test_service_registry_l2_change_drainer sample_trial
     = Some (Inr (), s @ [waiting, waiting, Item ''Event MessageReceived. Message in chiado:'' (Bytes trial_message)])"
proof -
  obtain s where s: "trial_sent sample_trial SERVICE_REGISTRY_L2 CHIADO_REGISTRY (drainer_message sample_trial CHIADO_REGISTRY) trial_message s"
    using sample_trial_sent by blast
  have m: "trial_message \<noteq> []" by (simp add: trial_message_def)
  have "settles trial_message (received_messages sample_trial 2)"
    and "\<forall>i<2. \<not> settles trial_message (received_messages sample_trial i)"
    by (auto simp: settles_def sample_trial_def)
  with trials_end [OF trial_of.drainer s sample_packs]
  have "test_service_registry_l2_change_drainer sample_trial
     = Some (case received_messages sample_trial 2 of None \<Rightarrow> (Inl ''query failed'', s @ replicate 2 waiting)
        | Some msgs \<Rightarrow> (Inr (), s @ replicate 2 waiting @ found trial_message msgs))" by blast
  with m show ?thesis
    by (intro exI [of _ s]) (simp add: sample_trial_def found_def numeral_2_eq_2)
qed

end
