(* ===== verification/Arbitrum_Tickets.thy ===== *)
theory Arbitrum_Tickets
  imports Proposal_Messages
begin

text \<open>
  The scripts around retryable tickets of Arbitrum: \<^verbatim>\<open>timelock_token_mint.js\<close> and \<^verbatim>\<open>timelock_send_native_ETH_on_L2.js\<close> of
  \<^verbatim>\<open>scripts/deployment/l2/arbitrum\<close> send a ticket on a test network, \<^verbatim>\<open>estimate_arb_submission_cost.js\<close> of proposal 24 prints the numbers for a
  ticket of that proposal.

  Besides the environment of the proposals, the record \<open>ticket_env\<close> has the wallet, the estimator with the gas price it also returns, and the
  transaction that is sent; \<open>None\<close> is a call that throws.
\<close>

section \<open>Environment\<close>

record ticket_params = gas_params +
  maxFeePerGas :: nat

record inbox_tx =
  x_to :: json
  x_value :: nat
  x_data :: bytes
  x_gasLimit :: "nat option"

record ticket_env =
  tbase :: proposal_env
  wallet :: "string \<Rightarrow> address option"
  estimate_ticket :: "json \<Rightarrow> json \<Rightarrow> nat \<Rightarrow> json \<Rightarrow> json \<Rightarrow> bytes \<Rightarrow> nat \<Rightarrow> gas_overrides \<Rightarrow> ticket_params option"
  execute_call :: "inbox_tx \<Rightarrow> string option"
  ticket_mined :: bool

section \<open>Numbers for proposal 24\<close>

definition TIMELOCK :: address where
  "TIMELOCK = 0x3C1fF68f5aa342D296d4DEe4Bb1cACCA912D95fE"

definition ARB_MEDIATOR_L2 :: address where
  "ARB_MEDIATOR_L2 = 0x4d30F68F5AA342d296d4deE4bB1Cacca912dA70F"

definition SRL2_ARBITRUM :: address where
  "SRL2_ARBITRUM = 0xE3607b00E75f6405248323A9417ff6b39B244b50"

definition SAME_ARBITRUM :: address where
  "SAME_ARBITRUM = 0xBb7e1D6Cb6F243D6bdE81CE92a9f2aFF7Fbe7eac"

definition mainnet_or_public :: "proposal_env \<Rightarrow> string" where
  "mainnet_or_public E = (case penv E ''ALCHEMY_API_KEY_MAINNET'' of None \<Rightarrow> ''https://ethereum-rpc.publicnode.com''
     | Some k \<Rightarrow> if k = [] then ''https://ethereum-rpc.publicnode.com'' else ''https://eth-mainnet.g.alchemy.com/v2/'' @ k)"

definition cost_lines :: "json \<Rightarrow> ticket_params \<Rightarrow> nat \<Rightarrow> shown list" where
  "cost_lines inbox p gasPriceBid =
     [Item ''inbox:'' (Val inbox),
      Line (''ARB_MAX_SUBMISSION_COST = '' @ nat_str (maxSubmissionCost p)),
      Line (''ARB_GAS_LIMIT          = '' @ nat_str (gasLimit p)),
      Line (''ARB_MAX_FEE_PER_GAS    = '' @ nat_str (maxFeePerGas p) @ '' (buffered; raw gasPrice = '' @ nat_str gasPriceBid @ '')''),
      Line (''deposit                = '' @ nat_str (deposit p)),
      Line (''ARB_RETRYABLE_VALUE    = deposit*10 = '' @ nat_str (deposit p * 10))]"

definition estimate_arb_submission_cost :: "ticket_env \<Rightarrow> unit script" where
  "estimate_arb_submission_cost T = (let E = tbase T in
     jbind (encode E ''function changeMultisigPermission(address,bool)'' ''changeMultisigPermission''
       [Val (JAddr SAME_ARBITRUM), Val (JBool False)]) (\<lambda>calldata.
     jbind (answer ''unknown network'' (l2_inbox E ARBITRUM_URL)) (\<lambda>inbox.
     jbind (answer ''call failed'' (baseFee E (mainnet_or_public E))) (\<lambda>fee.
     jbind (answer ''estimation failed'' (estimate_ticket T (JAddr TIMELOCK) (JAddr SRL2_ARBITRUM) 0 (JAddr ARB_MEDIATOR_L2) (JAddr 0)
       calldata fee RetryablesGasOverrides)) (\<lambda>p.
     jbind (answer ''call failed'' (gasPrice E ARBITRUM_URL)) (\<lambda>gasPriceBid.
     print_lines (cost_lines inbox p gasPriceBid)))))))"

section \<open>Trials\<close>

definition sepolia_url :: "proposal_env \<Rightarrow> string" where
  "sepolia_url E = ''https://eth-sepolia.g.alchemy.com/v2/'' @ env_text E ''ALCHEMY_API_KEY_SEPOLIA''"

definition ARBITRUM_SEPOLIA_URL :: string where
  "ARBITRUM_SEPOLIA_URL = ''https://sepolia-rollup.arbitrum.io/rpc''"

definition SEPOLIA_TIMELOCK :: address where
  "SEPOLIA_TIMELOCK = 0x31D3202d8744B16A120117A053459DDFAE93c855"

definition SEPOLIA_TOKEN :: address where
  "SEPOLIA_TOKEN = 0xeDd71796B90eaCc56B074C39BAC90ED2Ca6D93Ee"

definition TRIAL_OVERRIDES :: gas_overrides where
  "TRIAL_OVERRIDES = \<lparr>min_gasLimit = 10000, gasLimit_percentIncrease = 30, maxSubmissionFee_percentIncrease = 30, maxFeePerGas_percentIncrease = 30\<rparr>"

definition sepolia_start :: "ticket_env \<Rightarrow> address script" where
  "sepolia_start T = (let E = tbase T in
     jthen (show_block E (sepolia_url E) ''sepolia'') (
     jthen (show_block E ARBITRUM_SEPOLIA_URL ''arbitrum sepolia'') (
     jbind (answer ''invalid mnemonic'' (Option.bind (penv E ''TESTNET_MNEMONIC'') (wallet T))) (\<lambda>eoa.
     jthen (print_lines [Item ''EOA'' (Val (JAddr eoa)), Line ''Correct wallet setup'']) (
     jbind (contract_abi E ''MockTimelock'' (JAddr SEPOLIA_TIMELOCK)) (\<lambda>_. jret eoa))))))"

definition show_inbox :: "ticket_env \<Rightarrow> json script" where
  "show_inbox T =
     jbind (answer ''unknown network'' (l2_inbox (tbase T) ARBITRUM_SEPOLIA_URL)) (\<lambda>inbox.
     jthen (print_lines [Item [] (Val inbox)]) (jret inbox))"

text \<open>The estimate has no ether for the call in both scripts, whatever the ticket states.\<close>

definition trial_ticket :: "ticket_env \<Rightarrow> string \<Rightarrow> json \<Rightarrow> json \<Rightarrow> nat \<Rightarrow> address \<Rightarrow> bytes \<Rightarrow> nat option \<Rightarrow> inbox_tx script" where
  "trial_ticket T fn inbox to l2CallValue eoa calldata limit = (let E = tbase T in
     jbind (answer ''call failed'' (baseFee E (sepolia_url E))) (\<lambda>fee.
     jbind (answer ''estimation failed'' (estimate_ticket T (JAddr SEPOLIA_TIMELOCK) to 0 (JAddr eoa) (JAddr eoa) calldata fee TRIAL_OVERRIDES)) (\<lambda>params.
     jthen (print_lines [Item ''Current retryable base submission price is:'' (Val (JStr (nat_str (maxSubmissionCost params))))]) (
     jbind (answer ''call failed'' (gasPrice E ARBITRUM_SEPOLIA_URL)) (\<lambda>gasPriceBid.
     jthen (print_lines [Item ''L2 gas price:'' (Val (JStr (nat_str gasPriceBid)))]) (
     jbind (encode E (''function '' @ fn) fn [Val to, Val (JNum l2CallValue), Val (JNum (maxSubmissionCost params)), Val (JAddr eoa), Val (JAddr eoa),
       Val (JNum (gasLimit params)), Val (JNum gasPriceBid), Bytes calldata]) (\<lambda>timelockCalldata.
     jret \<lparr>x_to = inbox, x_value = deposit params, x_data = timelockCalldata, x_gasLimit = limit\<rparr>)))))))"

definition submit :: "ticket_env \<Rightarrow> inbox_tx \<Rightarrow> unit script" where
  "submit T tx =
     jbind (answer ''transaction failed'' (execute_call T tx)) (\<lambda>hash.
     jthen (print_lines [Line hash]) (if ticket_mined T then jret () else jthrow ''transaction failed''))"

definition mint_tx :: "ticket_env \<Rightarrow> inbox_tx script" where
  "mint_tx T =
     jbind (sepolia_start T) (\<lambda>eoa.
     jbind (contract_abi (tbase T) ''ERC20Token'' (JAddr SEPOLIA_TOKEN)) (\<lambda>erc20Token.
     jbind (show_inbox T) (\<lambda>inbox.
     jbind (encode (tbase T) erc20Token ''mint'' [Val (JAddr eoa), Val (JNum 100)]) (\<lambda>calldata.
     trial_ticket T ''createRetryableTicket'' inbox (JAddr SEPOLIA_TOKEN) 0 eoa calldata None))))"

definition timelock_token_mint :: "ticket_env \<Rightarrow> unit script" where
  "timelock_token_mint T = jbind (mint_tx T) (submit T)"

definition SENT_ETHER :: nat where
  "SENT_ETHER = 5000000000000000"

definition send_tx :: "ticket_env \<Rightarrow> inbox_tx script" where
  "send_tx T =
     jbind (sepolia_start T) (\<lambda>eoa.
     jbind (show_inbox T) (\<lambda>inbox.
     trial_ticket T ''unsafeCreateRetryableTicket'' inbox (JAddr eoa) SENT_ETHER eoa [] (Some 200000)))"

definition timelock_send_native_ETH_on_L2 :: "ticket_env \<Rightarrow> unit script" where
  "timelock_send_native_ETH_on_L2 T = jbind (send_tx T) (submit T)"

section \<open>What a ticket costs\<close>

text \<open>
  What the library documents of its estimate: the deposit is the submission cost, the gas at the highest price and the ether of the call, and the
  gas limit is at least the least one asked for. The inbox asks for as much, at the price the ticket states.
\<close>

definition estimator_law :: "ticket_env \<Rightarrow> bool" where
  "estimator_law T \<longleftrightarrow> (\<forall>from' to v ex cb d fee ov q. estimate_ticket T from' to v ex cb d fee ov = Some q \<longrightarrow>
     deposit q = maxSubmissionCost q + gasLimit q * maxFeePerGas q + v \<and> min_gasLimit ov \<le> gasLimit q)"

definition inbox_asks :: "ticket_params \<Rightarrow> nat \<Rightarrow> nat \<Rightarrow> nat" where
  "inbox_asks q v price = maxSubmissionCost q + v + gasLimit q * price"

definition ticket_data :: "ticket_env \<Rightarrow> string \<Rightarrow> json \<Rightarrow> nat \<Rightarrow> address \<Rightarrow> bytes \<Rightarrow> ticket_params \<Rightarrow> nat \<Rightarrow> bytes option" where
  "ticket_data T fn to v eoa d q price = encodeFunctionData (tbase T) (''function '' @ fn) fn
     [Val to, Val (JNum v), Val (JNum (maxSubmissionCost q)), Val (JAddr eoa), Val (JAddr eoa), Val (JNum (gasLimit q)), Val (JNum price), Bytes d]"

lemma inbox_asks_mono: "price \<le> price' \<Longrightarrow> inbox_asks q v price \<le> inbox_asks q v price'"
  by (simp add: inbox_asks_def)

lemma trial_ticket_Inr:
  assumes "trial_ticket T fn inbox to v eoa d limit s = (Inr tx, s')" and "estimator_law T"
  shows "\<exists>q price. x_to tx = inbox \<and> Some (x_data tx) = ticket_data T fn to v eoa d q price \<and> gasPrice (tbase T) ARBITRUM_SEPOLIA_URL = Some price
    \<and> x_value tx = inbox_asks q 0 (maxFeePerGas q) \<and> 10000 \<le> gasLimit q"
proof -
  from assms(1) obtain fee q price data where q:
      "estimate_ticket T (JAddr SEPOLIA_TIMELOCK) to 0 (JAddr eoa) (JAddr eoa) d fee TRIAL_OVERRIDES = Some q"
      "gasPrice (tbase T) ARBITRUM_SEPOLIA_URL = Some price" "ticket_data T fn to v eoa d q price = Some data"
      "tx = \<lparr>x_to = inbox, x_value = deposit q, x_data = data, x_gasLimit = limit\<rparr>"
    by (auto simp: trial_ticket_def ticket_data_def Let_def jthen_def)
  from assms(2) q(1) have "deposit q = maxSubmissionCost q + gasLimit q * maxFeePerGas q" "10000 \<le> gasLimit q"
    unfolding estimator_law_def TRIAL_OVERRIDES_def by fastforce+
  with q(2-4) show ?thesis by (intro exI [of _ q] exI [of _ price]) (simp add: inbox_asks_def)
qed

text \<open>The ticket for the mint is paid for, as long as the price of gas is within the estimate.\<close>

lemma mint_ticket_paid:
  assumes "mint_tx T s = (Inr tx, s')" and "estimator_law T"
  shows "\<exists>eoa d q price. Some (x_data tx) = ticket_data T ''createRetryableTicket'' (JAddr SEPOLIA_TOKEN) 0 eoa d q price
    \<and> (price \<le> maxFeePerGas q \<longrightarrow> inbox_asks q 0 price \<le> x_value tx)"
proof -
  from assms(1) obtain inbox eoa d s1 where "trial_ticket T ''createRetryableTicket'' inbox (JAddr SEPOLIA_TOKEN) 0 eoa d None s1 = (Inr tx, s')"
    by (auto simp: mint_tx_def)
  from trial_ticket_Inr [OF this assms(2)] inbox_asks_mono show ?thesis by metis
qed

text \<open>
  The ticket that sends ether is not: the value has nothing for the ether of the call, and at the estimated price or above it falls short by at
  least that much. The script uses the entry of the inbox that does not check; the ether has to be there on the other chain.
\<close>

lemma send_ticket_short:
  assumes "send_tx T s = (Inr tx, s')" and "estimator_law T"
  shows "\<exists>eoa q price. Some (x_data tx) = ticket_data T ''unsafeCreateRetryableTicket'' (JAddr eoa) SENT_ETHER eoa [] q price
    \<and> (maxFeePerGas q \<le> price \<longrightarrow> x_value tx + SENT_ETHER \<le> inbox_asks q SENT_ETHER price)"
proof -
  from assms(1) obtain inbox eoa s1 where
      "trial_ticket T ''unsafeCreateRetryableTicket'' inbox (JAddr eoa) SENT_ETHER eoa [] (Some 200000) s1 = (Inr tx, s')"
    by (auto simp: send_tx_def)
  from trial_ticket_Inr [OF this assms(2)] obtain q price where
      "Some (x_data tx) = ticket_data T ''unsafeCreateRetryableTicket'' (JAddr eoa) SENT_ETHER eoa [] q price" "x_value tx = inbox_asks q 0 (maxFeePerGas q)"
    by blast
  then show ?thesis
    using inbox_asks_mono [of "maxFeePerGas q" price q SENT_ETHER] by (intro exI [of _ eoa] exI [of _ q] exI [of _ price]) (simp add: inbox_asks_def)
qed

text \<open>The numbers printed for proposal 24 make a ticket that is paid for tenfold at the price it states.\<close>

lemma printed_ticket_paid:
  assumes "estimate_arb_submission_cost T s = (Inr (), s')" and "estimator_law T"
  shows "\<exists>inbox p price. s' = s @ cost_lines inbox p price \<and> 2000000 \<le> gasLimit p \<and> 10 * inbox_asks p 0 (maxFeePerGas p) = deposit p * 10"
proof -
  from assms(1) obtain d fee inbox p price where p:
      "estimate_ticket T (JAddr TIMELOCK) (JAddr SRL2_ARBITRUM) 0 (JAddr ARB_MEDIATOR_L2) (JAddr 0) d fee RetryablesGasOverrides = Some p"
      "s' = s @ cost_lines inbox p price"
    by (auto simp: estimate_arb_submission_cost_def Let_def print_lines_def)
  from assms(2) p(1) have "deposit p = maxSubmissionCost p + gasLimit p * maxFeePerGas p" "2000000 \<le> gasLimit p"
    unfolding estimator_law_def RetryablesGasOverrides_def by fastforce+
  with p(2) show ?thesis by (intro exI [of _ inbox] exI [of _ p] exI [of _ price]) (simp add: inbox_asks_def)
qed

end
