(* ===== verification/Main_Registry.thy ===== *)
theory Main_Registry
  imports Service_Registry_Invariants Unit_Properties
begin

text \<open>
  The service registry of the main chain, \<^verbatim>\<open>contracts/ServiceRegistry.sol\<close>. Its code is that of \<^verbatim>\<open>ServiceRegistryL2.sol\<close>, except that agent ids are checked
  against the agent registry, and that a deployed service keeps the ids of its agents and of all their components. The state is that of the
  other contract and the two maps; the functions that do not differ are those of the other contract.

  The only other difference is that the event of a creation has no hash: the log of this contract is \<open>main_log\<close>.

  It is shown that every step of this contract is one of the other, so that all invariants hold here, and that the stored components of a deployed
  service are those of its agents.
\<close>

section \<open>Data\<close>

record main_registry =
  sr :: service_registry
  mapServiceIdSetComponentIds :: "uint256 \<Rightarrow> uint32 list"
  mapServiceIdSetAgentIds :: "uint256 \<Rightarrow> uint32 list"

definition new_main_registry :: "address \<Rightarrow> string \<Rightarrow> main_registry" where
  "new_main_registry deployer uri =
     \<lparr>sr = new_registry deployer uri, mapServiceIdSetComponentIds = (\<lambda>_. []), mapServiceIdSetAgentIds = (\<lambda>_. [])\<rparr>"

datatype main_event = CreatedService uint256 | Logged event

fun main_event_of :: "event \<Rightarrow> main_event" where
  "main_event_of (CreateService serviceId hash) = CreatedService serviceId"
| "main_event_of e = Logged e"

definition main_log :: "main_registry \<Rightarrow> main_event list" where
  "main_log M = map main_event_of (events (sr M))"

section \<open>Functions\<close>

text \<open>The argument \<open>supply\<close> is the total supply of the agent registry.\<close>

fun main_check_agentIds :: "nat \<Rightarrow> nat \<Rightarrow> uint32 list \<Rightarrow> unit res" where
  "main_check_agentIds supply lastId [] = Inr ()"
| "main_check_agentIds supply lastId (a # as) =
     (if unat a < lastId + 1 \<or> unat a > supply then Inl (WrongAgentId (unat a)) else main_check_agentIds supply (unat a) as)"

definition main_initialChecks :: "nat \<Rightarrow> bytes32 \<Rightarrow> uint32 list \<Rightarrow> AgentParams list \<Rightarrow> unit res" where
  "main_initialChecks supply hash ids params =
     (if hash = 0 then Inl ZeroValue
      else if ids = [] \<or> length ids \<noteq> length params
        then Inl (WrongArrayLength (length ids) (length params))
      else main_check_agentIds supply 0 ids)"

definition on_registry :: "(service_registry \<Rightarrow> ('a \<times> service_registry) res) \<Rightarrow> main_registry \<Rightarrow> ('a \<times> main_registry) res" where
  "on_registry f M = rbind (f (sr M)) (\<lambda>(r, s). Inr (r, M\<lparr>sr := s\<rparr>))"

text \<open>The guards before the check of the ids are repeated here, in their order; what follows is the code of the other contract.\<close>

definition main_create ::
    "env \<Rightarrow> unit_registry \<Rightarrow> address \<Rightarrow> address \<Rightarrow> bytes32 \<Rightarrow> uint32 list \<Rightarrow> AgentParams list \<Rightarrow> nat
       \<Rightarrow> main_registry \<Rightarrow> (uint256 \<times> main_registry) res" where
  "main_create E A sender serviceOwner hash ids params thr M =
     (if locked (sr M) > 1 then Inl ReentrancyGuard
      else if manager (sr M) \<noteq> sender then Inl (ManagerOnly sender (manager (sr M)))
      else if serviceOwner = 0 then Inl ZeroAddress
      else rbind (main_initialChecks (unat (totalSupply A)) hash ids params) (\<lambda>_.
        on_registry (create E sender serviceOwner hash ids params thr) M))"

definition main_update ::
    "unit_registry \<Rightarrow> address \<Rightarrow> address \<Rightarrow> bytes32 \<Rightarrow> uint32 list \<Rightarrow> AgentParams list \<Rightarrow> nat \<Rightarrow> uint256
       \<Rightarrow> main_registry \<Rightarrow> (bool \<times> main_registry) res" where
  "main_update A sender serviceOwner hash ids params thr serviceId M =
     (if manager (sr M) \<noteq> sender then Inl (ManagerOnly sender (manager (sr M)))
      else rbind (ownerOf serviceId (sr M)) (\<lambda>actualOwner.
        if actualOwner \<noteq> serviceOwner then Inl (OwnerOnly serviceOwner actualOwner)
        else if state (mapServices (sr M) serviceId) \<noteq> PreRegistration
          then Inl (WrongServiceState (state_code (state (mapServices (sr M) serviceId))) serviceId)
        else rbind (main_initialChecks (unat (totalSupply A)) hash ids params) (\<lambda>_.
          on_registry (update sender serviceOwner hash ids params thr serviceId) M)))"

text \<open>The ids are stored after the multisig is created; a failure undoes the call.\<close>

definition main_deploy ::
    "env \<Rightarrow> unit_registry \<Rightarrow> unit_registry \<Rightarrow> address \<Rightarrow> address \<Rightarrow> uint256 \<Rightarrow> address \<Rightarrow> nat list
       \<Rightarrow> main_registry \<Rightarrow> (address \<times> main_registry) res" where
  "main_deploy E C A sender serviceOwner serviceId impl data M =
     (let ids = agentIds (mapServices (sr M) serviceId) in
      rbind (deploy E sender serviceOwner serviceId impl data (sr M)) (\<lambda>(msig, s).
      rbind (calculateSubComponents C A ids) (\<lambda>cs.
      Inr (msig, M\<lparr>sr := s, mapServiceIdSetAgentIds := (mapServiceIdSetAgentIds M)(serviceId := ids),
        mapServiceIdSetComponentIds := (mapServiceIdSetComponentIds M)(serviceId := cs)\<rparr>))))"

definition main_terminate ::
    "env \<Rightarrow> address \<Rightarrow> address \<Rightarrow> address \<Rightarrow> uint256 \<Rightarrow> main_registry \<Rightarrow> ((bool \<times> nat) \<times> main_registry) res" where
  "main_terminate E this sender serviceOwner serviceId M =
     rbind (terminate E this sender serviceOwner serviceId (sr M)) (\<lambda>(r, s).
     Inr (r, M\<lparr>sr := s, mapServiceIdSetComponentIds := (mapServiceIdSetComponentIds M)(serviceId := []),
       mapServiceIdSetAgentIds := (mapServiceIdSetAgentIds M)(serviceId := [])\<rparr>))"

definition getUnitIdsOfService :: "UnitType \<Rightarrow> uint256 \<Rightarrow> main_registry \<Rightarrow> nat \<times> uint32 list" where
  "getUnitIdsOfService t serviceId M =
     (let unitIds = (if t = Component then mapServiceIdSetComponentIds M serviceId else mapServiceIdSetAgentIds M serviceId)
      in (length unitIds, unitIds))"

section \<open>Steps\<close>

text \<open>A successful call; \<open>C\<close> and \<open>A\<close> are the registries of components and agents. Functions that do not differ act on the common state.\<close>

inductive shared_step :: "env \<Rightarrow> address \<Rightarrow> service_registry \<Rightarrow> service_registry \<Rightarrow> bool"
  for E :: env and this :: address where
  changeOwner: "changeOwner sender a s = Inr s' \<Longrightarrow> shared_step E this s s'"
| changeManager: "changeManager sender a s = Inr s' \<Longrightarrow> shared_step E this s s'"
| setBaseURI: "setBaseURI sender uri s = Inr s' \<Longrightarrow> shared_step E this s s'"
| changeDrainer: "changeDrainer sender a s = Inr s' \<Longrightarrow> shared_step E this s s'"
| changeMultisigPermission: "changeMultisigPermission sender a p s = Inr (r, s') \<Longrightarrow> shared_step E this s s'"
| approve: "sender \<noteq> 0 \<Longrightarrow> approve sender a tid s = Inr s' \<Longrightarrow> shared_step E this s s'"
| setApprovalForAll: "sender \<noteq> 0 \<Longrightarrow> setApprovalForAll sender a b s = s' \<Longrightarrow> shared_step E this s s'"
| transferFrom: "sender \<noteq> 0 \<Longrightarrow> transferFrom sender a b tid s = Inr s' \<Longrightarrow> shared_step E this s s'"
| safeTransferFrom: "sender \<noteq> 0 \<Longrightarrow> safeTransferFrom E sender a b tid s = Inr s' \<Longrightarrow> shared_step E this s s'"
| activateRegistration: "activateRegistration sender val own sid s = Inr (r, s') \<Longrightarrow> shared_step E this s s'"
| registerAgents: "registerAgents sender val operator sid insts ids s = Inr (r, s') \<Longrightarrow> shared_step E this s s'"
| slash: "slash sender insts amounts sid s = Inr (r, s') \<Longrightarrow> shared_step E this s s'"
| unbond: "unbond E this sender operator sid s = Inr (r, s') \<Longrightarrow> shared_step E this s s'"
| drain: "drain E this sender s = Inr (r, s') \<Longrightarrow> shared_step E this s s'"
| force_eth: "s' = s\<lparr>ethBalance := ethBalance s + n\<rparr> \<Longrightarrow> shared_step E this s s'"

inductive main_step :: "env \<Rightarrow> address \<Rightarrow> unit_registry \<Rightarrow> unit_registry \<Rightarrow> main_registry \<Rightarrow> main_registry \<Rightarrow> bool"
  for E :: env and this :: address and C A :: unit_registry where
  shared: "shared_step E this (sr M) s' \<Longrightarrow> main_step E this C A M (M\<lparr>sr := s'\<rparr>)"
| create: "\<forall>p\<in>set params. bond p < 2 ^ 96 \<Longrightarrow>
    main_create E A sender own hash ids params thr M = Inr (sid, M') \<Longrightarrow> main_step E this C A M M'"
| update: "\<forall>p\<in>set params. bond p < 2 ^ 96 \<Longrightarrow>
    main_update A sender own hash ids params thr sid M = Inr (r, M') \<Longrightarrow> main_step E this C A M M'"
| deploy: "main_deploy E C A sender own sid impl data M = Inr (r, M') \<Longrightarrow> main_step E this C A M M'"
| terminate: "main_terminate E this sender own sid M = Inr (r, M') \<Longrightarrow> main_step E this C A M M'"

text \<open>The three registries together: the service registry is deployed at any time, and calls of all three follow in any order.\<close>

inductive main_reachable :: "env \<Rightarrow> address \<Rightarrow> registries \<Rightarrow> main_registry \<Rightarrow> bool"
  for E :: env and this :: address where
  init: "units_reachable R \<Longrightarrow> main_reachable E this R (new_main_registry deployer uri)"
| component: "main_reachable E this R M \<Longrightarrow> registry_step (component_registry R) (component_registry R) s
    \<Longrightarrow> main_reachable E this (R\<lparr>component_registry := s\<rparr>) M"
| agent: "main_reachable E this R M \<Longrightarrow> registry_step (component_registry R) (agent_registry R) s
    \<Longrightarrow> main_reachable E this (R\<lparr>agent_registry := s\<rparr>) M"
| owner: "main_reachable E this R M \<Longrightarrow> rm_changeOwner sender newOwner R = Inr R' \<Longrightarrow> main_reachable E this R' M"
| pause: "main_reachable E this R M \<Longrightarrow> rm_pause sender R = Inr R' \<Longrightarrow> main_reachable E this R' M"
| unpause: "main_reachable E this R M \<Longrightarrow> rm_unpause sender R = Inr R' \<Longrightarrow> main_reachable E this R' M"
| service: "main_reachable E this R M \<Longrightarrow> main_step E this (component_registry R) (agent_registry R) M M'
    \<Longrightarrow> main_reachable E this R M'"

section \<open>Every step is one of the other contract\<close>

lemma shared_step_sr_step: "shared_step E this s s' \<Longrightarrow> sr_step E this s s'"
  by (cases rule: shared_step.cases) (auto intro: sr_step.intros)

lemma on_registry_Inr: "on_registry f M = Inr (r, M') \<longleftrightarrow> (\<exists>s. f (sr M) = Inr (r, s) \<and> M' = M\<lparr>sr := s\<rparr>)"
  by (auto simp: on_registry_def)

lemma main_create_Inr:
  assumes "main_create E A sender own hash ids params thr M = Inr (sid, M')"
  obtains s where "create E sender own hash ids params thr (sr M) = Inr (sid, s)" and "M' = M\<lparr>sr := s\<rparr>"
    and "main_check_agentIds (unat (totalSupply A)) 0 ids = Inr ()"
  using assms by (auto simp: main_create_def main_initialChecks_def on_registry_Inr split: if_splits)

lemma main_update_Inr:
  assumes "main_update A sender own hash ids params thr sid M = Inr (r, M')"
  obtains s where "update sender own hash ids params thr sid (sr M) = Inr (r, s)" and "M' = M\<lparr>sr := s\<rparr>"
    and "main_check_agentIds (unat (totalSupply A)) 0 ids = Inr ()"
  using assms by (auto simp: main_update_def main_initialChecks_def on_registry_Inr split: if_splits)

lemma main_step_sr_step: "main_step E this C A M M' \<Longrightarrow> sr_step E this (sr M) (sr M')"
proof (induction rule: main_step.induct)
  case (shared M s')
  then show ?case by (simp add: shared_step_sr_step)
next
  case (create params sender own hash ids thr M sid M')
  from main_create_Inr [OF create(2)] sr_step.create [OF create(1)] show ?case by (metis main_registry.select_convs(1) main_registry.update_convs(1) main_registry.surjective)
next
  case (update params sender own hash ids thr sid M r M')
  from main_update_Inr [OF update(2)] sr_step.update [OF update(1)] show ?case by (metis main_registry.select_convs(1) main_registry.update_convs(1) main_registry.surjective)
next
  case (deploy sender own sid impl data M r M')
  then show ?case by (auto simp: main_deploy_def Let_def intro: sr_step.deploy)
next
  case (terminate sender own sid M r M')
  then show ?case by (auto simp: main_terminate_def intro: sr_step.terminate)
qed

lemma main_reachable_sr: "main_reachable E this R M \<Longrightarrow> sr_reachable E this (sr M)"
  by (induction rule: main_reachable.induct)
     (auto simp: new_main_registry_def intro: sr_reachable.intros main_step_sr_step)

lemma main_reachable_units: "main_reachable E this R M \<Longrightarrow> units_reachable R"
  by (induction rule: main_reachable.induct) (auto intro: units_reachable.intros)

section \<open>The stored ids\<close>

definition known_agents :: "unit_registry \<Rightarrow> uint32 list \<Rightarrow> bool" where
  "known_agents A ids \<longleftrightarrow> sorted_wrt (<) ids \<and> (\<forall>a\<in>set ids. 0 < a \<and> ucast a \<le> totalSupply A)"

definition components_of :: "unit_registry \<Rightarrow> uint32 list \<Rightarrow> uint32 list" where
  "components_of A ids = sorted_list_of_set (\<Union>a\<in>set ids. set (mapSubComponents A (ucast a)))"

definition stores_ids :: "unit_registry \<Rightarrow> main_registry \<Rightarrow> bool" where
  "stores_ids A M \<longleftrightarrow> (\<forall>sid. let v = mapServices (sr M) sid in
     known_agents A (agentIds v) \<and>
     mapServiceIdSetAgentIds M sid = (if state v = Deployed then agentIds v else []) \<and>
     mapServiceIdSetComponentIds M sid = (if state v = Deployed then components_of A (agentIds v) else []))"

lemma main_check_agentIds_Inr:
  "main_check_agentIds supply lastId ids = Inr () \<Longrightarrow>
     sorted_wrt (<) ids \<and> (\<forall>a\<in>set ids. lastId < unat a \<and> unat a \<le> supply)"
proof (induction ids arbitrary: lastId)
  case (Cons a ids)
  then have a: "lastId < unat a" "unat a \<le> supply" "main_check_agentIds supply (unat a) ids = Inr ()"
    by (auto split: if_splits)
  from Cons.IH [OF a(3)] a(1,2) show ?case by (auto simp: word_less_nat_alt)
qed simp

lemma main_check_known: "main_check_agentIds (unat (totalSupply A)) 0 ids = Inr () \<Longrightarrow> known_agents A ids"
  using main_check_agentIds_Inr [of "unat (totalSupply A)" 0 ids] by (auto simp: known_agents_def word_less_nat_alt word_le_nat_alt)

lemma known_agents_length:
  assumes "known_agents A ids"
  shows "length ids < 2 ^ 32"
proof -
  have "length ids = card (set ids)"
    using assms by (simp add: known_agents_def strict_sorted_iff distinct_card)
  also have "\<dots> \<le> card (UNIV - {0 :: uint32})"
    using assms by (intro card_mono) (auto simp: known_agents_def)
  also have "\<dots> < 2 ^ 32" by (simp add: card_Diff_singleton card_word)
  finally show ?thesis .
qed

lemma known_agents_kept:
  assumes "known_agents A ids" and "length ids = length params"
  shows "known_agents A (map fst (kept (zip ids params)))"
proof -
  have "sorted_wrt (\<lambda>x y. fst x < fst y) (zip ids params)"
    using assms by (simp add: known_agents_def sorted_wrt_map [symmetric])
  then have "sorted_wrt (<) (map fst (kept (zip ids params)))" by (simp add: kept_def sorted_wrt_map sorted_wrt_filter)
  moreover have "set (map fst (kept (zip ids params))) \<subseteq> set ids" by (auto simp: kept_def dest: set_zip_leftD)
  ultimately show ?thesis using assms(1) by (auto simp: known_agents_def)
qed

text \<open>What the shared functions leave of a service: its agent ids, and whether it is deployed.\<close>

definition same_listing :: "service_registry \<Rightarrow> service_registry \<Rightarrow> bool" where
  "same_listing s s' \<longleftrightarrow> (\<forall>sid. agentIds (mapServices s' sid) = agentIds (mapServices s sid) \<and>
     (state (mapServices s' sid) = Deployed \<longleftrightarrow> state (mapServices s sid) = Deployed))"

lemma same_services: "mapServices s' = mapServices s \<Longrightarrow> same_listing s s'"
  by (simp add: same_listing_def)

lemma same_view: "service_view s' = service_view s \<Longrightarrow> same_listing s s'"
  by (rule same_services) (simp add: service_view_def)

lemma shared_step_listing:
  assumes "shared_step E this s s'"
  shows "same_listing s s'"
  using assms
proof cases
  case (activateRegistration sender val own sid r)
  from activateRegistration_InrD [OF this] show ?thesis by (auto simp: same_listing_def)
next
  case (registerAgents sender val operator sid insts ids r)
  from registerAgents_InrD [OF this] show ?thesis by (auto simp: same_listing_def)
next
  case (slash sender insts amounts sid r)
  from slash_InrD(3) [OF this] show ?thesis by (auto simp: slashed_from_def intro: same_services)
next
  case (unbond sender operator sid r)
  obtain ok refund where r: "r = (ok, refund)" by (cases r)
  from unbond_InrD(6,10) [OF unbond [unfolded r]] show ?thesis
    by (auto simp: same_listing_def unbonded_service_def Let_def split: if_splits)
next
  case (drain sender r)
  from drain_InrD(4) [OF this] show ?thesis by (auto intro: same_services)
next
  case (force_eth n)
  then show ?thesis by (auto intro: same_services)
qed (auto intro: same_view)

lemma stores_ids_shared:
  assumes "stores_ids A M" and "same_listing (sr M) s'"
  shows "stores_ids A (M\<lparr>sr := s'\<rparr>)"
  using assms by (simp add: stores_ids_def same_listing_def Let_def)

text \<open>A service that is not deployed is replaced by one that is not.\<close>

lemma stores_ids_replace:
  assumes "stores_ids A M" and "mapServices s' = (mapServices (sr M))(sid := v)" and "state (mapServices (sr M) sid) \<noteq> Deployed"
    and "state v \<noteq> Deployed" and "known_agents A (agentIds v)"
  shows "stores_ids A (M\<lparr>sr := s'\<rparr>)"
  using assms by (auto simp: stores_ids_def Let_def)

lemma stores_ids_create:
  assumes "stores_ids A M" and "main_create E A sender own hash ids params thr M = Inr (sid, M')" and "sr_reachable E this (sr M)"
  shows "stores_ids A M'"
proof -
  from main_create_Inr [OF assms(2)] obtain s where s: "create E sender own hash ids params thr (sr M) = Inr (sid, s)" "M' = M\<lparr>sr := s\<rparr>"
      "main_check_agentIds (unat (totalSupply A)) 0 ids = Inr ()" by blast
  from create_InrD [OF s(1)] obtain v where v: "mapServices s = (mapServices (sr M))(sid := v)" "state v = PreRegistration" "agentIds v = ids"
      "ownerOf_map (sr M) sid = 0" by auto
  have "state (mapServices (sr M) sid) = NonExistent"
    using sr_reachable_inv [OF assms(3)] v(4) by (auto simp: base_inv_def existence_ok_def)
  with stores_ids_replace [OF assms(1) v(1)] v(2,3) main_check_known [OF s(3)] show ?thesis by (simp add: s(2))
qed

lemma stores_ids_update:
  assumes "stores_ids A M" and "main_update A sender own hash ids params thr sid M = Inr (r, M')"
  shows "stores_ids A M'"
proof -
  from main_update_Inr [OF assms(2)] obtain s where s: "update sender own hash ids params thr sid (sr M) = Inr (r, s)" "M' = M\<lparr>sr := s\<rparr>"
      "main_check_agentIds (unat (totalSupply A)) 0 ids = Inr ()" by blast
  from update_InrD [OF s(1)] obtain v where v: "mapServices s = (mapServices (sr M))(sid := v)" "state (mapServices (sr M) sid) = PreRegistration"
      "state v = PreRegistration" "agentIds v = map fst (kept (zip ids params))" "initialChecks hash ids params = Inr ()" by auto
  have "length ids = length params" using v(5) by (auto simp: initialChecks_def split: if_splits)
  with known_agents_kept [OF main_check_known [OF s(3)]] stores_ids_replace [OF assms(1) v(1)] v(2-4) show ?thesis by (simp add: s(2))
qed

lemma stores_ids_terminate:
  assumes "stores_ids A M" and "main_terminate E this sender own sid M = Inr (r, M')"
  shows "stores_ids A M'"
proof -
  obtain ok refund where r: "r = (ok, refund)" by (cases r)
  from assms(2) obtain s where s: "terminate E this sender own sid (sr M) = Inr ((ok, refund), s)"
      "M' = M\<lparr>sr := s, mapServiceIdSetComponentIds := (mapServiceIdSetComponentIds M)(sid := []),
        mapServiceIdSetAgentIds := (mapServiceIdSetAgentIds M)(sid := [])\<rparr>"
    by (auto simp: main_terminate_def r)
  from terminate_InrD [OF s(1)] assms(1) show ?thesis by (auto simp: stores_ids_def s(2) Let_def)
qed

lemma components_of_subcomponents:
  assumes "units_reachable R" and "small (component_registry R)" and "known_agents (agent_registry R) ids"
  shows "components_of (agent_registry R) ids = sorted_list_of_set
    {d. \<exists>a \<in> set ids. \<exists>e \<in> set (dependencies (mapUnits (agent_registry R) (ucast a))). subcomponent (component_registry R) e d}"
proof -
  let ?C = "component_registry R" and ?A = "agent_registry R"
  have inv: "agent_inv ?C ?A" using units_invariant [OF assms(1,2)] by simp
  have "set (mapSubComponents ?A (ucast a)) = {d. \<exists>e \<in> set (dependencies (mapUnits ?A (ucast a))). subcomponent ?C e d}" if "a \<in> set ids" for a
  proof -
    have a: "0 < a" "ucast a \<le> totalSupply ?A" using assms(3) that by (auto simp: known_agents_def)
    from a(1) have "(0 :: uint256) < ucast a" by (simp add: word_less_nat_alt)
    with inv a(2) have s: "mapSubComponents ?A (ucast a) = closure_list ?C (dependencies (mapUnits ?A (ucast a)))"
      unfolding agent_inv_def by blast
    show ?thesis unfolding s by (auto simp: closure_list_def closure_def)
  qed
  then have "(\<Union>a\<in>set ids. set (mapSubComponents ?A (ucast a)))
      = {d. \<exists>a \<in> set ids. \<exists>e \<in> set (dependencies (mapUnits ?A (ucast a))). subcomponent ?C e d}" by auto
  then show ?thesis by (simp only: components_of_def)
qed

lemma calculate_components:
  assumes "units_reachable R" and "small (component_registry R)" and "known_agents (agent_registry R) ids"
    and "calculateSubComponents (component_registry R) (agent_registry R) ids = Inr cs"
  shows "cs = components_of (agent_registry R) ids"
proof -
  have "\<forall>a\<in>set ids. 0 < a \<and> ucast a \<le> totalSupply (agent_registry R)" using assms(3) by (simp add: known_agents_def)
  from calculate_agents [OF assms(1,2) known_agents_length [OF assms(3)] this] assms(4) show ?thesis
    unfolding components_of_subcomponents [OF assms(1-3)] by (simp split: if_splits)
qed

lemma stores_ids_deploy:
  assumes "stores_ids (agent_registry R) M" and "main_deploy E (component_registry R) (agent_registry R) sender own sid impl data M = Inr (r, M')"
    and "units_reachable R" and "small (component_registry R)"
  shows "stores_ids (agent_registry R) M'"
proof -
  let ?ids = "agentIds (mapServices (sr M) sid)"
  from assms(2) obtain s cs where s: "deploy E sender own sid impl data (sr M) = Inr (r, s)"
      "calculateSubComponents (component_registry R) (agent_registry R) ?ids = Inr cs"
      "M' = M\<lparr>sr := s, mapServiceIdSetAgentIds := (mapServiceIdSetAgentIds M)(sid := ?ids),
        mapServiceIdSetComponentIds := (mapServiceIdSetComponentIds M)(sid := cs)\<rparr>"
    by (auto simp: main_deploy_def Let_def)
  have "cs = components_of (agent_registry R) ?ids"
    using assms(1) by (intro calculate_components [OF assms(3,4) _ s(2)]) (simp add: stores_ids_def Let_def)
  with deploy_InrD [OF s(1)] assms(1) show ?thesis by (auto simp: stores_ids_def s(3) Let_def)
qed

text \<open>New agents leave the stored ids right.\<close>

lemma stores_ids_agent:
  assumes "stores_ids A M" and "registry_step C A A'"
  shows "stores_ids A' M"
  using assms(2)
proof (cases rule: registry_step_cases)
  case (1 E sender own hash deps i)
  from create_unit_Inr [OF 1] have n: "unat (totalSupply A') = unat (totalSupply A) + 1"
    and sub: "\<And>a. a \<noteq> totalSupply A' \<Longrightarrow> mapSubComponents A' a = mapSubComponents A a" by (metis fun_upd_other)+
  have "known_agents A' ids \<and> components_of A' ids = components_of A ids" if "known_agents A ids" for ids
  proof -
    have "ucast a \<noteq> totalSupply A' \<and> ucast a \<le> totalSupply A'" if "a \<in> set ids" for a
    proof -
      have "unat (ucast a :: uint256) \<le> unat (totalSupply A)"
        using \<open>known_agents A ids\<close> that by (simp add: known_agents_def word_le_nat_alt)
      with n show ?thesis by (auto simp: word_le_nat_alt simp del: unat_ucast_uint256)
    qed
    with that sub show ?thesis by (auto simp: known_agents_def components_of_def)
  qed
  with assms(1) show ?thesis unfolding stores_ids_def Let_def by metis
next
  case 2
  then have "known_agents A' = known_agents A" "components_of A' = components_of A"
    by (auto simp: keeps_units_def known_agents_def components_of_def)
  with assms(1) show ?thesis by (simp add: stores_ids_def Let_def)
qed

lemma small_component:
  assumes "registry_step C C s" and "small s"
  shows "small C"
  using assms(1)
proof (cases rule: registry_step_cases)
  case (1 E sender own hash deps i)
  with assms(2) show ?thesis by (auto simp: small_def elim!: create_unit_Inr)
next
  case 2
  with assms(2) show ?thesis by (simp add: small_def keeps_units_def)
qed

lemma main_reachable_stores:
  assumes "main_reachable E this R M" and "small (component_registry R)"
  shows "stores_ids (agent_registry R) M"
  using assms
proof (induction rule: main_reachable.induct)
  case (init R deployer uri)
  then show ?case
    by (simp add: stores_ids_def new_main_registry_def new_registry_def empty_service_def known_agents_def Let_def)
next
  case (component R M s)
  then show ?case using small_component by simp
next
  case (agent R M s)
  then show ?case using stores_ids_agent by simp
next
  case (service R M M')
  then have IH: "stores_ids (agent_registry R) M" and units: "units_reachable R" and srr: "sr_reachable E this (sr M)"
    using main_reachable_units main_reachable_sr by blast+
  from service.hyps(2) show ?case
  proof cases
    case (shared s')
    with stores_ids_shared [OF IH shared_step_listing] show ?thesis by simp
  next
    case (create params sender own hash ids thr sid)
    with stores_ids_create [OF IH _ srr] show ?thesis by blast
  next
    case (update params sender own hash ids thr sid r)
    with stores_ids_update [OF IH] show ?thesis by blast
  next
    case (deploy sender own sid impl data r)
    with stores_ids_deploy [OF IH _ units service.prems] show ?thesis by blast
  next
    case (terminate sender own sid r)
    with stores_ids_terminate [OF IH] show ?thesis by blast
  qed
qed (auto simp: rm_changeOwner_def rm_pause_def rm_unpause_def split: if_splits)

end
