(* ===== verification/Main_Registry_Properties.thy ===== *)
theory Main_Registry_Properties
  imports Main_Registry Service_Registry_Properties
begin

text \<open>The properties of the service registry of the main chain, with a run of the three registries on which their hypotheses hold.\<close>

section \<open>A run\<close>

definition then_main :: "main_registry res \<Rightarrow> (main_registry \<Rightarrow> ('a \<times> main_registry) res) \<Rightarrow> main_registry res" where
  "then_main r f = rbind r (\<lambda>M. rbind (f M) (\<lambda>(_, M'). Inr M'))"

definition demo_main :: "main_registry res" where
  "demo_main = then_main (then_main (then_main (then_main (then_main (Inr (new_main_registry 1 ''ipfs''))
     (on_registry (\<lambda>s. rbind (changeManager 1 2 s) (\<lambda>s'. Inr ((), s')))))
     (on_registry (changeMultisigPermission 1 9 True)))
     (main_create sample_env demo_agent 2 5 7 [1] [\<lparr>slots = 2, bond = 10\<rparr>] 2))
     (on_registry (activateRegistration 2 10 5 1)))
     (on_registry (registerAgents 2 20 6 1 [21, 22] [1, 1]))"

definition demo_main_deployed :: "main_registry res" where
  "demo_main_deployed = then_main demo_main (main_deploy sample_env demo_component2 demo_agent 2 5 1 9 [])"

definition main_reaches :: "main_registry res \<Rightarrow> bool" where
  "main_reaches r \<longleftrightarrow> (\<forall>M. r = Inr M \<longrightarrow> main_reachable sample_env 0 demo_units M)"

lemma main_reaches_then:
  assumes "main_reaches r" and "\<And>M x M'. f M = Inr (x, M') \<Longrightarrow> main_step sample_env 0 demo_component2 demo_agent M M'"
  shows "main_reaches (then_main r f)"
  using assms main_reachable.service [of sample_env 0 demo_units] unfolding main_reaches_def then_main_def demo_units_def by fastforce

lemma shared_on_registry: "on_registry f M = Inr (x, M') \<Longrightarrow> (\<And>s s'. f s = Inr (x, s') \<Longrightarrow> shared_step E this s s') \<Longrightarrow> main_step E this C A M M'"
  by (auto simp: on_registry_Inr intro: main_step.shared)

lemma demo_create_step:
  "main_create sample_env demo_agent 2 5 7 [1] [\<lparr>slots = 2, bond = 10\<rparr>] 2 M = Inr (x, M') \<Longrightarrow> main_step sample_env 0 demo_component2 demo_agent M M'"
  by (erule main_step.create [rotated]) simp

lemma demo_main_reaches: "main_reaches demo_main_deployed"
  unfolding demo_main_deployed_def demo_main_def
  by (intro main_reaches_then)
     (auto simp: main_reaches_def intro: main_reachable.init demo_units_reachable main_step.deploy demo_create_step
       elim!: shared_on_registry intro: shared_step.intros)

lemma demo_main_run: "\<exists>M. demo_main_deployed = Inr M \<and> state (mapServices (sr M) 1) = Deployed \<and> agentIds (mapServices (sr M) 1) = [1]"
proof -
  have c: "calculateSubComponents demo_component2 demo_agent [1] = Inr [1, 2]"
    by (simp add: calculateSubComponents_def unit_demo_simps)
  show ?thesis
    by (simp add: demo_main_deployed_def demo_main_def then_main_def on_registry_def main_create_def main_initialChecks_def main_deploy_def
      new_main_registry_def sr_eval c) (simp add: unit_demo_simps)
qed

section \<open>Properties\<close>



text \<open>
  C15. With fewer than \<open>2 ^ 32 - 1\<close> components, a service of the main chain lists known agents only; while it is deployed the
  registry has these agents and, in ascending order, all components they are made of directly or through others, and at any
  other time it has no ids for it.
\<close>

theorem deployed_services_list_components:
  assumes "main_reachable E this R M" and "small (component_registry R)"
  defines "v sid \<equiv> mapServices (sr M) sid"
  shows "(\<forall>a\<in>set (agentIds (v sid)). 0 < a \<and> ucast a \<le> totalSupply (agent_registry R))
    \<and> snd (getUnitIdsOfService Agent sid M) = (if state (v sid) = Deployed then agentIds (v sid) else [])
    \<and> snd (getUnitIdsOfService Component sid M) = (if state (v sid) = Deployed
        then sorted_list_of_set {d. \<exists>a \<in> set (agentIds (v sid)). \<exists>e \<in> set (dependencies (mapUnits (agent_registry R) (ucast a))).
          subcomponent (component_registry R) e d} else [])"
proof -
  have k: "known_agents (agent_registry R) (agentIds (v sid))"
    and st: "mapServiceIdSetAgentIds M sid = (if state (v sid) = Deployed then agentIds (v sid) else [])"
      "mapServiceIdSetComponentIds M sid = (if state (v sid) = Deployed then components_of (agent_registry R) (agentIds (v sid)) else [])"
    using main_reachable_stores [OF assms(1,2)] by (simp_all add: stores_ids_def Let_def v_def)
  from components_of_subcomponents [OF main_reachable_units [OF assms(1)] assms(2) k] k st show ?thesis
    by (simp add: getUnitIdsOfService_def Let_def known_agents_def)
qed

theorem deployed_services_list_components_witness:
  "\<exists>M. demo_main_deployed = Inr M \<and> snd (getUnitIdsOfService Agent 1 M) = [1]
    \<and> snd (getUnitIdsOfService Component 1 M) = sorted_list_of_set {d. \<exists>e \<in> set (dependencies (mapUnits demo_agent 1)). subcomponent demo_component2 e d}"
proof -
  obtain M where M: "demo_main_deployed = Inr M" "state (mapServices (sr M) 1) = Deployed" "agentIds (mapServices (sr M) 1) = [1]"
    using demo_main_run by blast
  have r: "main_reachable sample_env 0 demo_units M" using demo_main_reaches M(1) by (simp add: main_reaches_def)
  have "small (component_registry demo_units)" by (simp add: small_def demo_units_def unit_demo_simps)
  from deployed_services_list_components [OF r this, of 1] M show ?thesis by (intro exI [of _ M]) (simp add: demo_units_def)
qed

end
