(* ===== verification/Local_Deployment.thy ===== *)
theory Local_Deployment
  imports Main_Registry Js_Runtime
begin

text \<open>
  The snapshot of the main chain, \<^verbatim>\<open>scripts/mainnet_snapshot.js\<close>, and the local deployment, \<^verbatim>\<open>deploy/0_deploy.js\<close>, which recreates the units and
  services of a snapshot on a local node. Both act on the models of the registries.

  The file of the snapshot is kept as the record of its contents. A transaction of the local node is mined at once; one that reverts
  throws. The local node, the addresses of new contracts and the multisigs are fields of \<open>local_env\<close>; the number of requests the node of
  the main chain still answers is a field of \<open>snap_world\<close>.
\<close>

section \<open>The snapshot\<close>

record snapshot =
  cr_dependencies :: "uint32 list list"
  cr_hashes :: "bytes32 list"
  ar_dependencies :: "uint32 list list"
  ar_hashes :: "bytes32 list"
  ss_securityDeposit :: "nat list"
  ss_multisig :: "address list"
  ss_configHashes :: "bytes32 list"
  ss_threshold :: "nat list"
  ss_maxNumAgentInstances :: "nat list"
  ss_numAgentInstances :: "nat list"
  ss_state :: "ServiceState list"
  ss_agentIds :: "uint32 list list"
  ss_agentParams :: "AgentParams list list"

definition empty_snapshot :: snapshot where
  "empty_snapshot = \<lparr>cr_dependencies = [], cr_hashes = [], ar_dependencies = [], ar_hashes = [], ss_securityDeposit = [], ss_multisig = [],
     ss_configHashes = [], ss_threshold = [], ss_maxNumAgentInstances = [], ss_numAgentInstances = [], ss_state = [], ss_agentIds = [],
     ss_agentParams = []\<rparr>"

datatype console_line = Note string | NoteAddress string address | NoteNumber string nat

record snap_world =
  answers_left :: nat
  snap_lines :: "console_line list"
  snap_file :: "snapshot option"

text \<open>A request to the node, which throws when the node does not answer any more.\<close>

definition request :: "'a \<Rightarrow> (snap_world, 'a) js" where
  "request x w = (if answers_left w = 0 then (Inl ''could not detect network'', w) else (Inr x, w\<lparr>answers_left := answers_left w - 1\<rparr>))"

definition snap_print :: "console_line list \<Rightarrow> (snap_world, unit) js" where
  "snap_print ls w = (Inr (), w\<lparr>snap_lines := snap_lines w @ ls\<rparr>)"

fun snap_components :: "unit_registry \<Rightarrow> nat list \<Rightarrow> snapshot \<Rightarrow> (snap_world, snapshot) js" where
  "snap_components C [] S = jret S"
| "snap_components C (i # is) S =
     jbind (request (getUnit (of_nat i) C)) (\<lambda>unit.
     snap_components C is (S\<lparr>cr_dependencies := cr_dependencies S @ [dependencies unit], cr_hashes := cr_hashes S @ [unitHash unit]\<rparr>))"

fun snap_agents :: "unit_registry \<Rightarrow> nat list \<Rightarrow> snapshot \<Rightarrow> (snap_world, snapshot) js" where
  "snap_agents A [] S = jret S"
| "snap_agents A (i # is) S =
     jbind (request (getUnit (of_nat i) A)) (\<lambda>unit.
     snap_agents A is (S\<lparr>ar_dependencies := ar_dependencies S @ [dependencies unit], ar_hashes := ar_hashes S @ [unitHash unit]\<rparr>))"

text \<open>The maximal number of instances is recorded as the threshold.\<close>

definition snap_service :: "Service \<Rightarrow> snapshot \<Rightarrow> snapshot" where
  "snap_service v S = S\<lparr>ss_securityDeposit := ss_securityDeposit S @ [securityDeposit v], ss_multisig := ss_multisig S @ [multisig v],
     ss_configHashes := ss_configHashes S @ [configHash v], ss_threshold := ss_threshold S @ [threshold v],
     ss_maxNumAgentInstances := ss_maxNumAgentInstances S @ [threshold v], ss_numAgentInstances := ss_numAgentInstances S @ [numAgentInstances v],
     ss_state := ss_state S @ [state v], ss_agentIds := ss_agentIds S @ [agentIds v]\<rparr>"

fun snap_services :: "main_registry \<Rightarrow> nat list \<Rightarrow> snapshot \<Rightarrow> (snap_world, snapshot) js" where
  "snap_services M [] S = jret S"
| "snap_services M (i # is) S =
     jbind (request (mapServices (sr M) (of_nat i))) (\<lambda>service.
     jbind (request (getAgentParams (of_nat i) (sr M))) (\<lambda>(numAgentIds, agentParams).
     let S' = snap_service service S in
     snap_services M is (S'\<lparr>ss_agentParams := ss_agentParams S' @ [take numAgentIds agentParams]\<rparr>)))"

definition mainnet_snapshot :: "unit_registry \<Rightarrow> unit_registry \<Rightarrow> main_registry \<Rightarrow> (snap_world, unit) js" where
  "mainnet_snapshot C A M =
     jthen (snap_print [Note ''Pulling registries snapshot with the following numbers.'']) (
     jbind (request (unat (totalSupply C))) (\<lambda>numComponents.
     jbind (request (unat (totalSupply A))) (\<lambda>numAgents.
     jbind (request (unat (totalSupply (sr M)))) (\<lambda>numServices.
     jthen (snap_print [NoteNumber ''Number of components:'' numComponents, NoteNumber ''Number of agents:'' numAgents,
       NoteNumber ''Number of services:'' numServices]) (
     jbind (snap_components C [1..<Suc numComponents] empty_snapshot) (\<lambda>S1.
     jbind (snap_agents A [1..<Suc numAgents] S1) (\<lambda>S2.
     jbind (snap_services M [1..<Suc numServices] S2) (\<lambda>S3 w.
     snap_print [Note ''Snapshot is complete and written to: scripts/mainnet_snapshot.json''] (w\<lparr>snap_file := Some S3\<rparr>)))))))))"

section \<open>The local node\<close>

record local_env =
  l_env :: env
  file_exists :: "string \<Rightarrow> bool"
  read_snapshot :: "string \<Rightarrow> snapshot option"
  signers :: "address list"
  l_balance :: "address \<Rightarrow> nat"
  can_pay :: "nat \<Rightarrow> bool"
  has_artifact :: "string \<Rightarrow> bool"
  address_of :: "string \<Rightarrow> address"
  first_event_address :: "address \<Rightarrow> address"
  safe_threshold :: "address \<Rightarrow> nat"
  safe_isOwner :: "address \<Rightarrow> address \<Rightarrow> bool"

datatype init_value = InitAddress address | InitAccount address string | InitAccounts "address list" "string list"

record local_world =
  l_components :: unit_registry
  l_agents :: unit_registry
  l_services :: main_registry
  l_servicesL2 :: service_registry
  l_utilityManager :: address
  l_lines :: "console_line list"
  l_file :: "(string \<times> init_value) list option"

type_synonym 'a local = "(local_world, 'a) js"

definition l_print :: "console_line list \<Rightarrow> unit local" where
  "l_print ls w = (Inr (), w\<lparr>l_lines := l_lines w @ ls\<rparr>)"

definition local_contract :: "local_env \<Rightarrow> string \<Rightarrow> address local" where
  "local_contract E name = (if has_artifact E name then jret (address_of E name) else jthrow ''HH700'')"

text \<open>Transactions on the registries.\<close>

definition mined :: "'a res \<Rightarrow> ('a \<Rightarrow> local_world \<Rightarrow> local_world) \<Rightarrow> unit local" where
  "mined r f w = (case r of Inl _ \<Rightarrow> (Inl ''transaction reverted'', w) | Inr x \<Rightarrow> (Inr (), f x w))"

definition components_tx :: "(unit_registry \<Rightarrow> unit_registry res) \<Rightarrow> unit local" where
  "components_tx f w = mined (f (l_components w)) (\<lambda>s w. w\<lparr>l_components := s\<rparr>) w"

definition agents_tx :: "(unit_registry \<Rightarrow> unit_registry \<Rightarrow> unit_registry res) \<Rightarrow> unit local" where
  "agents_tx f w = mined (f (l_components w) (l_agents w)) (\<lambda>s w. w\<lparr>l_agents := s\<rparr>) w"

definition services_tx :: "(unit_registry \<Rightarrow> unit_registry \<Rightarrow> main_registry \<Rightarrow> ('a \<times> main_registry) res) \<Rightarrow> 'a local" where
  "services_tx f w = (case f (l_components w) (l_agents w) (l_services w) of Inl _ \<Rightarrow> (Inl ''transaction reverted'', w)
     | Inr (x, M) \<Rightarrow> (Inr x, w\<lparr>l_services := M\<rparr>))"

definition servicesL2_tx :: "(service_registry \<Rightarrow> service_registry res) \<Rightarrow> unit local" where
  "servicesL2_tx f w = mined (f (l_servicesL2 w)) (\<lambda>s w. w\<lparr>l_servicesL2 := s\<rparr>) w"

definition new_state :: "('a \<times> 's) res \<Rightarrow> 's res" where
  "new_state r = rbind r (\<lambda>(_, s). Inr s)"

definition paying :: "local_env \<Rightarrow> nat \<Rightarrow> 'a local \<Rightarrow> 'a local" where
  "paying E v m = (if can_pay E v then m else jthrow ''insufficient funds'')"

section \<open>Units\<close>

text \<open>The owner of all units is the deployer; an element that is missing is an undefined argument.\<close>

fun create_components :: "local_env \<Rightarrow> address \<Rightarrow> bytes32 list \<Rightarrow> uint32 list list \<Rightarrow> unit local" where
  "create_components E d [] deps = jret ()"
| "create_components E d (h # hs) [] = jthrow ''invalid argument''"
| "create_components E d (h # hs) (ds # deps) =
     jthen (components_tx (\<lambda>s. new_state (create_unit (l_env E) s d d h ds s))) (create_components E d hs deps)"

fun create_agents :: "local_env \<Rightarrow> address \<Rightarrow> bytes32 list \<Rightarrow> uint32 list list \<Rightarrow> unit local" where
  "create_agents E d [] deps = jret ()"
| "create_agents E d (h # hs) [] = jthrow ''invalid argument''"
| "create_agents E d (h # hs) (ds # deps) =
     jthen (agents_tx (\<lambda>C s. new_state (create_unit (l_env E) C d d h ds s))) (create_agents E d hs deps)"

definition expect_balance :: "(local_world \<Rightarrow> unit_registry) \<Rightarrow> address \<Rightarrow> nat \<Rightarrow> unit local" where
  "expect_balance r d n w = (if balanceOf_map (r w) d = of_nat n then (Inr (), w) else (Inl ''AssertionError'', w))"

definition restore_units :: "local_env \<Rightarrow> address \<Rightarrow> snapshot \<Rightarrow> unit local" where
  "restore_units E d S =
     jthen (components_tx (changeManager d d)) (
     jthen (agents_tx (\<lambda>_. changeManager d d)) (
     jthen (create_components E d (cr_hashes S) (cr_dependencies S)) (
     jthen (create_agents E d (ar_hashes S) (ar_dependencies S)) (
     jthen (expect_balance l_components d (length (cr_hashes S))) (
     jthen (expect_balance l_agents d (length (ar_hashes S))) (
     l_print [NoteAddress ''Owner of created components and agents:'' d, NoteNumber ''Number of initial components:'' (length (cr_hashes S)),
       NoteNumber ''Number of initial agents:'' (length (ar_hashes S))]))))))"

section \<open>Services\<close>

definition element :: "'a list \<Rightarrow> nat \<Rightarrow> 'a local" where
  "element xs i = (if i < length xs then jret (xs ! i) else jthrow ''undefined'')"

definition uint_params :: "AgentParams list \<Rightarrow> nat \<Rightarrow> bool" where
  "uint_params ps thr \<longleftrightarrow> (\<forall>p\<in>set ps. slots p < 2 ^ 32 \<and> bond p < 2 ^ 96) \<and> thr < 2 ^ 32"

definition check_safe :: "local_env \<Rightarrow> address \<Rightarrow> nat \<Rightarrow> address list \<Rightarrow> unit local" where
  "check_safe E msig thr insts =
     (if safe_threshold E msig \<noteq> thr then jthrow ''incorrect threshold''
      else if list_ex (\<lambda>a. \<not> safe_isOwner E msig a) insts then jthrow ''incorrect agent instance'' else jret ())"

definition bonds_value :: "AgentParams list \<Rightarrow> nat" where
  "bonds_value ps = (\<Sum>p\<leftarrow>ps. bond p * slots p)"

definition slots_value :: "AgentParams list \<Rightarrow> nat" where
  "slots_value ps = (\<Sum>p\<leftarrow>ps. slots p)"

text \<open>One service of the snapshot; \<open>k\<close> is the number of agent instances that are used up.\<close>

definition restore_service :: "local_env \<Rightarrow> address \<Rightarrow> address option \<Rightarrow> address list \<Rightarrow> snapshot \<Rightarrow> nat \<Rightarrow> nat \<Rightarrow> nat local" where
  "restore_service E d op agentInstances S i k =
     jbind (element (ss_agentIds S) i) (\<lambda>ids.
     jbind (element (ss_agentParams S) i) (\<lambda>params.
     jbind (element (ss_configHashes S) i) (\<lambda>hash.
     jbind (element (ss_threshold S) i) (\<lambda>thr.
     let agentParams = take (length ids) params; serviceId = of_nat (i + 2); n = slots_value agentParams;
         insts = take n (drop k agentInstances) in
     if length params < length ids \<or> \<not> uint_params agentParams thr then jthrow ''invalid argument'' else
     jbind (services_tx (\<lambda>C A. main_create (l_env E) A d d hash ids agentParams thr)) (\<lambda>_.
     jthen (l_print [NoteNumber ''Service Id:'' (i + 2)]) (
     jbind (element (ss_securityDeposit S) i) (\<lambda>v.
     jbind (paying E v (services_tx (\<lambda>C A. on_registry (activateRegistration d v d serviceId)))) (\<lambda>_.
     if length agentInstances < k + n then jthrow ''invalid address''
     else case op of None \<Rightarrow> jthrow ''TypeError'' | Some operator \<Rightarrow>
     jbind (paying E (bonds_value agentParams) (services_tx (\<lambda>C A. on_registry (registerAgents d (bonds_value agentParams) operator serviceId
       insts (concat (map (\<lambda>(a, p). replicate (slots p) a) (zip ids agentParams))))))) (\<lambda>_.
     jbind (services_tx (\<lambda>C A. main_deploy (l_env E) C A d d serviceId (address_of E ''GnosisSafeMultisig'') [])) (\<lambda>msig.
     jthen (l_print [NoteAddress ''Service multisig deployed to:'' (first_event_address E msig), NoteNumber ''Number of agent instances:'' n]) (
     jthen (check_safe E (first_event_address E msig) thr insts) (
     jthen (l_print [Note ''=========================================='']) (
     jret (k + n))))))))))))))"

fun restore_services :: "local_env \<Rightarrow> address \<Rightarrow> address option \<Rightarrow> address list \<Rightarrow> snapshot \<Rightarrow> nat list \<Rightarrow> nat \<Rightarrow> unit local" where
  "restore_services E d op agentInstances S [] k = jret ()"
| "restore_services E d op agentInstances S (i # is) k =
     jbind (restore_service E d op agentInstances S i k) (restore_services E d op agentInstances S is)"

text \<open>The first service, with four instances.\<close>

definition default_service :: "local_env \<Rightarrow> address \<Rightarrow> address option \<Rightarrow> address list \<Rightarrow> unit local" where
  "default_service E d op agentInstances =
     jbind (services_tx (\<lambda>C A. main_create (l_env E) A d d (0x5555555555555555555555555555555555555555555555555555555555555555) [1]
       [\<lparr>slots = 4, bond = 10000000000000000\<rparr>] 3)) (\<lambda>_.
     jbind (paying E 10000000000000000 (services_tx (\<lambda>C A. on_registry (activateRegistration d 10000000000000000 d 1)))) (\<lambda>_.
     case op of None \<Rightarrow> jthrow ''TypeError'' | Some operator \<Rightarrow>
     jbind (paying E 40000000000000000 (services_tx (\<lambda>C A. on_registry (registerAgents d 40000000000000000 operator 1
       (take 4 agentInstances) [1, 1, 1, 1])))) (\<lambda>_.
     jbind (services_tx (\<lambda>C A. main_deploy (l_env E) C A d d 1 (address_of E ''GnosisSafeMultisig'') [])) (\<lambda>msig.
     l_print [Note ''=========================================='', NoteNumber ''Service Id:'' 1,
       NoteAddress ''Service multisig deployed to:'' (first_event_address E msig), NoteNumber ''Number of agent instances:'' 4]))))"

section \<open>The script\<close>

definition UNITS :: "string list" where
  "UNITS = [''ComponentRegistry'', ''AgentRegistry'', ''RegistriesManager'']"

definition CONTRACTS :: "string list" where
  "CONTRACTS = [''ServiceRegistry'', ''ServiceRegistryTokenUtility'', ''GnosisSafe'', ''GnosisSafeProxyFactory'', ''GnosisSafeMultisig'',
     ''GnosisSafeSameAddressMultisig'', ''MultiSendCallOnly'', ''ServiceRegistryL2'', ''ServiceManager'', ''OperatorWhitelist'', ''ServiceManagerProxy'',
     ''ERC20Token'', ''RecoveryModule'', ''SafeMultisigWithRecoveryModule'']"

fun new_contracts :: "local_env \<Rightarrow> string list \<Rightarrow> unit local" where
  "new_contracts E [] = jret ()"
| "new_contracts E (n # ns) = jbind (local_contract E n) (\<lambda>_. new_contracts E ns)"

text \<open>The labels of the printed addresses, in their order.\<close>

definition DEPLOYED_LABELS :: "(string \<times> string) list" where
  "DEPLOYED_LABELS =
    [(''ComponentRegistry deployed to:'', ''ComponentRegistry''), (''AgentRegistry deployed to:'', ''AgentRegistry''),
     (''RegistriesManager deployed to:'', ''RegistriesManager''), (''ServiceRegistry deployed to:'', ''ServiceRegistry''),
     (''ServiceRegistryL2 deployed to:'', ''ServiceRegistryL2''), (''ServiceRegistryTokenUtility deployed to:'', ''ServiceRegistryTokenUtility''),
     (''ServiceManager deployed to:'', ''ServiceManager''), (''ServiceManagerProxy deployed to:'', ''ServiceManagerProxy''),
     (''OperatorWhitelist deployed to:'', ''OperatorWhitelist''), (''ERC20Token deployed to:'', ''ERC20Token''),
     (''Gnosis Safe master copy deployed to:'', ''GnosisSafe''), (''Gnosis Safe proxy factory deployed to:'', ''GnosisSafeProxyFactory''),
     (''Gnosis Safe Multisend deployed to:'', ''MultiSendCallOnly''), (''Gnosis Safe Multisig deployed to:'', ''GnosisSafeMultisig''),
     (''Gnosis Safe Multisig with same address deployed to:'', ''GnosisSafeSameAddressMultisig''),
     (''Safe Multisig with Recovery Module deployed to:'', ''SafeMultisigWithRecoveryModule''), (''Recovery Module deployed to:'', ''RecoveryModule'')]"

definition MAIN_MULTISIGS :: "address list" where
  "MAIN_MULTISIGS = [0x65dD51b02049ad1B6FF7fa9Ea3322E1D2CAb1176, 0x92499E80f50f06C4078794C179986907e7822Ea1,
     0x46C0D07F55d4F9B5Eed2Fc9680B5953e5fd7b461, 0x26Ea2dC7ce1b41d0AD0E0521535655d7a94b684c]"

definition L2_MULTISIGS :: "address list" where
  "L2_MULTISIGS = [0x9dEc6B62c197268242A768dc3b153AE7a2701396, 0xB575dd20281c63288428DD58e5f579CC7d6aae4d,
     0x3d77596beb0f130a4415df3D2D8232B3d3D31e44, 0x34C895f302D0b5cf52ec0Edd3945321EB0f83dd5, 0xeB49bE5DF00F74bd240DE4535DDe6Bc89CEfb994,
     0x5BA58970c2Ae16Cf6218783018100aF2dCcFc915, 0x3C1fF68f5aa342D296d4DEe4Bb1cACCA912D95fE, 0x3d77596beb0f130a4415df3D2D8232B3d3D31e44]"

fun whitelist_main :: "address \<Rightarrow> address list \<Rightarrow> unit local" where
  "whitelist_main d [] = jret ()"
| "whitelist_main d (a # as) = jbind (services_tx (\<lambda>C A. on_registry (changeMultisigPermission d a True))) (\<lambda>_. whitelist_main d as)"

fun whitelist_L2 :: "address \<Rightarrow> address list \<Rightarrow> unit local" where
  "whitelist_L2 d [] = jret ()"
| "whitelist_L2 d (a # as) = jthen (servicesL2_tx (\<lambda>s. new_state (changeMultisigPermission d a True s))) (whitelist_L2 d as)"

definition main_changeManager :: "address \<Rightarrow> address \<Rightarrow> main_registry \<Rightarrow> (unit \<times> main_registry) res" where
  "main_changeManager sender a = on_registry (\<lambda>s. rbind (changeManager sender a s) (\<lambda>s'. Inr ((), s')))"

definition whitelist_all :: "local_env \<Rightarrow> address \<Rightarrow> unit local" where
  "whitelist_all E d = (let safe = address_of E ''GnosisSafeMultisig''; same = address_of E ''GnosisSafeSameAddressMultisig'';
       withModule = address_of E ''SafeMultisigWithRecoveryModule''; module = address_of E ''RecoveryModule'' in
     jthen (whitelist_main d [safe, same]) (
     jthen (whitelist_L2 d [safe, same]) (
     jthen (whitelist_main d [withModule, module]) (
     jthen (whitelist_L2 d [withModule, module]) (
     jthen (whitelist_main d MAIN_MULTISIGS) (whitelist_L2 d L2_MULTISIGS))))))"

definition utility_changeManager :: "address \<Rightarrow> unit local" where
  "utility_changeManager a w = (if a = 0 then (Inl ''transaction reverted'', w) else (Inr (), w\<lparr>l_utilityManager := a\<rparr>))"

definition hand_over :: "local_env \<Rightarrow> address \<Rightarrow> unit local" where
  "hand_over E d = (let rm = address_of E ''RegistriesManager''; smp = address_of E ''ServiceManagerProxy'' in
     jthen (components_tx (changeManager d rm)) (
     jthen (agents_tx (\<lambda>_. changeManager d rm)) (
     jthen (l_print [Note ''RegistriesManager is now a manager of ComponentRegistry and AgentRegistry contracts'']) (
     jthen (services_tx (\<lambda>C A. main_changeManager d smp)) (
     jthen (l_print [Note ''ServiceManagerProxy is now a manager of ServiceRegistry contract'']) (
     jthen (utility_changeManager smp) (
     jthen (l_print [Note ''ServiceManagerProxy is now a manager of ServiceRegistryTokenUtility contract'']) (
     jthen (servicesL2_tx (changeManager d (address_of E ''ServiceManager''))) (
     l_print [Note ''ServiceManager is now a manager of ServiceRegistryL2 contract'']))))))))) "

definition agentInstancesPK :: "string list" where
  "agentInstancesPK = [''0xac0974bec39a17e36ba4a6b4d238ff944bacb478cbed5efcae784d7bf4f2ff80'',
     ''0x59c6995e998f97a5a0044966f0945389dc9e86dae88c7a8412f4603b6b78690d'',
     ''0x5de4111afa1a4b94908f83103eb1f1706367c2e68ca870fc3fb9a804cdab365a'',
     ''0x7c852118294e51e653712a81e05800f419141751be58f605c371e15141b007a6'',
     ''0x47e179ec197488593b187f80a00eb0da91f1b9d0b13f8733639f19c30a34926a'']"

definition operatorPK :: string where
  "operatorPK = ''0xf214f2b2cd398c806f84e317254e0f0b801d0643303237d97a22a48e01628897''"

definition INIT_KEYS :: "(string \<times> string) list" where
  "INIT_KEYS =
    [(''componentRegistry'', ''ComponentRegistry''), (''agentRegistry'', ''AgentRegistry''), (''registriesManager'', ''RegistriesManager''),
     (''serviceRegistry'', ''ServiceRegistry''), (''serviceManager'', ''ServiceManager''), (''serviceRegistryL2'', ''ServiceRegistryL2''),
     (''serviceRegistryTokenUtility'', ''ServiceRegistryTokenUtility''), (''serviceManagerProxy'', ''ServiceManagerProxy''),
     (''operatorWhitelist'', ''OperatorWhitelist''), (''ERC20Token'', ''ERC20Token''), (''gnosisSafe'', ''GnosisSafe''),
     (''gnosisSafeProxyFactory'', ''GnosisSafeProxyFactory''), (''Multisig implementation'', ''GnosisSafeMultisig''),
     (''Multisig implementation with same address'', ''GnosisSafeSameAddressMultisig''), (''multiSend'', ''MultiSendCallOnly'')]"

definition initDeployJSON :: "local_env \<Rightarrow> address \<Rightarrow> address list \<Rightarrow> (string \<times> init_value) list" where
  "initDeployJSON E operator agentInstances = map (\<lambda>(k, n). (k, InitAddress (address_of E n))) INIT_KEYS
     @ [(''operator'', InitAccount operator operatorPK), (''agentsInstances'', InitAccounts (take 4 agentInstances) (take 4 agentInstancesPK))]"

definition snapshot_path :: "local_env \<Rightarrow> string" where
  "snapshot_path E = (if file_exists E ''/base/scripts/mainnet_snapshot.json'' then ''/base/scripts/mainnet_snapshot.json''
     else ''./scripts/mainnet_snapshot.json'')"

definition new_local :: "local_env \<Rightarrow> address \<Rightarrow> local_world" where
  "new_local E d = \<lparr>l_components = new_unit_registry Component d ''https://gateway.autonolas.tech/ipfs/'',
     l_agents = new_unit_registry Agent d ''https://gateway.autonolas.tech/ipfs/'',
     l_services = new_main_registry d ''https://gateway.autonolas.tech/ipfs/'', l_servicesL2 = new_registry d ''https://gateway.autonolas.tech/ipfs/'',
     l_utilityManager = 0, l_lines = [], l_file = None\<rparr>"

text \<open>
  The registries of the world are those the script deploys: their state before is that of their constructors, and it is first used
  after the deployment.
\<close>

definition local_deploy :: "local_env \<Rightarrow> unit local" where
  "local_deploy E =
     (case read_snapshot E (snapshot_path E) of None \<Rightarrow> jthrow ''ENOENT'' | Some S \<Rightarrow>
      if length (signers E) < 5 then jthrow ''TypeError'' else
      let d = signers E ! 0; agentInstances = take 5 (signers E);
          op = (if 10 < length (signers E) then Some (signers E ! 10) else None) in
      jthen (l_print [NoteAddress ''Deploying contracts with the account:'' d, NoteNumber ''Account balance:'' (l_balance E d)]) (
      jthen (new_contracts E UNITS) (
      jthen (restore_units E d S) (
      jthen (new_contracts E CONTRACTS) (
      jthen (l_print (Note ''=========================================='' # map (\<lambda>(l, n). NoteAddress l (address_of E n)) DEPLOYED_LABELS)) (
      jthen (whitelist_all E d) (
      jbind (services_tx (\<lambda>C A. main_changeManager d d)) (\<lambda>_.
      jthen (default_service E d op agentInstances) (
      jthen (l_print [Note ''=========================================='']) (
      jthen (restore_services E d op agentInstances S [0..<length (ss_configHashes S)] 4) (
      jthen (l_print [Note ''Services are created and deployed'']) (
      jthen (hand_over E d) (
      case op of None \<Rightarrow> jthrow ''TypeError'' | Some operator \<Rightarrow>
        (\<lambda>w. (Inr (), w\<lparr>l_file := Some (initDeployJSON E operator agentInstances)\<rparr>)))))))))))))))"

end
