(* ===== verification/Local_Restore.thy ===== *)
theory Local_Restore
  imports Local_Deployment Service_Registry_Properties
begin

text \<open>
  The local deployment restores the units of a snapshot of the main chain: the same components and agents, with the same stored subcomponents.
  The number of services it can restore is bounded by the accounts it uses as agent instances.
\<close>

section \<open>What the registries record\<close>























section \<open>Restoring\<close>











section \<open>What a snapshot holds\<close>





section \<open>Round trip\<close>


definition sample_local :: "snapshot option \<Rightarrow> local_env" where
  "sample_local S = \<lparr>l_env = sample_env, file_exists = (\<lambda>_. False), read_snapshot = (\<lambda>_. S), signers = [10, 11, 12, 13, 14, 15, 16, 17, 18, 19, 20],
     l_balance = (\<lambda>_. 0), can_pay = (\<lambda>_. True), has_artifact = (\<lambda>_. True), address_of = (\<lambda>n. of_nat (30 + length n)),
     first_event_address = id, safe_threshold = (\<lambda>_. 1), safe_isOwner = (\<lambda>_ _. True)\<rparr>"


section \<open>How many services\<close>

abbreviation needed_instances :: "snapshot \<Rightarrow> nat \<Rightarrow> nat" where
  "needed_instances S i \<equiv> slots_value (take (length (ss_agentIds S ! i)) (ss_agentParams S ! i))"

lemma created_slots:
  assumes "main_create E A sender own hash ids ps thr M = Inr (sid, M')"
  shows "0 < slots_value ps"
  using assms by (cases ps) (auto simp: main_create_def on_registry_def main_initialChecks_def create_def slots_value_def split: if_splits)

lemma restore_service_counts:
  assumes "restore_service E d op insts S i k w = (Inr k', w')"
  shows "k' = k + needed_instances S i \<and> 0 < needed_instances S i \<and> k' \<le> length insts"
  using assms
  by (auto simp: restore_service_def element_def Let_def jthen_def services_tx_def split: if_splits option.splits sum.splits dest!: created_slots)

lemma restore_services_counts:
  assumes "restore_services E d op insts S is k w = (Inr (), w')" and "is \<noteq> []"
  shows "k + (\<Sum>i\<leftarrow>is. needed_instances S i) \<le> length insts \<and> (\<forall>i\<in>set is. 0 < needed_instances S i)"
  using assms
proof (induction "is" arbitrary: k w)
  case (Cons i "is")
  then obtain k' w1 where "restore_service E d op insts S i k w = (Inr k', w1)" "restore_services E d op insts S is k' w1 = (Inr (), w')"
    by auto
  with Cons.IH [of k' w1] restore_service_counts [of E d op insts S i k w k' w1] show ?case by (cases "is = []") auto
qed simp

text \<open>
  Only five accounts serve as agent instances, four of them for the first service: the local deployment fails, with some error, for every
  snapshot with more than one service, or with a service that has more than one slot.
\<close>

theorem local_deployment_one_instance:
  assumes "read_snapshot E (snapshot_path E) = Some S"
    and "1 < length (ss_configHashes S) \<or> 1 < (\<Sum>i\<leftarrow>[0..<length (ss_configHashes S)]. needed_instances S i)"
  shows "\<exists>e w'. local_deploy E w = (Inl e, w')"
proof (rule ccontr)
  assume "\<nexists>e w'. local_deploy E w = (Inl e, w')"
  then obtain w' where "local_deploy E w = (Inr (), w')" by (cases "local_deploy E w"; cases "fst (local_deploy E w)") auto
  then obtain op v v' where r: "restore_services E (signers E ! 0) op (take 5 (signers E)) S [0..<length (ss_configHashes S)] 4 v = (Inr (), v')"
    using assms(1) by (auto simp: local_deploy_def jthen_def Let_def split: if_splits)
  let ?n = "\<Sum>i\<leftarrow>[0..<length (ss_configHashes S)]. needed_instances S i"
  have "[0..<length (ss_configHashes S)] \<noteq> []" using assms(2) by auto
  from restore_services_counts [OF r this] have c: "?n \<le> 1" "\<forall>i < length (ss_configHashes S). 0 < needed_instances S i" by auto
  have "length (ss_configHashes S) \<le> ?n"
    using c(2) sum_list_mono [of "[0..<length (ss_configHashes S)]" "\<lambda>_. 1" "needed_instances S"] by (simp add: Suc_le_eq sum_list_triv)
  with c(1) assms(2) show False by auto
qed

definition two_slots :: snapshot where
  "two_slots = empty_snapshot\<lparr>ss_securityDeposit := [10], ss_configHashes := [7], ss_threshold := [2], ss_agentIds := [[1]],
     ss_agentParams := [[\<lparr>slots = 2, bond = 10\<rparr>]]\<rparr>"

theorem local_deployment_one_instance_witness:
  "\<exists>e w'. local_deploy (sample_local (Some two_slots)) (new_local (sample_local (Some two_slots)) 10) = (Inl e, w')"
  by (rule local_deployment_one_instance [of _ two_slots]) (simp_all add: sample_local_def two_slots_def empty_snapshot_def slots_value_def)

end
