(* ===== verification/Spec2Isabelle.thy ===== *)
theory Spec2Isabelle
  imports Token_Properties Service_Registry_Properties Unit_Properties Check_Coverage Audit_Csv Lifecycle
    Annotate_Properties Multisig_Scripts Bridge_Trials Arbitrum_Tickets Main_Registry_Properties Local_Restore
begin

text \<open>
  A verification development for the Autonolas registries: the contracts under \<^verbatim>\<open>contracts\<close> that keep components, agents and services as
  non-fungible tokens, and the JavaScript under \<^verbatim>\<open>scripts\<close> that deploys them, hands them over to the governance, audits and maintains them.

  \<^bold>\<open>The program and how its parts interact.\<close>
  Components and agents are units with dependencies; their registries accept calls of a manager contract only. A service is a set of agent ids with
  slots and bonds. Its owner creates it, pays a deposit to activate registration, operators bond agent instances into the slots, and a full
  service is deployed, which gives it a multisig owned by the instances. The multisig can slash operators; termination and unbonding pay deposits and
  bonds back, slashed funds go to a drainer. Users reach the service registry through the service manager, which also binds each multisig to one
  service and directs deposits in ERC20 tokens to the token utility. On every chain the scripts deploy these contracts, make the managers and
  permissions consistent and give the contracts to the timelock, or to the bridge mediator of the chain. From then on changes are proposals: a
  script encodes the calls, packs them into a message for the mediator, and prints the proposal to be voted on. An audit script compares the
  contracts of all chains with the configuration, and two scripts bind the multisigs of older services and check that none is left out. For development, a snapshot of
  the main chain is written to a file and restored on a local node.

  \<^bold>\<open>Conventions.\<close>
  A contract is a record of its storage. An external function is a HOL function of the caller, the value sent, the arguments and the
  state; its result is a sum type, \<open>Inl\<close> an error of \<^verbatim>\<open>IErrorsRegistries.sol\<close> (or a panic) and \<open>Inr\<close> the return value and the new state, so that
  a revert leaves no trace. Ids and numbers of instances are words of the width of the source, with the checked arithmetic written out;
  amounts are natural numbers with the bound of \<^verbatim>\<open>uint96\<close> or \<^verbatim>\<open>uint256\<close> where the source checks it. A script is a computation over
  a world that ends with a value or a thrown error and keeps what it did before throwing. Code outside the repository (endpoints, the chain a script
  talks to, the explorer, the encoder, the packer, the Safe, ERC20 tokens, estimators) is a field of an environment record or an
  argument, and what a property needs of it is a named hypothesis with a witness.

  \<^bold>\<open>Theories.\<close>

  \<^item> \<open>Prelude\<close>: machine types, errors, results, lemma collections and shared lemmas. \<open>Js_Runtime\<close>: exceptions over a world, arithmetic of doubles
    and slices of arrays, for the scripts.

  \<^item> \<open>Generic_Registry\<close>: \<^verbatim>\<open>contracts/GenericRegistry.sol\<close> with its ERC721 base.

  \<^item> \<open>Service_Registry_L2\<close>: \<^verbatim>\<open>contracts/ServiceRegistryL2.sol\<close>, every function. \<open>Service_Registry_Invariants\<close> has the step relation of successful
    calls and the invariants of reachable states: the ether covers deposits, balances and slashed funds; services are the minted tokens; the threshold
    is a quorum; services move along the documented state machine. \<open>Service_Registry_Accounting\<close> shows that the packed keys of
    the mappings do not collide for ids below \<open>2 ^ 32\<close> and that the counters of instances add up, from which termination and unbonding cannot fail
    for a reason inside the contract. \<open>Service_Registry_Properties\<close> states the properties with runs of the contract as witnesses; it also shows that a
    deployment passes a zero address for every instance that is registered for an agent id an update has left behind.

  \<^item> \<open>Unit_Registry\<close>: \<^verbatim>\<open>contracts/UnitRegistry.sol\<close> with its heirs \<^verbatim>\<open>ComponentRegistry.sol\<close> and \<^verbatim>\<open>AgentRegistry.sol\<close>, and
    \<^verbatim>\<open>RegistriesManager.sol\<close>. \<open>Unit_Merge\<close> shows that the merge loop of subcomponents is the ascending union, \<open>Unit_Closure\<close> that what is stored is the
    transitive closure of the dependencies, \<open>Unit_Properties\<close> that this holds in every reachable state.

  \<^item> \<open>Main_Registry\<close>: \<^verbatim>\<open>contracts/ServiceRegistry.sol\<close>, the service registry of the main chain. It is the code of \<^verbatim>\<open>ServiceRegistryL2.sol\<close> with a check of agent ids
    against the agent registry and with the agents and components of deployed services stored; the functions without a difference are those of
    \<open>Service_Registry_L2\<close> on the common state. \<open>Main_Registry_Properties\<close> shows that it refines that contract, so that its invariants hold, and that
    what is stored for a deployed service are the components its agents are made of.

  \<^item> \<open>Service_Manager\<close>: the administration, \<^verbatim>\<open>deploy\<close> and \<^verbatim>\<open>bindMultisig\<close> of \<^verbatim>\<open>contracts/ServiceManager.sol\<close>.
    \<open>Token_Utility\<close>: \<^verbatim>\<open>contracts/ServiceRegistryTokenUtility.sol\<close>. \<open>Service_Manager_Tokens\<close>: the rest of the manager, which calls the registry and
    the utility together. \<open>Token_Solvency\<close> shows that in every state the manager, the registry, the utility and the token holders reach together the
    utility has the tokens it owes; \<open>Token_Properties\<close> that an operator can always take its tokens back and that a bound multisig stays bound, whoever calls
    any of the three. The implementation behind the proxy of the manager does not change in this model.

  \<^item> \<open>Bind_Fix\<close> and \<open>Check_Coverage\<close>: \<^verbatim>\<open>scripts/multisig_binding\<close>. The locales \<open>bind_chain\<close> and \<open>cover_chain\<close> state what the scripts rely on of the chain;
    they are interpreted on the model of the manager. The plan is a partition of all ids, every id sent is bound or reported, the verification
    that follows reports exactly the services whose multisig is shared or bound elsewhere, the check reports exactly the services that are not bound.

  \<^item> \<open>Deployment_World\<close>: \<^verbatim>\<open>globals.json\<close>, the files \<^verbatim>\<open>globals_network.json\<close> of the networks, the chain with its pending transactions, the constructors and owner functions the scripts reach.
    \<open>Contract_Verification\<close>: \<^verbatim>\<open>verify_*.js\<close>. \<open>Deployment_L1\<close> and \<open>Deployment_L2\<close>: \<^verbatim>\<open>scripts/deployment\<close> and \<^verbatim>\<open>scripts/deployment/l2\<close>, a definition
    per script. \<open>Deployment_Refinement\<close> has the abstract installation of one contract as locales \<open>installer\<close>, \<open>js_installer\<close> and \<open>honest_installer\<close>,
    interpreted on each deployment script. \<open>Deployment_Proxy\<close> has what the two shell scripts of the service manager proxy do, which read and write the file of the
    network beside them, while all JavaScript scripts use \<^verbatim>\<open>globals.json\<close> in the working directory. \<open>Deployment_Properties\<close> and \<open>Deployment_Handover\<close> have the
    properties of single scripts, \<open>Deployment_Run\<close> those of the deployment of a chain as a whole: there \<^verbatim>\<open>globals.json\<close> is copied to the file of the network
    before the shell script and back after it (\<open>with_copies\<close>), two steps of the operator that are not scripts of the repository. The deployment of the main
    chain ends with exit code 1 on a chain that does not mine at once, since its last script does not wait.

  \<^item> \<open>Audit_Setup\<close>: \<^verbatim>\<open>scripts/audit_chains/audit_contracts_setup.js\<close>. \<open>Audit_Reference\<close> is the table of expectations the audit is
    equivalent to, \<open>Audit_Properties\<close> the run over the chains and the contracts whose owners are written, \<open>Audit_Csv\<close> the owners file and its round trip.

  \<^item> \<open>Proposals\<close>: \<^verbatim>\<open>scripts/proposals\<close>, scripts 01 to 23. \<open>Proposal_Messages\<close> has the reader of the mediator and shows that it
    reads what a script packed, \<open>Proposal_Properties\<close> what the proposals deliver over each bridge.
    \<open>Annotate\<close>: the two \<^verbatim>\<open>annotate.js\<close> of proposals 24 and 25. \<open>Annotate_Page\<close> shows that the page is well formed, \<open>Annotate_Properties\<close> that every
    call is on it once and that messages are shown as the mediator reads them.
    \<open>Arbitrum_Tickets\<close>: \<^verbatim>\<open>estimate_arb_submission_cost.js\<close> of proposal 24 and \<^verbatim>\<open>scripts/deployment/l2/arbitrum\<close>, and what their tickets cost.
    \<open>Bridge_Trials\<close>: \<^verbatim>\<open>scripts/deployment/l2/bridges/gnosis\<close>; a trial ends exactly when its message is seen or a look fails.

  \<^item> \<open>Multisig_Scripts\<close>: \<^verbatim>\<open>scripts/multisig\<close>; handing a multisig to the instances and back.

  \<^item> \<open>Lifecycle\<close>: a chain deployed by the scripts, read by the checks of the audit on the service registry and the token utility, changed by a proposal and
    read again.

  \<^item> \<open>Local_Deployment\<close>: \<^verbatim>\<open>scripts/mainnet_snapshot.js\<close> and \<^verbatim>\<open>deploy/0_deploy.js\<close>, on the models of the registries. \<open>Local_Restore\<close> shows that a snapshot of the main
    chain is restored with the same components, agents and subcomponents, and how few services can be restored.

  \<^bold>\<open>Hypotheses on code outside the repository.\<close>
  Calls of the contracts to other contracts (receivers of ether and of tokens, multisig implementations, the operator whitelist, the
  bridger, the check of signatures) are answers of the environment and do not call back; the source has locks on the functions that pay. The token
  is a parameter: \<open>safe_token\<close> says that a transfer takes at most its amount from the utility, and one of another token nothing.
  \<open>packs\<close> is what the library documents of packed encoding, \<open>plain_addresses\<close> that a checksummed address has no angle brackets, \<open>estimator_law\<close> the sum
  an estimate states, \<open>owner_manager\<close> the documented list of owners of the Safe. The hypotheses \<open>L1_ready\<close> and \<open>L2_ready\<close> of a
  deployment say that the configuration has the keys the scripts read and that the environment answers.

  \<^bold>\<open>Loops, fuel and bounds.\<close>
  Loops of the contracts and scripts are structural recursions over their lists or have a termination proof by a measure. Retries of \<open>Bind_Fix\<close> follow
  the attempts the script allows, and its splitting of batches ends because the halves are smaller. The loop of \<open>Bridge_Trials\<close> may not end: it
  is a partial function whose value is \<open>None\<close> then, and the property says exactly when it has a value. The exponent of a double in \<open>Js_Runtime\<close>
  is searched with fuel for the whole range of doubles. The digits of a number are printed with as much fuel as its value.

  \<^bold>\<open>Not modelled.\<close>
  \<^verbatim>\<open>contracts/staking\<close> beyond constructors and owner functions; \<^verbatim>\<open>contracts/multisigs\<close>, which create Safes with
  contracts that are not in the repository; \<^verbatim>\<open>contracts/8004\<close>, a bridge to a registry outside; the contracts of \<^verbatim>\<open>contracts/utils\<close> beyond
  what deployment reaches; \<^verbatim>\<open>tokenURI\<close>. Of the scripts: the shell versions of the JavaScript deployment scripts and the shell scripts for later
  contracts (the two of the service manager proxy are modelled); \<^verbatim>\<open>custom_deploy.js\<close> and \<^verbatim>\<open>hardhat.config.js\<close>; \<^verbatim>\<open>analyzers\<close> and
  \<^verbatim>\<open>recover_funds_lost_agent_eoa.py\<close>, which write reports; \<^verbatim>\<open>integrations/solana\<close>, a program for another virtual machine; the
  tests and the material of the audits.
\<close>

end
